(* ===== verification/GoPrelude.thy ===== *)
theory GoPrelude
  imports Main "HOL-Library.Word" "HOL-Library.State_Monad" "HOL-Library.AList"
begin

text \<open>
  What every package of the client shares: Go's integers, strings, slices and pointers, the
  \<open>error\<close> interface as the code observes it, contexts, and the shape of a unary gRPC call.

  \<^item> \<open>int64\<close> and \<open>uint64\<close> are 64-bit words; \<open>sint\<close> reads a word as \<open>int64\<close>.
  \<^item> A Go \<open>string\<close> and a \<open>[]byte\<close> are byte sequences: both are a \<open>char list\<close>.
  \<^item> A pointer to a message is an \<open>option\<close>, with \<open>None\<close> for \<open>nil\<close>. A slice or a map whose
    \<open>nil\<close> the code tells from the empty one is an \<open>option\<close> too.
  \<^item> A function of Go that returns \<open>(T, error)\<close> returns the pair: the value is there beside the
    error, as in Go, so that "a zero value on error" can be stated.
  \<^item> An effect on the gateway is a step of the state monad over the gateway's state \<open>'w\<close>.
\<close>

section \<open>Types\<close>

type_synonym u32 = "32 word"
type_synonym u64 = "64 word"
type_synonym i64 = "64 word"
type_synonym bytes = string
type_synonym strs = "string list option"
type_synonym ('k, 'v) gomap = "('k \<times> 'v) list option"

text \<open>
  An \<open>error\<close> as the code can observe it: its message, the status that
  \<open>status.FromError\<close> extracts (code and message; \<open>None\<close> when it reports \<open>ok = false\<close>), and the
  answers of \<open>errors.Is\<close> against \<open>io.EOF\<close> and \<open>context.Canceled\<close>.
\<close>

record gerror =
  err_Error :: string
  err_status :: "(int \<times> string) option"
  err_isEOF :: bool
  err_isCanceled :: bool

type_synonym 'a ret = "'a \<times> gerror option"

definition errors_New :: "string \<Rightarrow> gerror" where
  "errors_New s = \<lparr>err_Error = s, err_status = None, err_isEOF = False, err_isCanceled = False\<rparr>"

text \<open>Contexts as the code derives them; the timeout is a \<open>time.Duration\<close> in nanoseconds.\<close>

datatype ctx = Background | SignalCtx | WithTimeout ctx int | WithCancel ctx

text \<open>A call that may dereference \<open>nil\<close>: it panics or returns.\<close>

datatype 'a outcome = Panics | Returns 'a

section \<open>Generated messages\<close>

text \<open>
  The getter of a generated message: \<open>if x != nil { return x.F }; return zero\<close>. Every
  \<open>GetF\<close> of \<^verbatim>\<open>genproto/gatewayv1\<close> has this body.
\<close>

definition Get :: "('m \<Rightarrow> 'a) \<Rightarrow> 'a \<Rightarrow> 'm option \<Rightarrow> 'a" where
  "Get field zero x = (case x of Some m \<Rightarrow> field m | None \<Rightarrow> zero)"

lemma Get_simps [simp]:
  "Get f z None = z"
  "Get f z (Some m) = f m"
  by (simp_all add: Get_def)

text \<open>Requests share their leading fields, \<open>StoreId\<close> and then \<open>StreamId\<close>.\<close>

record StoreScoped =
  StoreId :: string

record StreamScoped = StoreScoped +
  StreamId :: string

section \<open>Unary calls\<close>

text \<open>
  The body that the wrappers share: \<open>resp, err := call; if err != nil { return zero, err };
  return decode(resp), nil\<close>.
\<close>

definition unary ::
  "('w, 'r option ret) state \<Rightarrow> 'a \<Rightarrow> ('r option \<Rightarrow> 'a) \<Rightarrow> ('w, 'a ret) state" where
  "unary call zero decode = do {
     (resp, err) \<leftarrow> call;
     State_Monad.return (case err of
         Some e \<Rightarrow> (zero, Some e)
       | None \<Rightarrow> (decode resp, None))
   }"

text \<open>And the body of a wrapper that keeps only the error: \<open>_, err := call; return err\<close>.\<close>

definition unary_err :: "('w, 'r option ret) state \<Rightarrow> ('w, gerror option) state" where
  "unary_err call = do { (resp, err) \<leftarrow> call; State_Monad.return err }"

lemma run_unary:
  "run_state (unary call zero decode) w =
     (case run_state call w of
        ((resp, Some e), w') \<Rightarrow> ((zero, Some e), w')
      | ((resp, None), w') \<Rightarrow> ((decode resp, None), w'))"
  by (simp add: unary_def split: prod.splits option.splits)

lemma run_unary_err:
  "run_state (unary_err call) w = (case run_state call w of ((resp, err), w') \<Rightarrow> (err, w'))"
  by (simp add: unary_err_def split: prod.splits)

lemma unary_error_zero:
  assumes "run_state (unary call zero decode) w = ((v, Some e), w')"
  shows "v = zero"
  using assms by (auto simp: run_unary split: prod.splits option.splits)

section \<open>The store firewall\<close>

text \<open>
  The transport's refusal of a call that a store firewall (see the service theories) does not let
  through.
\<close>

definition refused :: "('w, 'r option ret) state" where
  "refused = State_Monad.return (None, Some (errors_New ''store firewall''))"

text \<open>
  A stub that refuses, without reaching the gateway, every call that names another store than \<open>s\<close>.
  An operation of a client bound to \<open>s\<close> cannot tell it from the stub it guards: all it ever sends
  names \<open>s\<close>.
\<close>

definition guarded :: "string \<Rightarrow> (ctx \<Rightarrow> 'q StoreScoped_scheme \<Rightarrow> ('w, 'r option ret) state) \<Rightarrow>
    ctx \<Rightarrow> 'q StoreScoped_scheme \<Rightarrow> ('w, 'r option ret) state" where
  "guarded s f ctx q = (if StoreScoped.StoreId q = s then f ctx q else refused)"

lemma guarded_same [simp]: "StoreScoped.StoreId q = s \<Longrightarrow> guarded s f ctx q = f ctx q"
  by (simp add: guarded_def)

named_theorems firewall \<open>operations bound to one store: they pass its firewall unchanged\<close>
named_theorems wire \<open>what the conversions from and to the generated messages compute\<close>

section \<open>Codecs\<close>

text \<open>
  The contract of a pair of conversions where decoding inverts encoding on the valid values:
  enumerations, time stamps, base64 and tag filters all promise it.
\<close>

locale codec =
  fixes enc :: "'a \<Rightarrow> 'b"
    and dec :: "'b \<Rightarrow> 'a option"
    and valid :: "'a \<Rightarrow> bool"
  assumes dec_enc: "valid a \<Longrightarrow> dec (enc a) = Some a"
begin

lemma enc_inj: "inj_on enc {a. valid a}"
proof (rule inj_onI)
  fix x y
  assume "x \<in> {a. valid a}" "y \<in> {a. valid a}" "enc x = enc y"
  then show "x = y"
    by (metis dec_enc mem_Collect_eq option.inject)
qed

lemma enc_eq_iff: "valid a \<Longrightarrow> valid b \<Longrightarrow> enc a = enc b \<longleftrightarrow> a = b"
  using enc_inj by (auto dest: inj_onD)

lemma dec_enc_list:
  "\<forall>a \<in> set xs. valid a \<Longrightarrow> those (map (\<lambda>a. dec (enc a)) xs) = Some xs"
  by (induction xs) (auto simp: dec_enc)

end

section \<open>Transition systems\<close>

text \<open>
  The contract of an invariant: it holds at the start and every move keeps it. A ranked system also
  has a number that every move lowers, so that its runs are no longer than the number at the start.
\<close>

locale invariant_system =
  fixes init :: 's
    and moves :: "'s \<Rightarrow> 's \<Rightarrow> bool"
    and inv :: "'s \<Rightarrow> bool"
  assumes inv_init: "inv init"
    and inv_move: "inv s \<Longrightarrow> moves s t \<Longrightarrow> inv t"
begin

lemma inv_run: "(moves ^^ n) init s \<Longrightarrow> inv s"
  by (induction n arbitrary: s) (auto intro: inv_init inv_move)

end

locale ranked_system = invariant_system init moves inv
  for init :: 's and moves :: "'s \<Rightarrow> 's \<Rightarrow> bool" and inv :: "'s \<Rightarrow> bool" +
  fixes rank :: "'s \<Rightarrow> nat"
  assumes rank_move: "inv s \<Longrightarrow> moves s t \<Longrightarrow> rank t < rank s"
begin

lemma run_rank: "(moves ^^ n) init s \<Longrightarrow> n + rank s \<le> rank init"
proof (induction n arbitrary: s)
  case 0
  then show ?case by simp
next
  case (Suc n)
  then obtain u where u: "(moves ^^ n) init u" "moves u s" by auto
  have "rank s < rank u" using rank_move [OF inv_run [OF u(1)] u(2)] .
  with Suc.IH [OF u(1)] show ?case by simp
qed

text \<open>
  Where some states are live, a live state that is not final has a move of the program that stays
  live, and the program's moves are among the system's, every live run can be carried on to a final
  state.
\<close>

lemma run_to_final:
  assumes "(moves ^^ n) init s" and "live s"
    and progress: "\<And>n s. (moves ^^ n) init s \<Longrightarrow> live s \<Longrightarrow> \<not> final s \<Longrightarrow>
      \<exists>t. moves s t \<and> live t"
  shows "\<exists>m t. (moves ^^ m) init t \<and> final t \<and> live t"
  using assms(1,2)
proof (induction s arbitrary: n rule: measure_induct_rule [where f = rank])
  case (less s)
  show ?case
  proof (cases "final s")
    case True
    with less.prems show ?thesis by blast
  next
    case False
    with progress less.prems obtain t where t: "moves s t" "live t" by blast
    have "rank t < rank s" using rank_move [OF inv_run [OF less.prems(1)] t(1)] .
    moreover have "(moves ^^ Suc n) init t" using less.prems(1) t(1) by auto
    ultimately show ?thesis using less.IH t(2) by blast
  qed
qed

end

section \<open>Lists\<close>

text \<open>
  The loop \<open>out := make([]T, 0, len(ps)); for _, p := range ps { out = append(out, f(p)) }\<close>.
\<close>

fun range_append :: "('p \<Rightarrow> 'q) \<Rightarrow> 'q list \<Rightarrow> 'p list \<Rightarrow> 'q list" where
  "range_append f out [] = out"
| "range_append f out (p # ps) = range_append f (out @ [f p]) ps"

lemma range_append_map: "range_append f out ps = out @ map f ps"
  by (induction ps arbitrary: out) auto

end
