(* ===== verification/GoTime.thy ===== *)
theory GoTime
  imports GoPrelude
begin

text \<open>
  The part of Go's package \<open>time\<close> the client uses. A \<open>time.Time\<close> is an instant: nanoseconds
  since the Unix epoch (the location it carries is dropped by every use, which converts to UTC or
  to a Unix count). Its zero value is the first instant of year 1.
\<close>

datatype gotime = Instant (nanos: int)

text \<open>Instants are ordered by time, the order of \<open>Before\<close> and \<open>After\<close>.\<close>

instantiation gotime :: linorder
begin

definition less_eq_gotime :: "gotime \<Rightarrow> gotime \<Rightarrow> bool" where
  "t \<le> u \<longleftrightarrow> nanos t \<le> nanos u"

definition less_gotime :: "gotime \<Rightarrow> gotime \<Rightarrow> bool" where
  "t < u \<longleftrightarrow> nanos t < nanos u"

instance
  by standard (auto simp: less_eq_gotime_def less_gotime_def intro: gotime.expand)

end

lemma Instant_le [simp]: "Instant x \<le> Instant y \<longleftrightarrow> x \<le> y"
  by (simp add: less_eq_gotime_def)

definition zeroTime :: gotime where
  "zeroTime = Instant (- 62135596800 * 10 ^ 9)"

definition IsZero :: "gotime \<Rightarrow> bool" where
  "IsZero t \<longleftrightarrow> t = zeroTime"

text \<open>\<open>time.UnixMilli\<close> and \<open>time.UnixMicro\<close>: no overflow, the seconds of any \<open>int64\<close> count fit.\<close>

definition time_UnixMilli :: "i64 \<Rightarrow> gotime" where
  "time_UnixMilli ms = Instant (sint ms * 10 ^ 6)"

definition time_UnixMicro :: "i64 \<Rightarrow> gotime" where
  "time_UnixMicro us = Instant (sint us * 10 ^ 3)"

text \<open>
  The methods \<open>t.UnixMilli()\<close> and \<open>t.UnixMicro()\<close>: whole seconds, rounded down, times the
  factor, plus the sub-second part, in \<open>int64\<close> arithmetic.
\<close>

definition unixSec :: "gotime \<Rightarrow> int" where
  "unixSec t = nanos t div 10 ^ 9"

definition nsec :: "gotime \<Rightarrow> int" where
  "nsec t = nanos t mod 10 ^ 9"

definition UnixMilli :: "gotime \<Rightarrow> i64" where
  "UnixMilli t = word_of_int (unixSec t) * 1000 + word_of_int (nsec t div 10 ^ 6)"

definition UnixMicro :: "gotime \<Rightarrow> i64" where
  "UnixMicro t = word_of_int (unixSec t) * 1000000 + word_of_int (nsec t div 10 ^ 3)"

lemma div_split:
  fixes x c k :: int
  assumes "0 < c"
  shows "x div (k * c) * k + x mod (k * c) div c = x div c"
proof -
  have "x = x mod (k * c) + (x div (k * c) * k) * c"
    by (metis mod_mult_div_eq mult.assoc mult.commute)
  then have "x div c = (x mod (k * c) + (x div (k * c) * k) * c) div c"
    by simp
  also have "\<dots> = x div (k * c) * k + x mod (k * c) div c"
    using assms by simp
  finally show ?thesis by simp
qed

lemma UnixMilli_alt: "UnixMilli t = word_of_int (nanos t div 10 ^ 6)"
  using arg_cong [OF div_split [of "10 ^ 6" "nanos t" 1000], of "word_of_int :: int \<Rightarrow> i64"]
  by (simp add: UnixMilli_def unixSec_def nsec_def)

lemma UnixMicro_alt: "UnixMicro t = word_of_int (nanos t div 10 ^ 3)"
  using arg_cong [OF div_split [of "10 ^ 3" "nanos t" 1000000], of "word_of_int :: int \<Rightarrow> i64"]
  by (simp add: UnixMicro_def unixSec_def nsec_def)

lemma UnixMilli_time_UnixMilli [simp]: "UnixMilli (time_UnixMilli ms) = ms"
  by (simp add: UnixMilli_alt time_UnixMilli_def)

lemma UnixMicro_time_UnixMicro [simp]: "UnixMicro (time_UnixMicro us) = us"
  by (simp add: UnixMicro_alt time_UnixMicro_def)

text \<open>Time stamps on the wire are a codec: an \<open>int64\<close> count survives the trip through \<open>time.Time\<close>.\<close>

interpretation unix_milli: codec time_UnixMilli "\<lambda>t. Some (UnixMilli t)" "\<lambda>_. True"
  by unfold_locales simp

interpretation unix_micro: codec time_UnixMicro "\<lambda>t. Some (UnixMicro t)" "\<lambda>_. True"
  by unfold_locales simp

text \<open>
  In the other direction the wire keeps whole milliseconds (or microseconds) of the instants an
  \<open>int64\<close> count can reach.
\<close>

definition cut :: "int \<Rightarrow> gotime \<Rightarrow> gotime" where
  "cut k t = Instant (nanos t - nanos t mod k)"

definition milli_range :: "gotime \<Rightarrow> bool" where
  "milli_range t \<longleftrightarrow> - (2 ^ 63) \<le> nanos t div 10 ^ 6 \<and> nanos t div 10 ^ 6 < 2 ^ 63"

definition micro_range :: "gotime \<Rightarrow> bool" where
  "micro_range t \<longleftrightarrow> - (2 ^ 63) \<le> nanos t div 10 ^ 3 \<and> nanos t div 10 ^ 3 < 2 ^ 63"

lemma sint_word_of_int_64:
  "- (2 ^ 63) \<le> x \<Longrightarrow> x < 2 ^ 63 \<Longrightarrow> sint (word_of_int x :: 64 word) = x"
  using int_word_sint [where 'a = 64, of x] by (simp add: mod_pos_pos_trivial)

lemma time_UnixMilli_UnixMilli:
  "milli_range t \<Longrightarrow> time_UnixMilli (UnixMilli t) = cut (10 ^ 6) t"
  by (simp add: cut_def milli_range_def time_UnixMilli_def UnixMilli_alt sint_word_of_int_64
      minus_mod_eq_div_mult)

lemma time_UnixMicro_UnixMicro:
  "micro_range t \<Longrightarrow> time_UnixMicro (UnixMicro t) = cut (10 ^ 3) t"
  by (simp add: cut_def micro_range_def time_UnixMicro_def UnixMicro_alt sint_word_of_int_64
      minus_mod_eq_div_mult)

text \<open>Cutting keeps the order, and an instant is never earlier than its cut.\<close>

lemma cut_le: "0 < k \<Longrightarrow> cut k t \<le> t"
  by (simp add: cut_def less_eq_gotime_def)

lemma cut_mono: "0 < k \<Longrightarrow> t \<le> u \<Longrightarrow> cut k t \<le> cut k u"
  by (simp add: cut_def less_eq_gotime_def minus_mod_eq_div_mult zdiv_mono1)

lemma zeroTime_wire:
  "time_UnixMilli (UnixMilli zeroTime) = zeroTime" "time_UnixMicro (UnixMicro zeroTime) = zeroTime"
  by (simp_all add: time_UnixMilli_UnixMilli time_UnixMicro_UnixMicro milli_range_def
      micro_range_def zeroTime_def cut_def)

end
