(* ===== verification/Shared.thy ===== *)
theory Shared
  imports GoTime
begin

text \<open>
  The messages and enumerations that several services share
  (\<^verbatim>\<open>genproto/gatewayv1/reckon_shared.pb.go\<close>), and what a server stream and a streaming
  call are to the wrappers.
\<close>

text \<open>Protobuf enumerations are open: a value outside the declared ones stays an \<open>int32\<close>.\<close>

type_synonym pb_enum = int

definition SUBSCRIPTION_TYPE_UNSPECIFIED :: pb_enum where "SUBSCRIPTION_TYPE_UNSPECIFIED = 0"
definition SUBSCRIPTION_TYPE_STREAM :: pb_enum where "SUBSCRIPTION_TYPE_STREAM = 1"
definition SUBSCRIPTION_TYPE_EVENT_TYPE :: pb_enum where "SUBSCRIPTION_TYPE_EVENT_TYPE = 2"
definition SUBSCRIPTION_TYPE_EVENT_PATTERN :: pb_enum where "SUBSCRIPTION_TYPE_EVENT_PATTERN = 3"
definition SUBSCRIPTION_TYPE_EVENT_PAYLOAD :: pb_enum where "SUBSCRIPTION_TYPE_EVENT_PAYLOAD = 4"
definition SUBSCRIPTION_TYPE_TAGS :: pb_enum where "SUBSCRIPTION_TYPE_TAGS = 5"
definition TAG_MATCH_ANY :: pb_enum where "TAG_MATCH_ANY = 0"
definition TAG_MATCH_ALL :: pb_enum where "TAG_MATCH_ALL = 1"

lemmas pb_enum_defs =
  SUBSCRIPTION_TYPE_UNSPECIFIED_def SUBSCRIPTION_TYPE_STREAM_def SUBSCRIPTION_TYPE_EVENT_TYPE_def
  SUBSCRIPTION_TYPE_EVENT_PATTERN_def SUBSCRIPTION_TYPE_EVENT_PAYLOAD_def
  SUBSCRIPTION_TYPE_TAGS_def TAG_MATCH_ANY_def TAG_MATCH_ALL_def

record pb_ProposedEvent =
  EventId :: string
  EventType :: string
  Data :: bytes
  Metadata :: bytes
  Tags :: strs
  DataContentType :: string
  MetadataContentType :: string

record pb_RecordedEvent =
  EventId :: string
  EventType :: string
  StreamId :: string
  Version :: u64
  Data :: bytes
  Metadata :: bytes
  Tags :: strs
  Timestamp :: i64
  EpochUs :: i64
  DataContentType :: string
  MetadataContentType :: string
  PrevEventHash :: bytes

record pb_SnapshotRecord =
  StreamId :: string
  Version :: u64
  Data :: bytes
  Metadata :: bytes
  Timestamp :: i64
  AnchorHash :: bytes

record pb_SubscriptionInfo =
  Id :: string
  Type :: pb_enum
  Selector :: string
  SubscriptionName :: string
  CreatedAt :: i64
  PoolSize :: u32
  Checkpoint :: u64

text \<open>A response with no field the code reads.\<close>

record pb_Empty =
  pb_unit :: unit

text \<open>
  What successive calls of \<open>stream.Recv()\<close> return, in order: a message, \<open>io.EOF\<close> or another
  error. Past the end of the list \<open>Recv\<close> blocks: the server sends nothing more.
\<close>

datatype 'm recv = RMsg 'm | REOF | RErr gerror

type_synonym 'm server_stream = "'m recv list"

end
