(* ===== verification/Watch.thy ===== *)
theory Watch
  imports Shared "HOL-Library.Sublist"
begin

text \<open>
  The goroutine behind \<open>streams.Watch\<close>, \<open>subscriptions.Subscribe\<close> and \<open>stores.Watch\<close>, and the
  consumer that ranges over its channel. The three producers have the same body; they differ in
  the call that opens the stream and in the conversion of a message, which are the fields of
  \<open>goroutine\<close>. The state below is that of the two goroutines and of their two channels: \<open>events\<close> is
  unbuffered (a send and a receive happen together), \<open>errs\<close> has a buffer of one.

  A step relation \<open>step\<close> gives the moves of the program, \<open>cancel\<close> the one move of its environment
  (the context is cancelled). The lemmas show which pairs (values ranged over, error read) a consumer
  can see, that no channel operation panics or blocks for ever, and that every run ends.
\<close>

section \<open>State\<close>

text \<open>
  What a goroutine was launched with: the error of the call that opens the stream, what
  \<open>stream.Recv()\<close> will return, and the conversion of a message to the event that is sent.
\<close>

record ('m, 'e) goroutine =
  g_open :: "gerror option"
  g_recv :: "'m server_stream"
  g_conv :: "'m \<Rightarrow> 'e"

text \<open>
  Where the producer is: in the opening call, in \<open>stream.Recv()\<close>, in the \<open>select\<close> that sends an
  event, at \<open>errs <- err\<close>, in one of the two deferred closes (last deferred, first run), returned,
  or in a panic (a send on, or a close of, a closed channel).
\<close>

datatype 'e producer =
    Opening
  | Receiving
  | Sending 'e
  | Failing gerror
  | ClosingErrs
  | ClosingEvents
  | Exited
  | Panicked

text \<open>
  Where the consumer is: in \<open>for ev := range events\<close>, at \<open>err := <-errs\<close>, at its test of
  \<open>ctx.Err()\<close>, or past it.
\<close>

datatype consumer = Ranging | ReadingErrs | Checking | Done

record ('m, 'e) wstate =
  prod_at :: "'e producer"
  todo :: "'m server_stream"
  errs_buf :: "gerror option"
  errs_closed :: bool
  events_closed :: bool
  cancelled :: bool
  cons_at :: consumer
  ranged :: "'e list"
  err_read :: "gerror option"
  saw_cancel :: bool

definition watch_init :: "('m, 'e) goroutine \<Rightarrow> ('m, 'e) wstate" where
  "watch_init g = \<lparr>prod_at = Opening, todo = g_recv g, errs_buf = None, errs_closed = False,
     events_closed = False, cancelled = False, cons_at = Ranging, ranged = [], err_read = None,
     saw_cancel = False\<rparr>"

text \<open>
  The \<open>switch\<close> after \<open>Recv\<close>: an error that is \<open>io.EOF\<close> returns, any other is sent on \<open>errs\<close>.
\<close>

definition on_recv_err :: "gerror \<Rightarrow> 'e producer" where
  "on_recv_err e = (if err_isEOF e then ClosingErrs else Failing e)"

text \<open>
  Launching: the opening call is made by the goroutine, so its outcome is part of what the goroutine
  was launched with.
\<close>

definition launch ::
  "('w, 'm server_stream option ret) state \<Rightarrow> ('m \<Rightarrow> 'e) \<Rightarrow> ('w, ('m, 'e) goroutine) state" where
  "launch call conv = do {
     (stream, err) \<leftarrow> call;
     State_Monad.return \<lparr>g_open = err,
       g_recv = (case stream of Some s \<Rightarrow> s | None \<Rightarrow> []), g_conv = conv\<rparr>
   }"

section \<open>Steps\<close>

text \<open>
  \<open>status_err\<close> is the error gRPC reports on a stream whose context is cancelled and \<open>ctx_err\<close> is
  \<open>ctx.Err()\<close>. A cancelled stream may still hand out messages it has received, so both the
  message and the error are possible then.
\<close>

inductive step ::
  "gerror \<Rightarrow> gerror \<Rightarrow> ('m, 'e) goroutine \<Rightarrow> ('m, 'e) wstate \<Rightarrow> ('m, 'e) wstate \<Rightarrow> bool"
  for status_err ctx_err :: gerror and g :: "('m, 'e) goroutine" where
  open_ok: "prod_at s = Opening \<Longrightarrow> g_open g = None \<Longrightarrow>
     step status_err ctx_err g s (s\<lparr>prod_at := Receiving\<rparr>)"
| open_err: "prod_at s = Opening \<Longrightarrow> g_open g = Some e \<Longrightarrow>
     step status_err ctx_err g s (s\<lparr>prod_at := Failing e\<rparr>)"
| open_cancelled: "prod_at s = Opening \<Longrightarrow> cancelled s \<Longrightarrow>
     step status_err ctx_err g s (s\<lparr>prod_at := Failing status_err\<rparr>)"
| recv_msg: "prod_at s = Receiving \<Longrightarrow> todo s = RMsg m # ts \<Longrightarrow>
     step status_err ctx_err g s (s\<lparr>prod_at := Sending (g_conv g m), todo := ts\<rparr>)"
| recv_eof: "prod_at s = Receiving \<Longrightarrow> todo s = REOF # ts \<Longrightarrow>
     step status_err ctx_err g s (s\<lparr>prod_at := ClosingErrs\<rparr>)"
| recv_err: "prod_at s = Receiving \<Longrightarrow> todo s = RErr e # ts \<Longrightarrow>
     step status_err ctx_err g s (s\<lparr>prod_at := on_recv_err e\<rparr>)"
| recv_cancelled: "prod_at s = Receiving \<Longrightarrow> cancelled s \<Longrightarrow>
     step status_err ctx_err g s (s\<lparr>prod_at := on_recv_err status_err\<rparr>)"
| deliver: "prod_at s = Sending e \<Longrightarrow> cons_at s = Ranging \<Longrightarrow> \<not> events_closed s \<Longrightarrow>
     step status_err ctx_err g s (s\<lparr>prod_at := Receiving, ranged := ranged s @ [e]\<rparr>)"
| deliver_panic: "prod_at s = Sending e \<Longrightarrow> events_closed s \<Longrightarrow>
     step status_err ctx_err g s (s\<lparr>prod_at := Panicked\<rparr>)"
| select_done: "prod_at s = Sending e \<Longrightarrow> cancelled s \<Longrightarrow>
     step status_err ctx_err g s (s\<lparr>prod_at := Failing ctx_err\<rparr>)"
| fail: "prod_at s = Failing e \<Longrightarrow> errs_buf s = None \<Longrightarrow> \<not> errs_closed s \<Longrightarrow>
     step status_err ctx_err g s (s\<lparr>prod_at := ClosingErrs, errs_buf := Some e\<rparr>)"
| fail_panic: "prod_at s = Failing e \<Longrightarrow> errs_closed s \<Longrightarrow>
     step status_err ctx_err g s (s\<lparr>prod_at := Panicked\<rparr>)"
| close_errs: "prod_at s = ClosingErrs \<Longrightarrow> \<not> errs_closed s \<Longrightarrow>
     step status_err ctx_err g s (s\<lparr>prod_at := ClosingEvents, errs_closed := True\<rparr>)"
| close_errs_panic: "prod_at s = ClosingErrs \<Longrightarrow> errs_closed s \<Longrightarrow>
     step status_err ctx_err g s (s\<lparr>prod_at := Panicked\<rparr>)"
| close_events: "prod_at s = ClosingEvents \<Longrightarrow> \<not> events_closed s \<Longrightarrow>
     step status_err ctx_err g s (s\<lparr>prod_at := Exited, events_closed := True\<rparr>)"
| close_events_panic: "prod_at s = ClosingEvents \<Longrightarrow> events_closed s \<Longrightarrow>
     step status_err ctx_err g s (s\<lparr>prod_at := Panicked\<rparr>)"
| range_end: "cons_at s = Ranging \<Longrightarrow> events_closed s \<Longrightarrow>
     step status_err ctx_err g s (s\<lparr>cons_at := ReadingErrs\<rparr>)"
| read_err: "cons_at s = ReadingErrs \<Longrightarrow> errs_buf s = Some e \<Longrightarrow>
     step status_err ctx_err g s (s\<lparr>cons_at := Checking, err_read := Some e, errs_buf := None\<rparr>)"
| read_closed: "cons_at s = ReadingErrs \<Longrightarrow> errs_buf s = None \<Longrightarrow> errs_closed s \<Longrightarrow>
     step status_err ctx_err g s (s\<lparr>cons_at := Checking, err_read := None\<rparr>)"
| check: "cons_at s = Checking \<Longrightarrow>
     step status_err ctx_err g s (s\<lparr>cons_at := Done, saw_cancel := cancelled s\<rparr>)"

inductive cancel :: "('m, 'e) wstate \<Rightarrow> ('m, 'e) wstate \<Rightarrow> bool" where
  ctx_cancel: "\<not> cancelled s \<Longrightarrow> cancel s (s\<lparr>cancelled := True\<rparr>)"

inductive reach ::
  "gerror \<Rightarrow> gerror \<Rightarrow> ('m, 'e) goroutine \<Rightarrow> ('m, 'e) wstate \<Rightarrow> bool"
  for status_err ctx_err :: gerror and g :: "('m, 'e) goroutine" where
  reach_init: "reach status_err ctx_err g (watch_init g)"
| reach_step: "reach status_err ctx_err g s \<Longrightarrow> step status_err ctx_err g s t \<Longrightarrow>
     reach status_err ctx_err g t"
| reach_cancel: "reach status_err ctx_err g s \<Longrightarrow> cancel s t \<Longrightarrow> reach status_err ctx_err g t"

inductive_cases stepE: "step status_err ctx_err g s t"
inductive_simps cancel_iff: "cancel s t"

text \<open>A move of the program or of its environment; the reachable states are those moves lead to.\<close>

definition move ::
  "gerror \<Rightarrow> gerror \<Rightarrow> ('m, 'e) goroutine \<Rightarrow> ('m, 'e) wstate \<Rightarrow> ('m, 'e) wstate \<Rightarrow> bool" where
  "move status_err ctx_err g s t \<longleftrightarrow> step status_err ctx_err g s t \<or> cancel s t"

lemma reach_move:
  "reach status_err ctx_err g s \<Longrightarrow> move status_err ctx_err g s t \<Longrightarrow> reach status_err ctx_err g t"
  by (auto simp: move_def intro: reach.intros)

lemma moves_reach:
  "(move status_err ctx_err g ^^ n) (watch_init g) s \<Longrightarrow> reach status_err ctx_err g s"
  by (induction n arbitrary: s) (auto intro: reach_init reach_move)

lemma reach_moves:
  "reach status_err ctx_err g s \<Longrightarrow> \<exists>n. (move status_err ctx_err g ^^ n) (watch_init g) s"
proof (induction rule: reach.induct)
  case reach_init
  have "(move status_err ctx_err g ^^ 0) (watch_init g) (watch_init g)" by simp
  then show ?case by blast
next
  case (reach_step s t)
  then have "move status_err ctx_err g s t" by (simp add: move_def)
  with reach_step show ?case by (blast intro: relpowp_Suc_I)
next
  case (reach_cancel s t)
  then have "move status_err ctx_err g s t" by (simp add: move_def)
  with reach_cancel show ?case by (blast intro: relpowp_Suc_I)
qed

section \<open>What the server sends, as a function\<close>

text \<open>
  The events a stream holds before its end, and the end: \<open>None\<close> when it never ends by itself,
  \<open>Some None\<close> for a clean end and \<open>Some (Some e)\<close> for an error.
\<close>

fun events_of :: "('m \<Rightarrow> 'e) \<Rightarrow> 'm server_stream \<Rightarrow> 'e list" where
  "events_of conv (RMsg m # ts) = conv m # events_of conv ts"
| "events_of conv _ = []"

definition recv_final :: "gerror \<Rightarrow> gerror option" where
  "recv_final e = (if err_isEOF e then None else Some e)"

fun final_of :: "'m server_stream \<Rightarrow> gerror option option" where
  "final_of (RMsg m # ts) = final_of ts"
| "final_of (REOF # ts) = Some None"
| "final_of (RErr e # ts) = Some (recv_final e)"
| "final_of [] = None"

text \<open>
  The contract of a watch: the pairs of ranged values and final error that a consumer may see,
  given whether the context has been cancelled.
\<close>

definition watch_outcome ::
  "gerror \<Rightarrow> gerror \<Rightarrow> ('m, 'e) goroutine \<Rightarrow> bool \<Rightarrow> 'e list \<Rightarrow> gerror option \<Rightarrow> bool" where
  "watch_outcome status_err ctx_err g canc es err \<longleftrightarrow>
     (g_open g = None \<and> es = events_of (g_conv g) (g_recv g) \<and> final_of (g_recv g) = Some err) \<or>
     (g_open g \<noteq> None \<and> es = [] \<and> err = g_open g) \<or>
     (canc \<and> prefix es (events_of (g_conv g) (g_recv g)) \<and>
        (err = recv_final status_err \<or> err = Some ctx_err \<or> es = [] \<and> err = Some status_err))"

section \<open>The invariant\<close>

text \<open>
  Before the producer has a reason to stop, what was ranged over, what is being sent and what is
  still to come make up the whole stream, and no channel has been touched. Once it has a reason,
  the values ranged over and the error it is about to leave in \<open>errs\<close> are an outcome.
\<close>

fun pending :: "'e producer \<Rightarrow> 'e list" where
  "pending (Sending e) = [e]"
| "pending _ = []"

definition channels_open :: "('m, 'e) wstate \<Rightarrow> bool" where
  "channels_open s \<longleftrightarrow>
     \<not> errs_closed s \<and> \<not> events_closed s \<and> cons_at s = Ranging"

definition in_stream :: "('m, 'e) goroutine \<Rightarrow> ('m, 'e) wstate \<Rightarrow> bool" where
  "in_stream g s \<longleftrightarrow> channels_open s \<and> errs_buf s = None \<and> g_open g = None \<and>
     ranged s @ pending (prod_at s) @ events_of (g_conv g) (todo s)
       = events_of (g_conv g) (g_recv g) \<and>
     final_of (todo s) = final_of (g_recv g)"

definition watch_inv ::
  "gerror \<Rightarrow> gerror \<Rightarrow> ('m, 'e) goroutine \<Rightarrow> ('m, 'e) wstate \<Rightarrow> bool" where
  "watch_inv status_err ctx_err g s \<longleftrightarrow>
     (let outcome = watch_outcome status_err ctx_err g (cancelled s) (ranged s) in
      case prod_at s of
        Opening \<Rightarrow> channels_open s \<and> errs_buf s = None \<and> ranged s = [] \<and> todo s = g_recv g
      | Receiving \<Rightarrow> in_stream g s
      | Sending e \<Rightarrow> in_stream g s
      | Failing e \<Rightarrow> channels_open s \<and> errs_buf s = None \<and> outcome (Some e)
      | ClosingErrs \<Rightarrow> channels_open s \<and> outcome (errs_buf s)
      | ClosingEvents \<Rightarrow> errs_closed s \<and> \<not> events_closed s \<and> cons_at s = Ranging \<and>
          outcome (errs_buf s)
      | Exited \<Rightarrow> errs_closed s \<and> events_closed s \<and>
          (if cons_at s \<in> {Ranging, ReadingErrs} then outcome (errs_buf s)
           else errs_buf s = None \<and> outcome (err_read s)) \<and>
          (cons_at s = Done \<longrightarrow> saw_cancel s \<longrightarrow> cancelled s)
      | Panicked \<Rightarrow> False)"

lemmas watch_inv_defs = watch_inv_def in_stream_def channels_open_def Let_def

lemma watch_outcome_mono:
  "watch_outcome status_err ctx_err g canc es err \<Longrightarrow>
     watch_outcome status_err ctx_err g True es err"
  by (auto simp: watch_outcome_def)

lemma prefix_eqI: "xs @ ys = zs \<Longrightarrow> prefix xs zs"
  by (auto simp: prefix_def)

lemma watch_inv_init: "watch_inv status_err ctx_err g (watch_init g)"
  by (simp add: watch_inv_defs watch_init_def)

lemma watch_inv_step:
  assumes "step status_err ctx_err g s t" and "watch_inv status_err ctx_err g s"
  shows "watch_inv status_err ctx_err g t"
  using assms
  by (cases rule: step.cases)
     (auto simp: watch_inv_defs watch_outcome_def on_recv_err_def recv_final_def
        split: producer.splits if_splits intro: prefix_eqI)

lemma watch_inv_cancel:
  "cancel s t \<Longrightarrow> watch_inv status_err ctx_err g s \<Longrightarrow> watch_inv status_err ctx_err g t"
  by (auto simp: cancel_iff watch_inv_defs intro: watch_outcome_mono split: producer.splits)

section \<open>Progress and termination\<close>

text \<open>
  The one state in which the program waits for its environment: in \<open>Recv\<close>, with nothing sent and
  the context alive.
\<close>

definition awaiting :: "('m, 'e) wstate \<Rightarrow> bool" where
  "awaiting s \<longleftrightarrow> prod_at s = Receiving \<and> todo s = [] \<and> \<not> cancelled s"

definition finished :: "('m, 'e) wstate \<Rightarrow> bool" where
  "finished s \<longleftrightarrow> prod_at s = Exited \<and> cons_at s = Done"

lemma recv_progress:
  assumes "prod_at s = Receiving" and "\<not> awaiting s"
  shows "\<exists>t. step status_err ctx_err g s t"
proof (cases "todo s")
  case Nil
  with assms have "cancelled s" by (simp add: awaiting_def)
  with assms show ?thesis by (blast intro: recv_cancelled)
next
  case (Cons r ts)
  with assms show ?thesis by (cases r) (blast intro: step.intros)+
qed

lemma inv_progress:
  assumes "watch_inv status_err ctx_err g s" and "\<not> awaiting s" and "\<not> finished s"
  shows "\<exists>t. step status_err ctx_err g s t"
proof (cases "prod_at s")
  case Opening
  then show ?thesis by (cases "g_open g") (blast intro: step.intros)+
next
  case Receiving
  with assms(2) show ?thesis by (rule recv_progress [rotated])
next
  case (Sending e)
  with assms(1) have "cons_at s = Ranging" "\<not> events_closed s"
    by (simp_all add: watch_inv_defs)
  with Sending show ?thesis by (blast intro: deliver)
next
  case (Failing e)
  with assms(1) have "errs_buf s = None" "\<not> errs_closed s" by (simp_all add: watch_inv_defs)
  with Failing show ?thesis by (blast intro: fail)
next
  case ClosingErrs
  then show ?thesis by (cases "errs_closed s") (blast intro: close_errs close_errs_panic)+
next
  case ClosingEvents
  then show ?thesis by (cases "events_closed s") (blast intro: close_events close_events_panic)+
next
  case Exited
  with assms(1) have "errs_closed s" "events_closed s" by (simp_all add: watch_inv_defs)
  with Exited assms(3) show ?thesis
    by (cases "cons_at s"; cases "errs_buf s") (auto simp: finished_def intro: step.intros)
next
  case Panicked
  with assms(1) show ?thesis by (simp add: watch_inv_defs)
qed

text \<open>Every move of the program, and the one cancellation, makes this number smaller.\<close>

fun prod_rank :: "'e producer \<Rightarrow> nat \<Rightarrow> nat" where
  "prod_rank Opening n = 2 * n + 6"
| "prod_rank Receiving n = 2 * n + 5"
| "prod_rank (Sending e) n = 2 * n + 6"
| "prod_rank (Failing e) n = 4"
| "prod_rank ClosingErrs n = 3"
| "prod_rank ClosingEvents n = 2"
| "prod_rank Exited n = 0"
| "prod_rank Panicked n = 0"

fun cons_rank :: "consumer \<Rightarrow> nat" where
  "cons_rank Ranging = 3"
| "cons_rank ReadingErrs = 2"
| "cons_rank Checking = 1"
| "cons_rank Done = 0"

definition rank :: "('m, 'e) wstate \<Rightarrow> nat" where
  "rank s = prod_rank (prod_at s) (length (todo s)) + cons_rank (cons_at s)
     + (if cancelled s then 0 else 1)"

lemma step_rank: "step status_err ctx_err g s t \<Longrightarrow> rank t < rank s"
  by (induction rule: step.induct) (auto simp: rank_def on_recv_err_def)

lemma cancel_rank: "cancel s t \<Longrightarrow> rank t < rank s"
  by (auto simp: cancel_iff rank_def)

text \<open>So a goroutine and its consumer are a ranked system, whatever the stream and the errors.\<close>

interpretation watch: ranked_system "watch_init g" "move status_err ctx_err g"
  "watch_inv status_err ctx_err g" rank
  for status_err ctx_err :: gerror and g :: "('m, 'e) goroutine"
  by unfold_locales
    (auto simp: move_def intro: watch_inv_init watch_inv_step watch_inv_cancel step_rank cancel_rank)

lemma reach_inv: "reach status_err ctx_err g s \<Longrightarrow> watch_inv status_err ctx_err g s"
  using reach_moves watch.inv_run by blast

lemma reach_inv_prod:
  assumes "reach status_err ctx_err g s"
  shows "prod_at s \<noteq> Panicked"
    and "events_closed s \<Longrightarrow> errs_closed s"
    and "prod_at s = Failing e \<Longrightarrow> errs_buf s = None \<and> \<not> errs_closed s"
  using reach_inv [OF assms] by (auto simp: watch_inv_defs split: producer.splits)

lemma reach_ranged_prefix:
  assumes "reach status_err ctx_err g s"
  shows "prefix (ranged s) (events_of (g_conv g) (g_recv g))"
  using reach_inv [OF assms]
  by (auto simp: watch_inv_defs watch_outcome_def split: producer.splits if_splits
      intro: prefix_eqI)

lemma reach_done_outcome:
  assumes "reach status_err ctx_err g s" and "cons_at s \<in> {Checking, Done}"
  shows "watch_outcome status_err ctx_err g (cancelled s) (ranged s) (err_read s)"
    and "cons_at s = Done \<Longrightarrow> saw_cancel s \<Longrightarrow> cancelled s"
  using reach_inv [OF assms(1)] assms(2)
  by (auto simp: watch_inv_defs split: producer.splits if_splits)

lemma rank_init: "rank (watch_init g) = 2 * length (g_recv g) + 10"
  by (simp add: rank_def watch_init_def)

lemma reach_not_awaiting:
  assumes "reach status_err ctx_err g s"
    and "g_open g \<noteq> None \<or> final_of (g_recv g) \<noteq> None \<or> cancelled s"
  shows "\<not> awaiting s"
  using reach_inv [OF assms(1)] assms(2)
  by (auto simp: watch_inv_defs awaiting_def split: producer.splits)

lemma reach_progress:
  assumes "reach status_err ctx_err g s"
    and "g_open g \<noteq> None \<or> final_of (g_recv g) \<noteq> None \<or> cancelled s"
    and "\<not> finished s"
  shows "\<exists>t. step status_err ctx_err g s t"
  using inv_progress [OF reach_inv [OF assms(1)] reach_not_awaiting [OF assms(1,2)] assms(3)] .

lemma step_cancelled: "step status_err ctx_err g s t \<Longrightarrow> cancelled t = cancelled s"
  by (induction rule: step.induct) auto

text \<open>
  When the server ends the stream (or refuses to open it), a run that nobody cancels can be
  carried on to its end; the same holds of every cancelled run.
\<close>

lemma reach_finish:
  assumes "reach status_err ctx_err g s"
    and "g_open g \<noteq> None \<or> final_of (g_recv g) \<noteq> None \<or> cancelled s"
  shows "\<exists>t. reach status_err ctx_err g t \<and> finished t \<and> cancelled t = cancelled s"
proof -
  obtain n where n: "(move status_err ctx_err g ^^ n) (watch_init g) s"
    using reach_moves [OF assms(1)] by blast
  have "\<exists>m t. (move status_err ctx_err g ^^ m) (watch_init g) t \<and> finished t \<and>
      cancelled t = cancelled s"
  proof (rule watch.run_to_final [OF n])
    fix k u
    assume "(move status_err ctx_err g ^^ k) (watch_init g) u" "cancelled u = cancelled s"
      "\<not> finished u"
    then obtain t where "step status_err ctx_err g u t"
      using reach_progress [OF moves_reach] assms(2) by metis
    then show "\<exists>t. move status_err ctx_err g u t \<and> cancelled t = cancelled s"
      using step_cancelled \<open>cancelled u = cancelled s\<close> unfolding move_def by metis
  qed simp
  then show ?thesis using moves_reach by blast
qed

section \<open>Properties\<close>

text \<open>A stream of two messages that ends cleanly, for the witnesses.\<close>

definition two_then_eof :: "(nat, nat) goroutine" where
  "two_then_eof = \<lparr>g_open = None, g_recv = [RMsg 1, RMsg 2, REOF], g_conv = (\<lambda>m. m)\<rparr>"

lemma two_then_eof_finish:
  "\<exists>s. reach e1 e2 two_then_eof s \<and> finished s \<and> \<not> cancelled s"
  using reach_finish [OF reach_init, of two_then_eof e1 e2]
  by (auto simp: two_then_eof_def watch_init_def)

text \<open>
  C1: When a consumer has ranged over the event channel to its close and read the error channel,
  what it saw is an outcome of the stream: either the whole stream in order with the stream's own
  end (a clean end reads as no error), or nothing and the error of the opening call, or, and only
  if the context was cancelled, a prefix of the stream with the error of the cancellation. No event
  is lost, duplicated or reordered without an error that says so.
\<close>

theorem watch_consumer_outcome:
  assumes "reach status_err ctx_err g s" and "cons_at s = Done"
  shows "watch_outcome status_err ctx_err g (cancelled s) (ranged s) (err_read s) \<and>
    (saw_cancel s \<longrightarrow> cancelled s)"
  using reach_done_outcome [OF assms(1)] assms(2) by simp

theorem watch_consumer_outcome_witness:
  "\<exists>s. reach (errors_New ''rpc'') (errors_New ''ctx'') two_then_eof s \<and> cons_at s = Done \<and>
     ranged s = [1, 2] \<and> err_read s = None"
proof -
  obtain s where s: "reach (errors_New ''rpc'') (errors_New ''ctx'') two_then_eof s"
    "cons_at s = Done" "\<not> cancelled s"
    using two_then_eof_finish by (force simp: finished_def)
  from watch_consumer_outcome [OF s(1,2)] s(3) have "ranged s = [1, 2] \<and> err_read s = None"
    by (auto simp: watch_outcome_def two_then_eof_def)
  with s show ?thesis by blast
qed

text \<open>
  C16: No interleaving of the producer, the consumer and the cancellation makes a channel operation
  panic (a send on a closed channel, a second close), and the one send on the error channel never
  blocks: its buffer is empty whenever the producer is about to send. The deferred closes run last
  in, first out: \<open>errs\<close> is closed before \<open>events\<close>, so a read of \<open>errs\<close> after the range never blocks.
\<close>

theorem watch_channels_safe:
  assumes "reach status_err ctx_err g s"
  shows "prod_at s \<noteq> Panicked \<and>
    (\<forall>e. prod_at s = Failing e \<longrightarrow> errs_buf s = None \<and> \<not> errs_closed s) \<and>
    (events_closed s \<longrightarrow> errs_closed s)"
  using reach_inv_prod [OF assms] by blast

theorem watch_channels_safe_witness:
  "prod_at (watch_init two_then_eof) \<noteq> Panicked"
  using watch_channels_safe [OF reach_init [of "errors_New ''rpc''" "errors_New ''ctx''"]]
  by blast

text \<open>
  C17: A watch always ends. A run has at most twice as many moves as the server sends items, plus
  ten; and a run that cannot move any more, on a stream that ends or fails to open or under a
  cancelled context, has both goroutines finished: neither is left blocked on a channel.
\<close>

theorem watch_terminates:
  assumes "(move status_err ctx_err g ^^ n) (watch_init g) s"
  shows "n \<le> 2 * length (g_recv g) + 10 \<and>
    ((g_open g \<noteq> None \<or> final_of (g_recv g) \<noteq> None \<or> cancelled s) \<longrightarrow>
     (\<forall>t. \<not> step status_err ctx_err g s t) \<longrightarrow> finished s)"
proof -
  have "reach status_err ctx_err g s" using assms by (rule moves_reach)
  then show ?thesis
    using watch.run_rank [OF assms] reach_progress [of status_err ctx_err g s]
    unfolding rank_init by fastforce
qed

theorem watch_terminates_witness:
  "\<exists>n s. (move (errors_New ''rpc'') (errors_New ''ctx'') two_then_eof ^^ n)
      (watch_init two_then_eof) s \<and> finished s \<and> n \<le> 16"
proof -
  obtain s n where "finished s"
    and n: "(move (errors_New ''rpc'') (errors_New ''ctx'') two_then_eof ^^ n)
      (watch_init two_then_eof) s"
    using two_then_eof_finish reach_moves by blast
  with watch_terminates [OF n] show ?thesis
    by (auto simp: two_then_eof_def)
qed

text \<open>
  C18: A stream that the server ends, or refuses, is delivered. However producer and consumer
  interleave, a run that nobody cancelled and that cannot go on has handed the consumer every event
  the server sent, in order, and the stream's own end: a clean one reads as no error. A stream that
  could not be opened gives no event and the error of the opening.
\<close>

theorem watch_delivers_everything:
  assumes "(move status_err ctx_err g ^^ n) (watch_init g) s" and "\<not> cancelled s"
    and "\<forall>t. \<not> step status_err ctx_err g s t"
    and "g_open g \<noteq> None \<or> final_of (g_recv g) = Some err"
  shows "finished s \<and>
    (if g_open g = None then ranged s = events_of (g_conv g) (g_recv g) \<and> err_read s = err
     else ranged s = [] \<and> err_read s = g_open g)"
proof -
  have r: "reach status_err ctx_err g s" using assms(1) by (rule moves_reach)
  have "finished s" using reach_progress [OF r] assms(3,4) by auto
  moreover from this have "watch_outcome status_err ctx_err g False (ranged s) (err_read s)"
    using reach_done_outcome(1) [OF r] assms(2) by (simp add: finished_def)
  ultimately show ?thesis using assms(4) by (auto simp: watch_outcome_def)
qed

lemma finished_stuck: "finished s \<Longrightarrow> \<not> step status_err ctx_err g s t"
  by (auto simp: finished_def elim: stepE)

theorem watch_delivers_everything_witness:
  "\<exists>n s. (move (errors_New ''rpc'') (errors_New ''ctx'') two_then_eof ^^ n)
      (watch_init two_then_eof) s \<and> finished s \<and> ranged s = [1, 2] \<and> err_read s = None"
proof -
  obtain s where s: "reach (errors_New ''rpc'') (errors_New ''ctx'') two_then_eof s" "finished s"
    "\<not> cancelled s"
    using two_then_eof_finish by blast
  then obtain n where n: "(move (errors_New ''rpc'') (errors_New ''ctx'') two_then_eof ^^ n)
      (watch_init two_then_eof) s"
    using reach_moves by blast
  from watch_delivers_everything [OF n s(3), of None] finished_stuck [OF s(2)] n show ?thesis
    by (auto simp: two_then_eof_def)
qed

end
