(* ===== verification/Streams.thy ===== *)
theory Streams
  imports Watch
begin

text \<open>
  Package \<open>streams\<close>: \<^verbatim>\<open>streams/streams.go\<close> and \<^verbatim>\<open>streams/lineage.go\<close>, with the messages
  of \<^verbatim>\<open>genproto/gatewayv1/reckon_streams.pb.go\<close> and the interface of the generated client
  stub. A client is a stub and the store id it is bound to; every operation is one call on the stub.
\<close>

section \<open>Messages and the service stub\<close>

record pb_AppendEventsRequest = StreamScoped +
  ExpectedVersion :: i64
  Events :: "pb_ProposedEvent option list"

record pb_ReadStreamRequest = StreamScoped +
  StartVersion :: u64
  Count :: u64

type_synonym pb_GetStreamVersionRequest = StreamScoped

type_synonym pb_ListStreamsRequest = StoreScoped

type_synonym pb_DeleteStreamRequest = StreamScoped

record pb_ReadByEventTypesRequest = StoreScoped +
  EventTypes :: strs
  BatchSize :: u64

record pb_ReadByTagsRequest = StoreScoped +
  Tags :: strs
  Match :: pb_enum
  BatchSize :: u64

record pb_ReadByMetadataRequest = StoreScoped +
  Key :: string
  Value :: string
  BatchSize :: u64

record pb_ReadAllGlobalRequest = StoreScoped +
  Offset :: u64
  Limit :: u64

record pb_AppendEventsResponse =
  Version :: u64
  Position :: u64
  Count :: u64

record pb_ReadStreamResponse =
  Events :: "pb_RecordedEvent option list"

record pb_GetStreamVersionResponse =
  Version :: i64

record pb_ListStreamsResponse =
  StreamIds :: strs

record 'w StreamServiceClient =
  AppendEvents :: "ctx \<Rightarrow> pb_AppendEventsRequest \<Rightarrow> ('w, pb_AppendEventsResponse option ret) state"
  ReadStreamForward :: "ctx \<Rightarrow> pb_ReadStreamRequest \<Rightarrow> ('w, pb_ReadStreamResponse option ret) state"
  ReadStreamBackward :: "ctx \<Rightarrow> pb_ReadStreamRequest \<Rightarrow> ('w, pb_ReadStreamResponse option ret) state"
  StreamEventsForward ::
    "ctx \<Rightarrow> pb_ReadStreamRequest \<Rightarrow> ('w, pb_RecordedEvent option server_stream option ret) state"
  GetStreamVersion ::
    "ctx \<Rightarrow> pb_GetStreamVersionRequest \<Rightarrow> ('w, pb_GetStreamVersionResponse option ret) state"
  ListStreams :: "ctx \<Rightarrow> pb_ListStreamsRequest \<Rightarrow> ('w, pb_ListStreamsResponse option ret) state"
  DeleteStream :: "ctx \<Rightarrow> pb_DeleteStreamRequest \<Rightarrow> ('w, pb_Empty option ret) state"
  ReadByEventTypes ::
    "ctx \<Rightarrow> pb_ReadByEventTypesRequest \<Rightarrow> ('w, pb_ReadStreamResponse option ret) state"
  ReadByTags :: "ctx \<Rightarrow> pb_ReadByTagsRequest \<Rightarrow> ('w, pb_ReadStreamResponse option ret) state"
  ReadByMetadata :: "ctx \<Rightarrow> pb_ReadByMetadataRequest \<Rightarrow> ('w, pb_ReadStreamResponse option ret) state"
  ReadAllGlobal :: "ctx \<Rightarrow> pb_ReadAllGlobalRequest \<Rightarrow> ('w, pb_ReadStreamResponse option ret) state"

section \<open>Types of the package\<close>

type_synonym ExpectedVersion = i64

definition NoStream :: ExpectedVersion where "NoStream = - 1"
definition AnyVersion :: ExpectedVersion where "AnyVersion = - 2"
definition StreamExists :: ExpectedVersion where "StreamExists = - 4"

type_synonym TagMatch = string

definition TagMatchAny :: TagMatch where "TagMatchAny = ''any''"
definition TagMatchAll :: TagMatch where "TagMatchAll = ''all''"

definition tagMatchToProto :: "TagMatch \<Rightarrow> pb_enum" where
  "tagMatchToProto m = (if m = TagMatchAll then TAG_MATCH_ALL else TAG_MATCH_ANY)"

record streams_ProposedEvent =
  EventID :: string
  EventType :: string
  Data :: bytes
  Metadata :: bytes
  Tags :: strs
  DataContentType :: string
  MetadataContentType :: string

definition streams_toProto :: "streams_ProposedEvent \<Rightarrow> pb_ProposedEvent" where
  "streams_toProto e = \<lparr>
     pb_ProposedEvent.EventId = EventID e,
     EventType = streams_ProposedEvent.EventType e,
     Data = streams_ProposedEvent.Data e,
     Metadata = streams_ProposedEvent.Metadata e,
     Tags = streams_ProposedEvent.Tags e,
     DataContentType = streams_ProposedEvent.DataContentType e,
     MetadataContentType = streams_ProposedEvent.MetadataContentType e\<rparr>"

record streams_RecordedEvent =
  EventID :: string
  EventType :: string
  StreamID :: string
  Version :: u64
  Data :: bytes
  Metadata :: bytes
  Tags :: strs
  Timestamp :: gotime
  Epoch :: gotime
  DataContentType :: string
  MetadataContentType :: string
  PrevEventHash :: bytes

text \<open>
  \<open>recordedFromProto\<close>, which \<open>RecordedEventFromProto\<close> exports. The packages \<open>subscriptions\<close>,
  \<open>schema\<close> and \<open>temporal\<close> each have a copy of it; their theories prove the copies equal.
\<close>

definition recordedFromProto :: "pb_RecordedEvent option \<Rightarrow> streams_RecordedEvent" where
  "recordedFromProto p = \<lparr>
     streams_RecordedEvent.EventID = Get pb_RecordedEvent.EventId '''' p,
     EventType = Get pb_RecordedEvent.EventType '''' p,
     StreamID = Get pb_RecordedEvent.StreamId '''' p,
     Version = Get pb_RecordedEvent.Version 0 p,
     Data = Get pb_RecordedEvent.Data [] p,
     Metadata = Get pb_RecordedEvent.Metadata [] p,
     Tags = Get pb_RecordedEvent.Tags None p,
     Timestamp = time_UnixMilli (Get pb_RecordedEvent.Timestamp 0 p),
     Epoch = time_UnixMicro (Get pb_RecordedEvent.EpochUs 0 p),
     DataContentType = Get pb_RecordedEvent.DataContentType '''' p,
     MetadataContentType = Get pb_RecordedEvent.MetadataContentType '''' p,
     PrevEventHash = Get pb_RecordedEvent.PrevEventHash [] p\<rparr>"

definition RecordedEventFromProto :: "pb_RecordedEvent option \<Rightarrow> streams_RecordedEvent" where
  "RecordedEventFromProto p = recordedFromProto p"

definition recordedSliceFromProto ::
  "pb_RecordedEvent option list \<Rightarrow> streams_RecordedEvent list" where
  "recordedSliceFromProto ps = range_append recordedFromProto [] ps"

lemma recordedSliceFromProto_map [wire]: "recordedSliceFromProto ps = map recordedFromProto ps"
  by (simp add: recordedSliceFromProto_def range_append_map)

record AppendResult =
  Version :: u64
  Position :: u64
  Count :: u64

definition zero_AppendResult :: AppendResult where
  "zero_AppendResult = \<lparr>AppendResult.Version = 0, Position = 0, Count = 0\<rparr>"

section \<open>The client\<close>

record 'w streams_Client =
  raw :: "'w StreamServiceClient"
  store :: string

text \<open>
  \<open>New(conn, storeID)\<close>: the stub of the connection and the store id. The stub is what
  \<open>NewStreamServiceClient\<close> makes of the connection.
\<close>

definition streams_New :: "'w StreamServiceClient \<Rightarrow> string \<Rightarrow> 'w streams_Client" where
  "streams_New stub storeID = \<lparr>streams_Client.raw = stub, store = storeID\<rparr>"

definition streams_StoreID :: "'w streams_Client \<Rightarrow> string" where
  "streams_StoreID c = streams_Client.store c"

definition streams_Append ::
  "'w streams_Client \<Rightarrow> ctx \<Rightarrow> string \<Rightarrow> ExpectedVersion \<Rightarrow> streams_ProposedEvent list \<Rightarrow>
     ('w, AppendResult ret) state" where
  "streams_Append c ctx streamID expected events =
     (let pe = range_append (\<lambda>e. Some (streams_toProto e)) [] events in
      unary (AppendEvents (streams_Client.raw c) ctx \<lparr>
          StoreScoped.StoreId = streams_Client.store c,
          StreamScoped.StreamId = streamID,
          ExpectedVersion = expected,
          Events = pe\<rparr>)
        zero_AppendResult
        (\<lambda>resp. \<lparr>
          AppendResult.Version = Get pb_AppendEventsResponse.Version 0 resp,
          Position = Get pb_AppendEventsResponse.Position 0 resp,
          Count = Get pb_AppendEventsResponse.Count 0 resp\<rparr>))"

abbreviation read_response ::
  "pb_ReadStreamResponse option \<Rightarrow> streams_RecordedEvent list option" where
  "read_response resp \<equiv> Some (recordedSliceFromProto (Get pb_ReadStreamResponse.Events [] resp))"

text \<open>The read operations return \<open>nil\<close> beside an error and a fresh slice otherwise.\<close>

definition streams_Read ::
  "'w streams_Client \<Rightarrow> ctx \<Rightarrow> string \<Rightarrow> u64 \<Rightarrow> u64 \<Rightarrow>
     ('w, streams_RecordedEvent list option ret) state" where
  "streams_Read c ctx streamID startVersion count =
     unary (ReadStreamForward (streams_Client.raw c) ctx \<lparr>
         StoreScoped.StoreId = streams_Client.store c, StreamScoped.StreamId = streamID,
         StartVersion = startVersion, Count = count\<rparr>)
       None read_response"

definition streams_ReadBackward ::
  "'w streams_Client \<Rightarrow> ctx \<Rightarrow> string \<Rightarrow> u64 \<Rightarrow> u64 \<Rightarrow>
     ('w, streams_RecordedEvent list option ret) state" where
  "streams_ReadBackward c ctx streamID startVersion count =
     unary (ReadStreamBackward (streams_Client.raw c) ctx \<lparr>
         StoreScoped.StoreId = streams_Client.store c, StreamScoped.StreamId = streamID,
         StartVersion = startVersion, Count = count\<rparr>)
       None read_response"

definition streams_Watch ::
  "'w streams_Client \<Rightarrow> ctx \<Rightarrow> string \<Rightarrow> u64 \<Rightarrow> u64 \<Rightarrow>
     ('w, (pb_RecordedEvent option, streams_RecordedEvent) goroutine) state" where
  "streams_Watch c ctx streamID startVersion count =
     launch (StreamEventsForward (streams_Client.raw c) ctx \<lparr>
         StoreScoped.StoreId = streams_Client.store c, StreamScoped.StreamId = streamID,
         StartVersion = startVersion, Count = count\<rparr>)
       recordedFromProto"

definition streams_Version ::
  "'w streams_Client \<Rightarrow> ctx \<Rightarrow> string \<Rightarrow> ('w, i64 ret) state" where
  "streams_Version c ctx streamID =
     unary (GetStreamVersion (streams_Client.raw c) ctx \<lparr>
         StoreScoped.StoreId = streams_Client.store c, StreamScoped.StreamId = streamID\<rparr>)
       0 (Get pb_GetStreamVersionResponse.Version 0)"

definition streams_List :: "'w streams_Client \<Rightarrow> ctx \<Rightarrow> ('w, strs ret) state" where
  "streams_List c ctx =
     unary (ListStreams (streams_Client.raw c) ctx \<lparr>StoreScoped.StoreId = streams_Client.store c\<rparr>)
       None (Get StreamIds None)"

definition streams_Delete ::
  "'w streams_Client \<Rightarrow> ctx \<Rightarrow> string \<Rightarrow> ('w, gerror option) state" where
  "streams_Delete c ctx streamID =
     unary_err (DeleteStream (streams_Client.raw c) ctx \<lparr>
         StoreScoped.StoreId = streams_Client.store c, StreamScoped.StreamId = streamID\<rparr>)"

definition streams_ReadByEventTypes ::
  "'w streams_Client \<Rightarrow> ctx \<Rightarrow> strs \<Rightarrow> u64 \<Rightarrow>
     ('w, streams_RecordedEvent list option ret) state" where
  "streams_ReadByEventTypes c ctx types batch =
     unary (ReadByEventTypes (streams_Client.raw c) ctx \<lparr>
         StoreScoped.StoreId = streams_Client.store c, EventTypes = types, BatchSize = batch\<rparr>)
       None read_response"

definition streams_ReadByTags ::
  "'w streams_Client \<Rightarrow> ctx \<Rightarrow> strs \<Rightarrow> TagMatch \<Rightarrow> u64 \<Rightarrow>
     ('w, streams_RecordedEvent list option ret) state" where
  "streams_ReadByTags c ctx tags match batch =
     unary (ReadByTags (streams_Client.raw c) ctx \<lparr>
         StoreScoped.StoreId = streams_Client.store c, pb_ReadByTagsRequest.Tags = tags,
         Match = tagMatchToProto match, BatchSize = batch\<rparr>)
       None read_response"

definition streams_ReadByMetadata ::
  "'w streams_Client \<Rightarrow> ctx \<Rightarrow> string \<Rightarrow> string \<Rightarrow> u64 \<Rightarrow>
     ('w, streams_RecordedEvent list option ret) state" where
  "streams_ReadByMetadata c ctx key value batch =
     unary (ReadByMetadata (streams_Client.raw c) ctx \<lparr>
         StoreScoped.StoreId = streams_Client.store c, Key = key, Value = value,
         BatchSize = batch\<rparr>)
       None read_response"

definition streams_ReadAllGlobal ::
  "'w streams_Client \<Rightarrow> ctx \<Rightarrow> u64 \<Rightarrow> u64 \<Rightarrow>
     ('w, streams_RecordedEvent list option ret) state" where
  "streams_ReadAllGlobal c ctx offset limit =
     unary (ReadAllGlobal (streams_Client.raw c) ctx \<lparr>
         StoreScoped.StoreId = streams_Client.store c, Offset = offset, Limit = limit\<rparr>)
       None read_response"

section \<open>Lineage\<close>

definition CausationIDKey :: string where "CausationIDKey = ''causation_id''"
definition CorrelationIDKey :: string where "CorrelationIDKey = ''correlation_id''"
definition ConversationIDKey :: string where "ConversationIDKey = ''conversation_id''"

definition streams_ReadEffects ::
  "'w streams_Client \<Rightarrow> ctx \<Rightarrow> string \<Rightarrow> u64 \<Rightarrow>
     ('w, streams_RecordedEvent list option ret) state" where
  "streams_ReadEffects c ctx messageID batch =
     streams_ReadByMetadata c ctx CausationIDKey messageID batch"

definition streams_ReadCorrelated ::
  "'w streams_Client \<Rightarrow> ctx \<Rightarrow> string \<Rightarrow> u64 \<Rightarrow>
     ('w, streams_RecordedEvent list option ret) state" where
  "streams_ReadCorrelated c ctx correlationID batch =
     streams_ReadByMetadata c ctx CorrelationIDKey correlationID batch"

definition streams_ReadConversation ::
  "'w streams_Client \<Rightarrow> ctx \<Rightarrow> string \<Rightarrow> u64 \<Rightarrow>
     ('w, streams_RecordedEvent list option ret) state" where
  "streams_ReadConversation c ctx conversationID batch =
     streams_ReadByMetadata c ctx ConversationIDKey conversationID batch"

text \<open>
  \<open>WithLineage\<close> writes into a Go map, which is a reference: the store below maps a reference to the
  map's contents, and \<open>meta\<close> is a reference or \<open>nil\<close>. A value of type \<open>any\<close> is a boxed string or
  something else.
\<close>

datatype 'o goany = AnyString string | AnyOther 'o

record 'o mapheap =
  next_ref :: nat
  cells :: "nat \<Rightarrow> string \<rightharpoonup> 'o goany"

definition heap_alloc :: "'o mapheap \<Rightarrow> 'o mapheap \<times> nat" where
  "heap_alloc h =
     (h\<lparr>next_ref := Suc (next_ref h), cells := (cells h)(next_ref h := Map.empty)\<rparr>, next_ref h)"

definition heap_put :: "'o mapheap \<Rightarrow> nat \<Rightarrow> string \<Rightarrow> 'o goany \<Rightarrow> 'o mapheap" where
  "heap_put h r k v = h\<lparr>cells := (cells h)(r := (cells h r)(k \<mapsto> v))\<rparr>"

definition WithLineage ::
  "'o mapheap \<Rightarrow> nat option \<Rightarrow> string \<Rightarrow> string \<Rightarrow> 'o mapheap \<times> nat" where
  "WithLineage h meta causationID correlationID =
     (let (h, meta) = (case meta of None \<Rightarrow> heap_alloc h | Some r \<Rightarrow> (h, r));
          h = (if causationID \<noteq> '''' then heap_put h meta CausationIDKey (AnyString causationID)
               else h);
          h = (if correlationID \<noteq> ''''
               then heap_put h meta CorrelationIDKey (AnyString correlationID) else h)
      in (h, meta))"

section \<open>The store firewall\<close>

definition streams_firewall :: "string \<Rightarrow> 'w StreamServiceClient \<Rightarrow> 'w StreamServiceClient" where
  "streams_firewall s stub = \<lparr>
     AppendEvents = guarded s (AppendEvents stub),
     ReadStreamForward = guarded s (ReadStreamForward stub),
     ReadStreamBackward = guarded s (ReadStreamBackward stub),
     StreamEventsForward = guarded s (StreamEventsForward stub),
     GetStreamVersion = guarded s (GetStreamVersion stub),
     ListStreams = guarded s (ListStreams stub),
     DeleteStream = guarded s (DeleteStream stub),
     ReadByEventTypes = guarded s (ReadByEventTypes stub),
     ReadByTags = guarded s (ReadByTags stub),
     ReadByMetadata = guarded s (ReadByMetadata stub),
     ReadAllGlobal = guarded s (ReadAllGlobal stub)\<rparr>"

lemmas streams_ops =
  streams_Append_def streams_Read_def streams_ReadBackward_def streams_Watch_def
  streams_Version_def streams_List_def streams_Delete_def streams_ReadByEventTypes_def
  streams_ReadByTags_def streams_ReadByMetadata_def streams_ReadAllGlobal_def
  streams_ReadEffects_def streams_ReadCorrelated_def streams_ReadConversation_def

lemma streams_firewall_ops [firewall]:
  fixes stub :: "'w StreamServiceClient" and s :: string
  defines "c \<equiv> streams_New stub s" and "d \<equiv> streams_New (streams_firewall s stub) s"
  shows "streams_Append d = streams_Append c"
    and "streams_Read d = streams_Read c"
    and "streams_ReadBackward d = streams_ReadBackward c"
    and "streams_Watch d = streams_Watch c"
    and "streams_Version d = streams_Version c"
    and "streams_List d = streams_List c"
    and "streams_Delete d = streams_Delete c"
    and "streams_ReadByEventTypes d = streams_ReadByEventTypes c"
    and "streams_ReadByTags d = streams_ReadByTags c"
    and "streams_ReadByMetadata d = streams_ReadByMetadata c"
    and "streams_ReadAllGlobal d = streams_ReadAllGlobal c"
    and "streams_ReadEffects d = streams_ReadEffects c"
    and "streams_ReadCorrelated d = streams_ReadCorrelated c"
    and "streams_ReadConversation d = streams_ReadConversation c"
  by (simp_all add: c_def d_def fun_eq_iff streams_ops streams_New_def streams_firewall_def)

text \<open>
  C38: \<open>WithLineage\<close> sets its keys in the map it is given and returns that same map: a caller's map
  changes. Only for \<open>nil\<close> does it make a new one. Nothing else in the heap changes, and an empty
  identifier sets nothing.
\<close>

theorem with_lineage_updates_in_place:
  "let (h', r) = WithLineage h meta causationID correlationID;
       base = (case meta of Some m \<Rightarrow> cells h m | None \<Rightarrow> Map.empty);
       base' = (if causationID = '''' then base
                else base(''causation_id'' \<mapsto> AnyString causationID));
       base'' = (if correlationID = '''' then base'
                 else base'(''correlation_id'' \<mapsto> AnyString correlationID))
   in r = (case meta of Some m \<Rightarrow> m | None \<Rightarrow> next_ref h) \<and>
      next_ref h' = (case meta of Some m \<Rightarrow> next_ref h | None \<Rightarrow> Suc (next_ref h)) \<and>
      cells h' = (cells h)(r := base'')"
  by (cases meta) (simp_all add: WithLineage_def heap_alloc_def heap_put_def Let_def
      CausationIDKey_def CorrelationIDKey_def fun_eq_iff)

end
