(* ===== verification/Dcb.thy ===== *)
theory Dcb
  imports Streams
begin

text \<open>
  Package \<open>dcb\<close>: \<^verbatim>\<open>dcb/dcb.go\<close> and \<^verbatim>\<open>dcb/ccc.go\<close>, with the messages of
  \<^verbatim>\<open>genproto/gatewayv1/reckon_dcb.pb.go\<close>. The tag filters are a recursive data type on both
  sides; the lemmas show that the translation to the wire keeps their meaning and can be undone.
\<close>

section \<open>Messages and the service stub\<close>

record pb_TagList =
  Tags :: "string list"

datatype pb_TagFilter = pb_TagFilter (Kind: "pb_TagFilter_Kind option")
  and pb_TagFilter_Kind =
    TagFilter_MatchAny "pb_TagList option"
  | TagFilter_MatchAll "pb_TagList option"
  | TagFilter_Conjunction "pb_FilterList option"
  | TagFilter_Disjunction "pb_FilterList option"
  | TagFilter_EventTypeMatch string
  and pb_FilterList = pb_FilterList (Filters: "pb_TagFilter option list")

record pb_AppendIfNoTagMatchesRequest = StoreScoped +
  TagFilter :: "pb_TagFilter option"
  SeqCutoff :: i64
  Events :: "pb_ProposedEvent option list"

record pb_Committed =
  LastSeq :: u64

record pb_Conflict =
  MaxSeq :: u64

datatype pb_AppendIfNoTagMatchesResponse_Result =
    AppendIfNoTagMatchesResponse_Committed "pb_Committed option"
  | AppendIfNoTagMatchesResponse_Conflict "pb_Conflict option"

record pb_AppendIfNoTagMatchesResponse =
  Result :: "pb_AppendIfNoTagMatchesResponse_Result option"

record pb_ReadDcbContextRequest = StoreScoped +
  TagFilter :: "pb_TagFilter option"
  BatchSize :: u64

record pb_ReadDcbContextResponse =
  Events :: "pb_RecordedEvent option list"
  MaxSeq :: i64

record pb_CccReadByPayloadRequest = StoreScoped +
  Key :: string
  Value :: string
  BatchSize :: u64

record pb_CccReadByPayloadResponse =
  Events :: "pb_RecordedEvent option list"

record pb_CccReadByPayloadHashRequest = StoreScoped +
  Keys :: strs
  Values :: strs
  BatchSize :: u64

record pb_CccReadByPayloadHashResponse =
  Events :: "pb_RecordedEvent option list"

record 'w DcbServiceClient =
  AppendIfNoTagMatches :: "ctx \<Rightarrow> pb_AppendIfNoTagMatchesRequest \<Rightarrow>
     ('w, pb_AppendIfNoTagMatchesResponse option ret) state"
  ReadDcbContext ::
    "ctx \<Rightarrow> pb_ReadDcbContextRequest \<Rightarrow> ('w, pb_ReadDcbContextResponse option ret) state"
  CccReadByPayload ::
    "ctx \<Rightarrow> pb_CccReadByPayloadRequest \<Rightarrow> ('w, pb_CccReadByPayloadResponse option ret) state"
  CccReadByPayloadHash :: "ctx \<Rightarrow> pb_CccReadByPayloadHashRequest \<Rightarrow>
     ('w, pb_CccReadByPayloadHashResponse option ret) state"

section \<open>Tag filters\<close>

text \<open>
  \<open>TagFilter\<close> is an interface with five implementations. A sub-filter of a compound filter is an
  interface value, so it may be \<open>nil\<close>.
\<close>

datatype TagFilter =
    matchAny "string list"
  | matchAll "string list"
  | eventTypeMatch string
  | conjunction "TagFilter option list"
  | disjunction "TagFilter option list"

definition MatchAny :: "string list \<Rightarrow> TagFilter option" where
  "MatchAny tags = Some (matchAny tags)"

definition MatchAll :: "string list \<Rightarrow> TagFilter option" where
  "MatchAll tags = Some (matchAll tags)"

definition EventType :: "string \<Rightarrow> TagFilter option" where
  "EventType t = Some (eventTypeMatch t)"

definition And :: "TagFilter option list \<Rightarrow> TagFilter option" where
  "And filters = Some (conjunction filters)"

definition Or :: "TagFilter option list \<Rightarrow> TagFilter option" where
  "Or filters = Some (disjunction filters)"

text \<open>
  \<open>toProto\<close>. Calling it on a \<open>nil\<close> sub-filter, which the loop of \<open>subsToFilterList\<close> does not
  guard against, panics.
\<close>

fun toProto :: "TagFilter \<Rightarrow> pb_TagFilter outcome"
  and subsToFilterList :: "TagFilter option list \<Rightarrow> pb_FilterList outcome" where
  "toProto (matchAny tags) =
     Returns (pb_TagFilter (Some (TagFilter_MatchAny (Some \<lparr>pb_TagList.Tags = tags\<rparr>))))"
| "toProto (matchAll tags) =
     Returns (pb_TagFilter (Some (TagFilter_MatchAll (Some \<lparr>pb_TagList.Tags = tags\<rparr>))))"
| "toProto (eventTypeMatch t) = Returns (pb_TagFilter (Some (TagFilter_EventTypeMatch t)))"
| "toProto (conjunction subs) =
     (case subsToFilterList subs of
        Panics \<Rightarrow> Panics
      | Returns fl \<Rightarrow> Returns (pb_TagFilter (Some (TagFilter_Conjunction (Some fl)))))"
| "toProto (disjunction subs) =
     (case subsToFilterList subs of
        Panics \<Rightarrow> Panics
      | Returns fl \<Rightarrow> Returns (pb_TagFilter (Some (TagFilter_Disjunction (Some fl)))))"
| "subsToFilterList [] = Returns (pb_FilterList [])"
| "subsToFilterList (None # subs) = Panics"
| "subsToFilterList (Some f # subs) =
     (case toProto f of
        Panics \<Rightarrow> Panics
      | Returns p \<Rightarrow> (case subsToFilterList subs of
          Panics \<Rightarrow> Panics
        | Returns fl \<Rightarrow> Returns (pb_FilterList (Some p # Filters fl))))"

section \<open>What a filter means\<close>

text \<open>
  The meaning the constructors' comments give: on an event's tags and type. The second pair gives
  the meaning of a filter on the wire, from the comments of the protocol; an absent part selects
  nothing.
\<close>

fun matches :: "TagFilter \<Rightarrow> string list \<Rightarrow> string \<Rightarrow> bool"
  and matches_all :: "TagFilter option list \<Rightarrow> string list \<Rightarrow> string \<Rightarrow> bool"
  and matches_any :: "TagFilter option list \<Rightarrow> string list \<Rightarrow> string \<Rightarrow> bool" where
  "matches (matchAny tags) ts ty = list_ex (\<lambda>t. List.member ts t) tags"
| "matches (matchAll tags) ts ty = list_all (\<lambda>t. List.member ts t) tags"
| "matches (eventTypeMatch t) ts ty = (ty = t)"
| "matches (conjunction subs) ts ty = matches_all subs ts ty"
| "matches (disjunction subs) ts ty = matches_any subs ts ty"
| "matches_all [] ts ty = True"
| "matches_all (None # subs) ts ty = False"
| "matches_all (Some f # subs) ts ty = (matches f ts ty \<and> matches_all subs ts ty)"
| "matches_any [] ts ty = False"
| "matches_any (None # subs) ts ty = matches_any subs ts ty"
| "matches_any (Some f # subs) ts ty = (matches f ts ty \<or> matches_any subs ts ty)"

fun pb_matches :: "pb_TagFilter \<Rightarrow> string list \<Rightarrow> string \<Rightarrow> bool"
  and pb_all :: "pb_TagFilter option list \<Rightarrow> string list \<Rightarrow> string \<Rightarrow> bool"
  and pb_any :: "pb_TagFilter option list \<Rightarrow> string list \<Rightarrow> string \<Rightarrow> bool" where
  "pb_matches (pb_TagFilter None) ts ty = False"
| "pb_matches (pb_TagFilter (Some (TagFilter_MatchAny tags))) ts ty =
     list_ex (\<lambda>t. List.member ts t) (Get pb_TagList.Tags [] tags)"
| "pb_matches (pb_TagFilter (Some (TagFilter_MatchAll tags))) ts ty =
     list_all (\<lambda>t. List.member ts t) (Get pb_TagList.Tags [] tags)"
| "pb_matches (pb_TagFilter (Some (TagFilter_EventTypeMatch t))) ts ty = (ty = t)"
| "pb_matches (pb_TagFilter (Some (TagFilter_Conjunction None))) ts ty = True"
| "pb_matches (pb_TagFilter (Some (TagFilter_Conjunction (Some (pb_FilterList fs))))) ts ty =
     pb_all fs ts ty"
| "pb_matches (pb_TagFilter (Some (TagFilter_Disjunction None))) ts ty = False"
| "pb_matches (pb_TagFilter (Some (TagFilter_Disjunction (Some (pb_FilterList fs))))) ts ty =
     pb_any fs ts ty"
| "pb_all [] ts ty = True"
| "pb_all (None # fs) ts ty = False"
| "pb_all (Some f # fs) ts ty = (pb_matches f ts ty \<and> pb_all fs ts ty)"
| "pb_any [] ts ty = False"
| "pb_any (None # fs) ts ty = pb_any fs ts ty"
| "pb_any (Some f # fs) ts ty = (pb_matches f ts ty \<or> pb_any fs ts ty)"

text \<open>No \<open>nil\<close> inside: the filters that can be sent.\<close>

fun nil_free :: "TagFilter \<Rightarrow> bool"
  and nil_free_list :: "TagFilter option list \<Rightarrow> bool" where
  "nil_free (conjunction subs) = nil_free_list subs"
| "nil_free (disjunction subs) = nil_free_list subs"
| "nil_free f = True"
| "nil_free_list [] = True"
| "nil_free_list (None # subs) = False"
| "nil_free_list (Some f # subs) = (nil_free f \<and> nil_free_list subs)"

text \<open>Reading a filter back from the wire.\<close>

fun fromProto :: "pb_TagFilter \<Rightarrow> TagFilter option"
  and fromProto_list :: "pb_TagFilter option list \<Rightarrow> TagFilter option list option" where
  "fromProto (pb_TagFilter (Some (TagFilter_MatchAny (Some tags)))) =
     Some (matchAny (pb_TagList.Tags tags))"
| "fromProto (pb_TagFilter (Some (TagFilter_MatchAll (Some tags)))) =
     Some (matchAll (pb_TagList.Tags tags))"
| "fromProto (pb_TagFilter (Some (TagFilter_EventTypeMatch t))) = Some (eventTypeMatch t)"
| "fromProto (pb_TagFilter (Some (TagFilter_Conjunction (Some (pb_FilterList fs))))) =
     map_option conjunction (fromProto_list fs)"
| "fromProto (pb_TagFilter (Some (TagFilter_Disjunction (Some (pb_FilterList fs))))) =
     map_option disjunction (fromProto_list fs)"
| "fromProto _ = None"
| "fromProto_list [] = Some []"
| "fromProto_list (Some f # fs) =
     (case fromProto f of
        None \<Rightarrow> None
      | Some g \<Rightarrow> map_option (\<lambda>gs. Some g # gs) (fromProto_list fs))"
| "fromProto_list (None # fs) = None"

lemma toProto_Panics:
  "toProto f = Panics \<longleftrightarrow> \<not> nil_free f"
  "subsToFilterList subs = Panics \<longleftrightarrow> \<not> nil_free_list subs"
  by (induction f and subs rule: toProto_subsToFilterList.induct)
     (auto split: outcome.splits)

lemma pb_matches_compound [simp]:
  "pb_matches (pb_TagFilter (Some (TagFilter_Conjunction (Some fl)))) ts ty = pb_all (Filters fl) ts ty"
  "pb_matches (pb_TagFilter (Some (TagFilter_Disjunction (Some fl)))) ts ty = pb_any (Filters fl) ts ty"
  by (cases fl; simp)+

lemma fromProto_compound [simp]:
  "fromProto (pb_TagFilter (Some (TagFilter_Conjunction (Some fl)))) =
     map_option conjunction (fromProto_list (Filters fl))"
  "fromProto (pb_TagFilter (Some (TagFilter_Disjunction (Some fl)))) =
     map_option disjunction (fromProto_list (Filters fl))"
  by (cases fl; simp)+

lemma toProto_matches:
  "toProto f = Returns p \<Longrightarrow> pb_matches p ts ty = matches f ts ty"
  "subsToFilterList subs = Returns fl \<Longrightarrow>
     pb_all (Filters fl) ts ty = matches_all subs ts ty \<and>
     pb_any (Filters fl) ts ty = matches_any subs ts ty"
  by (induction f and subs arbitrary: p and fl rule: toProto_subsToFilterList.induct)
     (auto split: outcome.splits)

lemma fromProto_toProto:
  "toProto f = Returns p \<Longrightarrow> fromProto p = Some f"
  "subsToFilterList subs = Returns fl \<Longrightarrow> fromProto_list (Filters fl) = Some subs"
  by (induction f and subs arbitrary: p and fl rule: toProto_subsToFilterList.induct)
     (auto split: outcome.splits)

text \<open>The wire filter of a filter that can be sent, as a codec.\<close>

interpretation tag_filter: codec toProto
  "\<lambda>r. case r of Returns p \<Rightarrow> fromProto p | Panics \<Rightarrow> None" nil_free
proof
  fix f
  assume "nil_free f"
  then obtain p where "toProto f = Returns p"
    using toProto_Panics(1) by (cases "toProto f") auto
  then show "(case toProto f of Returns p \<Rightarrow> fromProto p | Panics \<Rightarrow> None) = Some f"
    by (simp add: fromProto_toProto)
qed

section \<open>The client\<close>

definition SeqCutoffSawNothing :: i64 where "SeqCutoffSawNothing = - 1"

record dcb_ProposedEvent =
  EventID :: string
  EventType :: string
  Data :: bytes
  Metadata :: bytes
  Tags :: strs
  DataContentType :: string
  MetadataContentType :: string

definition dcb_toProto :: "dcb_ProposedEvent \<Rightarrow> pb_ProposedEvent" where
  "dcb_toProto e = \<lparr>
     pb_ProposedEvent.EventId = dcb_ProposedEvent.EventID e,
     EventType = dcb_ProposedEvent.EventType e,
     Data = dcb_ProposedEvent.Data e,
     Metadata = dcb_ProposedEvent.Metadata e,
     Tags = dcb_ProposedEvent.Tags e,
     DataContentType = dcb_ProposedEvent.DataContentType e,
     MetadataContentType = dcb_ProposedEvent.MetadataContentType e\<rparr>"

record Committed =
  LastSeq :: u64

record Conflict =
  MaxSeq :: u64

record ReadResult =
  Events :: "streams_RecordedEvent list option"
  MaxSeq :: i64

definition zero_ReadResult :: ReadResult where
  "zero_ReadResult = \<lparr>ReadResult.Events = None, MaxSeq = 0\<rparr>"

record 'w dcb_Client =
  raw :: "'w DcbServiceClient"
  store :: string

definition dcb_New :: "'w DcbServiceClient \<Rightarrow> string \<Rightarrow> 'w dcb_Client" where
  "dcb_New stub storeID = \<lparr>dcb_Client.raw = stub, store = storeID\<rparr>"

definition dcb_StoreID :: "'w dcb_Client \<Rightarrow> string" where
  "dcb_StoreID c = dcb_Client.store c"

text \<open>
  The \<open>switch\<close> of \<open>Append\<close> on the response's result. A response that is \<open>nil\<close> or has no result
  is an unknown variant.
\<close>

definition append_result ::
  "pb_AppendIfNoTagMatchesResponse option \<Rightarrow> Committed option \<times> Conflict option \<times> gerror option"
where
  "append_result resp =
     (case Get Result None resp of
        Some (AppendIfNoTagMatchesResponse_Committed r) \<Rightarrow>
          (Some \<lparr>Committed.LastSeq = Get pb_Committed.LastSeq 0 r\<rparr>, None, None)
      | Some (AppendIfNoTagMatchesResponse_Conflict r) \<Rightarrow>
          (None, Some \<lparr>Conflict.MaxSeq = Get pb_Conflict.MaxSeq 0 r\<rparr>, None)
      | None \<Rightarrow> (None, None, Some (errors_New ''dcb: unknown result variant'')))"

definition dcb_Append ::
  "'w dcb_Client \<Rightarrow> ctx \<Rightarrow> TagFilter option \<Rightarrow> i64 \<Rightarrow> dcb_ProposedEvent list \<Rightarrow>
     ('w, (Committed option \<times> Conflict option \<times> gerror option) outcome) state" where
  "dcb_Append c ctx filt cutoff events =
     (case filt of
        None \<Rightarrow> State_Monad.return (Returns (None, None, Some (errors_New ''dcb: nil filter'')))
      | Some f \<Rightarrow>
          let pe = range_append (\<lambda>e. Some (dcb_toProto e)) [] events in
          case toProto f of
            Panics \<Rightarrow> State_Monad.return Panics
          | Returns p \<Rightarrow> do {
              (resp, err) \<leftarrow> AppendIfNoTagMatches (dcb_Client.raw c) ctx \<lparr>
                  StoreScoped.StoreId = dcb_Client.store c,
                  pb_AppendIfNoTagMatchesRequest.TagFilter = Some p,
                  SeqCutoff = cutoff,
                  Events = pe\<rparr>;
              State_Monad.return (Returns (case err of
                  Some e \<Rightarrow> (None, None, Some e)
                | None \<Rightarrow> append_result resp))
            })"

definition dcb_recordedSliceFromProto ::
  "pb_RecordedEvent option list \<Rightarrow> streams_RecordedEvent list" where
  "dcb_recordedSliceFromProto ps = range_append RecordedEventFromProto [] ps"

lemma dcb_recordedSliceFromProto_eq [wire]:
  "dcb_recordedSliceFromProto ps = recordedSliceFromProto ps"
  by (simp add: dcb_recordedSliceFromProto_def recordedSliceFromProto_map range_append_map
      RecordedEventFromProto_def cong: map_cong)

definition dcb_Read ::
  "'w dcb_Client \<Rightarrow> ctx \<Rightarrow> TagFilter option \<Rightarrow> u64 \<Rightarrow> ('w, ReadResult ret outcome) state" where
  "dcb_Read c ctx filt batchSize =
     (case filt of
        None \<Rightarrow>
          State_Monad.return (Returns (zero_ReadResult, Some (errors_New ''dcb: nil filter'')))
      | Some f \<Rightarrow>
          (case toProto f of
            Panics \<Rightarrow> State_Monad.return Panics
          | Returns p \<Rightarrow> do {
              r \<leftarrow> unary (ReadDcbContext (dcb_Client.raw c) ctx \<lparr>
                    StoreScoped.StoreId = dcb_Client.store c,
                    pb_ReadDcbContextRequest.TagFilter = Some p,
                    BatchSize = batchSize\<rparr>)
                  zero_ReadResult
                  (\<lambda>resp. \<lparr>
                    ReadResult.Events =
                      Some (dcb_recordedSliceFromProto (Get pb_ReadDcbContextResponse.Events [] resp)),
                    MaxSeq = Get pb_ReadDcbContextResponse.MaxSeq 0 resp\<rparr>);
              State_Monad.return (Returns r)
            }))"

definition dcb_CccReadByPayload ::
  "'w dcb_Client \<Rightarrow> ctx \<Rightarrow> string \<Rightarrow> string \<Rightarrow> u64 \<Rightarrow>
     ('w, streams_RecordedEvent list option ret) state" where
  "dcb_CccReadByPayload c ctx key value batchSize =
     unary (CccReadByPayload (dcb_Client.raw c) ctx \<lparr>
         StoreScoped.StoreId = dcb_Client.store c, pb_CccReadByPayloadRequest.Key = key,
         Value = value, BatchSize = batchSize\<rparr>)
       None
       (\<lambda>resp. Some (dcb_recordedSliceFromProto (Get pb_CccReadByPayloadResponse.Events [] resp)))"

definition dcb_CccReadByPayloadHash ::
  "'w dcb_Client \<Rightarrow> ctx \<Rightarrow> strs \<Rightarrow> strs \<Rightarrow> u64 \<Rightarrow>
     ('w, streams_RecordedEvent list option ret) state" where
  "dcb_CccReadByPayloadHash c ctx keys vals batchSize =
     unary (CccReadByPayloadHash (dcb_Client.raw c) ctx \<lparr>
         StoreScoped.StoreId = dcb_Client.store c, Keys = keys,
         Values = vals, BatchSize = batchSize\<rparr>)
       None
       (\<lambda>resp. Some (dcb_recordedSliceFromProto
          (Get pb_CccReadByPayloadHashResponse.Events [] resp)))"

section \<open>The store firewall\<close>

definition dcb_firewall :: "string \<Rightarrow> 'w DcbServiceClient \<Rightarrow> 'w DcbServiceClient" where
  "dcb_firewall s stub = \<lparr>
     AppendIfNoTagMatches = guarded s (AppendIfNoTagMatches stub),
     ReadDcbContext = guarded s (ReadDcbContext stub),
     CccReadByPayload = guarded s (CccReadByPayload stub),
     CccReadByPayloadHash = guarded s (CccReadByPayloadHash stub)\<rparr>"

lemmas dcb_ops =
  dcb_Append_def dcb_Read_def dcb_CccReadByPayload_def dcb_CccReadByPayloadHash_def

lemma dcb_firewall_ops [firewall]:
  fixes stub :: "'w DcbServiceClient" and s :: string
  defines "c \<equiv> dcb_New stub s" and "d \<equiv> dcb_New (dcb_firewall s stub) s"
  shows "dcb_Append d = dcb_Append c"
    and "dcb_Read d = dcb_Read c"
    and "dcb_CccReadByPayload d = dcb_CccReadByPayload c"
    and "dcb_CccReadByPayloadHash d = dcb_CccReadByPayloadHash c"
  by (simp_all add: c_def d_def fun_eq_iff dcb_ops dcb_New_def dcb_firewall_def
      split: option.splits outcome.splits)

section \<open>On the wire\<close>

text \<open>
  C25: A filter that can be sent arrives as it was meant: it is sent exactly when no \<open>nil\<close> is inside
  it, what arrives selects the same events, and can be read back.
\<close>

theorem tag_filter_wire_exact:
  "case toProto f of
     Panics \<Rightarrow> \<not> nil_free f
   | Returns p \<Rightarrow> nil_free f \<and> fromProto p = Some f \<and> pb_matches p = matches f"
proof (cases "toProto f")
  case Panics
  then show ?thesis using toProto_Panics(1) [of f] by simp
next
  case (Returns p)
  then have "nil_free f" using toProto_Panics(1) [of f] by auto
  with Returns show ?thesis
    by (simp add: fromProto_toProto(1) toProto_matches(1) fun_eq_iff)
qed

end
