(* ===== verification/Decision.thy ===== *)
theory Decision
  imports Dcb
begin

text \<open>
  The decision loop of package \<open>dcb\<close> (\<^verbatim>\<open>dcb/dcb.go\<close>, package comment): read a context, decide,
  append conditionally on the context still being current. The gateway is a parameter; what the
  loop relies on is stated as laws on the stub, in the words of the comments of \<open>Append\<close> and
  \<open>Read\<close>, over an abstract log per store. A small in-memory gateway obeys both laws.
\<close>

section \<open>The gateway's contract\<close>

record dcb_entry =
  e_seq :: int
  e_tags :: "string list"
  e_type :: string

text \<open>The sequence numbers of the entries a wire filter, or a filter, selects.\<close>

definition pb_selected :: "pb_TagFilter \<Rightarrow> dcb_entry list \<Rightarrow> int list" where
  "pb_selected f log = map e_seq (filter (\<lambda>e. pb_matches f (e_tags e) (e_type e)) log)"

definition selected :: "TagFilter \<Rightarrow> dcb_entry list \<Rightarrow> int list" where
  "selected f log = map e_seq (filter (\<lambda>e. matches f (e_tags e) (e_type e)) log)"

lemma pb_selected_toProto: "toProto f = Returns p \<Longrightarrow> pb_selected p log = selected f log"
  by (simp add: pb_selected_def selected_def toProto_matches(1))

lemma selected_append [simp]: "selected f (xs @ ys) = selected f xs @ selected f ys"
  by (simp add: selected_def)

text \<open>
  The conditional append: it commits, and adds the proposed events at the end of the log, when no
  selected entry has a sequence number above the cutoff; otherwise it writes nothing and reports
  the highest selected one. Nothing is said of a call that fails.
\<close>

definition append_law :: "('w \<Rightarrow> string \<Rightarrow> dcb_entry list) \<Rightarrow> 'w DcbServiceClient \<Rightarrow> bool" where
  "append_law log stub \<longleftrightarrow> (\<forall>ctx q f w resp w'.
     pb_AppendIfNoTagMatchesRequest.TagFilter q = Some f \<longrightarrow>
     run_state (AppendIfNoTagMatches stub ctx q) w = ((resp, None), w') \<longrightarrow>
     (let st = StoreScoped.StoreId q; hits = pb_selected f (log w st) in
      if list_all (\<lambda>n. n \<le> sint (SeqCutoff q)) hits
      then \<exists>new l. log w' st = log w st @ new \<and>
        map e_type new = map (Get pb_ProposedEvent.EventType '''')
          (pb_AppendIfNoTagMatchesRequest.Events q) \<and>
        resp = Some \<lparr>Result = Some (AppendIfNoTagMatchesResponse_Committed
          (Some \<lparr>pb_Committed.LastSeq = l\<rparr>))\<rparr>
      else log w' st = log w st \<and>
        resp = Some \<lparr>Result = Some (AppendIfNoTagMatchesResponse_Conflict
          (Some \<lparr>pb_Conflict.MaxSeq = word_of_int (Max (set hits))\<rparr>))\<rparr>))"

text \<open>
  The read: it writes nothing and reports the highest sequence number of what it returns, or the
  sentinel -1 when that is nothing. \<open>took\<close> is the number of selected entries a call returns, which
  the server may cap.
\<close>

definition read_law ::
  "('w \<Rightarrow> string \<Rightarrow> dcb_entry list) \<Rightarrow> (u64 \<Rightarrow> nat) \<Rightarrow> 'w DcbServiceClient \<Rightarrow> bool" where
  "read_law log took stub \<longleftrightarrow> (\<forall>ctx q f w resp w'.
     pb_ReadDcbContextRequest.TagFilter q = Some f \<longrightarrow>
     run_state (ReadDcbContext stub ctx q) w = ((resp, None), w') \<longrightarrow>
     log w' = log w \<and>
     (let hits = take (took (pb_ReadDcbContextRequest.BatchSize q))
                   (pb_selected f (log w (StoreScoped.StoreId q))) in
      length (Get pb_ReadDcbContextResponse.Events [] resp) = length hits \<and>
      Get pb_ReadDcbContextResponse.MaxSeq 0 resp = word_of_int (Max (set (- 1 # hits)))))"

section \<open>An in-memory gateway\<close>

text \<open>The state is the log of each store; an entry's sequence number is its position.\<close>

type_synonym memory = "string \<Rightarrow> dcb_entry list"

definition mem_entries :: "nat \<Rightarrow> pb_ProposedEvent option list \<Rightarrow> dcb_entry list" where
  "mem_entries n ps = map (\<lambda>(i, p). \<lparr>e_seq = int i,
     e_tags = (case Get pb_ProposedEvent.Tags None p of None \<Rightarrow> [] | Some ts \<Rightarrow> ts),
     e_type = Get pb_ProposedEvent.EventType '''' p\<rparr>) (enumerate n ps)"

definition mem_append :: "ctx \<Rightarrow> pb_AppendIfNoTagMatchesRequest \<Rightarrow>
    (memory, pb_AppendIfNoTagMatchesResponse option ret) state" where
  "mem_append ctx q = State (\<lambda>w.
     let st = StoreScoped.StoreId q;
         hits = (case pb_AppendIfNoTagMatchesRequest.TagFilter q of
                   None \<Rightarrow> [] | Some f \<Rightarrow> pb_selected f (w st)) in
     if list_all (\<lambda>n. n \<le> sint (SeqCutoff q)) hits
     then let w' = w st @ mem_entries (length (w st)) (pb_AppendIfNoTagMatchesRequest.Events q) in
       ((Some \<lparr>Result = Some (AppendIfNoTagMatchesResponse_Committed
           (Some \<lparr>pb_Committed.LastSeq = word_of_nat (length w' - 1)\<rparr>))\<rparr>, None), w(st := w'))
     else ((Some \<lparr>Result = Some (AppendIfNoTagMatchesResponse_Conflict
           (Some \<lparr>pb_Conflict.MaxSeq = word_of_int (Max (set hits))\<rparr>))\<rparr>, None), w))"

definition mem_took :: "u64 \<Rightarrow> nat" where
  "mem_took batch = (if batch = 0 then 100 else unat batch)"

definition mem_read :: "ctx \<Rightarrow> pb_ReadDcbContextRequest \<Rightarrow>
    (memory, pb_ReadDcbContextResponse option ret) state" where
  "mem_read ctx q = State (\<lambda>w.
     let hits = take (mem_took (pb_ReadDcbContextRequest.BatchSize q))
           (case pb_ReadDcbContextRequest.TagFilter q of
              None \<Rightarrow> [] | Some f \<Rightarrow> pb_selected f (w (StoreScoped.StoreId q))) in
     ((Some \<lparr>pb_ReadDcbContextResponse.Events = map (\<lambda>_. None) hits,
        MaxSeq = word_of_int (Max (set (- 1 # hits)))\<rparr>, None), w))"

definition mem_ccc :: "'c \<Rightarrow> 'q \<Rightarrow> (memory, 'r option ret) state" where
  "mem_ccc ctx q = State_Monad.return (None, Some (errors_New ''unimplemented''))"

definition mem_stub :: "memory DcbServiceClient" where
  "mem_stub = \<lparr>AppendIfNoTagMatches = mem_append, ReadDcbContext = mem_read,
     CccReadByPayload = mem_ccc, CccReadByPayloadHash = mem_ccc\<rparr>"

lemma mem_entries_type:
  "map e_type (mem_entries n ps) = map (Get pb_ProposedEvent.EventType '''') ps"
  by (induction ps arbitrary: n) (auto simp: mem_entries_def)

lemma mem_append_law: "append_law (\<lambda>w. w) mem_stub"
  unfolding append_law_def
  by (auto simp: mem_stub_def mem_append_def Let_def mem_entries_type)

lemma mem_read_law: "read_law (\<lambda>w. w) mem_took mem_stub"
  unfolding read_law_def
  by (auto simp: mem_stub_def mem_read_def Let_def)

section \<open>The loop\<close>

lemma run_dcb_Append:
  "run_state (dcb_Append c ctx (Some f) cutoff events) w =
     (case toProto f of
        Panics \<Rightarrow> (Panics, w)
      | Returns p \<Rightarrow>
          (case run_state (AppendIfNoTagMatches (dcb_Client.raw c) ctx \<lparr>
                  StoreScoped.StoreId = dcb_Client.store c,
                  pb_AppendIfNoTagMatchesRequest.TagFilter = Some p, SeqCutoff = cutoff,
                  Events = map (\<lambda>e. Some (dcb_toProto e)) events\<rparr>) w of
             ((resp, Some e), w') \<Rightarrow> (Returns (None, None, Some e), w')
           | ((resp, None), w') \<Rightarrow> (Returns (append_result resp), w')))"
  by (simp add: dcb_Append_def range_append_map split: outcome.splits prod.splits option.splits)

lemma run_dcb_Read:
  "run_state (dcb_Read c ctx (Some f) batch) w =
     (case toProto f of
        Panics \<Rightarrow> (Panics, w)
      | Returns p \<Rightarrow>
          (case run_state (ReadDcbContext (dcb_Client.raw c) ctx \<lparr>
                  StoreScoped.StoreId = dcb_Client.store c,
                  pb_ReadDcbContextRequest.TagFilter = Some p, BatchSize = batch\<rparr>) w of
             ((resp, Some e), w') \<Rightarrow> (Returns (zero_ReadResult, Some e), w')
           | ((resp, None), w') \<Rightarrow> (Returns (\<lparr>
               ReadResult.Events =
                 Some (map recordedFromProto (Get pb_ReadDcbContextResponse.Events [] resp)),
               MaxSeq = Get pb_ReadDcbContextResponse.MaxSeq 0 resp\<rparr>, None), w')))"
  by (simp add: dcb_Read_def run_unary wire split: outcome.splits prod.splits option.splits)

lemma append_result_exclusive:
  "append_result resp = (com, con, err) \<Longrightarrow>
     \<not> (com \<noteq> None \<and> con \<noteq> None) \<and> (err = None \<longleftrightarrow> com \<noteq> None \<or> con \<noteq> None)"
  by (auto simp: append_result_def split: option.splits
      pb_AppendIfNoTagMatchesResponse_Result.splits)

text \<open>The highest of an increasing list bounds all of a longer one only when there is no more.\<close>

lemma max_bounds_iff:
  fixes xs ys :: "int list"
  assumes "sorted_wrt (<) (xs @ ys)" and "\<forall>y \<in> set ys. 0 \<le> y"
  shows "list_all (\<lambda>n. n \<le> Max (set (- 1 # xs))) (xs @ ys) \<longleftrightarrow> ys = []"
proof (cases ys)
  case (Cons y zs)
  then have "Max (set (- 1 # xs)) < y"
    using assms by (auto simp: sorted_wrt_append)
  then show ?thesis using Cons by (auto simp: not_le)
qed (auto simp: list_all_iff)

lemma max_range:
  fixes xs :: "int list"
  assumes "\<forall>x \<in> set xs. 0 \<le> x \<and> x < b" and "0 < b"
  shows "- 1 \<le> Max (set (- 1 # xs))" and "Max (set (- 1 # xs)) < b"
  using assms by auto

lemma selected_sorted: "sorted_wrt (<) (map e_seq log) \<Longrightarrow> sorted_wrt (<) (selected f log)"
  unfolding selected_def sorted_wrt_map by (rule sorted_wrt_filter)

lemma selected_subset: "set (selected f log) \<subseteq> e_seq ` set log"
  by (auto simp: selected_def)

text \<open>
  Exactly one of the committed result, the conflict and the error is returned by a conditional
  append that returns: a stale context is never mistaken for a success or for a failure.
\<close>

theorem dcb_append_exactly_one:
  assumes "run_state (dcb_Append c ctx filt cutoff events) w = (Returns (com, con, err), w')"
  shows "(com \<noteq> None \<and> con = None \<and> err = None) \<or> (com = None \<and> con \<noteq> None \<and> err = None) \<or>
    (com = None \<and> con = None \<and> err \<noteq> None)"
proof (cases filt)
  case None
  with assms show ?thesis by (auto simp: dcb_Append_def)
next
  case (Some f)
  with assms show ?thesis
    by (auto simp: run_dcb_Append split: outcome.splits prod.splits option.splits
        dest!: append_result_exclusive)
qed

theorem dcb_append_exactly_one_witness:
  "\<exists>com con err w'. run_state (dcb_Append (dcb_New mem_stub ''orders'') Background
      (Some (matchAny [''slot:42''])) 0 []) (\<lambda>_. []) = (Returns (com, con, err), w') \<and>
     (err = None \<longrightarrow> (com = None) \<noteq> (con = None))"
proof -
  obtain com con err w' where run: "run_state (dcb_Append (dcb_New mem_stub ''orders'') Background
      (Some (matchAny [''slot:42''])) 0 []) (\<lambda>_. []) = (Returns (com, con, err), w')"
    by (simp add: run_dcb_Append dcb_New_def mem_stub_def mem_append_def append_result_def
        pb_selected_def Let_def)
  with dcb_append_exactly_one [OF run] show ?thesis by blast
qed

text \<open>
  C10: On a gateway that keeps its contract, a conditional append commits exactly when no entry that
  the caller's filter matches is above the cutoff. A conflict leaves the log alone and carries the
  highest matching sequence number; a commit adds the proposed events, in order, and nothing else.
\<close>

theorem dcb_append_decides:
  assumes "append_law log stub"
    and "run_state (dcb_Append (dcb_New stub s) ctx (Some f) cutoff events) w =
      (Returns (com, con, None), w')"
  shows "(com \<noteq> None \<longleftrightarrow> list_all (\<lambda>n. n \<le> sint cutoff) (selected f (log w s))) \<and>
    (\<forall>m. con = Some m \<longrightarrow> log w' s = log w s \<and>
       Conflict.MaxSeq m = word_of_int (Max (set (selected f (log w s))))) \<and>
    (com \<noteq> None \<longrightarrow> (\<exists>new. log w' s = log w s @ new \<and>
       map e_type new = map dcb_ProposedEvent.EventType events))"
proof -
  obtain p where p: "toProto f = Returns p"
    using assms(2) by (cases "toProto f") (auto simp: run_dcb_Append)
  obtain resp where resp: "run_state (AppendIfNoTagMatches stub ctx \<lparr>
        StoreScoped.StoreId = s, pb_AppendIfNoTagMatchesRequest.TagFilter = Some p,
        SeqCutoff = cutoff, Events = map (\<lambda>e. Some (dcb_toProto e)) events\<rparr>) w =
      ((resp, None), w')" and res: "append_result resp = (com, con, None)"
    using assms(2) p by (auto simp: run_dcb_Append dcb_New_def split: prod.splits option.splits)
  note law = assms(1) [unfolded append_law_def, rule_format, OF _ resp]
  show ?thesis
  proof (cases "list_all (\<lambda>n. n \<le> sint cutoff) (selected f (log w s))")
    case True
    with law res show ?thesis
      by (auto simp: pb_selected_toProto [OF p] Let_def append_result_def dcb_toProto_def comp_def)
  next
    case False
    with law res show ?thesis
      by (auto simp: pb_selected_toProto [OF p] Let_def append_result_def)
  qed
qed

definition sample_log :: memory where
  "sample_log = (\<lambda>_. [\<lparr>e_seq = 0, e_tags = [''slot:42''], e_type = ''held''\<rparr>,
     \<lparr>e_seq = 1, e_tags = [''slot:7''], e_type = ''held''\<rparr>])"

definition sample_event :: dcb_ProposedEvent where
  "sample_event = \<lparr>dcb_ProposedEvent.EventID = '''', EventType = ''taken'', Data = ''{}'',
     Metadata = [], Tags = Some [''slot:42''], DataContentType = '''',
     MetadataContentType = ''''\<rparr>"

theorem dcb_append_decides_witness:
  "\<exists>com w'. run_state (dcb_Append (dcb_New mem_stub ''orders'') Background
     (Some (matchAny [''slot:42''])) 0 [sample_event]) sample_log = (Returns (com, None, None), w') \<and>
   com \<noteq> None"
proof -
  obtain com w' where run: "run_state (dcb_Append (dcb_New mem_stub ''orders'') Background
     (Some (matchAny [''slot:42''])) 0 [sample_event]) sample_log = (Returns (com, None, None), w')"
    by (simp add: run_dcb_Append dcb_New_def mem_stub_def mem_append_def append_result_def
        pb_selected_def Let_def sample_log_def)
  have "list_all (\<lambda>n. n \<le> sint (0 :: i64)) (selected (matchAny [''slot:42''])
      (sample_log ''orders''))"
    by (simp add: selected_def sample_log_def)
  then show ?thesis
    using dcb_append_decides [OF mem_append_law run] run by blast
qed

text \<open>
  C4: The decision loop is safe and live. An append whose cutoff is the context read before commits
  exactly when the read was not cut short by its batch size and nobody has since written an entry
  that the filter matches; a commit therefore means that the decision saw every matching entry there
  is, and a refusal that nothing was written.
\<close>

theorem dcb_decision_loop:
  assumes laws: "append_law log stub" "read_law log took stub"
    and read: "run_state (dcb_Read (dcb_New stub s) ctx (Some f) batch) w0 = (Returns (r, None), w1)"
    and others: "log w2 s = log w1 s @ others"
    and append: "run_state (dcb_Append (dcb_New stub s) ctx (Some f) (ReadResult.MaxSeq r) events) w2
      = (Returns (com, con, None), w3)"
    and order: "sorted_wrt (<) (map e_seq (log w2 s))"
    and bounds: "\<forall>e \<in> set (log w2 s). 0 \<le> e_seq e \<and> e_seq e < 2 ^ 63"
  shows "(com \<noteq> None \<longleftrightarrow>
      length (selected f (log w0 s)) \<le> took batch \<and> selected f others = []) \<and>
    (com \<noteq> None \<longrightarrow>
      map_option length (ReadResult.Events r) = Some (length (selected f (log w2 s)))) \<and>
    (com = None \<longrightarrow> log w3 s = log w2 s)"
proof -
  obtain p where p: "toProto f = Returns p"
    using read by (cases "toProto f") (auto simp: run_dcb_Read)
  obtain resp where resp: "run_state (ReadDcbContext stub ctx \<lparr>StoreScoped.StoreId = s,
        pb_ReadDcbContextRequest.TagFilter = Some p, BatchSize = batch\<rparr>) w0 = ((resp, None), w1)"
    and r: "r = \<lparr>ReadResult.Events =
        Some (map recordedFromProto (Get pb_ReadDcbContextResponse.Events [] resp)),
      MaxSeq = Get pb_ReadDcbContextResponse.MaxSeq 0 resp\<rparr>"
    using read p by (auto simp: run_dcb_Read dcb_New_def split: prod.splits option.splits)
  define hits where "hits = selected f (log w0 s)"
  note law = laws(2) [unfolded read_law_def, rule_format, OF _ resp, of p, simplified]
  from law have w1: "log w1 = log w0"
    and len: "length (Get pb_ReadDcbContextResponse.Events [] resp) = length (take (took batch) hits)"
    and max: "ReadResult.MaxSeq r = word_of_int (Max (set (- 1 # take (took batch) hits)))"
    by (auto simp: r pb_selected_toProto [OF p] Let_def hits_def)
  define rest where "rest = drop (took batch) hits @ selected f others"
  have all: "selected f (log w2 s) = take (took batch) hits @ rest"
    by (simp add: others w1 hits_def rest_def)
  have range: "\<forall>x \<in> set (take (took batch) hits @ rest). 0 \<le> x \<and> x < 2 ^ 63"
    using bounds selected_subset [of f "log w2 s"] unfolding all by blast
  then have taken: "\<forall>x \<in> set (take (took batch) hits). 0 \<le> x \<and> x < 2 ^ 63"
    by auto
  have "sint (ReadResult.MaxSeq r) = Max (set (- 1 # take (took batch) hits))"
    unfolding max
    by (rule sint_word_of_int_64 [OF order_trans [OF _ max_range(1) [OF taken]]
          max_range(2) [OF taken]]) simp_all
  then have iff: "list_all (\<lambda>n. n \<le> sint (ReadResult.MaxSeq r)) (selected f (log w2 s)) \<longleftrightarrow> rest = []"
    using max_bounds_iff [of "take (took batch) hits" rest] selected_sorted [OF order, of f] range
    by (simp only: all) auto
  have "com = None \<longrightarrow> con \<noteq> None"
    using append by (auto simp: run_dcb_Append split: outcome.splits prod.splits option.splits
        dest!: append_result_exclusive)
  then show ?thesis
    using dcb_append_decides [OF laws(1) append] iff len all
    by (auto simp: r rest_def hits_def)
qed

definition other_entry :: dcb_entry where
  "other_entry = \<lparr>e_seq = 2, e_tags = [''slot:9''], e_type = ''held''\<rparr>"

theorem dcb_decision_loop_witness:
  "\<exists>com w3. run_state (dcb_Append (dcb_New mem_stub ''orders'') Background
     (Some (matchAny [''slot:42''])) 0 [sample_event])
       (\<lambda>s. sample_log s @ [other_entry]) = (Returns (com, None, None), w3) \<and> com \<noteq> None"
proof -
  let ?c = "dcb_New mem_stub ''orders''" and ?f = "matchAny [''slot:42'']"
    and ?w2 = "\<lambda>s. sample_log s @ [other_entry]"
  obtain r where read: "run_state (dcb_Read ?c Background (Some ?f) 0) sample_log =
      (Returns (r, None), sample_log)" and r: "ReadResult.MaxSeq r = 0"
    by (simp add: run_dcb_Read dcb_New_def mem_stub_def mem_read_def Let_def pb_selected_def
        sample_log_def mem_took_def)
  obtain com w3 where app: "run_state (dcb_Append ?c Background (Some ?f) (ReadResult.MaxSeq r)
      [sample_event]) ?w2 = (Returns (com, None, None), w3)"
    by (simp add: r run_dcb_Append dcb_New_def mem_stub_def mem_append_def append_result_def
        pb_selected_def sample_log_def Let_def other_entry_def)
  have "com \<noteq> None"
    using dcb_decision_loop [OF mem_append_law mem_read_law read, of ?w2 "[other_entry]",
        OF _ app]
    by (simp add: sample_log_def other_entry_def selected_def mem_took_def)
  with app r show ?thesis by auto
qed

end
