(* ===== verification/Subscriptions.thy ===== *)
theory Subscriptions
  imports Streams
begin

text \<open>
  Package \<open>subscriptions\<close>: \<^verbatim>\<open>subscriptions/subscriptions.go\<close>, with the messages of
  \<^verbatim>\<open>genproto/gatewayv1/reckon_subscriptions.pb.go\<close>. Delivery streams reuse the goroutine of
  theory \<open>Watch\<close>; the subscription types are a codec.
\<close>

section \<open>Messages and the service stub\<close>

record pb_SubscribeRequest = StoreScoped +
  Type :: pb_enum
  Selector :: string
  SubscriptionName :: string
  StartFrom :: u64
  PoolSize :: u32

record pb_AckEventRequest = StreamScoped +
  SubscriptionName :: string
  EventNumber :: u64

record pb_CreateSubscriptionRequest = StoreScoped +
  Type :: pb_enum
  Selector :: string
  SubscriptionName :: string
  StartFrom :: u64
  PoolSize :: u32

record pb_RemoveSubscriptionRequest = StoreScoped +
  Type :: pb_enum
  Selector :: string
  SubscriptionName :: string

type_synonym pb_ListSubscriptionsRequest = StoreScoped

record pb_GetSubscriptionRequest = StoreScoped +
  SubscriptionName :: string

record pb_GetSubscriptionLagRequest = StoreScoped +
  SubscriptionName :: string

record pb_SubscriptionEvent =
  Event :: "pb_RecordedEvent option"
  Checkpoint :: u64

record pb_CreateSubscriptionResponse =
  SubscriptionId :: string

record pb_ListSubscriptionsResponse =
  Subscriptions :: "pb_SubscriptionInfo option list"

record pb_GetSubscriptionLagResponse =
  Lag :: u64
  CurrentCheckpoint :: u64
  LatestVersion :: u64

record 'w SubscriptionServiceClient =
  Subscribe ::
    "ctx \<Rightarrow> pb_SubscribeRequest \<Rightarrow> ('w, pb_SubscriptionEvent option server_stream option ret) state"
  AckEvent :: "ctx \<Rightarrow> pb_AckEventRequest \<Rightarrow> ('w, pb_Empty option ret) state"
  CreateSubscription :: "ctx \<Rightarrow> pb_CreateSubscriptionRequest \<Rightarrow>
     ('w, pb_CreateSubscriptionResponse option ret) state"
  RemoveSubscription :: "ctx \<Rightarrow> pb_RemoveSubscriptionRequest \<Rightarrow> ('w, pb_Empty option ret) state"
  ListSubscriptions :: "ctx \<Rightarrow> pb_ListSubscriptionsRequest \<Rightarrow>
     ('w, pb_ListSubscriptionsResponse option ret) state"
  GetSubscription ::
    "ctx \<Rightarrow> pb_GetSubscriptionRequest \<Rightarrow> ('w, pb_SubscriptionInfo option ret) state"
  GetSubscriptionLag :: "ctx \<Rightarrow> pb_GetSubscriptionLagRequest \<Rightarrow>
     ('w, pb_GetSubscriptionLagResponse option ret) state"

section \<open>Subscription types\<close>

text \<open>A Go string type with six named values; any other string is possible.\<close>

type_synonym SubType = string

definition TypeUnspecified :: SubType where "TypeUnspecified = ''unspecified''"
definition TypeStream :: SubType where "TypeStream = ''stream''"
definition TypeEventType :: SubType where "TypeEventType = ''event_type''"
definition TypeEventPattern :: SubType where "TypeEventPattern = ''event_pattern''"
definition TypeEventPayload :: SubType where "TypeEventPayload = ''event_payload''"
definition TypeTags :: SubType where "TypeTags = ''tags''"

lemmas SubType_defs =
  TypeUnspecified_def TypeStream_def TypeEventType_def TypeEventPattern_def
  TypeEventPayload_def TypeTags_def

definition typeToProto :: "SubType \<Rightarrow> pb_enum" where
  "typeToProto t =
     (if t = TypeStream then SUBSCRIPTION_TYPE_STREAM
      else if t = TypeEventType then SUBSCRIPTION_TYPE_EVENT_TYPE
      else if t = TypeEventPattern then SUBSCRIPTION_TYPE_EVENT_PATTERN
      else if t = TypeEventPayload then SUBSCRIPTION_TYPE_EVENT_PAYLOAD
      else if t = TypeTags then SUBSCRIPTION_TYPE_TAGS
      else SUBSCRIPTION_TYPE_UNSPECIFIED)"

definition typeFromProto :: "pb_enum \<Rightarrow> SubType" where
  "typeFromProto t =
     (if t = SUBSCRIPTION_TYPE_STREAM then TypeStream
      else if t = SUBSCRIPTION_TYPE_EVENT_TYPE then TypeEventType
      else if t = SUBSCRIPTION_TYPE_EVENT_PATTERN then TypeEventPattern
      else if t = SUBSCRIPTION_TYPE_EVENT_PAYLOAD then TypeEventPayload
      else if t = SUBSCRIPTION_TYPE_TAGS then TypeTags
      else TypeUnspecified)"

definition SubTypes :: "SubType list" where
  "SubTypes = [TypeUnspecified, TypeStream, TypeEventType, TypeEventPattern, TypeEventPayload,
     TypeTags]"

lemma typeFromProto_typeToProto:
  "typeFromProto (typeToProto t) = (if List.member SubTypes t then t else TypeUnspecified)"
  by (simp add: typeFromProto_def typeToProto_def SubTypes_def SubType_defs pb_enum_defs)

interpretation sub_type: codec typeToProto "\<lambda>t. Some (typeFromProto t)" "List.member SubTypes"
  by unfold_locales (simp add: typeFromProto_typeToProto)

section \<open>Types of the package\<close>

record SubSpec =
  Type :: SubType
  Selector :: string
  Name :: string
  StartFrom :: u64
  PoolSize :: u32

record SubInfo =
  ID :: string
  Type :: SubType
  Selector :: string
  Name :: string
  CreatedAt :: gotime
  PoolSize :: u32
  Checkpoint :: u64

definition infoFromProto :: "pb_SubscriptionInfo option \<Rightarrow> SubInfo" where
  "infoFromProto p = \<lparr>
     SubInfo.ID = Get pb_SubscriptionInfo.Id '''' p,
     Type = typeFromProto (Get pb_SubscriptionInfo.Type 0 p),
     Selector = Get pb_SubscriptionInfo.Selector '''' p,
     Name = Get pb_SubscriptionInfo.SubscriptionName '''' p,
     CreatedAt = time_UnixMilli (Get pb_SubscriptionInfo.CreatedAt 0 p),
     PoolSize = Get pb_SubscriptionInfo.PoolSize 0 p,
     Checkpoint = Get pb_SubscriptionInfo.Checkpoint 0 p\<rparr>"

text \<open>The zero value beside an error: its time is the zero time, not the epoch.\<close>

definition zero_SubInfo :: SubInfo where
  "zero_SubInfo = \<lparr>SubInfo.ID = '''', Type = '''', Selector = '''', Name = '''',
     CreatedAt = zeroTime, PoolSize = 0, Checkpoint = 0\<rparr>"

record Delivery =
  Event :: streams_RecordedEvent
  Checkpoint :: u64

record SubLag =
  Lag :: u64
  CurrentCheckpoint :: u64
  LatestVersion :: u64

definition zero_SubLag :: SubLag where
  "zero_SubLag = \<lparr>SubLag.Lag = 0, CurrentCheckpoint = 0, LatestVersion = 0\<rparr>"

text \<open>The package's own copy of \<open>recordedFromProto\<close>.\<close>

definition subs_recordedFromProto :: "pb_RecordedEvent option \<Rightarrow> streams_RecordedEvent" where
  "subs_recordedFromProto p = \<lparr>
     streams_RecordedEvent.EventID = Get pb_RecordedEvent.EventId '''' p,
     EventType = Get pb_RecordedEvent.EventType '''' p,
     StreamID = Get pb_RecordedEvent.StreamId '''' p,
     Version = Get pb_RecordedEvent.Version 0 p,
     Data = Get pb_RecordedEvent.Data [] p,
     Metadata = Get pb_RecordedEvent.Metadata [] p,
     Tags = Get pb_RecordedEvent.Tags None p,
     Timestamp = time_UnixMilli (Get pb_RecordedEvent.Timestamp 0 p),
     Epoch = time_UnixMicro (Get pb_RecordedEvent.EpochUs 0 p),
     DataContentType = Get pb_RecordedEvent.DataContentType '''' p,
     MetadataContentType = Get pb_RecordedEvent.MetadataContentType '''' p,
     PrevEventHash = Get pb_RecordedEvent.PrevEventHash [] p\<rparr>"

lemma subs_recordedFromProto_eq [wire]: "subs_recordedFromProto = recordedFromProto"
  by (simp add: fun_eq_iff subs_recordedFromProto_def recordedFromProto_def)

section \<open>The client\<close>

record 'w subs_Client =
  raw :: "'w SubscriptionServiceClient"
  store :: string

definition subs_New :: "'w SubscriptionServiceClient \<Rightarrow> string \<Rightarrow> 'w subs_Client" where
  "subs_New stub storeID = \<lparr>subs_Client.raw = stub, store = storeID\<rparr>"

definition subs_StoreID :: "'w subs_Client \<Rightarrow> string" where
  "subs_StoreID c = subs_Client.store c"

definition subs_Create :: "'w subs_Client \<Rightarrow> ctx \<Rightarrow> SubSpec \<Rightarrow> ('w, string ret) state" where
  "subs_Create c ctx spec =
     unary (CreateSubscription (subs_Client.raw c) ctx \<lparr>
         StoreScoped.StoreId = subs_Client.store c,
         pb_CreateSubscriptionRequest.Type = typeToProto (SubSpec.Type spec),
         Selector = SubSpec.Selector spec,
         SubscriptionName = SubSpec.Name spec,
         StartFrom = SubSpec.StartFrom spec,
         PoolSize = SubSpec.PoolSize spec\<rparr>)
       '''' (Get SubscriptionId '''')"

definition subs_Remove :: "'w subs_Client \<Rightarrow> ctx \<Rightarrow> SubSpec \<Rightarrow> ('w, gerror option) state" where
  "subs_Remove c ctx spec =
     unary_err (RemoveSubscription (subs_Client.raw c) ctx \<lparr>
         StoreScoped.StoreId = subs_Client.store c,
         pb_RemoveSubscriptionRequest.Type = typeToProto (SubSpec.Type spec),
         Selector = SubSpec.Selector spec,
         SubscriptionName = SubSpec.Name spec\<rparr>)"

definition subs_List :: "'w subs_Client \<Rightarrow> ctx \<Rightarrow> ('w, SubInfo list option ret) state" where
  "subs_List c ctx =
     unary (ListSubscriptions (subs_Client.raw c) ctx \<lparr>StoreScoped.StoreId = subs_Client.store c\<rparr>)
       None
       (\<lambda>resp. Some (range_append infoFromProto []
          (Get pb_ListSubscriptionsResponse.Subscriptions [] resp)))"

definition subs_Get :: "'w subs_Client \<Rightarrow> ctx \<Rightarrow> string \<Rightarrow> ('w, SubInfo ret) state" where
  "subs_Get c ctx name =
     unary (GetSubscription (subs_Client.raw c) ctx \<lparr>
         StoreScoped.StoreId = subs_Client.store c,
         pb_GetSubscriptionRequest.SubscriptionName = name\<rparr>)
       zero_SubInfo infoFromProto"

definition subs_Lag :: "'w subs_Client \<Rightarrow> ctx \<Rightarrow> string \<Rightarrow> ('w, SubLag ret) state" where
  "subs_Lag c ctx name =
     unary (GetSubscriptionLag (subs_Client.raw c) ctx \<lparr>
         StoreScoped.StoreId = subs_Client.store c,
         pb_GetSubscriptionLagRequest.SubscriptionName = name\<rparr>)
       zero_SubLag
       (\<lambda>resp. \<lparr>SubLag.Lag = Get pb_GetSubscriptionLagResponse.Lag 0 resp,
          CurrentCheckpoint = Get pb_GetSubscriptionLagResponse.CurrentCheckpoint 0 resp,
          LatestVersion = Get pb_GetSubscriptionLagResponse.LatestVersion 0 resp\<rparr>)"

definition subs_Ack ::
  "'w subs_Client \<Rightarrow> ctx \<Rightarrow> string \<Rightarrow> string \<Rightarrow> u64 \<Rightarrow> ('w, gerror option) state" where
  "subs_Ack c ctx streamID name eventNumber =
     unary_err (AckEvent (subs_Client.raw c) ctx \<lparr>
         StoreScoped.StoreId = subs_Client.store c,
         StreamScoped.StreamId = streamID,
         pb_AckEventRequest.SubscriptionName = name,
         EventNumber = eventNumber\<rparr>)"

text \<open>The conversion inside the goroutine of \<open>Subscribe\<close>.\<close>

definition deliveryFromProto :: "pb_SubscriptionEvent option \<Rightarrow> Delivery" where
  "deliveryFromProto msg = \<lparr>
     Delivery.Event = subs_recordedFromProto (Get pb_SubscriptionEvent.Event None msg),
     Checkpoint = Get pb_SubscriptionEvent.Checkpoint 0 msg\<rparr>"

definition subs_Subscribe :: "'w subs_Client \<Rightarrow> ctx \<Rightarrow> SubSpec \<Rightarrow>
    ('w, (pb_SubscriptionEvent option, Delivery) goroutine) state" where
  "subs_Subscribe c ctx spec =
     launch (Subscribe (subs_Client.raw c) ctx \<lparr>
         StoreScoped.StoreId = subs_Client.store c,
         pb_SubscribeRequest.Type = typeToProto (SubSpec.Type spec),
         Selector = SubSpec.Selector spec,
         SubscriptionName = SubSpec.Name spec,
         StartFrom = SubSpec.StartFrom spec,
         PoolSize = SubSpec.PoolSize spec\<rparr>)
       deliveryFromProto"

section \<open>The store firewall\<close>

definition subs_firewall ::
  "string \<Rightarrow> 'w SubscriptionServiceClient \<Rightarrow> 'w SubscriptionServiceClient" where
  "subs_firewall s stub = \<lparr>
     Subscribe = guarded s (Subscribe stub),
     AckEvent = guarded s (AckEvent stub),
     CreateSubscription = guarded s (CreateSubscription stub),
     RemoveSubscription = guarded s (RemoveSubscription stub),
     ListSubscriptions = guarded s (ListSubscriptions stub),
     GetSubscription = guarded s (GetSubscription stub),
     GetSubscriptionLag = guarded s (GetSubscriptionLag stub)\<rparr>"

lemmas subs_ops =
  subs_Create_def subs_Remove_def subs_List_def subs_Get_def subs_Lag_def subs_Ack_def
  subs_Subscribe_def

lemma subs_firewall_ops [firewall]:
  fixes stub :: "'w SubscriptionServiceClient" and s :: string
  defines "c \<equiv> subs_New stub s" and "d \<equiv> subs_New (subs_firewall s stub) s"
  shows "subs_Create d = subs_Create c"
    and "subs_Remove d = subs_Remove c"
    and "subs_List d = subs_List c"
    and "subs_Get d = subs_Get c"
    and "subs_Lag d = subs_Lag c"
    and "subs_Ack d = subs_Ack c"
    and "subs_Subscribe d = subs_Subscribe c"
  by (simp_all add: c_def d_def fun_eq_iff subs_ops subs_New_def subs_firewall_def)

end
