(* ===== verification/Snapshots.thy ===== *)
theory Snapshots
  imports Shared
begin

text \<open>
  Package \<open>snapshots\<close>: \<^verbatim>\<open>snapshots/snapshots.go\<close>, with the messages of
  \<^verbatim>\<open>genproto/gatewayv1/reckon_snapshots.pb.go\<close>. \<open>Latest\<close> is the one operation with a
  computation of its own; the lemmas show which record its loop selects.
\<close>

section \<open>Messages and the service stub\<close>

record SnapshotScoped = StoreScoped +
  SourceUuid :: string
  StreamUuid :: string

record pb_RecordSnapshotRequest = SnapshotScoped +
  Version :: u64
  Data :: bytes
  Metadata :: bytes

record pb_ReadSnapshotRequest = SnapshotScoped +
  Version :: u64

record pb_DeleteSnapshotRequest = SnapshotScoped +
  Version :: u64

type_synonym pb_ListSnapshotsRequest = SnapshotScoped

type_synonym pb_ListAllSnapshotsRequest = StoreScoped

record pb_ListSnapshotsResponse =
  Snapshots :: "pb_SnapshotRecord option list"

record 'w SnapshotServiceClient =
  RecordSnapshot :: "ctx \<Rightarrow> pb_RecordSnapshotRequest \<Rightarrow> ('w, pb_Empty option ret) state"
  ReadSnapshot :: "ctx \<Rightarrow> pb_ReadSnapshotRequest \<Rightarrow> ('w, pb_SnapshotRecord option ret) state"
  DeleteSnapshot :: "ctx \<Rightarrow> pb_DeleteSnapshotRequest \<Rightarrow> ('w, pb_Empty option ret) state"
  ListSnapshots ::
    "ctx \<Rightarrow> pb_ListSnapshotsRequest \<Rightarrow> ('w, pb_ListSnapshotsResponse option ret) state"
  ListAllSnapshots ::
    "ctx \<Rightarrow> pb_ListAllSnapshotsRequest \<Rightarrow> ('w, pb_ListSnapshotsResponse option ret) state"

section \<open>Types of the package\<close>

record SnapSpec =
  SourceUUID :: string
  StreamUUID :: string
  Version :: u64
  Data :: bytes
  Metadata :: bytes

record SnapRecord =
  StreamID :: string
  Version :: u64
  Data :: bytes
  Metadata :: bytes
  Timestamp :: gotime
  AnchorHash :: bytes

definition zero_SnapRecord :: SnapRecord where
  "zero_SnapRecord = \<lparr>SnapRecord.StreamID = '''', Version = 0, Data = [], Metadata = [],
     Timestamp = zeroTime, AnchorHash = []\<rparr>"

definition recordFromProto :: "pb_SnapshotRecord option \<Rightarrow> SnapRecord" where
  "recordFromProto p = \<lparr>
     SnapRecord.StreamID = Get pb_SnapshotRecord.StreamId '''' p,
     Version = Get pb_SnapshotRecord.Version 0 p,
     Data = Get pb_SnapshotRecord.Data [] p,
     Metadata = Get pb_SnapshotRecord.Metadata [] p,
     Timestamp = time_UnixMilli (Get pb_SnapshotRecord.Timestamp 0 p),
     AnchorHash = Get pb_SnapshotRecord.AnchorHash [] p\<rparr>"

definition recordsFromProto :: "pb_SnapshotRecord option list \<Rightarrow> SnapRecord list" where
  "recordsFromProto ps = range_append recordFromProto [] ps"

lemma recordsFromProto_map [wire]: "recordsFromProto ps = map recordFromProto ps"
  by (simp add: recordsFromProto_def range_append_map)

section \<open>The client\<close>

record 'w snaps_Client =
  raw :: "'w SnapshotServiceClient"
  store :: string

definition snaps_New :: "'w SnapshotServiceClient \<Rightarrow> string \<Rightarrow> 'w snaps_Client" where
  "snaps_New stub storeID = \<lparr>snaps_Client.raw = stub, store = storeID\<rparr>"

definition snaps_StoreID :: "'w snaps_Client \<Rightarrow> string" where
  "snaps_StoreID c = snaps_Client.store c"

definition snaps_Save :: "'w snaps_Client \<Rightarrow> ctx \<Rightarrow> SnapSpec \<Rightarrow> ('w, gerror option) state" where
  "snaps_Save c ctx spec =
     unary_err (RecordSnapshot (snaps_Client.raw c) ctx \<lparr>
         StoreScoped.StoreId = snaps_Client.store c,
         SourceUuid = SnapSpec.SourceUUID spec,
         StreamUuid = SnapSpec.StreamUUID spec,
         pb_RecordSnapshotRequest.Version = SnapSpec.Version spec,
         Data = SnapSpec.Data spec,
         Metadata = SnapSpec.Metadata spec\<rparr>)"

definition snaps_At ::
  "'w snaps_Client \<Rightarrow> ctx \<Rightarrow> string \<Rightarrow> string \<Rightarrow> u64 \<Rightarrow> ('w, SnapRecord ret) state" where
  "snaps_At c ctx sourceUUID streamUUID version =
     unary (ReadSnapshot (snaps_Client.raw c) ctx \<lparr>
         StoreScoped.StoreId = snaps_Client.store c,
         SourceUuid = sourceUUID, StreamUuid = streamUUID,
         pb_ReadSnapshotRequest.Version = version\<rparr>)
       zero_SnapRecord recordFromProto"

definition snaps_Delete ::
  "'w snaps_Client \<Rightarrow> ctx \<Rightarrow> string \<Rightarrow> string \<Rightarrow> u64 \<Rightarrow> ('w, gerror option) state" where
  "snaps_Delete c ctx sourceUUID streamUUID version =
     unary_err (DeleteSnapshot (snaps_Client.raw c) ctx \<lparr>
         StoreScoped.StoreId = snaps_Client.store c,
         SourceUuid = sourceUUID, StreamUuid = streamUUID,
         pb_DeleteSnapshotRequest.Version = version\<rparr>)"

definition snaps_List ::
  "'w snaps_Client \<Rightarrow> ctx \<Rightarrow> string \<Rightarrow> string \<Rightarrow> ('w, SnapRecord list option ret) state" where
  "snaps_List c ctx sourceUUID streamUUID =
     unary (ListSnapshots (snaps_Client.raw c) ctx \<lparr>
         StoreScoped.StoreId = snaps_Client.store c,
         SourceUuid = sourceUUID, StreamUuid = streamUUID\<rparr>)
       None
       (\<lambda>resp. Some (recordsFromProto (Get pb_ListSnapshotsResponse.Snapshots [] resp)))"

definition snaps_ListAll ::
  "'w snaps_Client \<Rightarrow> ctx \<Rightarrow> ('w, SnapRecord list option ret) state" where
  "snaps_ListAll c ctx =
     unary (ListAllSnapshots (snaps_Client.raw c) ctx \<lparr>
         StoreScoped.StoreId = snaps_Client.store c\<rparr>)
       None
       (\<lambda>resp. Some (recordsFromProto (Get pb_ListSnapshotsResponse.Snapshots [] resp)))"

text \<open>The loop of \<open>Latest\<close> over \<open>all[1:]\<close>, and \<open>Latest\<close>.\<close>

fun latest_loop :: "SnapRecord \<Rightarrow> SnapRecord list \<Rightarrow> SnapRecord" where
  "latest_loop latest [] = latest"
| "latest_loop latest (r # rs) =
     latest_loop (if SnapRecord.Version latest < SnapRecord.Version r then r else latest) rs"

definition snaps_Latest ::
  "'w snaps_Client \<Rightarrow> ctx \<Rightarrow> string \<Rightarrow> string \<Rightarrow> ('w, SnapRecord ret) state" where
  "snaps_Latest c ctx sourceUUID streamUUID = do {
     (all, err) \<leftarrow> snaps_List c ctx sourceUUID streamUUID;
     State_Monad.return (case err of
         Some e \<Rightarrow> (zero_SnapRecord, Some e)
       | None \<Rightarrow> (case all of
           Some (r # rs) \<Rightarrow> (latest_loop r rs, None)
         | _ \<Rightarrow> (zero_SnapRecord, None)))
   }"

section \<open>The store firewall\<close>

definition snaps_firewall ::
  "string \<Rightarrow> 'w SnapshotServiceClient \<Rightarrow> 'w SnapshotServiceClient" where
  "snaps_firewall s stub = \<lparr>
     RecordSnapshot = guarded s (RecordSnapshot stub),
     ReadSnapshot = guarded s (ReadSnapshot stub),
     DeleteSnapshot = guarded s (DeleteSnapshot stub),
     ListSnapshots = guarded s (ListSnapshots stub),
     ListAllSnapshots = guarded s (ListAllSnapshots stub)\<rparr>"

lemmas snaps_ops =
  snaps_Save_def snaps_At_def snaps_Delete_def snaps_List_def snaps_ListAll_def snaps_Latest_def

lemma snaps_firewall_ops [firewall]:
  fixes stub :: "'w SnapshotServiceClient" and s :: string
  defines "c \<equiv> snaps_New stub s" and "d \<equiv> snaps_New (snaps_firewall s stub) s"
  shows "snaps_Save d = snaps_Save c"
    and "snaps_At d = snaps_At c"
    and "snaps_Delete d = snaps_Delete c"
    and "snaps_List d = snaps_List c"
    and "snaps_ListAll d = snaps_ListAll c"
    and "snaps_Latest d = snaps_Latest c"
  by (simp_all add: c_def d_def fun_eq_iff snaps_ops snaps_New_def snaps_firewall_def)

section \<open>The latest snapshot\<close>

text \<open>
  \<open>r\<close> is the first of the records of \<open>xs\<close> with the highest version: the contract of the loop, and
  what it keeps of the records it has seen.
\<close>

definition first_highest :: "SnapRecord \<Rightarrow> SnapRecord list \<Rightarrow> bool" where
  "first_highest r xs \<longleftrightarrow> (\<exists>before after. xs = before @ r # after \<and>
     (\<forall>x \<in> set before. SnapRecord.Version x < SnapRecord.Version r) \<and>
     (\<forall>x \<in> set after. SnapRecord.Version x \<le> SnapRecord.Version r))"

lemma first_highest_single: "first_highest r [r]"
  unfolding first_highest_def by (rule exI [of _ "[]"]) simp

lemma first_highest_step:
  assumes "first_highest latest seen"
  shows "first_highest (if SnapRecord.Version latest < SnapRecord.Version r then r else latest)
    (seen @ [r])"
proof -
  obtain before after where split: "seen = before @ latest # after"
    "\<forall>x \<in> set before. SnapRecord.Version x < SnapRecord.Version latest"
    "\<forall>x \<in> set after. SnapRecord.Version x \<le> SnapRecord.Version latest"
    using assms unfolding first_highest_def by blast
  show ?thesis
  proof (cases "SnapRecord.Version latest < SnapRecord.Version r")
    case True
    with split have "\<forall>x \<in> set seen. SnapRecord.Version x < SnapRecord.Version r"
      by (auto intro: order.strict_trans le_less_trans)
    then show ?thesis
      using True unfolding first_highest_def by (intro exI [of _ seen] exI [of _ "[]"]) auto
  next
    case False
    then show ?thesis
      using split unfolding first_highest_def
      by (intro exI [of _ before] exI [of _ "after @ [r]"]) auto
  qed
qed

lemma first_highest_loop:
  "first_highest latest seen \<Longrightarrow> first_highest (latest_loop latest rs) (seen @ rs)"
proof (induction rs arbitrary: latest seen)
  case (Cons r rs)
  show ?case
    using Cons.IH [OF first_highest_step [OF Cons.prems, of r]] by simp
qed simp

lemma run_snaps_Latest:
  "run_state (snaps_Latest c ctx src str) w =
     (case run_state (ListSnapshots (snaps_Client.raw c) ctx \<lparr>
         StoreScoped.StoreId = snaps_Client.store c, SourceUuid = src, StreamUuid = str\<rparr>) w of
        ((resp, Some e), w') \<Rightarrow> ((zero_SnapRecord, Some e), w')
      | ((resp, None), w') \<Rightarrow>
          ((case map recordFromProto (Get pb_ListSnapshotsResponse.Snapshots [] resp) of
              [] \<Rightarrow> zero_SnapRecord
            | r # rs \<Rightarrow> latest_loop r rs, None), w'))"
  by (simp add: snaps_Latest_def snaps_List_def run_unary wire
      split: prod.splits option.splits list.splits)

text \<open>
  C27: \<open>Latest\<close> returns, of the snapshots the server lists, the first with the highest version; the
  zero record when there is none; and the zero record beside the error when the list call fails. The
  list call is its only call.
\<close>

theorem snaps_latest_is_highest:
  assumes "run_state (ListSnapshots stub ctx \<lparr>StoreScoped.StoreId = s, SourceUuid = src,
      StreamUuid = str\<rparr>) w = ((Some \<lparr>Snapshots = ps\<rparr>, err), w')"
    and "run_state (snaps_Latest (snaps_New stub s) ctx src str) w = ((r, err'), w'')"
  shows "w'' = w' \<and> err' = err \<and>
    (if err = None \<and> ps \<noteq> [] then first_highest r (map recordFromProto ps)
     else r = zero_SnapRecord)"
proof (cases ps)
  case Nil
  with assms show ?thesis
    by (auto simp: run_snaps_Latest snaps_New_def split: option.splits)
next
  case (Cons q qs)
  with assms first_highest_loop [OF first_highest_single [of "recordFromProto q"],
      of "map recordFromProto qs"]
  show ?thesis
    by (auto simp: run_snaps_Latest snaps_New_def split: option.splits)
qed

definition sample_list :: "pb_SnapshotRecord option list" where
  "sample_list = map (\<lambda>(v, d). Some \<lparr>pb_SnapshotRecord.StreamId = ''users-42'', Version = v,
     Data = d, Metadata = [], Timestamp = 0, AnchorHash = []\<rparr>)
       [(3, ''a''), (9, ''b''), (9, ''c''), (4, ''d'')]"

definition sample_snapshots :: "nat SnapshotServiceClient" where
  "sample_snapshots = \<lparr>
     RecordSnapshot = \<lambda>_ _. State_Monad.return (None, None),
     ReadSnapshot = \<lambda>_ _. State_Monad.return (None, None),
     DeleteSnapshot = \<lambda>_ _. State_Monad.return (None, None),
     ListSnapshots = \<lambda>_ _. State (\<lambda>w. ((Some \<lparr>Snapshots = sample_list\<rparr>, None), Suc w)),
     ListAllSnapshots = \<lambda>_ _. State_Monad.return (None, None)\<rparr>"

theorem snaps_latest_is_highest_witness:
  "\<exists>r. run_state (snaps_Latest (snaps_New sample_snapshots ''orders'') Background ''users''
      ''users-42'') 0 = ((r, None), 1) \<and> first_highest r (map recordFromProto sample_list) \<and>
    SnapRecord.Version r = 9 \<and> SnapRecord.Data r = ''b''"
proof -
  have list: "run_state (ListSnapshots sample_snapshots Background \<lparr>StoreScoped.StoreId =
      ''orders'', SourceUuid = ''users'', StreamUuid = ''users-42''\<rparr>) 0 =
      ((Some \<lparr>Snapshots = sample_list\<rparr>, None), 1)"
    by (simp add: sample_snapshots_def)
  obtain r where run: "run_state (snaps_Latest (snaps_New sample_snapshots ''orders'') Background
      ''users'' ''users-42'') 0 = ((r, None), 1)"
    and r: "SnapRecord.Version r = 9" "SnapRecord.Data r = ''b''"
    by (simp add: run_snaps_Latest snaps_New_def sample_snapshots_def sample_list_def
        recordFromProto_def)
  have "sample_list \<noteq> []" by (simp add: sample_list_def)
  with snaps_latest_is_highest [OF list run] run r show ?thesis by auto
qed

end
