(* ===== verification/Schema.thy ===== *)
theory Schema
  imports Streams
begin

text \<open>
  Package \<open>schema\<close>: \<^verbatim>\<open>schema/schema.go\<close>, with the messages of
  \<^verbatim>\<open>genproto/gatewayv1/reckon_schema.pb.go\<close>. \<open>Upcast\<close> sends recorded events back to the
  server, so this package also converts in that direction; the lemmas relate the two directions.
\<close>

section \<open>Messages and the service stub\<close>

record pb_RegisterSchemaRequest = StoreScoped +
  EventType :: string
  Schema :: bytes

record pb_UnregisterSchemaRequest = StoreScoped +
  EventType :: string

record pb_GetSchemaRequest = StoreScoped +
  EventType :: string

type_synonym pb_ListSchemasRequest = StoreScoped

record pb_GetSchemaVersionRequest = StoreScoped +
  EventType :: string

record pb_UpcastEventsRequest = StoreScoped +
  Events :: "pb_RecordedEvent option list"

record pb_GetSchemaResponse =
  EventType :: string
  Schema :: bytes
  Version :: u32

record pb_ListSchemasResponse =
  Schemas :: "pb_GetSchemaResponse option list"

record pb_GetSchemaVersionResponse =
  Version :: u32

record pb_UpcastEventsResponse =
  Events :: "pb_RecordedEvent option list"

record 'w SchemaServiceClient =
  RegisterSchema :: "ctx \<Rightarrow> pb_RegisterSchemaRequest \<Rightarrow> ('w, pb_Empty option ret) state"
  UnregisterSchema :: "ctx \<Rightarrow> pb_UnregisterSchemaRequest \<Rightarrow> ('w, pb_Empty option ret) state"
  GetSchema :: "ctx \<Rightarrow> pb_GetSchemaRequest \<Rightarrow> ('w, pb_GetSchemaResponse option ret) state"
  ListSchemas :: "ctx \<Rightarrow> pb_ListSchemasRequest \<Rightarrow> ('w, pb_ListSchemasResponse option ret) state"
  GetSchemaVersion ::
    "ctx \<Rightarrow> pb_GetSchemaVersionRequest \<Rightarrow> ('w, pb_GetSchemaVersionResponse option ret) state"
  UpcastEvents ::
    "ctx \<Rightarrow> pb_UpcastEventsRequest \<Rightarrow> ('w, pb_UpcastEventsResponse option ret) state"

section \<open>Types of the package\<close>

record Definition =
  EventType :: string
  Schema :: bytes
  Version :: u32

definition zero_Definition :: Definition where
  "zero_Definition = \<lparr>Definition.EventType = '''', Schema = [], Version = 0\<rparr>"

definition definitionFromProto :: "pb_GetSchemaResponse option \<Rightarrow> Definition" where
  "definitionFromProto p = \<lparr>
     Definition.EventType = Get pb_GetSchemaResponse.EventType '''' p,
     Schema = Get pb_GetSchemaResponse.Schema [] p,
     Version = Get pb_GetSchemaResponse.Version 0 p\<rparr>"

definition schema_toProto :: "streams_RecordedEvent \<Rightarrow> pb_RecordedEvent" where
  "schema_toProto e = \<lparr>
     pb_RecordedEvent.EventId = streams_RecordedEvent.EventID e,
     EventType = streams_RecordedEvent.EventType e,
     StreamId = streams_RecordedEvent.StreamID e,
     Version = streams_RecordedEvent.Version e,
     Data = streams_RecordedEvent.Data e,
     Metadata = streams_RecordedEvent.Metadata e,
     Tags = streams_RecordedEvent.Tags e,
     Timestamp = UnixMilli (streams_RecordedEvent.Timestamp e),
     EpochUs = UnixMicro (streams_RecordedEvent.Epoch e),
     DataContentType = streams_RecordedEvent.DataContentType e,
     MetadataContentType = streams_RecordedEvent.MetadataContentType e,
     PrevEventHash = streams_RecordedEvent.PrevEventHash e\<rparr>"

definition schema_fromProto :: "pb_RecordedEvent option \<Rightarrow> streams_RecordedEvent" where
  "schema_fromProto p = \<lparr>
     streams_RecordedEvent.EventID = Get pb_RecordedEvent.EventId '''' p,
     EventType = Get pb_RecordedEvent.EventType '''' p,
     StreamID = Get pb_RecordedEvent.StreamId '''' p,
     Version = Get pb_RecordedEvent.Version 0 p,
     Data = Get pb_RecordedEvent.Data [] p,
     Metadata = Get pb_RecordedEvent.Metadata [] p,
     Tags = Get pb_RecordedEvent.Tags None p,
     Timestamp = time_UnixMilli (Get pb_RecordedEvent.Timestamp 0 p),
     Epoch = time_UnixMicro (Get pb_RecordedEvent.EpochUs 0 p),
     DataContentType = Get pb_RecordedEvent.DataContentType '''' p,
     MetadataContentType = Get pb_RecordedEvent.MetadataContentType '''' p,
     PrevEventHash = Get pb_RecordedEvent.PrevEventHash [] p\<rparr>"

lemma schema_fromProto_eq [wire]: "schema_fromProto = recordedFromProto"
  by (simp add: fun_eq_iff schema_fromProto_def recordedFromProto_def)

section \<open>The client\<close>

record 'w schema_Client =
  raw :: "'w SchemaServiceClient"
  store :: string

definition schema_New :: "'w SchemaServiceClient \<Rightarrow> string \<Rightarrow> 'w schema_Client" where
  "schema_New stub storeID = \<lparr>schema_Client.raw = stub, store = storeID\<rparr>"

definition schema_StoreID :: "'w schema_Client \<Rightarrow> string" where
  "schema_StoreID c = schema_Client.store c"

definition schema_Register ::
  "'w schema_Client \<Rightarrow> ctx \<Rightarrow> string \<Rightarrow> bytes \<Rightarrow> ('w, gerror option) state" where
  "schema_Register c ctx eventType blob =
     unary_err (RegisterSchema (schema_Client.raw c) ctx \<lparr>
         StoreScoped.StoreId = schema_Client.store c,
         pb_RegisterSchemaRequest.EventType = eventType, Schema = blob\<rparr>)"

definition schema_Unregister ::
  "'w schema_Client \<Rightarrow> ctx \<Rightarrow> string \<Rightarrow> ('w, gerror option) state" where
  "schema_Unregister c ctx eventType =
     unary_err (UnregisterSchema (schema_Client.raw c) ctx \<lparr>
         StoreScoped.StoreId = schema_Client.store c,
         pb_UnregisterSchemaRequest.EventType = eventType\<rparr>)"

definition schema_Get :: "'w schema_Client \<Rightarrow> ctx \<Rightarrow> string \<Rightarrow> ('w, Definition ret) state" where
  "schema_Get c ctx eventType =
     unary (GetSchema (schema_Client.raw c) ctx \<lparr>
         StoreScoped.StoreId = schema_Client.store c,
         pb_GetSchemaRequest.EventType = eventType\<rparr>)
       zero_Definition definitionFromProto"

definition schema_List :: "'w schema_Client \<Rightarrow> ctx \<Rightarrow> ('w, Definition list option ret) state" where
  "schema_List c ctx =
     unary (ListSchemas (schema_Client.raw c) ctx \<lparr>StoreScoped.StoreId = schema_Client.store c\<rparr>)
       None
       (\<lambda>resp. Some (range_append definitionFromProto []
          (Get pb_ListSchemasResponse.Schemas [] resp)))"

definition schema_Version :: "'w schema_Client \<Rightarrow> ctx \<Rightarrow> string \<Rightarrow> ('w, u32 ret) state" where
  "schema_Version c ctx eventType =
     unary (GetSchemaVersion (schema_Client.raw c) ctx \<lparr>
         StoreScoped.StoreId = schema_Client.store c,
         pb_GetSchemaVersionRequest.EventType = eventType\<rparr>)
       0 (Get pb_GetSchemaVersionResponse.Version 0)"

definition schema_Upcast :: "'w schema_Client \<Rightarrow> ctx \<Rightarrow> streams_RecordedEvent list \<Rightarrow>
    ('w, streams_RecordedEvent list option ret) state" where
  "schema_Upcast c ctx events =
     (let ins = range_append (\<lambda>e. Some (schema_toProto e)) [] events in
      unary (UpcastEvents (schema_Client.raw c) ctx \<lparr>
          StoreScoped.StoreId = schema_Client.store c,
          pb_UpcastEventsRequest.Events = ins\<rparr>)
        None
        (\<lambda>resp. Some (range_append schema_fromProto []
           (Get pb_UpcastEventsResponse.Events [] resp))))"

section \<open>The store firewall\<close>

definition schema_firewall :: "string \<Rightarrow> 'w SchemaServiceClient \<Rightarrow> 'w SchemaServiceClient" where
  "schema_firewall s stub = \<lparr>
     RegisterSchema = guarded s (RegisterSchema stub),
     UnregisterSchema = guarded s (UnregisterSchema stub),
     GetSchema = guarded s (GetSchema stub),
     ListSchemas = guarded s (ListSchemas stub),
     GetSchemaVersion = guarded s (GetSchemaVersion stub),
     UpcastEvents = guarded s (UpcastEvents stub)\<rparr>"

lemmas schema_ops =
  schema_Register_def schema_Unregister_def schema_Get_def schema_List_def schema_Version_def
  schema_Upcast_def

lemma schema_firewall_ops [firewall]:
  fixes stub :: "'w SchemaServiceClient" and s :: string
  defines "c \<equiv> schema_New stub s" and "d \<equiv> schema_New (schema_firewall s stub) s"
  shows "schema_Register d = schema_Register c"
    and "schema_Unregister d = schema_Unregister c"
    and "schema_Get d = schema_Get c"
    and "schema_List d = schema_List c"
    and "schema_Version d = schema_Version c"
    and "schema_Upcast d = schema_Upcast c"
  by (simp_all add: c_def d_def fun_eq_iff schema_ops schema_New_def schema_firewall_def)

section \<open>Recorded events and the wire\<close>

text \<open>
  What the wire keeps of an event: everything, except that its time stamps are cut to milliseconds
  and microseconds. Events whose time stamps are already whole are the valid ones of a codec.
\<close>

definition wire_cut :: "streams_RecordedEvent \<Rightarrow> streams_RecordedEvent" where
  "wire_cut e = e\<lparr>
     Timestamp := cut (10 ^ 6) (streams_RecordedEvent.Timestamp e),
     Epoch := cut (10 ^ 3) (streams_RecordedEvent.Epoch e)\<rparr>"

definition in_wire_range :: "streams_RecordedEvent \<Rightarrow> bool" where
  "in_wire_range e \<longleftrightarrow> milli_range (streams_RecordedEvent.Timestamp e) \<and>
     micro_range (streams_RecordedEvent.Epoch e)"

lemma recordedFromProto_toProto:
  "in_wire_range e \<Longrightarrow> recordedFromProto (Some (schema_toProto e)) = wire_cut e"
  by (simp add: in_wire_range_def recordedFromProto_def schema_toProto_def wire_cut_def cut_def
      time_UnixMilli_UnixMilli time_UnixMicro_UnixMicro)

lemma toProto_recordedFromProto: "schema_toProto (recordedFromProto (Some p)) = p"
  by (simp add: recordedFromProto_def schema_toProto_def)

text \<open>The wire form of what the server recorded, as a codec: nothing is lost on the way in.\<close>

interpretation recorded_event: codec "\<lambda>p. recordedFromProto (Some p)"
  "\<lambda>e. Some (schema_toProto e)" "\<lambda>_. True"
  by unfold_locales (simp add: toProto_recordedFromProto)

lemma run_schema_Upcast:
  "run_state (schema_Upcast c ctx events) w =
     (case run_state (UpcastEvents (schema_Client.raw c) ctx \<lparr>
          StoreScoped.StoreId = schema_Client.store c,
          pb_UpcastEventsRequest.Events = map (\<lambda>e. Some (schema_toProto e)) events\<rparr>) w of
        ((resp, Some e), w') \<Rightarrow> ((None, Some e), w')
      | ((resp, None), w') \<Rightarrow>
          ((Some (map recordedFromProto (Get pb_UpcastEventsResponse.Events [] resp)), None), w'))"
  by (simp add: schema_Upcast_def run_unary range_append_map wire split: prod.splits option.splits)

text \<open>A recorded event as the caller sees it, field by field.\<close>

definition carries :: "pb_RecordedEvent \<Rightarrow> streams_RecordedEvent \<Rightarrow> bool" where
  "carries p e \<longleftrightarrow>
     streams_RecordedEvent.EventID e = pb_RecordedEvent.EventId p \<and>
     streams_RecordedEvent.EventType e = pb_RecordedEvent.EventType p \<and>
     streams_RecordedEvent.StreamID e = pb_RecordedEvent.StreamId p \<and>
     streams_RecordedEvent.Version e = pb_RecordedEvent.Version p \<and>
     streams_RecordedEvent.Data e = pb_RecordedEvent.Data p \<and>
     streams_RecordedEvent.Metadata e = pb_RecordedEvent.Metadata p \<and>
     streams_RecordedEvent.Tags e = pb_RecordedEvent.Tags p \<and>
     nanos (streams_RecordedEvent.Timestamp e) = sint (pb_RecordedEvent.Timestamp p) * 10 ^ 6 \<and>
     nanos (streams_RecordedEvent.Epoch e) = sint (pb_RecordedEvent.EpochUs p) * 10 ^ 3 \<and>
     streams_RecordedEvent.DataContentType e = pb_RecordedEvent.DataContentType p \<and>
     streams_RecordedEvent.MetadataContentType e = pb_RecordedEvent.MetadataContentType p \<and>
     streams_RecordedEvent.PrevEventHash e = pb_RecordedEvent.PrevEventHash p"

lemma carries_recordedFromProto: "carries p (recordedFromProto (Some p))"
  by (simp add: carries_def recordedFromProto_def time_UnixMilli_def time_UnixMicro_def)

text \<open>
  C26: Upcasting loses nothing the server recorded. Events read from the server are what it recorded,
  field by field, and upcasting them makes one call, for the store of the client, that sends the very
  messages they were read from, in order; the caller gets the events of the answer, all of them, in
  order, or the gateway's error.
\<close>

theorem schema_upcast_roundtrip:
  "let es = map (\<lambda>p. recordedFromProto (Some p)) ps in
     list_all2 carries ps es \<and>
     run_state (schema_Upcast (schema_New stub s) ctx es) w =
       (case run_state (UpcastEvents stub ctx \<lparr>StoreScoped.StoreId = s,
           pb_UpcastEventsRequest.Events = map Some ps\<rparr>) w of
          ((resp, Some e), w') \<Rightarrow> ((None, Some e), w')
        | ((resp, None), w') \<Rightarrow>
            ((Some (map recordedFromProto (Get pb_UpcastEventsResponse.Events [] resp)), None), w'))"
  by (simp add: run_schema_Upcast schema_New_def toProto_recordedFromProto comp_def list_all2_map2
      list_all2_same carries_recordedFromProto)

end
