(* ===== verification/Temporal.thy ===== *)
theory Temporal
  imports Streams
begin

text \<open>
  Package \<open>temporal\<close>: \<^verbatim>\<open>temporal/temporal.go\<close>, with the messages of
  \<^verbatim>\<open>genproto/gatewayv1/reckon_temporal.pb.go\<close>. The queries take instants and send whole
  milliseconds; the lemmas show which events, by their own time stamps, a query then asks for.
\<close>

section \<open>Messages and the service stub\<close>

record pb_ReadUntilRequest = StreamScoped +
  Timestamp :: i64
  BatchSize :: u64

record pb_ReadRangeRequest = StreamScoped +
  FromTimestamp :: i64
  ToTimestamp :: i64
  BatchSize :: u64

record pb_VersionAtRequest = StreamScoped +
  Timestamp :: i64

record pb_ReadUntilResponse =
  Events :: "pb_RecordedEvent option list"

record pb_ReadRangeResponse =
  Events :: "pb_RecordedEvent option list"

record pb_VersionAtResponse =
  Version :: i64

record 'w TemporalServiceClient =
  ReadUntil :: "ctx \<Rightarrow> pb_ReadUntilRequest \<Rightarrow> ('w, pb_ReadUntilResponse option ret) state"
  ReadRange :: "ctx \<Rightarrow> pb_ReadRangeRequest \<Rightarrow> ('w, pb_ReadRangeResponse option ret) state"
  VersionAt :: "ctx \<Rightarrow> pb_VersionAtRequest \<Rightarrow> ('w, pb_VersionAtResponse option ret) state"

section \<open>The client\<close>

record 'w temporal_Client =
  raw :: "'w TemporalServiceClient"
  store :: string

definition temporal_New :: "'w TemporalServiceClient \<Rightarrow> string \<Rightarrow> 'w temporal_Client" where
  "temporal_New stub storeID = \<lparr>temporal_Client.raw = stub, store = storeID\<rparr>"

definition temporal_StoreID :: "'w temporal_Client \<Rightarrow> string" where
  "temporal_StoreID c = temporal_Client.store c"

definition temporal_fromProto :: "pb_RecordedEvent option \<Rightarrow> streams_RecordedEvent" where
  "temporal_fromProto p = \<lparr>
     streams_RecordedEvent.EventID = Get pb_RecordedEvent.EventId '''' p,
     EventType = Get pb_RecordedEvent.EventType '''' p,
     StreamID = Get pb_RecordedEvent.StreamId '''' p,
     Version = Get pb_RecordedEvent.Version 0 p,
     Data = Get pb_RecordedEvent.Data [] p,
     Metadata = Get pb_RecordedEvent.Metadata [] p,
     Tags = Get pb_RecordedEvent.Tags None p,
     Timestamp = time_UnixMilli (Get pb_RecordedEvent.Timestamp 0 p),
     Epoch = time_UnixMicro (Get pb_RecordedEvent.EpochUs 0 p),
     DataContentType = Get pb_RecordedEvent.DataContentType '''' p,
     MetadataContentType = Get pb_RecordedEvent.MetadataContentType '''' p,
     PrevEventHash = Get pb_RecordedEvent.PrevEventHash [] p\<rparr>"

definition fromProtoSlice :: "pb_RecordedEvent option list \<Rightarrow> streams_RecordedEvent list" where
  "fromProtoSlice ps = range_append temporal_fromProto [] ps"

lemma temporal_fromProto_eq [wire]: "temporal_fromProto = recordedFromProto"
  by (simp add: fun_eq_iff temporal_fromProto_def recordedFromProto_def)

lemma fromProtoSlice_eq [wire]: "fromProtoSlice ps = map recordedFromProto ps"
  by (simp add: fromProtoSlice_def range_append_map temporal_fromProto_eq)

definition temporal_Until :: "'w temporal_Client \<Rightarrow> ctx \<Rightarrow> string \<Rightarrow> gotime \<Rightarrow> u64 \<Rightarrow>
    ('w, streams_RecordedEvent list option ret) state" where
  "temporal_Until c ctx streamID cutoff batch =
     unary (ReadUntil (temporal_Client.raw c) ctx \<lparr>
         StoreScoped.StoreId = temporal_Client.store c, StreamScoped.StreamId = streamID,
         pb_ReadUntilRequest.Timestamp = UnixMilli cutoff, BatchSize = batch\<rparr>)
       None (\<lambda>resp. Some (fromProtoSlice (Get pb_ReadUntilResponse.Events [] resp)))"

definition temporal_Range :: "'w temporal_Client \<Rightarrow> ctx \<Rightarrow> string \<Rightarrow> gotime \<Rightarrow> gotime \<Rightarrow> u64 \<Rightarrow>
    ('w, streams_RecordedEvent list option ret) state" where
  "temporal_Range c ctx streamID fromT toT batch =
     unary (ReadRange (temporal_Client.raw c) ctx \<lparr>
         StoreScoped.StoreId = temporal_Client.store c, StreamScoped.StreamId = streamID,
         FromTimestamp = UnixMilli fromT, ToTimestamp = UnixMilli toT, BatchSize = batch\<rparr>)
       None (\<lambda>resp. Some (fromProtoSlice (Get pb_ReadRangeResponse.Events [] resp)))"

definition temporal_VersionAt ::
  "'w temporal_Client \<Rightarrow> ctx \<Rightarrow> string \<Rightarrow> gotime \<Rightarrow> ('w, i64 ret) state" where
  "temporal_VersionAt c ctx streamID at =
     unary (VersionAt (temporal_Client.raw c) ctx \<lparr>
         StoreScoped.StoreId = temporal_Client.store c, StreamScoped.StreamId = streamID,
         pb_VersionAtRequest.Timestamp = UnixMilli at\<rparr>)
       0 (Get pb_VersionAtResponse.Version 0)"

section \<open>The store firewall\<close>

definition temporal_firewall ::
  "string \<Rightarrow> 'w TemporalServiceClient \<Rightarrow> 'w TemporalServiceClient" where
  "temporal_firewall s stub = \<lparr>
     ReadUntil = guarded s (ReadUntil stub),
     ReadRange = guarded s (ReadRange stub),
     VersionAt = guarded s (VersionAt stub)\<rparr>"

lemmas temporal_ops = temporal_Until_def temporal_Range_def temporal_VersionAt_def

lemma temporal_firewall_ops [firewall]:
  fixes stub :: "'w TemporalServiceClient" and s :: string
  defines "c \<equiv> temporal_New stub s" and "d \<equiv> temporal_New (temporal_firewall s stub) s"
  shows "temporal_Until d = temporal_Until c"
    and "temporal_Range d = temporal_Range c"
    and "temporal_VersionAt d = temporal_VersionAt c"
  by (simp_all add: c_def d_def fun_eq_iff temporal_ops temporal_New_def temporal_firewall_def)

section \<open>Time queries\<close>

text \<open>
  The server's side of the range query, from the package comment: of the stream's events, in order,
  those whose time stamp lies between the two bounds, both included, up to a number of entries that
  depends on the batch size. The log gives a stream's messages in order.
\<close>

definition range_law :: "('w \<Rightarrow> string \<Rightarrow> string \<Rightarrow> pb_RecordedEvent list) \<Rightarrow> (u64 \<Rightarrow> nat) \<Rightarrow>
    'w TemporalServiceClient \<Rightarrow> bool" where
  "range_law log took stub \<longleftrightarrow> (\<forall>ctx q w resp w'.
     run_state (ReadRange stub ctx q) w = ((resp, None), w') \<longrightarrow>
     Get pb_ReadRangeResponse.Events [] resp =
       map Some (take (took (pb_ReadRangeRequest.BatchSize q))
         (filter (\<lambda>p. sint (FromTimestamp q) \<le> sint (pb_RecordedEvent.Timestamp p) \<and>
              sint (pb_RecordedEvent.Timestamp p) \<le> sint (ToTimestamp q))
            (log w (StoreScoped.StoreId q) (StreamScoped.StreamId q)))))"

lemma sint_UnixMilli: "milli_range t \<Longrightarrow> sint (UnixMilli t) = nanos t div 10 ^ 6"
  by (simp add: milli_range_def UnixMilli_alt sint_word_of_int_64)

lemma le_div_int: "0 < k \<Longrightarrow> x \<le> a div k \<longleftrightarrow> x * k \<le> (a :: int)"
  by (metis div_mult_mod_eq add.commute add_increasing mult_le_cancel_right_pos
      nonzero_mult_div_cancel_right order_less_irrefl pos_mod_sign zdiv_mono1)

lemma until_bound:
  "milli_range t \<Longrightarrow> sint ms \<le> sint (UnixMilli t) \<longleftrightarrow> time_UnixMilli ms \<le> t"
  by (simp add: sint_UnixMilli less_eq_gotime_def time_UnixMilli_def le_div_int)

lemma from_bound:
  "milli_range t \<Longrightarrow> sint (UnixMilli t) \<le> sint ms \<longleftrightarrow> cut (10 ^ 6) t \<le> time_UnixMilli ms"
  by (simp add: sint_UnixMilli less_eq_gotime_def time_UnixMilli_def cut_def minus_mod_eq_div_mult)

text \<open>
  C28: A range query returns, of the stream's events in order, those between its bounds, both
  included: the upper bound counts to the nanosecond, the lower one is cut to its millisecond (an
  event in the same millisecond as \<open>from\<close> is returned even when it is earlier).
\<close>

theorem temporal_range_selects:
  assumes law: "range_law log took stub"
    and range: "milli_range fromT" "milli_range toT"
    and run: "run_state (temporal_Range (temporal_New stub s) ctx str fromT toT batch) w
      = ((evs, None), w')"
  shows "evs = Some (take (took batch)
    (filter (\<lambda>e. cut (10 ^ 6) fromT \<le> streams_RecordedEvent.Timestamp e \<and>
        streams_RecordedEvent.Timestamp e \<le> toT)
      (map (\<lambda>p. recordedFromProto (Some p)) (log w s str))))"
proof -
  obtain resp where resp: "run_state (ReadRange stub ctx \<lparr>StoreScoped.StoreId = s,
      StreamScoped.StreamId = str, FromTimestamp = UnixMilli fromT, ToTimestamp = UnixMilli toT,
      BatchSize = batch\<rparr>) w = ((resp, None), w')"
    and evs: "evs = Some (map recordedFromProto (Get pb_ReadRangeResponse.Events [] resp))"
    using run by (auto simp: temporal_Range_def run_unary temporal_New_def wire
        split: prod.splits option.splits)
  have stamp: "streams_RecordedEvent.Timestamp (recordedFromProto (Some p)) =
      time_UnixMilli (pb_RecordedEvent.Timestamp p)" for p
    by (simp add: recordedFromProto_def)
  show ?thesis
    using law [unfolded range_law_def, rule_format, OF resp]
    by (simp add: evs until_bound [OF range(2)] from_bound [OF range(1)] filter_map comp_def stamp
        take_map)
qed

definition sample_stream :: "pb_RecordedEvent list" where
  "sample_stream = map (\<lambda>ms. \<lparr>pb_RecordedEvent.EventId = '''', EventType = ''tick'',
     StreamId = ''s'', Version = 0, Data = [], Metadata = [], Tags = None, Timestamp = ms,
     EpochUs = 0, DataContentType = '''', MetadataContentType = '''', PrevEventHash = []\<rparr>)
       [1000, 2000, 3000]"

definition sample_temporal :: "unit TemporalServiceClient" where
  "sample_temporal = \<lparr>
     ReadUntil = \<lambda>_ _. State_Monad.return (None, None),
     ReadRange = \<lambda>_ q. State_Monad.return (Some \<lparr>pb_ReadRangeResponse.Events =
       map Some (take 100 (filter (\<lambda>p. sint (FromTimestamp q) \<le> sint (pb_RecordedEvent.Timestamp p) \<and>
              sint (pb_RecordedEvent.Timestamp p) \<le> sint (ToTimestamp q)) sample_stream))\<rparr>, None),
     VersionAt = \<lambda>_ _. State_Monad.return (None, None)\<rparr>"

lemma sample_temporal_law: "range_law (\<lambda>_ _ _. sample_stream) (\<lambda>_. 100) sample_temporal"
  by (simp add: range_law_def sample_temporal_def)

theorem temporal_range_selects_witness:
  "\<exists>evs. run_state (temporal_Range (temporal_New sample_temporal ''orders'') Background ''s''
      (Instant 2000000500) (Instant 2999999999) 0) () = ((Some evs, None), ()) \<and>
    map streams_RecordedEvent.Timestamp evs = [Instant 2000000000]"
proof -
  have range: "milli_range (Instant 2000000500)" "milli_range (Instant 2999999999)"
    by (simp_all add: milli_range_def)
  obtain evs where run: "run_state (temporal_Range (temporal_New sample_temporal ''orders'')
      Background ''s'' (Instant 2000000500) (Instant 2999999999) 0) () = ((evs, None), ())"
    by (simp add: temporal_Range_def run_unary temporal_New_def sample_temporal_def)
  have "evs = Some (take 100
    (filter (\<lambda>e. cut (10 ^ 6) (Instant 2000000500) \<le> streams_RecordedEvent.Timestamp e \<and>
        streams_RecordedEvent.Timestamp e \<le> Instant 2999999999)
      (map (\<lambda>p. recordedFromProto (Some p)) sample_stream)))"
    by (rule temporal_range_selects [OF sample_temporal_law range run])
  with run show ?thesis
    by (simp add: sample_stream_def recordedFromProto_def less_eq_gotime_def cut_def time_UnixMilli_def)
qed

end
