(* ===== verification/Stores.thy ===== *)
theory Stores
  imports Watch
begin

text \<open>
  Package \<open>stores\<close>: \<^verbatim>\<open>stores/stores.go\<close>, with the messages of
  \<^verbatim>\<open>genproto/gatewayv1/reckon_stores.pb.go\<close>. This client is gateway-wide: it is not bound to a
  store. Its topology stream reuses the goroutine of theory \<open>Watch\<close>.
\<close>

section \<open>Messages and the service stub\<close>

definition STORE_EVENT_TYPE_UNSPECIFIED :: pb_enum where "STORE_EVENT_TYPE_UNSPECIFIED = 0"
definition STORE_EVENT_TYPE_ANNOUNCED :: pb_enum where "STORE_EVENT_TYPE_ANNOUNCED = 1"
definition STORE_EVENT_TYPE_RETIRED :: pb_enum where "STORE_EVENT_TYPE_RETIRED = 2"
definition STORE_MODE_UNSPECIFIED :: pb_enum where "STORE_MODE_UNSPECIFIED = 0"
definition STORE_MODE_SINGLE :: pb_enum where "STORE_MODE_SINGLE = 1"
definition STORE_MODE_CLUSTER :: pb_enum where "STORE_MODE_CLUSTER = 2"

text \<open>A message without fields is the unit value.\<close>

type_synonym pb_ListStoresRequest = unit

record pb_StoreInstance =
  StoreId :: string
  Node :: string
  Mode :: pb_enum
  DataDir :: string
  TimeoutMs :: u32
  RegisteredAtUs :: i64

record pb_ListStoresResponse =
  Instances :: "pb_StoreInstance option list"

type_synonym pb_GetStoreRequest = StoreScoped

record pb_GetStoreResponse =
  Instances :: "pb_StoreInstance option list"

record pb_WatchStoresRequest =
  IncludeSnapshot :: bool

record pb_StoreEvent =
  Type :: pb_enum
  Instance :: "pb_StoreInstance option"
  EventAtUs :: i64

record 'w StoresServiceClient =
  ListStores :: "ctx \<Rightarrow> pb_ListStoresRequest \<Rightarrow> ('w, pb_ListStoresResponse option ret) state"
  GetStore :: "ctx \<Rightarrow> pb_GetStoreRequest \<Rightarrow> ('w, pb_GetStoreResponse option ret) state"
  WatchStores ::
    "ctx \<Rightarrow> pb_WatchStoresRequest \<Rightarrow> ('w, pb_StoreEvent option server_stream option ret) state"

section \<open>Types of the package\<close>

definition ModeUnspecified :: string where "ModeUnspecified = ''unspecified''"
definition ModeSingle :: string where "ModeSingle = ''single''"
definition ModeCluster :: string where "ModeCluster = ''cluster''"

definition modeFromProto :: "pb_enum \<Rightarrow> string" where
  "modeFromProto m =
     (if m = STORE_MODE_SINGLE then ModeSingle
      else if m = STORE_MODE_CLUSTER then ModeCluster
      else ModeUnspecified)"

definition EventAnnounced :: string where "EventAnnounced = ''announced''"
definition EventRetired :: string where "EventRetired = ''retired''"

definition eventTypeFromProto :: "pb_enum \<Rightarrow> string" where
  "eventTypeFromProto t = (if t = STORE_EVENT_TYPE_RETIRED then EventRetired else EventAnnounced)"

text \<open>The timeout is a \<open>time.Duration\<close>: nanoseconds in an \<open>int64\<close>.\<close>

record StoreInst =
  StoreID :: string
  Node :: string
  Mode :: string
  DataDir :: string
  Timeout :: i64
  RegisteredAt :: gotime

definition Millisecond :: i64 where "Millisecond = 1000000"

definition instanceFromProto :: "pb_StoreInstance option \<Rightarrow> StoreInst" where
  "instanceFromProto p = \<lparr>
     StoreInst.StoreID = Get pb_StoreInstance.StoreId '''' p,
     Node = Get pb_StoreInstance.Node '''' p,
     Mode = modeFromProto (Get pb_StoreInstance.Mode 0 p),
     DataDir = Get pb_StoreInstance.DataDir '''' p,
     Timeout = ucast (Get pb_StoreInstance.TimeoutMs 0 p) * Millisecond,
     RegisteredAt = time_UnixMicro (Get pb_StoreInstance.RegisteredAtUs 0 p)\<rparr>"

text \<open>The 32-bit count of milliseconds always fits: the product does not wrap.\<close>

lemma instance_timeout:
  "sint (Timeout (instanceFromProto p)) = uint (Get pb_StoreInstance.TimeoutMs 0 p) * 10 ^ 6"
proof -
  have b: "uint (Get pb_StoreInstance.TimeoutMs 0 p) < 2 ^ 32"
    using uint_lt2p [of "Get pb_StoreInstance.TimeoutMs 0 p"] by simp
  have "(ucast (Get pb_StoreInstance.TimeoutMs 0 p) :: i64) =
      word_of_int (uint (Get pb_StoreInstance.TimeoutMs 0 p))"
    by (simp add: unsigned_ucast_eq word_eq_iff_unsigned)
  then have t: "Timeout (instanceFromProto p) =
      word_of_int (uint (Get pb_StoreInstance.TimeoutMs 0 p) * 1000000)"
    by (simp add: instanceFromProto_def Millisecond_def)
  have "sint (word_of_int (uint (Get pb_StoreInstance.TimeoutMs 0 p) * 1000000) :: i64) =
      uint (Get pb_StoreInstance.TimeoutMs 0 p) * 1000000"
  proof (rule sint_word_of_int_64)
    have "0 \<le> uint (Get pb_StoreInstance.TimeoutMs 0 p)" by simp
    then have "0 \<le> uint (Get pb_StoreInstance.TimeoutMs 0 p) * 1000000" by (rule mult_nonneg_nonneg) simp
    then show "- (2 ^ 63) \<le> uint (Get pb_StoreInstance.TimeoutMs 0 p) * 1000000"
      by (rule order_trans [rotated]) simp
  qed (use b in simp)
  with t show ?thesis by (simp only:) simp
qed

record StoreEvent =
  Type :: string
  Instance :: StoreInst
  At :: gotime

definition storeEventFromProto :: "pb_StoreEvent option \<Rightarrow> StoreEvent" where
  "storeEventFromProto msg = \<lparr>
     StoreEvent.Type = eventTypeFromProto (Get pb_StoreEvent.Type 0 msg),
     Instance = instanceFromProto (Get pb_StoreEvent.Instance None msg),
     At = time_UnixMicro (Get EventAtUs 0 msg)\<rparr>"

section \<open>The client\<close>

record 'w stores_Client =
  raw :: "'w StoresServiceClient"

definition stores_New :: "'w StoresServiceClient \<Rightarrow> 'w stores_Client" where
  "stores_New stub = \<lparr>stores_Client.raw = stub\<rparr>"

definition stores_List :: "'w stores_Client \<Rightarrow> ctx \<Rightarrow> ('w, StoreInst list option ret) state" where
  "stores_List c ctx =
     unary (ListStores (stores_Client.raw c) ctx ()) None
       (\<lambda>resp. Some (range_append instanceFromProto []
          (Get pb_ListStoresResponse.Instances [] resp)))"

definition stores_Get ::
  "'w stores_Client \<Rightarrow> ctx \<Rightarrow> string \<Rightarrow> ('w, StoreInst list option ret) state" where
  "stores_Get c ctx storeID =
     unary (GetStore (stores_Client.raw c) ctx \<lparr>StoreScoped.StoreId = storeID\<rparr>) None
       (\<lambda>resp. Some (range_append instanceFromProto []
          (Get pb_GetStoreResponse.Instances [] resp)))"

record watchOpts =
  snapshot :: bool

type_synonym WatchOption = "watchOpts \<Rightarrow> watchOpts"

definition WithSnapshot :: "bool \<Rightarrow> WatchOption" where
  "WithSnapshot b = (\<lambda>w. w\<lparr>snapshot := b\<rparr>)"

definition watch_opts :: "WatchOption list \<Rightarrow> watchOpts" where
  "watch_opts options = fold (\<lambda>opt w. opt w) options \<lparr>snapshot = True\<rparr>"

definition stores_Watch :: "'w stores_Client \<Rightarrow> ctx \<Rightarrow> WatchOption list \<Rightarrow>
    ('w, (pb_StoreEvent option, StoreEvent) goroutine) state" where
  "stores_Watch c ctx options =
     launch (WatchStores (stores_Client.raw c) ctx
         \<lparr>IncludeSnapshot = snapshot (watch_opts options)\<rparr>)
       storeEventFromProto"

text \<open>The last option wins; without one the snapshot is asked for.\<close>

lemma watch_opts_last:
  "snapshot (watch_opts (map WithSnapshot bs)) = (if bs = [] then True else last bs)"
  by (induction bs rule: rev_induct) (simp_all add: watch_opts_def WithSnapshot_def)

end
