(* ===== verification/Health.thy ===== *)
theory Health
  imports Shared
begin

text \<open>
  Package \<open>health\<close>: \<^verbatim>\<open>health/health.go\<close>, with the messages of
  \<^verbatim>\<open>genproto/gatewayv1/reckon_health.pb.go\<close>. The lemmas show which verdicts the string types
  of the package can and cannot tell apart.
\<close>

section \<open>Messages and the service stub\<close>

definition HEALTH_STATUS_HEALTHY :: pb_enum where "HEALTH_STATUS_HEALTHY = 0"
definition HEALTH_STATUS_DEGRADED :: pb_enum where "HEALTH_STATUS_DEGRADED = 1"
definition HEALTH_STATUS_UNHEALTHY :: pb_enum where "HEALTH_STATUS_UNHEALTHY = 2"
definition CLUSTER_STATUS_HEALTHY :: pb_enum where "CLUSTER_STATUS_HEALTHY = 0"
definition CLUSTER_STATUS_DEGRADED :: pb_enum where "CLUSTER_STATUS_DEGRADED = 1"
definition CLUSTER_STATUS_SPLIT_BRAIN :: pb_enum where "CLUSTER_STATUS_SPLIT_BRAIN = 2"
definition CLUSTER_STATUS_NO_QUORUM :: pb_enum where "CLUSTER_STATUS_NO_QUORUM = 3"
definition MEMORY_LEVEL_LOW :: pb_enum where "MEMORY_LEVEL_LOW = 0"
definition MEMORY_LEVEL_NORMAL :: pb_enum where "MEMORY_LEVEL_NORMAL = 1"
definition MEMORY_LEVEL_HIGH :: pb_enum where "MEMORY_LEVEL_HIGH = 2"
definition MEMORY_LEVEL_CRITICAL :: pb_enum where "MEMORY_LEVEL_CRITICAL = 3"

text \<open>A \<open>float64\<close> is its IEEE bit pattern: the client only passes it on.\<close>

type_synonym float64 = "64 word"

type_synonym pb_HealthCheckRequest = StoreScoped
type_synonym pb_HealthRequest = unit
type_synonym pb_ClusterCheckRequest = StoreScoped
type_synonym pb_MemoryLevelRequest = StoreScoped
type_synonym pb_MemoryStatsRequest = StoreScoped
type_synonym pb_GetServerInfoRequest = StoreScoped

record pb_HealthCheckResponse =
  Status :: pb_enum
  Details :: "(string, string) gomap"

record pb_HealthResponse =
  Status :: pb_enum
  Stores :: "(string, u32) gomap"
  TotalWorkers :: u32
  Node :: string
  Timestamp :: i64

record pb_ClusterCheckResponse =
  Status :: pb_enum
  Details :: "(string, string) gomap"

record pb_MemoryLevelResponse =
  Level :: pb_enum

record pb_MemoryStatsResponse =
  UsedBytes :: u64
  TotalBytes :: u64
  UsagePercent :: float64
  Breakdown :: "(string, u64) gomap"

record pb_ServerInfoResponse =
  ReckonDbVersion :: string
  ReckonGatewayVersion :: string
  IntegrityAlgo :: string
  IntegrityEnabled :: bool
  HmacKeyId :: u32
  ApiCompatibilityVersion :: string

record 'w HealthServiceClient =
  Check :: "ctx \<Rightarrow> pb_HealthCheckRequest \<Rightarrow> ('w, pb_HealthCheckResponse option ret) state"
  Health :: "ctx \<Rightarrow> pb_HealthRequest \<Rightarrow> ('w, pb_HealthResponse option ret) state"
  VerifyClusterConsistency ::
    "ctx \<Rightarrow> pb_ClusterCheckRequest \<Rightarrow> ('w, pb_ClusterCheckResponse option ret) state"
  VerifyMembershipConsensus ::
    "ctx \<Rightarrow> pb_ClusterCheckRequest \<Rightarrow> ('w, pb_ClusterCheckResponse option ret) state"
  CheckRaftLogConsistency ::
    "ctx \<Rightarrow> pb_ClusterCheckRequest \<Rightarrow> ('w, pb_ClusterCheckResponse option ret) state"
  GetMemoryLevel :: "ctx \<Rightarrow> pb_MemoryLevelRequest \<Rightarrow> ('w, pb_MemoryLevelResponse option ret) state"
  GetMemoryStats :: "ctx \<Rightarrow> pb_MemoryStatsRequest \<Rightarrow> ('w, pb_MemoryStatsResponse option ret) state"
  GetServerInfo :: "ctx \<Rightarrow> pb_GetServerInfoRequest \<Rightarrow> ('w, pb_ServerInfoResponse option ret) state"

section \<open>Types of the package\<close>

definition StatusHealthy :: string where "StatusHealthy = ''healthy''"
definition StatusDegraded :: string where "StatusDegraded = ''degraded''"
definition StatusUnhealthy :: string where "StatusUnhealthy = ''unhealthy''"
definition StatusUnknown :: string where "StatusUnknown = ''unknown''"

definition statusFromProto :: "pb_enum \<Rightarrow> string" where
  "statusFromProto s =
     (if s = HEALTH_STATUS_HEALTHY then StatusHealthy
      else if s = HEALTH_STATUS_DEGRADED then StatusDegraded
      else if s = HEALTH_STATUS_UNHEALTHY then StatusUnhealthy
      else StatusUnknown)"

definition ClusterHealthy :: string where "ClusterHealthy = ''healthy''"
definition ClusterDegraded :: string where "ClusterDegraded = ''degraded''"
definition ClusterUnhealthy :: string where "ClusterUnhealthy = ''unhealthy''"

definition clusterStatusFromProto :: "pb_enum \<Rightarrow> string" where
  "clusterStatusFromProto s =
     (if s = CLUSTER_STATUS_HEALTHY then ClusterHealthy
      else if s = CLUSTER_STATUS_DEGRADED then ClusterDegraded
      else ClusterUnhealthy)"

definition MemoryNormal :: string where "MemoryNormal = ''normal''"
definition MemoryHigh :: string where "MemoryHigh = ''high''"
definition MemoryCritical :: string where "MemoryCritical = ''critical''"

definition memoryLevelFromProto :: "pb_enum \<Rightarrow> string" where
  "memoryLevelFromProto l =
     (if l = MEMORY_LEVEL_HIGH then MemoryHigh
      else if l = MEMORY_LEVEL_CRITICAL then MemoryCritical
      else MemoryNormal)"

lemmas health_enum_defs =
  HEALTH_STATUS_HEALTHY_def HEALTH_STATUS_DEGRADED_def HEALTH_STATUS_UNHEALTHY_def
  CLUSTER_STATUS_HEALTHY_def CLUSTER_STATUS_DEGRADED_def CLUSTER_STATUS_SPLIT_BRAIN_def
  CLUSTER_STATUS_NO_QUORUM_def MEMORY_LEVEL_LOW_def MEMORY_LEVEL_NORMAL_def
  MEMORY_LEVEL_HIGH_def MEMORY_LEVEL_CRITICAL_def
  StatusHealthy_def StatusDegraded_def StatusUnhealthy_def StatusUnknown_def
  ClusterHealthy_def ClusterDegraded_def ClusterUnhealthy_def
  MemoryNormal_def MemoryHigh_def MemoryCritical_def

record CheckResult =
  Status :: string
  Details :: "(string, string) gomap"

definition zero_CheckResult :: CheckResult where
  "zero_CheckResult = \<lparr>CheckResult.Status = '''', Details = None\<rparr>"

record HealthResult =
  Status :: string
  Stores :: "(string, u32) gomap"
  TotalWorkers :: u32
  Node :: string
  Timestamp :: gotime

definition zero_HealthResult :: HealthResult where
  "zero_HealthResult = \<lparr>HealthResult.Status = '''', Stores = None, TotalWorkers = 0, Node = '''',
     Timestamp = zeroTime\<rparr>"

record ClusterResult =
  Status :: string
  Details :: "(string, string) gomap"

definition zero_ClusterResult :: ClusterResult where
  "zero_ClusterResult = \<lparr>ClusterResult.Status = '''', Details = None\<rparr>"

record MemoryStats =
  UsedBytes :: u64
  TotalBytes :: u64
  UsagePercent :: float64
  Breakdown :: "(string, u64) gomap"

definition zero_MemoryStats :: MemoryStats where
  "zero_MemoryStats = \<lparr>MemoryStats.UsedBytes = 0, TotalBytes = 0, UsagePercent = 0,
     Breakdown = None\<rparr>"

record ServerInfo =
  ReckonDbVersion :: string
  ReckonGatewayVersion :: string
  APICompatibilityVersion :: string
  IntegrityEnabled :: bool
  IntegrityAlgo :: string
  HmacKeyId :: u32

definition zero_ServerInfo :: ServerInfo where
  "zero_ServerInfo = \<lparr>ServerInfo.ReckonDbVersion = '''', ReckonGatewayVersion = '''',
     APICompatibilityVersion = '''', IntegrityEnabled = False, IntegrityAlgo = '''', HmacKeyId = 0\<rparr>"

section \<open>The client\<close>

record 'w health_Client =
  raw :: "'w HealthServiceClient"
  store :: string

definition health_New :: "'w HealthServiceClient \<Rightarrow> string \<Rightarrow> 'w health_Client" where
  "health_New stub storeID = \<lparr>health_Client.raw = stub, store = storeID\<rparr>"

definition health_StoreID :: "'w health_Client \<Rightarrow> string" where
  "health_StoreID c = health_Client.store c"

definition health_Check :: "'w health_Client \<Rightarrow> ctx \<Rightarrow> ('w, CheckResult ret) state" where
  "health_Check c ctx =
     unary (Check (health_Client.raw c) ctx \<lparr>StoreScoped.StoreId = health_Client.store c\<rparr>)
       zero_CheckResult
       (\<lambda>resp. \<lparr>CheckResult.Status = statusFromProto (Get pb_HealthCheckResponse.Status 0 resp),
          Details = Get pb_HealthCheckResponse.Details None resp\<rparr>)"

definition health_Health :: "'w health_Client \<Rightarrow> ctx \<Rightarrow> ('w, HealthResult ret) state" where
  "health_Health c ctx =
     unary (Health (health_Client.raw c) ctx ())
       zero_HealthResult
       (\<lambda>resp. \<lparr>HealthResult.Status = statusFromProto (Get pb_HealthResponse.Status 0 resp),
          Stores = Get pb_HealthResponse.Stores None resp,
          TotalWorkers = Get pb_HealthResponse.TotalWorkers 0 resp,
          Node = Get pb_HealthResponse.Node '''' resp,
          Timestamp = time_UnixMilli (Get pb_HealthResponse.Timestamp 0 resp)\<rparr>)"

definition health_clusterCheck :: "'w health_Client \<Rightarrow> ctx \<Rightarrow>
    (ctx \<Rightarrow> pb_ClusterCheckRequest \<Rightarrow> ('w, pb_ClusterCheckResponse option ret) state) \<Rightarrow>
    ('w, ClusterResult ret) state" where
  "health_clusterCheck c ctx fn =
     unary (fn ctx \<lparr>StoreScoped.StoreId = health_Client.store c\<rparr>)
       zero_ClusterResult
       (\<lambda>resp. \<lparr>
          ClusterResult.Status = clusterStatusFromProto (Get pb_ClusterCheckResponse.Status 0 resp),
          Details = Get pb_ClusterCheckResponse.Details None resp\<rparr>)"

definition health_ClusterConsistency ::
  "'w health_Client \<Rightarrow> ctx \<Rightarrow> ('w, ClusterResult ret) state" where
  "health_ClusterConsistency c ctx =
     health_clusterCheck c ctx (VerifyClusterConsistency (health_Client.raw c))"

definition health_MembershipConsensus ::
  "'w health_Client \<Rightarrow> ctx \<Rightarrow> ('w, ClusterResult ret) state" where
  "health_MembershipConsensus c ctx =
     health_clusterCheck c ctx (VerifyMembershipConsensus (health_Client.raw c))"

definition health_RaftLogConsistency ::
  "'w health_Client \<Rightarrow> ctx \<Rightarrow> ('w, ClusterResult ret) state" where
  "health_RaftLogConsistency c ctx =
     health_clusterCheck c ctx (CheckRaftLogConsistency (health_Client.raw c))"

definition health_MemoryLevel :: "'w health_Client \<Rightarrow> ctx \<Rightarrow> ('w, string ret) state" where
  "health_MemoryLevel c ctx =
     unary (GetMemoryLevel (health_Client.raw c) ctx \<lparr>StoreScoped.StoreId = health_Client.store c\<rparr>)
       MemoryNormal (\<lambda>resp. memoryLevelFromProto (Get Level 0 resp))"

definition health_MemoryStats :: "'w health_Client \<Rightarrow> ctx \<Rightarrow> ('w, MemoryStats ret) state" where
  "health_MemoryStats c ctx =
     unary (GetMemoryStats (health_Client.raw c) ctx \<lparr>StoreScoped.StoreId = health_Client.store c\<rparr>)
       zero_MemoryStats
       (\<lambda>resp. \<lparr>MemoryStats.UsedBytes = Get pb_MemoryStatsResponse.UsedBytes 0 resp,
          TotalBytes = Get pb_MemoryStatsResponse.TotalBytes 0 resp,
          UsagePercent = Get pb_MemoryStatsResponse.UsagePercent 0 resp,
          Breakdown = Get pb_MemoryStatsResponse.Breakdown None resp\<rparr>)"

definition health_ServerInfo :: "'w health_Client \<Rightarrow> ctx \<Rightarrow> ('w, ServerInfo ret) state" where
  "health_ServerInfo c ctx =
     unary (GetServerInfo (health_Client.raw c) ctx \<lparr>StoreScoped.StoreId = health_Client.store c\<rparr>)
       zero_ServerInfo
       (\<lambda>resp. \<lparr>
          ServerInfo.ReckonDbVersion = Get pb_ServerInfoResponse.ReckonDbVersion '''' resp,
          ReckonGatewayVersion = Get pb_ServerInfoResponse.ReckonGatewayVersion '''' resp,
          APICompatibilityVersion = Get pb_ServerInfoResponse.ApiCompatibilityVersion '''' resp,
          IntegrityEnabled = Get pb_ServerInfoResponse.IntegrityEnabled False resp,
          IntegrityAlgo = Get pb_ServerInfoResponse.IntegrityAlgo '''' resp,
          HmacKeyId = Get pb_ServerInfoResponse.HmacKeyId 0 resp\<rparr>)"

section \<open>The store firewall\<close>

text \<open>\<open>Health\<close> is gateway-wide: its request names no store, so the firewall lets it through.\<close>

definition health_firewall :: "string \<Rightarrow> 'w HealthServiceClient \<Rightarrow> 'w HealthServiceClient" where
  "health_firewall s stub = \<lparr>
     Check = guarded s (Check stub),
     Health = Health stub,
     VerifyClusterConsistency = guarded s (VerifyClusterConsistency stub),
     VerifyMembershipConsensus = guarded s (VerifyMembershipConsensus stub),
     CheckRaftLogConsistency = guarded s (CheckRaftLogConsistency stub),
     GetMemoryLevel = guarded s (GetMemoryLevel stub),
     GetMemoryStats = guarded s (GetMemoryStats stub),
     GetServerInfo = guarded s (GetServerInfo stub)\<rparr>"

lemmas health_ops =
  health_Check_def health_Health_def health_clusterCheck_def health_ClusterConsistency_def
  health_MembershipConsensus_def health_RaftLogConsistency_def health_MemoryLevel_def
  health_MemoryStats_def health_ServerInfo_def

lemma health_firewall_ops [firewall]:
  fixes stub :: "'w HealthServiceClient" and s :: string
  defines "c \<equiv> health_New stub s" and "d \<equiv> health_New (health_firewall s stub) s"
  shows "health_Check d = health_Check c"
    and "health_Health d = health_Health c"
    and "health_ClusterConsistency d = health_ClusterConsistency c"
    and "health_MembershipConsensus d = health_MembershipConsensus c"
    and "health_RaftLogConsistency d = health_RaftLogConsistency c"
    and "health_MemoryLevel d = health_MemoryLevel c"
    and "health_MemoryStats d = health_MemoryStats c"
    and "health_ServerInfo d = health_ServerInfo c"
  by (simp_all add: c_def d_def fun_eq_iff health_ops health_New_def health_firewall_def)

section \<open>Verdicts\<close>

text \<open>
  A store's verdict is exact on the declared values and \<open>unknown\<close> outside them. A cluster verdict is
  conservative: it is \<open>healthy\<close> for that value alone, and every undeclared value is \<open>unhealthy\<close>.
\<close>

lemma statusFromProto_cases:
  "statusFromProto s = StatusHealthy \<longleftrightarrow> s = HEALTH_STATUS_HEALTHY"
  "statusFromProto s = StatusUnknown \<longleftrightarrow> s \<notin> {0, 1, 2}"
  by (auto simp: statusFromProto_def health_enum_defs)

lemma clusterStatusFromProto_healthy:
  "clusterStatusFromProto s = ClusterHealthy \<longleftrightarrow> s = CLUSTER_STATUS_HEALTHY"
  by (simp add: clusterStatusFromProto_def health_enum_defs)

lemma memoryLevelFromProto_critical:
  "memoryLevelFromProto l = MemoryCritical \<longleftrightarrow> l = MEMORY_LEVEL_CRITICAL"
  by (simp add: memoryLevelFromProto_def health_enum_defs)

end
