(* ===== verification/Strconv.thy ===== *)
theory Strconv
  imports GoPrelude
begin

text \<open>
  The parts of Go's packages \<open>strconv\<close>, \<open>strings\<close> and \<open>fmt\<close> the program uses: decimal numbers,
  \<open>ParseUint\<close>, \<open>ParseInt\<close> and \<open>ParseBool\<close>, \<open>Cut\<close>, \<open>Split\<close>, \<open>TrimSpace\<close> and messages built by
  \<open>Sprintf\<close>.
\<close>

section \<open>Digits\<close>

definition isDigit :: "char \<Rightarrow> bool" where
  "isDigit c \<longleftrightarrow> 48 \<le> (of_char c :: nat) \<and> (of_char c :: nat) \<le> 57"

definition digitVal :: "char \<Rightarrow> nat" where
  "digitVal c = of_char c - 48"

definition digit :: "nat \<Rightarrow> char" where
  "digit d = char_of (48 + d)"

lemma of_char_digit [simp]: "d < 10 \<Longrightarrow> of_char (digit d) = 48 + d"
  by (simp add: digit_def)

lemma digit_simps [simp]:
  "d < 10 \<Longrightarrow> isDigit (digit d)"
  "d < 10 \<Longrightarrow> digitVal (digit d) = d"
  by (simp_all add: isDigit_def digitVal_def)

lemma digit_neq [simp]:
  "d < 10 \<Longrightarrow> digit d \<noteq> CHR ''-''" "d < 10 \<Longrightarrow> digit d \<noteq> CHR ''+''"
  "d < 10 \<Longrightarrow> digit d \<noteq> CHR '':''" "d < 10 \<Longrightarrow> digit d \<noteq> CHR ''Z''"
  "d < 10 \<Longrightarrow> digit d \<noteq> CHR ''.''" "d < 10 \<Longrightarrow> digit d \<noteq> CHR '',''"
  "d < 10 \<Longrightarrow> digit d \<noteq> CHR ''T''"
  by (auto dest!: arg_cong [of _ _ "of_char :: char \<Rightarrow> nat"])

fun dec :: "nat \<Rightarrow> string" where
  "dec n = (if n < 10 then [digit n] else dec (n div 10) @ [digit (n mod 10)])"

declare dec.simps [simp del]

definition decInt :: "int \<Rightarrow> string" where
  "decInt i = (if i < 0 then CHR ''-'' # dec (nat (- i)) else dec (nat i))"

text \<open>The value of a string of digits, most significant first, after \<open>n\<close>.\<close>

fun undec :: "nat \<Rightarrow> string \<Rightarrow> nat" where
  "undec n [] = n"
| "undec n (c # cs) = undec (10 * n + digitVal c) cs"

lemma undec_append: "undec n (xs @ ys) = undec (undec n xs) ys"
  by (induction xs arbitrary: n) auto

lemma dec_digits: "list_all isDigit (dec n) \<and> dec n \<noteq> [] \<and> undec 0 (dec n) = n"
proof (induction n rule: dec.induct)
  case (1 n)
  show ?case
    using 1 by (cases "n < 10") (simp_all add: dec.simps [of n] undec_append)
qed

section \<open>\<open>ParseUint\<close>, \<open>ParseInt\<close>, \<open>ParseBool\<close>\<close>

text \<open>
  \<open>ErrSyntax\<close> and \<open>ErrRange\<close>. The scan below keeps \<open>n\<close> unbounded and fails when it leaves 64 bits,
  which is when the library's test on its wrapping \<open>uint64\<close> fails.
\<close>

datatype numErr = ErrSyntax | ErrRange

definition lower :: "char \<Rightarrow> nat" where
  "lower c = or (of_char c) (32 :: nat)"

definition alnum_val :: "char \<Rightarrow> nat option" where
  "alnum_val c =
     (if isDigit c then Some (digitVal c)
      else if 97 \<le> lower c \<and> lower c \<le> 122 then Some (lower c - 97 + 10)
      else None)"

fun scan_uint :: "nat \<Rightarrow> bool \<Rightarrow> nat \<Rightarrow> string \<Rightarrow> numErr + nat" where
  "scan_uint base base0 n [] = Inr n"
| "scan_uint base base0 n (c # cs) =
     (if c = CHR ''_'' \<and> base0 then scan_uint base base0 n cs
      else case alnum_val c of
          None \<Rightarrow> Inl ErrSyntax
        | Some d \<Rightarrow>
            if base \<le> d then Inl ErrSyntax
            else if 2 ^ 64 \<le> n * base + d then Inl ErrRange
            else scan_uint base base0 (n * base + d) cs)"

datatype underscore_class = UStart | UDigit | UUnder | UOther

fun underscore_scan :: "bool \<Rightarrow> underscore_class \<Rightarrow> string \<Rightarrow> bool" where
  "underscore_scan hex i [] = (i \<noteq> UUnder)"
| "underscore_scan hex i (c # cs) =
     (if isDigit c \<or> hex \<and> 97 \<le> lower c \<and> lower c \<le> 102 then underscore_scan hex UDigit cs
      else if c = CHR ''_'' then (if i \<noteq> UDigit then False else underscore_scan hex UUnder cs)
      else if i = UUnder then False
      else underscore_scan hex UOther cs)"

definition underscoreOK :: "string \<Rightarrow> bool" where
  "underscoreOK s0 =
     (let s = (case s0 of c # cs \<Rightarrow> if c = CHR ''-'' \<or> c = CHR ''+'' then cs else s0 | [] \<Rightarrow> s0) in
      case s of
        z # b # cs \<Rightarrow>
          if z = CHR ''0'' \<and> (lower b = 98 \<or> lower b = 111 \<or> lower b = 120)
          then underscore_scan (lower b = 120) UDigit cs
          else underscore_scan False UStart s
      | _ \<Rightarrow> underscore_scan False UStart s)"

definition ParseUint10 :: "string \<Rightarrow> numErr + nat" where
  "ParseUint10 s = (if s = [] then Inl ErrSyntax else scan_uint 10 False 0 s)"

text \<open>Base 0: a prefix chooses the base, and underscores may separate digits.\<close>

definition split_base :: "string \<Rightarrow> nat \<times> string" where
  "split_base s =
     (case s of
        z # cs \<Rightarrow>
          if z = CHR ''0'' then
            (case cs of
               b # d # ds \<Rightarrow>
                 if lower b = 98 then (2, d # ds)
                 else if lower b = 111 then (8, d # ds)
                 else if lower b = 120 then (16, d # ds)
                 else (8, cs)
             | _ \<Rightarrow> (8, cs))
          else (10, s)
      | [] \<Rightarrow> (10, s))"

definition ParseUint0 :: "string \<Rightarrow> numErr + nat" where
  "ParseUint0 s =
     (if s = [] then Inl ErrSyntax
      else let (base, ds) = split_base s in
        case scan_uint base True 0 ds of
          Inl e \<Rightarrow> Inl e
        | Inr n \<Rightarrow> if List.member ds (CHR ''_'') \<and> \<not> underscoreOK s then Inl ErrSyntax else Inr n)"

definition ParseInt10 :: "string \<Rightarrow> numErr + int" where
  "ParseInt10 s =
     (case s of
        [] \<Rightarrow> Inl ErrSyntax
      | c # cs \<Rightarrow>
          let neg = (c = CHR ''-''); ds = (if neg \<or> c = CHR ''+'' then cs else s) in
          (case ParseUint10 ds of
             Inl ErrSyntax \<Rightarrow> Inl ErrSyntax
           | Inl ErrRange \<Rightarrow> Inl ErrRange
           | Inr un \<Rightarrow>
               if \<not> neg \<and> 2 ^ 63 \<le> un then Inl ErrRange
               else if neg \<and> 2 ^ 63 < un then Inl ErrRange
               else Inr (if neg then - int un else int un)))"

definition ParseBool :: "string \<Rightarrow> bool option" where
  "ParseBool s =
     (if List.member [''1'', ''t'', ''T'', ''TRUE'', ''true'', ''True''] s then Some True
      else if List.member [''0'', ''f'', ''F'', ''FALSE'', ''false'', ''False''] s then Some False
      else None)"

lemma undec_mono: "m \<le> undec m xs"
proof (induction xs arbitrary: m)
  case (Cons x xs)
  have "m \<le> 10 * m + digitVal x" by simp
  also have "\<dots> \<le> undec (10 * m + digitVal x) xs" by (rule Cons.IH)
  finally show ?case by simp
qed simp

lemma scan_uint_total:
  assumes "list_all isDigit cs" and "n < 2 ^ 64"
  shows "scan_uint 10 b n cs = (if undec n cs < 2 ^ 64 then Inr (undec n cs) else Inl ErrRange)"
  using assms
proof (induction cs arbitrary: n)
  case (Cons c cs)
  have d: "isDigit c" "digitVal c < 10" "c \<noteq> CHR ''_''"
    using Cons.prems(1) by (auto simp: isDigit_def digitVal_def)
  show ?case
  proof (cases "10 * n + digitVal c < 2 ^ 64")
    case True
    with Cons d show ?thesis by (simp add: alnum_val_def mult.commute)
  next
    case False
    moreover have "10 * n + digitVal c \<le> undec n (c # cs)" using undec_mono by simp
    ultimately have "\<not> undec n (c # cs) < 2 ^ 64" by linarith
    with False d show ?thesis by (simp add: alnum_val_def mult.commute)
  qed
qed simp

lemma scan_uint_digits:
  "list_all isDigit cs \<Longrightarrow> undec n cs < 2 ^ 64 \<Longrightarrow> scan_uint 10 False n cs = Inr (undec n cs)"
  using undec_mono [of n cs] by (simp add: scan_uint_total)

lemma ParseUint10_dec: "n < 2 ^ 64 \<Longrightarrow> ParseUint10 (dec n) = Inr n"
  using dec_digits [of n] by (simp add: ParseUint10_def scan_uint_digits)

lemma dec_hd: "0 < n \<Longrightarrow> hd (dec n) \<noteq> CHR ''0''"
proof (induction n rule: dec.induct)
  case (1 n)
  have z: "digit d = CHR ''0'' \<longleftrightarrow> d = 0" if "d < 10" for d
    using that by (auto dest!: arg_cong [of _ _ "of_char :: char \<Rightarrow> nat"]) (simp add: digit_def char_of_eq_iff)
  show ?case
  proof (cases "n < 10")
    case True
    with 1(2) show ?thesis by (simp add: dec.simps [of n] z)
  next
    case False
    with 1(1) dec_digits [of "n div 10"] show ?thesis
      by (simp add: dec.simps [of n])
  qed
qed

lemma ParseUint0_dec: "ParseUint0 (dec n) = (if n < 2 ^ 64 then Inr n else Inl ErrRange)"
proof (cases "n = 0")
  case True
  have "dec 0 = ''0''" by (simp add: dec.simps [of 0] digit_def char_of_eq_iff take_bit_eq_mod)
  with True show ?thesis
    by (simp add: ParseUint0_def split_base_def)
next
  case False
  obtain c cs where c: "dec n = c # cs" using dec_digits [of n] by (cases "dec n") auto
  with dec_hd [of n] False have "c \<noteq> CHR ''0''" by simp
  moreover have "CHR ''_'' \<notin> set (dec n)"
    using dec_digits [of n] by (auto simp: list_all_iff isDigit_def)
  ultimately show ?thesis
    using dec_digits [of n] scan_uint_total [of "dec n" 0 True] c
    by (simp add: ParseUint0_def split_base_def)
qed

lemma ParseInt10_decInt:
  assumes "- (2 ^ 63) \<le> i" and "i < 2 ^ 63"
  shows "ParseInt10 (decInt i) = Inr i"
proof (cases "i < 0")
  case True
  then have "nat (- i) \<le> 2 ^ 63" using assms by simp
  then show ?thesis
    using True ParseUint10_dec [of "nat (- i)"] by (simp add: decInt_def ParseInt10_def)
next
  case False
  then obtain c cs where c: "dec (nat i) = c # cs" "isDigit c"
    using dec_digits [of "nat i"] by (cases "dec (nat i)") auto
  have "c \<noteq> CHR ''-''" "c \<noteq> CHR ''+''" using c(2) by (auto simp: isDigit_def)
  moreover have "nat i < 2 ^ 63" using assms False by (simp add: nat_less_iff)
  ultimately show ?thesis
    using False ParseUint10_dec [of "nat i"] c by (simp add: decInt_def ParseInt10_def)
qed

text \<open>Unsigned decimal numbers of 64 bits are a codec.\<close>

interpretation u64_dec: codec "\<lambda>n :: u64. dec (unat n)"
  "\<lambda>s. case ParseUint10 s of Inr n \<Rightarrow> Some (word_of_nat n) | Inl _ \<Rightarrow> None" "\<lambda>_. True"
proof
  fix n :: u64
  have "unat n < 2 ^ 64" using unsigned_less [of n, where 'a = nat] by simp
  then show "(case ParseUint10 (dec (unat n)) of Inr m \<Rightarrow> Some (word_of_nat m) | Inl _ \<Rightarrow> None)
      = Some n"
    by (simp add: ParseUint10_dec)
qed

lemma ParseUint10_bound: "ParseUint10 s = Inr n \<Longrightarrow> n < 2 ^ 64"
proof -
  have "scan_uint b z m cs = Inr n \<Longrightarrow> m < 2 ^ 64 \<Longrightarrow> n < 2 ^ 64" for b z m cs
    by (induction cs arbitrary: m) (auto split: if_splits option.splits)
  then show "ParseUint10 s = Inr n \<Longrightarrow> n < 2 ^ 64"
    by (auto simp: ParseUint10_def split: if_splits)
qed

lemma ParseInt10_bound: "ParseInt10 s = Inr i \<Longrightarrow> - (2 ^ 63) \<le> i \<and> i < 2 ^ 63"
  by (auto simp: ParseInt10_def Let_def split: list.splits sum.splits numErr.splits if_splits)

section \<open>Strings\<close>

text \<open>\<open>strings.Cut(s, sep)\<close> for a one-byte separator.\<close>

fun Cut :: "char \<Rightarrow> string \<Rightarrow> (string \<times> string) option" where
  "Cut sep [] = None"
| "Cut sep (c # cs) =
     (if c = sep then Some ([], cs) else map_option (\<lambda>(a, b). (c # a, b)) (Cut sep cs))"

fun Split :: "char \<Rightarrow> string \<Rightarrow> string list" where
  "Split sep [] = [[]]"
| "Split sep (c # cs) =
     (if c = sep then [] # Split sep cs
      else case Split sep cs of p # ps \<Rightarrow> (c # p) # ps | [] \<Rightarrow> [[c]])"

text \<open>
  \<open>TrimSpace\<close>: the white-space runes, each as its UTF-8 bytes, are cut off at both ends.
\<close>

definition spaceRunes :: "string list" where
  "spaceRunes = map (map char_of) (
     [[9], [10], [11], [12], [13], [32], [194, 133], [194, 160], [225, 154, 128],
      [226, 128, 168], [226, 128, 169], [226, 128, 175], [226, 129, 159], [227, 128, 128]] @
     map (\<lambda>i. [226, 128, 128 + i]) [0..<11 :: nat])"

fun strip_prefix :: "string \<Rightarrow> string \<Rightarrow> string option" where
  "strip_prefix [] s = Some s"
| "strip_prefix (p # ps) [] = None"
| "strip_prefix (p # ps) (c # cs) = (if p = c then strip_prefix ps cs else None)"

fun strip_any :: "string list \<Rightarrow> string \<Rightarrow> string option" where
  "strip_any [] s = None"
| "strip_any (p # ps) s = (case strip_prefix p s of Some r \<Rightarrow> Some r | None \<Rightarrow> strip_any ps s)"

lemma strip_prefix_Some: "strip_prefix p s = Some r \<longleftrightarrow> s = p @ r"
  by (induction p s rule: strip_prefix.induct) auto

lemma strip_any_Some: "strip_any ps s = Some r \<Longrightarrow> \<exists>p \<in> set ps. s = p @ r"
  by (induction ps) (auto split: option.splits simp: strip_prefix_Some)

function trim_with :: "string list \<Rightarrow> string \<Rightarrow> string" where
  "trim_with ps s =
     (if [] \<in> set ps then s
      else case strip_any ps s of Some r \<Rightarrow> trim_with ps r | None \<Rightarrow> s)"
  by pat_completeness auto
termination
  by (relation "measure (\<lambda>(ps, s). length s)") (auto dest!: strip_any_Some)

declare trim_with.simps [simp del]

definition TrimSpace :: "string \<Rightarrow> string" where
  "TrimSpace s = rev (trim_with (map rev spaceRunes) (rev (trim_with spaceRunes s)))"

text \<open>A text that neither begins nor ends like a white-space rune stays as it is.\<close>

lemma trim_with_stop:
  assumes "[] \<notin> set ps" and "\<forall>p \<in> set ps. hd p \<noteq> c"
  shows "trim_with ps (c # s) = c # s"
proof -
  have "strip_any ps (c # s) = None"
    using assms
  proof (induction ps)
    case (Cons p ps)
    then have "strip_prefix p (c # s) = None" by (cases p) auto
    with Cons show ?case by simp
  qed simp
  then show ?thesis by (simp add: trim_with.simps [of ps])
qed

lemma spaceRunes_nonempty: "[] \<notin> set spaceRunes" "[] \<notin> set (map rev spaceRunes)"
  by (auto simp: spaceRunes_def)

lemma TrimSpace_noop:
  assumes "s \<noteq> []" and "\<forall>p \<in> set spaceRunes. hd p \<noteq> hd s \<and> last p \<noteq> last s"
  shows "TrimSpace s = s"
proof -
  have "trim_with spaceRunes s = s"
    using assms trim_with_stop [OF spaceRunes_nonempty(1), of "hd s" "tl s"] by simp
  moreover have "trim_with (map rev spaceRunes) (rev s) = rev s"
  proof -
    have "\<forall>p \<in> set (map rev spaceRunes). hd p \<noteq> last s"
      using assms(2) spaceRunes_nonempty(1) by (auto simp: hd_rev)
    moreover have "rev s = last s # rev (butlast s)"
      using assms(1) by (metis append_butlast_last_id rev_eq_Cons_iff rev_rev_ident)
    ultimately show ?thesis
      using trim_with_stop [OF spaceRunes_nonempty(2), of "last s" "rev (butlast s)"] by metis
  qed
  ultimately show ?thesis by (simp add: TrimSpace_def)
qed

lemma Cut_Some: "Cut sep s = Some (a, b) \<Longrightarrow> s = a @ sep # b \<and> sep \<notin> set a"
  by (induction s arbitrary: a) (auto split: if_splits)

lemma Cut_None: "Cut sep s = None \<longleftrightarrow> sep \<notin> set s"
  by (induction s) auto

lemma Split_pieces: "Split sep s \<noteq> [] \<and> (\<forall>p \<in> set (Split sep s). sep \<notin> set p)"
  by (induction s) (auto split: list.splits)

section \<open>Messages\<close>

text \<open>
  The messages the program formats use \<open>%q\<close>, \<open>%s\<close>, \<open>%v\<close> and \<open>%d\<close>. \<open>%q\<close> is \<open>strconv.Quote\<close>, whose
  escapes beyond ASCII depend on Unicode's tables of printable runes: it is a parameter.
\<close>

datatype fmtArg = ArgQ string | ArgS string

fun Sprintf :: "(string \<Rightarrow> string) \<Rightarrow> string \<Rightarrow> fmtArg list \<Rightarrow> string" where
  "Sprintf quote [] args = []"
| "Sprintf quote (p # cs) args =
     (if p = CHR ''%'' then
        (case (cs, args) of
           (v # cs', ArgQ s # args') \<Rightarrow> quote s @ Sprintf quote cs' args'
         | (v # cs', ArgS s # args') \<Rightarrow> s @ Sprintf quote cs' args'
         | _ \<Rightarrow> p # Sprintf quote cs args)
      else p # Sprintf quote cs args)"

definition numError :: "(string \<Rightarrow> string) \<Rightarrow> string \<Rightarrow> string \<Rightarrow> numErr \<Rightarrow> string" where
  "numError quote func num e =
     ''strconv.'' @ func @ '': parsing '' @ quote num @ '': '' @
       (case e of ErrSyntax \<Rightarrow> ''invalid syntax'' | ErrRange \<Rightarrow> ''value out of range'')"

lemma Split_noop: "sep \<notin> set x \<Longrightarrow> Split sep x = [x]"
  by (induction x) auto

lemma Split_append: "sep \<notin> set x \<Longrightarrow> Split sep (x @ sep # s) = x # Split sep s"
  by (induction x) (auto split: list.split)

lemma trim_with_set: "set (trim_with ps s) \<subseteq> set s"
proof (induction ps s rule: trim_with.induct)
  case (1 ps s)
  show ?case
  proof (cases "[] \<in> set ps \<or> strip_any ps s = None")
    case True
    then show ?thesis by (auto simp: trim_with.simps [of ps s])
  next
    case False
    then obtain r where r: "strip_any ps s = Some r" "[] \<notin> set ps" by auto
    with 1 have "set (trim_with ps r) \<subseteq> set r" by simp
    with strip_any_Some [OF r(1)] r show ?thesis by (auto simp: trim_with.simps [of ps s])
  qed
qed

lemma TrimSpace_set: "set (TrimSpace s) \<subseteq> set s"
  using trim_with_set [of "map rev spaceRunes" "rev (trim_with spaceRunes s)"]
    trim_with_set [of spaceRunes s]
  by (auto simp: TrimSpace_def)

end
