(* ===== verification/Rfc3339.thy ===== *)
theory Rfc3339
  imports GoTime Strconv "HOL-Library.Monad_Syntax"
begin

text \<open>
  Time stamps as text: \<open>t.UTC().Format(time.RFC3339Nano)\<close> and \<open>time.Parse\<close> for the layouts
  \<open>RFC3339\<close> and \<open>RFC3339Nano\<close>, with the civil calendar of Go's package \<open>time\<close>. The lemmas show that
  parsing inverts formatting on the years 0 to 9999.
\<close>

section \<open>The civil calendar\<close>

definition isLeap :: "int \<Rightarrow> bool" where
  "isLeap y \<longleftrightarrow> y mod 4 = 0 \<and> (y mod 100 \<noteq> 0 \<or> y mod 400 = 0)"

text \<open>Days from 1 January of year 1 to 1 January of \<open>y\<close>; the Unix epoch is day 719162.\<close>

definition daysSinceYear1 :: "int \<Rightarrow> int" where
  "daysSinceYear1 y = (let z = y - 1 in 365 * z + z div 4 - z div 100 + z div 400)"

definition daysBefore :: "nat list" where
  "daysBefore = [0, 31, 59, 90, 120, 151, 181, 212, 243, 273, 304, 334, 365]"

definition daysIn :: "nat \<Rightarrow> int \<Rightarrow> nat" where
  "daysIn m y = (if m = 2 \<and> isLeap y then 29 else daysBefore ! m - daysBefore ! (m - 1))"

text \<open>The day in the year, from 0, of day \<open>d\<close> of month \<open>m\<close>.\<close>

definition yday_of :: "bool \<Rightarrow> nat \<Rightarrow> nat \<Rightarrow> nat" where
  "yday_of leap m d = daysBefore ! (m - 1) + (if leap \<and> 3 \<le> m then 1 else 0) + (d - 1)"

definition days_of_civil :: "int \<Rightarrow> nat \<Rightarrow> nat \<Rightarrow> int" where
  "days_of_civil y m d = daysSinceYear1 y + int (yday_of (isLeap y) m d)"

text \<open>Go's \<open>absDate\<close>: cut off cycles of 400, 100, 4 years and 1 year, then find the month.\<close>

definition cycle :: "int \<Rightarrow> int \<Rightarrow> int \<times> int" where
  "cycle k d = (let n = d div k; n = (if n = 4 then 3 else n) in (n, d - k * n))"

definition year_of_days :: "int \<Rightarrow> int \<times> int" where
  "year_of_days d =
     (let n400 = d div 146097 in
      case cycle 36524 (d - 146097 * n400) of (n100, d) \<Rightarrow>
      let n4 = d div 1461 in
      case cycle 365 (d - 1461 * n4) of (n1, d) \<Rightarrow>
      (400 * n400 + 100 * n100 + 4 * n4 + n1 + 1, d))"

definition month_of_yday :: "bool \<Rightarrow> nat \<Rightarrow> nat \<times> nat" where
  "month_of_yday leap day =
     (if leap \<and> day = 59 then (2, 29)
      else let day = (if leap \<and> 59 < day then day - 1 else day); m = day div 31 in
        if daysBefore ! (m + 1) \<le> day then (m + 2, day - daysBefore ! (m + 1) + 1)
        else (m + 1, day - daysBefore ! m + 1))"

lemma div_bounds: "0 < k \<Longrightarrow> k * (x div k) \<le> x \<and> x < k * (x div k) + (k :: int)"
  by (metis add.commute add_less_cancel_left mult_div_mod_eq pos_mod_bound pos_mod_sign
      le_add_same_cancel1)

text \<open>One level of a cycle: \<open>n\<close> units of \<open>k\<close> days and a remainder, at most four with a long last.\<close>

lemma cycle:
  fixes x k :: int
  assumes "cycle k x = (n, r)" and "0 < k" and "0 \<le> x" and "x \<le> 4 * k"
  shows "x = k * n + r" "0 \<le> n" "n \<le> 3" "0 \<le> r" "r \<le> k" "r = k \<Longrightarrow> n = 3"
proof -
  define q where "q = x div k"
  have n: "n = (if q = 4 then 3 else q)" "r = x - k * n"
    using assms(1) by (auto simp: cycle_def Let_def q_def split: if_splits)
  have q: "k * q \<le> x" "x < k * q + k" using div_bounds [OF assms(2), of x] by (simp_all add: q_def)
  have "q \<le> 4"
  proof (rule ccontr)
    assume "\<not> q \<le> 4"
    then have "k * 5 \<le> k * q" using assms(2) by simp
    with q assms show False by linarith
  qed
  moreover have "0 \<le> q" using assms by (simp add: q_def pos_imp_zdiv_nonneg_iff)
  ultimately show "x = k * n + r" "0 \<le> n" "n \<le> 3" "0 \<le> r" "r \<le> k" "r = k \<Longrightarrow> n = 3"
    using q assms(2-4) by (auto simp: n split: if_splits)
qed

lemma year_of_days:
  assumes "year_of_days d = (y, yd)"
  shows "daysSinceYear1 y + yd = d" and "0 \<le> yd" and "yd < (if isLeap y then 366 else 365)"
proof -
  define a where "a = d div 146097"
  have r1: "0 \<le> d - 146097 * a" "d - 146097 * a \<le> 4 * 36524"
    using div_bounds [of 146097 d] unfolding a_def by simp_all
  obtain b r2 where br: "cycle 36524 (d - 146097 * a) = (b, r2)" by fastforce
  have b: "d - 146097 * a = 36524 * b + r2" "0 \<le> b" "b \<le> 3" "0 \<le> r2" "r2 \<le> 36524"
    "r2 = 36524 \<Longrightarrow> b = 3"
    using cycle [OF br _ r1] by simp_all
  define c where "c = r2 div 1461"
  have c: "0 \<le> c" "c \<le> 24" "0 \<le> r2 - 1461 * c" "r2 - 1461 * c \<le> 4 * 365"
  proof -
    have q: "1461 * c \<le> r2" "r2 < 1461 * c + 1461"
      using div_bounds [of 1461 r2] unfolding c_def by simp_all
    show "0 \<le> c" using b(4) unfolding c_def by (simp add: pos_imp_zdiv_nonneg_iff)
    show "c \<le> 24" using q(1) b(5) by linarith
    show "0 \<le> r2 - 1461 * c" "r2 - 1461 * c \<le> 4 * 365" using q by simp_all
  qed
  obtain e r4 where er: "cycle 365 (r2 - 1461 * c) = (e, r4)" by fastforce
  have y: "y = 400 * a + 100 * b + 4 * c + e + 1" and r4: "r4 = yd"
    using assms br er by (simp_all add: year_of_days_def Let_def a_def c_def)
  have e: "r2 - 1461 * c = 365 * e + yd" "0 \<le> e" "e \<le> 3" "0 \<le> yd" "yd \<le> 365"
    "yd = 365 \<Longrightarrow> e = 3"
    using cycle [OF er _ c(3,4)] by (simp_all add: r4)
  have d: "d = 146097 * a + 36524 * b + 1461 * c + 365 * e + yd"
    using b(1) e(1) by simp
  have q4: "(y - 1) div 4 = 100 * a + 25 * b + c" using e(2,3) by (simp add: y)
  have q100: "(y - 1) div 100 = 4 * a + b"
  proof -
    have "y - 1 = (4 * c + e) + 100 * (4 * a + b)" by (simp add: y)
    then show ?thesis using c(1,2) e(2,3) by simp
  qed
  have q400: "(y - 1) div 400 = a"
  proof -
    have "y - 1 = (100 * b + 4 * c + e) + 400 * a" by (simp add: y)
    then show ?thesis
      using b(2,3) c(1,2) e(2,3) by simp
  qed
  show "daysSinceYear1 y + yd = d"
    unfolding daysSinceYear1_def Let_def q4 q100 q400 d by (simp add: y)
  show "0 \<le> yd" by (rule e)
  show "yd < (if isLeap y then 366 else 365)"
  proof (cases "yd = 365")
    case True
    then have e3: "e = 3" by (rule e)
    have y4: "y mod 4 = 0" by (simp add: y e3)
    have "isLeap y"
    proof (cases "c = 24")
      case True
      then have "r2 = 36524" using e(1) e3 b(5) \<open>yd = 365\<close> by simp
      then have "b = 3" by (rule b)
      with True e3 have "y = 400 * (a + 1)" by (simp add: y)
      with y4 show ?thesis by (simp add: isLeap_def)
    next
      case False
      with c have "c \<le> 23" by simp
      have "y mod 100 = (4 * (c + 1) + 100 * (4 * a + b)) mod 100"
        by (simp add: y e3 algebra_simps)
      also have "\<dots> = 4 * (c + 1)"
        using \<open>c \<le> 23\<close> c(1) by (subst mod_mult_self2) (simp add: mod_pos_pos_trivial)
      finally have "y mod 100 = 4 * (c + 1)" .
      with y4 c(1) show ?thesis by (simp add: isLeap_def)
    qed
    with e show ?thesis by simp
  next
    case False
    with e show ?thesis by simp
  qed
qed

text \<open>The months: \<open>day div 31\<close> is the month or the one before it.\<close>

lemma twelve_cases:
  "q < (12 :: nat) \<Longrightarrow> q = 0 \<or> q = 1 \<or> q = 2 \<or> q = 3 \<or> q = 4 \<or> q = 5 \<or> q = 6 \<or> q = 7 \<or>
     q = 8 \<or> q = 9 \<or> q = 10 \<or> q = 11"
  by (simp add: eval_nat_numeral less_Suc_eq disj_ac)

lemma month_plain:
  assumes "day < 365"
  defines "m \<equiv> (if daysBefore ! (day div 31 + 1) \<le> day then day div 31 + 2 else day div 31 + 1)"
  shows "1 \<le> m \<and> m \<le> 12 \<and> daysBefore ! (m - 1) \<le> day \<and> day < daysBefore ! m"
proof -
  define q where "q = day div 31"
  have q: "31 * q \<le> day" "day < 31 * q + 31" "q < 12"
    using assms(1) by (auto simp: q_def)
  from twelve_cases [OF q(3)] show ?thesis
    unfolding m_def q_def [symmetric] using q(1,2) assms(1)
    by (elim disjE) (simp_all add: daysBefore_def)
qed

lemma daysBefore_Suc_0: "daysBefore ! Suc 0 = 31" "daysBefore ! 2 = 59"
  by (simp_all add: daysBefore_def)

lemma daysBefore_le: "1 \<le> m \<Longrightarrow> m \<le> 12 \<Longrightarrow> daysBefore ! m - daysBefore ! (m - 1) \<le> 31 \<and>
    (m \<le> 2 \<longleftrightarrow> daysBefore ! m \<le> 59) \<and> (3 \<le> m \<longleftrightarrow> 59 \<le> daysBefore ! (m - 1))"
proof -
  assume "1 \<le> m" "m \<le> 12"
  then obtain q where "m = Suc q" "q < 12" by (cases m) auto
  from this(1) twelve_cases [OF this(2)] show ?thesis by (elim disjE) (simp_all add: daysBefore_def)
qed

lemma month_of_yday:
  assumes "month_of_yday leap day = (m, d)" and "day < (if leap then 366 else 365)"
  shows "1 \<le> m" "m \<le> 12" "1 \<le> d" "d \<le> 31"
    "d \<le> (if m = 2 \<and> leap then 29 else daysBefore ! m - daysBefore ! (m - 1))"
    "yday_of leap m d = day"
proof -
  have "1 \<le> m \<and> m \<le> 12 \<and> 1 \<le> d \<and> d \<le> 31 \<and>
    d \<le> (if m = 2 \<and> leap then 29 else daysBefore ! m - daysBefore ! (m - 1)) \<and>
    yday_of leap m d = day"
  proof (cases "leap \<and> day = 59")
    case True
    with assms(1) show ?thesis by (auto simp: month_of_yday_def yday_of_def daysBefore_def)
  next
    case False
    define k where "k = (if leap \<and> 59 < day then day - 1 else day)"
    have k: "k < 365" using assms(2) False by (auto simp: k_def split: if_splits)
    have m: "m = (if daysBefore ! (k div 31 + 1) \<le> k then k div 31 + 2 else k div 31 + 1)"
      and d: "d = k - daysBefore ! (m - 1) + 1"
      using assms(1) False
      by (auto simp: month_of_yday_def Let_def k_def [symmetric] split: if_splits)
    note mp = month_plain [OF k, folded m]
    with daysBefore_le [of m] have le: "daysBefore ! m - daysBefore ! (m - 1) \<le> 31"
      "m \<le> 2 \<longleftrightarrow> daysBefore ! m \<le> 59" "3 \<le> m \<longleftrightarrow> 59 \<le> daysBefore ! (m - 1)"
      by blast+
    have d': "1 \<le> d" "d \<le> daysBefore ! m - daysBefore ! (m - 1)" "daysBefore ! (m - 1) + (d - 1) = k"
      using mp d by linarith+
    have "leap \<Longrightarrow> 59 < day \<longleftrightarrow> 3 \<le> m"
      using mp le(2,3) False by (auto simp: k_def split: if_splits)
    then have "yday_of leap m d = day"
      using d'(3) by (auto simp: yday_of_def k_def split: if_splits)
    moreover have "d \<le> (if m = 2 \<and> leap then 29 else daysBefore ! m - daysBefore ! (m - 1))"
      using d'(2) daysBefore_Suc_0 by (cases "m = 2") auto
    ultimately show ?thesis using mp d'(1,2) le(1) by linarith
  qed
  then show "1 \<le> m" "m \<le> 12" "1 \<le> d" "d \<le> 31"
    "d \<le> (if m = 2 \<and> leap then 29 else daysBefore ! m - daysBefore ! (m - 1))"
    "yday_of leap m d = day"
    by blast+
qed

section \<open>Formatting\<close>

definition pad2 :: "nat \<Rightarrow> string" where
  "pad2 n = [digit (n div 10 mod 10), digit (n mod 10)]"

definition zeroPad :: "nat \<Rightarrow> string \<Rightarrow> string" where
  "zeroPad w ds = replicate (w - length ds) (CHR ''0'') @ ds"

definition formatYear :: "int \<Rightarrow> string" where
  "formatYear y =
     (if y < 0 then CHR ''-'' # zeroPad 4 (dec (nat (- y))) else zeroPad 4 (dec (nat y)))"

text \<open>The fraction has no trailing zeros, and no point when it is zero.\<close>

definition formatFrac :: "nat \<Rightarrow> string" where
  "formatFrac ns =
     (let ds = rev (dropWhile (\<lambda>c. c = CHR ''0'') (rev (zeroPad 9 (dec ns)))) in
      if ds = [] then [] else CHR ''.'' # ds)"

definition FormatRFC3339Nano :: "gotime \<Rightarrow> string" where
  "FormatRFC3339Nano t =
     (let days = unixSec t div 86400; sec = nat (unixSec t mod 86400);
          (y, yd) = year_of_days (days + 719162);
          (m, d) = month_of_yday (isLeap y) (nat yd)
      in formatYear y @ CHR ''-'' # pad2 m @ CHR ''-'' # pad2 d @ CHR ''T'' #
         pad2 (sec div 3600) @ CHR '':'' # pad2 (sec mod 3600 div 60) @ CHR '':'' #
         pad2 (sec mod 60) @ formatFrac (nat (nsec t)) @ ''Z'')"

section \<open>Parsing\<close>

text \<open>
  The general parser of \<open>time.Parse\<close>, with the two layouts' steps written out. (The package tries a
  stricter parser first, which accepts fewer strings and gives the same instants.) An hour may have
  one digit, a fraction may follow the seconds, after a point or a comma, and is cut after nine
  digits; a zone is \<open>Z\<close> or a signed \<open>hh:mm\<close> of at most 24 hours and 60 minutes.
\<close>

definition guardO :: "bool \<Rightarrow> unit option" where
  "guardO b = (if b then Some () else None)"

definition getnum :: "bool \<Rightarrow> string \<Rightarrow> (nat \<times> string) option" where
  "getnum fixed s =
     (case s of
        [] \<Rightarrow> None
      | a # s' \<Rightarrow>
          if \<not> isDigit a then None
          else (case s' of
              b # s'' \<Rightarrow>
                if isDigit b then Some (digitVal a * 10 + digitVal b, s'')
                else if fixed then None else Some (digitVal a, s')
            | [] \<Rightarrow> if fixed then None else Some (digitVal a, s')))"

definition expect :: "char \<Rightarrow> string \<Rightarrow> string option" where
  "expect c s = (case s of x # xs \<Rightarrow> if x = c then Some xs else None | [] \<Rightarrow> None)"

definition parseYear :: "string \<Rightarrow> (nat \<times> string) option" where
  "parseYear s =
     (if 4 \<le> length s \<and> list_all isDigit (take 4 s) then Some (undec 0 (take 4 s), drop 4 s)
      else None)"

definition parseFrac :: "string \<Rightarrow> nat \<times> string" where
  "parseFrac s =
     (case s of
        p # d # s' \<Rightarrow>
          if (p = CHR ''.'' \<or> p = CHR '','') \<and> isDigit d then
            let ds = takeWhile isDigit (d # s'); ns = take 9 ds in
            (undec 0 ns * 10 ^ (9 - length ns), dropWhile isDigit (d # s'))
          else (0, s)
      | _ \<Rightarrow> (0, s))"

text \<open>The zone's offset in seconds; nothing may follow the zone.\<close>

definition parseZone :: "string \<Rightarrow> int option" where
  "parseZone s =
     (case s of
        [] \<Rightarrow> None
      | z # rest \<Rightarrow>
          if z = CHR ''Z'' then (if rest = [] then Some 0 else None)
          else (case rest of
              [h1, h2, c, m1, m2] \<Rightarrow>
                if c \<noteq> CHR '':'' then None
                else do {
                  (h, _) \<leftarrow> getnum True [h1, h2];
                  (m, _) \<leftarrow> getnum True [m1, m2];
                  guardO (h \<le> 24 \<and> m \<le> 60);
                  (if z = CHR ''+'' then Some (int ((h * 60 + m) * 60))
                   else if z = CHR ''-'' then Some (- int ((h * 60 + m) * 60))
                   else None)
                }
            | _ \<Rightarrow> None))"

text \<open>\<open>time.Date\<close> in UTC, less the zone's offset.\<close>

definition civilInstant ::
  "int \<Rightarrow> nat \<Rightarrow> nat \<Rightarrow> nat \<Rightarrow> nat \<Rightarrow> nat \<Rightarrow> int \<Rightarrow> nat \<Rightarrow> gotime" where
  "civilInstant y mo d h mi se off ns =
     Instant (((days_of_civil y mo d - 719162) * 86400
        + int (h * 3600 + mi * 60 + se) - off) * 10 ^ 9 + int ns)"

definition time_Parse_RFC3339 :: "string \<Rightarrow> gotime option" where
  "time_Parse_RFC3339 s = do {
     (y, s) \<leftarrow> parseYear s;
     s \<leftarrow> expect (CHR ''-'') s;
     (mo, s) \<leftarrow> getnum True s;
     guardO (1 \<le> mo \<and> mo \<le> 12);
     s \<leftarrow> expect (CHR ''-'') s;
     (d, s) \<leftarrow> getnum True s;
     s \<leftarrow> expect (CHR ''T'') s;
     (h, s) \<leftarrow> getnum False s;
     guardO (h < 24);
     s \<leftarrow> expect (CHR '':'') s;
     (mi, s) \<leftarrow> getnum True s;
     guardO (mi < 60);
     s \<leftarrow> expect (CHR '':'') s;
     (se, s) \<leftarrow> getnum True s;
     guardO (se < 60);
     let (ns, s) = parseFrac s;
     off \<leftarrow> parseZone s;
     guardO (1 \<le> d \<and> d \<le> daysIn mo (int y));
     Some (civilInstant (int y) mo d h mi se off ns)
   }"

section \<open>Parsing inverts formatting\<close>

lemma getnum_pad2 [simp]: "n < 100 \<Longrightarrow> getnum fixed (pad2 n @ s) = Some (n, s)"
  by (simp add: getnum_def pad2_def)

lemma expect_Cons [simp]: "expect c (c # s) = Some s"
  by (simp add: expect_def)

lemma guardO_True [simp]: "guardO True = Some ()"
  by (simp add: guardO_def)

lemma dec_length: "n < 10 ^ k \<Longrightarrow> 1 \<le> k \<Longrightarrow> length (dec n) \<le> k"
proof (induction n arbitrary: k rule: dec.induct)
  case (1 n)
  show ?case
  proof (cases "n < 10")
    case True
    with 1(3) show ?thesis by (simp add: dec.simps [of n])
  next
    case False
    then obtain j where k: "k = Suc j" "1 \<le> j"
      using 1(2,3) by (cases k; cases "k - 1") auto
    have "n div 10 < 10 ^ j" using 1(2) by (simp add: k(1) less_mult_imp_div_less mult.commute)
    with 1(1) [OF False _ k(2)] have "length (dec (n div 10)) \<le> j" by simp
    with False k show ?thesis by (simp add: dec.simps [of n])
  qed
qed

lemma isDigit_zero [simp]: "isDigit (CHR ''0'')" "digitVal (CHR ''0'') = 0"
  by (simp_all add: isDigit_def digitVal_def)

lemma undec_replicate_zero: "undec 0 (replicate k (CHR ''0'') @ ds) = undec 0 ds"
  by (induction k) auto

lemma zeroPad_dec:
  assumes "n < 10 ^ w" and "1 \<le> w"
  shows "length (zeroPad w (dec n)) = w" "list_all isDigit (zeroPad w (dec n))"
    "undec 0 (zeroPad w (dec n)) = n"
  using dec_length [OF assms] dec_digits [of n]
  by (auto simp: zeroPad_def undec_replicate_zero list_all_iff)

lemma parseYear_format: "0 \<le> y \<Longrightarrow> y < 10000 \<Longrightarrow> parseYear (formatYear y @ s) = Some (nat y, s)"
  using zeroPad_dec [of "nat y" 4] by (simp add: parseYear_def formatYear_def)

lemma undec_pull: "undec n ds = n * 10 ^ length ds + undec 0 ds"
proof (induction ds arbitrary: n)
  case (Cons d ds)
  show ?case
    using Cons [of "10 * n + digitVal d"] Cons [of "digitVal d"] by (simp add: algebra_simps)
qed simp

lemma undec_zeros: "list_all (\<lambda>c. c = CHR ''0'') zs \<Longrightarrow> undec n zs = n * 10 ^ length zs"
  by (induction zs arbitrary: n) (auto simp: algebra_simps)

lemma trim_zeros:
  fixes ds :: string
  defines "k \<equiv> rev (dropWhile (\<lambda>c. c = CHR ''0'') (rev ds))"
  shows "\<exists>zs. ds = k @ zs \<and> list_all (\<lambda>c. c = CHR ''0'') zs"
proof -
  have "ds = k @ rev (takeWhile (\<lambda>c. c = CHR ''0'') (rev ds))"
    unfolding k_def by (metis rev_append rev_rev_ident takeWhile_dropWhile_id)
  moreover have "list_all (\<lambda>c. c = CHR ''0'') (rev (takeWhile (\<lambda>c. c = CHR ''0'') (rev ds)))"
    by (auto simp: list_all_iff dest: set_takeWhileD)
  ultimately show ?thesis by blast
qed

lemma parseFrac_format:
  assumes "ns < 10 ^ 9"
  shows "parseFrac (formatFrac ns @ ''Z'') = (ns, ''Z'')"
proof -
  define k where "k = rev (dropWhile (\<lambda>c. c = CHR ''0'') (rev (zeroPad 9 (dec ns))))"
  note z = zeroPad_dec [OF assms, simplified]
  obtain zs where zs: "zeroPad 9 (dec ns) = k @ zs" "list_all (\<lambda>c. c = CHR ''0'') zs"
    using trim_zeros [of "zeroPad 9 (dec ns)"] unfolding k_def by blast
  have kd: "list_all isDigit k" using z(2) zs(1) by simp
  have len: "length k + length zs = 9" using z(1) zs(1) by (metis length_append)
  have val: "undec 0 k * 10 ^ length zs = ns"
    using z(3) zs by (simp add: undec_append undec_zeros)
  have fmt: "formatFrac ns = (if k = [] then [] else CHR ''.'' # k)"
    by (simp add: formatFrac_def Let_def k_def)
  have nz: "\<not> isDigit (CHR ''Z'')" by (simp add: isDigit_def)
  show ?thesis
  proof (cases k)
    case Nil
    with val fmt show ?thesis by (simp add: parseFrac_def)
  next
    case (Cons d k')
    then have "takeWhile isDigit (k @ ''Z'') = k" "dropWhile isDigit (k @ ''Z'') = ''Z''"
      using kd nz by (auto simp: list_all_iff takeWhile_append2 dropWhile_append2)
    moreover have "8 - length k' = length zs" using len Cons by simp
    ultimately show ?thesis using Cons kd len val fmt
      by (simp add: parseFrac_def Let_def)
  qed
qed

definition printableYear :: "gotime \<Rightarrow> bool" where
  "printableYear t \<longleftrightarrow>
     (case year_of_days (unixSec t div 86400 + 719162) of (y, yd) \<Rightarrow> 0 \<le> y \<and> y < 10000)"

lemma time_Parse_Format:
  assumes "printableYear t"
  shows "time_Parse_RFC3339 (FormatRFC3339Nano t) = Some t"
proof -
  define sec where "sec = nat (unixSec t mod 86400)"
  obtain y yd where y: "year_of_days (unixSec t div 86400 + 719162) = (y, yd)" by fastforce
  obtain m d where md: "month_of_yday (isLeap y) (nat yd) = (m, d)" by fastforce
  have yr: "0 \<le> y" "y < 10000" using assms by (auto simp: printableYear_def y)
  note yd = year_of_days [OF y]
  have "nat yd < (if isLeap y then 366 else 365)" using yd(2,3) by (auto split: if_splits)
  note mdp = month_of_yday [OF md this]
  have dIn: "d \<le> daysIn m y" using mdp(5) by (auto simp: daysIn_def split: if_splits)
  have civil: "days_of_civil y m d - 719162 = unixSec t div 86400"
    using yd(1,2) mdp(6) by (simp add: days_of_civil_def)
  have sec: "sec < 86400" "int sec = unixSec t mod 86400" by (simp_all add: sec_def nat_less_iff)
  have hms: "sec div 3600 < 24" "sec mod 3600 div 60 < 60" "sec mod 60 < 60"
    "sec div 3600 * 3600 + sec mod 3600 div 60 * 60 + sec mod 60 = sec"
  proof -
    show "sec div 3600 < 24" using sec(1) by (simp add: div_less_iff_less_mult)
    have "sec mod 3600 < 3600" by simp
    then show "sec mod 3600 div 60 < 60" by (simp add: div_less_iff_less_mult)
    have "sec mod 3600 mod 60 = sec mod 60" by (simp add: mod_mod_cancel)
    then show "sec div 3600 * 3600 + sec mod 3600 div 60 * 60 + sec mod 60 = sec"
      using div_mult_mod_eq [of sec 3600] div_mult_mod_eq [of "sec mod 3600" 60] by linarith
  qed simp
  have ns: "nat (nsec t) < 10 ^ 9" "int (nat (nsec t)) = nsec t"
    by (simp_all add: nsec_def nat_less_iff)
  have "civilInstant y m d (sec div 3600) (sec mod 3600 div 60) (sec mod 60) 0 (nat (nsec t))
      = Instant ((unixSec t div 86400 * 86400 + int sec) * 10 ^ 9 + nsec t)"
    unfolding civilInstant_def civil hms(4) ns(2) by simp
  also have "\<dots> = t" by (cases t) (simp add: sec(2) unixSec_def nsec_def)
  finally have inst: "civilInstant y m d (sec div 3600) (sec mod 3600 div 60) (sec mod 60) 0
      (nat (nsec t)) = t" .
  have le: "m < 100" "d < 100" "sec div 3600 < 100" "sec mod 3600 div 60 < 100" "sec mod 60 < 100"
    using mdp(2,4) hms by simp_all
  have zone: "parseZone ''Z'' = Some 0" by (simp add: parseZone_def)
  show ?thesis
    unfolding FormatRFC3339Nano_def time_Parse_RFC3339_def Let_def y md prod.case sec_def [symmetric]
    using mdp(1-3)
    by (simp add: parseYear_format [OF yr] le hms(1-3) dIn parseFrac_format [OF ns(1)]
        zone yr(1) inst)
qed

text \<open>Time stamps as text: a codec on the instants whose year has four digits.\<close>

interpretation rfc3339: codec FormatRFC3339Nano time_Parse_RFC3339 printableYear
  by unfold_locales (rule time_Parse_Format)

end
