(* ===== verification/Admin.thy ===== *)
theory Admin
  imports Shared Rfc3339
begin

text \<open>
  Package \<open>admin\<close>: \<^verbatim>\<open>admin/admin.go\<close>, with the messages of
  \<^verbatim>\<open>genproto/gatewayv1/reckon_admin.pb.go\<close>: statistics, scavenging, links and the gateway's
  catalogue. The catalogue calls are gateway-wide; all the others carry the store id.
\<close>

section \<open>Messages and the service stub\<close>

type_synonym pb_StoreStatsRequest = StoreScoped
type_synonym pb_StreamInfoRequest = StreamScoped
type_synonym pb_EventTypeSummaryRequest = StoreScoped
type_synonym pb_ListLinksRequest = StoreScoped
type_synonym pb_ReloadCatalogueRequest = unit
type_synonym pb_GetCatalogueStatusRequest = unit

record pb_StoreStatsResponse =
  TotalStreams :: u64
  TotalEvents :: u64
  TotalSubscriptions :: u64
  TotalSnapshots :: u64
  Details :: "(string, string) gomap"

record pb_StreamInfoResponse =
  StreamId :: string
  Version :: u64
  EventCount :: u64
  CreatedAt :: i64
  LastEventAt :: i64
  EventTypes :: strs

record pb_EventTypeSummaryEntry =
  EventType :: string
  Count :: u64

record pb_EventTypeSummaryResponse =
  Entries :: "pb_EventTypeSummaryEntry option list"

record pb_ScavengeRequest = StreamScoped +
  Options :: "(string, string) gomap"

record pb_ScavengeResponse =
  EventsRemoved :: u64
  EventsRemaining :: u64
  SpaceReclaimedBytes :: u64
  Details :: "(string, string) gomap"

record pb_ScavengeMatchingRequest = StoreScoped +
  Pattern :: string
  Options :: "(string, string) gomap"

record pb_ScavengeMatchingResponse =
  Results :: "pb_ScavengeResponse option list"

text \<open>The requests that name one link share the name.\<close>

record LinkScoped = StoreScoped +
  Name :: string

record pb_CreateLinkRequest = LinkScoped +
  Source :: string
  Target :: string
  Options :: "(string, string) gomap"

type_synonym pb_DeleteLinkRequest = LinkScoped
type_synonym pb_GetLinkRequest = LinkScoped
type_synonym pb_StartLinkRequest = LinkScoped
type_synonym pb_StopLinkRequest = LinkScoped

record pb_LinkInfo =
  Name :: string
  Source :: string
  Target :: string
  Options :: "(string, string) gomap"

record pb_ListLinksResponse =
  Links :: "pb_LinkInfo option list"

record pb_LinkRuntimeInfo =
  Name :: string
  Status :: string
  EventsProcessed :: u64
  Details :: "(string, string) gomap"

record pb_ReloadCatalogueResponse =
  Added :: strs
  Removed :: strs
  Restarted :: strs
  Error :: string

record pb_CatalogueClusterStatus =
  ClusterId :: string
  Members :: strs
  StoreCount :: "32 word"
  Status :: string
  LastRefresh :: string
  LastError :: string

record pb_GetCatalogueStatusResponse =
  CatalogueSize :: "32 word"
  GatewayUptimeMs :: i64
  Clusters :: "pb_CatalogueClusterStatus option list"

record 'w AdminServiceClient =
  GetStoreStats :: "ctx \<Rightarrow> pb_StoreStatsRequest \<Rightarrow> ('w, pb_StoreStatsResponse option ret) state"
  GetStreamInfo :: "ctx \<Rightarrow> pb_StreamInfoRequest \<Rightarrow> ('w, pb_StreamInfoResponse option ret) state"
  GetEventTypeSummary ::
    "ctx \<Rightarrow> pb_EventTypeSummaryRequest \<Rightarrow> ('w, pb_EventTypeSummaryResponse option ret) state"
  Scavenge :: "ctx \<Rightarrow> pb_ScavengeRequest \<Rightarrow> ('w, pb_ScavengeResponse option ret) state"
  ScavengeMatching ::
    "ctx \<Rightarrow> pb_ScavengeMatchingRequest \<Rightarrow> ('w, pb_ScavengeMatchingResponse option ret) state"
  ScavengeDryRun :: "ctx \<Rightarrow> pb_ScavengeRequest \<Rightarrow> ('w, pb_ScavengeResponse option ret) state"
  CreateLink :: "ctx \<Rightarrow> pb_CreateLinkRequest \<Rightarrow> ('w, pb_Empty option ret) state"
  DeleteLink :: "ctx \<Rightarrow> pb_DeleteLinkRequest \<Rightarrow> ('w, pb_Empty option ret) state"
  GetLink :: "ctx \<Rightarrow> pb_GetLinkRequest \<Rightarrow> ('w, pb_LinkInfo option ret) state"
  ListLinks :: "ctx \<Rightarrow> pb_ListLinksRequest \<Rightarrow> ('w, pb_ListLinksResponse option ret) state"
  StartLink :: "ctx \<Rightarrow> pb_StartLinkRequest \<Rightarrow> ('w, pb_Empty option ret) state"
  StopLink :: "ctx \<Rightarrow> pb_StopLinkRequest \<Rightarrow> ('w, pb_Empty option ret) state"
  GetLinkInfo :: "ctx \<Rightarrow> pb_GetLinkRequest \<Rightarrow> ('w, pb_LinkRuntimeInfo option ret) state"
  ReloadCatalogue ::
    "ctx \<Rightarrow> pb_ReloadCatalogueRequest \<Rightarrow> ('w, pb_ReloadCatalogueResponse option ret) state"
  GetCatalogueStatus ::
    "ctx \<Rightarrow> pb_GetCatalogueStatusRequest \<Rightarrow> ('w, pb_GetCatalogueStatusResponse option ret) state"

section \<open>Types of the package\<close>

record StoreStats =
  TotalStreams :: u64
  TotalEvents :: u64
  TotalSubscriptions :: u64
  TotalSnapshots :: u64
  Details :: "(string, string) gomap"

definition zero_StoreStats :: StoreStats where
  "zero_StoreStats = \<lparr>StoreStats.TotalStreams = 0, TotalEvents = 0, TotalSubscriptions = 0,
     TotalSnapshots = 0, Details = None\<rparr>"

record StreamInfo =
  StreamID :: string
  Version :: u64
  EventCount :: u64
  CreatedAt :: gotime
  LastEventAt :: gotime
  EventTypes :: strs

definition zero_StreamInfo :: StreamInfo where
  "zero_StreamInfo = \<lparr>StreamInfo.StreamID = '''', Version = 0, EventCount = 0,
     CreatedAt = zeroTime, LastEventAt = zeroTime, EventTypes = None\<rparr>"

record EventTypeCount =
  EventType :: string
  Count :: u64

record ScavengeResult =
  EventsRemoved :: u64
  EventsRemaining :: u64
  SpaceReclaimedBytes :: u64
  Details :: "(string, string) gomap"

definition zero_ScavengeResult :: ScavengeResult where
  "zero_ScavengeResult = \<lparr>ScavengeResult.EventsRemoved = 0, EventsRemaining = 0,
     SpaceReclaimedBytes = 0, Details = None\<rparr>"

record LinkSpec =
  Name :: string
  Source :: string
  Target :: string
  Options :: "(string, string) gomap"

definition zero_LinkSpec :: LinkSpec where
  "zero_LinkSpec = \<lparr>LinkSpec.Name = '''', Source = '''', Target = '''', Options = None\<rparr>"

record LinkRuntime =
  Name :: string
  Status :: string
  EventsProcessed :: u64
  Details :: "(string, string) gomap"

definition zero_LinkRuntime :: LinkRuntime where
  "zero_LinkRuntime = \<lparr>LinkRuntime.Name = '''', Status = '''', EventsProcessed = 0,
     Details = None\<rparr>"

record CatalogueReloadResult =
  Added :: strs
  Removed :: strs
  Restarted :: strs
  Error :: string

definition zero_CatalogueReloadResult :: CatalogueReloadResult where
  "zero_CatalogueReloadResult = \<lparr>CatalogueReloadResult.Added = None, Removed = None,
     Restarted = None, Error = ''''\<rparr>"

record CatalogueClusterInfo =
  ClusterID :: string
  Members :: strs
  StoreCount :: u32
  Status :: string
  LastRefresh :: gotime
  LastError :: string

record CatalogueStatus =
  CatalogueSize :: u32
  GatewayUptimeMs :: i64
  Clusters :: "CatalogueClusterInfo list option"

definition zero_CatalogueStatus :: CatalogueStatus where
  "zero_CatalogueStatus = \<lparr>CatalogueStatus.CatalogueSize = 0, GatewayUptimeMs = 0,
     Clusters = None\<rparr>"

section \<open>The client\<close>

record 'w admin_Client =
  raw :: "'w AdminServiceClient"
  store :: string

definition admin_New :: "'w AdminServiceClient \<Rightarrow> string \<Rightarrow> 'w admin_Client" where
  "admin_New stub storeID = \<lparr>admin_Client.raw = stub, store = storeID\<rparr>"

definition admin_StoreID :: "'w admin_Client \<Rightarrow> string" where
  "admin_StoreID c = admin_Client.store c"

definition admin_StoreStats :: "'w admin_Client \<Rightarrow> ctx \<Rightarrow> ('w, StoreStats ret) state" where
  "admin_StoreStats c ctx =
     unary (GetStoreStats (admin_Client.raw c) ctx \<lparr>StoreScoped.StoreId = admin_Client.store c\<rparr>)
       zero_StoreStats
       (\<lambda>resp. \<lparr>StoreStats.TotalStreams = Get pb_StoreStatsResponse.TotalStreams 0 resp,
          TotalEvents = Get pb_StoreStatsResponse.TotalEvents 0 resp,
          TotalSubscriptions = Get pb_StoreStatsResponse.TotalSubscriptions 0 resp,
          TotalSnapshots = Get pb_StoreStatsResponse.TotalSnapshots 0 resp,
          Details = Get pb_StoreStatsResponse.Details None resp\<rparr>)"

definition admin_StreamInfo ::
  "'w admin_Client \<Rightarrow> ctx \<Rightarrow> string \<Rightarrow> ('w, StreamInfo ret) state" where
  "admin_StreamInfo c ctx streamID =
     unary (GetStreamInfo (admin_Client.raw c) ctx \<lparr>
         StoreScoped.StoreId = admin_Client.store c, StreamScoped.StreamId = streamID\<rparr>)
       zero_StreamInfo
       (\<lambda>resp. \<lparr>StreamInfo.StreamID = Get pb_StreamInfoResponse.StreamId '''' resp,
          Version = Get pb_StreamInfoResponse.Version 0 resp,
          EventCount = Get pb_StreamInfoResponse.EventCount 0 resp,
          CreatedAt = time_UnixMilli (Get pb_StreamInfoResponse.CreatedAt 0 resp),
          LastEventAt = time_UnixMilli (Get pb_StreamInfoResponse.LastEventAt 0 resp),
          EventTypes = Get pb_StreamInfoResponse.EventTypes None resp\<rparr>)"

definition eventTypeCountFromProto :: "pb_EventTypeSummaryEntry option \<Rightarrow> EventTypeCount" where
  "eventTypeCountFromProto e = \<lparr>
     EventTypeCount.EventType = Get pb_EventTypeSummaryEntry.EventType '''' e,
     Count = Get pb_EventTypeSummaryEntry.Count 0 e\<rparr>"

definition admin_EventTypeSummary ::
  "'w admin_Client \<Rightarrow> ctx \<Rightarrow> ('w, EventTypeCount list option ret) state" where
  "admin_EventTypeSummary c ctx =
     unary (GetEventTypeSummary (admin_Client.raw c) ctx
         \<lparr>StoreScoped.StoreId = admin_Client.store c\<rparr>)
       None
       (\<lambda>resp. Some (range_append eventTypeCountFromProto []
          (Get pb_EventTypeSummaryResponse.Entries [] resp)))"

definition scavengeResultFromProto :: "pb_ScavengeResponse option \<Rightarrow> ScavengeResult" where
  "scavengeResultFromProto p = \<lparr>
     ScavengeResult.EventsRemoved = Get pb_ScavengeResponse.EventsRemoved 0 p,
     EventsRemaining = Get pb_ScavengeResponse.EventsRemaining 0 p,
     SpaceReclaimedBytes = Get pb_ScavengeResponse.SpaceReclaimedBytes 0 p,
     Details = Get pb_ScavengeResponse.Details None p\<rparr>"

definition admin_scavenge :: "'w admin_Client \<Rightarrow> ctx \<Rightarrow>
    (ctx \<Rightarrow> pb_ScavengeRequest \<Rightarrow> ('w, pb_ScavengeResponse option ret) state) \<Rightarrow> string \<Rightarrow>
    (string, string) gomap \<Rightarrow> ('w, ScavengeResult ret) state" where
  "admin_scavenge c ctx fn streamID options =
     unary (fn ctx \<lparr>StoreScoped.StoreId = admin_Client.store c, StreamScoped.StreamId = streamID,
         pb_ScavengeRequest.Options = options\<rparr>)
       zero_ScavengeResult scavengeResultFromProto"

definition admin_Scavenge :: "'w admin_Client \<Rightarrow> ctx \<Rightarrow> string \<Rightarrow> (string, string) gomap \<Rightarrow>
    ('w, ScavengeResult ret) state" where
  "admin_Scavenge c ctx streamID options =
     admin_scavenge c ctx (Scavenge (admin_Client.raw c)) streamID options"

definition admin_ScavengeDryRun :: "'w admin_Client \<Rightarrow> ctx \<Rightarrow> string \<Rightarrow> (string, string) gomap \<Rightarrow>
    ('w, ScavengeResult ret) state" where
  "admin_ScavengeDryRun c ctx streamID options =
     admin_scavenge c ctx (ScavengeDryRun (admin_Client.raw c)) streamID options"

definition admin_ScavengeMatching :: "'w admin_Client \<Rightarrow> ctx \<Rightarrow> string \<Rightarrow> (string, string) gomap \<Rightarrow>
    ('w, ScavengeResult list option ret) state" where
  "admin_ScavengeMatching c ctx pattern options =
     unary (ScavengeMatching (admin_Client.raw c) ctx \<lparr>
         StoreScoped.StoreId = admin_Client.store c, Pattern = pattern,
         pb_ScavengeMatchingRequest.Options = options\<rparr>)
       None
       (\<lambda>resp. Some (range_append scavengeResultFromProto []
          (Get pb_ScavengeMatchingResponse.Results [] resp)))"

definition linkSpecFromProto :: "pb_LinkInfo option \<Rightarrow> LinkSpec" where
  "linkSpecFromProto l = \<lparr>
     LinkSpec.Name = Get pb_LinkInfo.Name '''' l,
     Source = Get pb_LinkInfo.Source '''' l,
     Target = Get pb_LinkInfo.Target '''' l,
     Options = Get pb_LinkInfo.Options None l\<rparr>"

definition admin_CreateLink ::
  "'w admin_Client \<Rightarrow> ctx \<Rightarrow> LinkSpec \<Rightarrow> ('w, gerror option) state" where
  "admin_CreateLink c ctx spec =
     unary_err (CreateLink (admin_Client.raw c) ctx \<lparr>
         StoreScoped.StoreId = admin_Client.store c, LinkScoped.Name = LinkSpec.Name spec,
         pb_CreateLinkRequest.Source = LinkSpec.Source spec, Target = LinkSpec.Target spec,
         Options = LinkSpec.Options spec\<rparr>)"

definition admin_DeleteLink ::
  "'w admin_Client \<Rightarrow> ctx \<Rightarrow> string \<Rightarrow> ('w, gerror option) state" where
  "admin_DeleteLink c ctx name =
     unary_err (DeleteLink (admin_Client.raw c) ctx \<lparr>
         StoreScoped.StoreId = admin_Client.store c, LinkScoped.Name = name\<rparr>)"

definition admin_GetLink :: "'w admin_Client \<Rightarrow> ctx \<Rightarrow> string \<Rightarrow> ('w, LinkSpec ret) state" where
  "admin_GetLink c ctx name =
     unary (GetLink (admin_Client.raw c) ctx \<lparr>
         StoreScoped.StoreId = admin_Client.store c, LinkScoped.Name = name\<rparr>)
       zero_LinkSpec linkSpecFromProto"

definition admin_ListLinks ::
  "'w admin_Client \<Rightarrow> ctx \<Rightarrow> ('w, LinkSpec list option ret) state" where
  "admin_ListLinks c ctx =
     unary (ListLinks (admin_Client.raw c) ctx \<lparr>StoreScoped.StoreId = admin_Client.store c\<rparr>)
       None
       (\<lambda>resp. Some (range_append linkSpecFromProto [] (Get pb_ListLinksResponse.Links [] resp)))"

definition admin_StartLink ::
  "'w admin_Client \<Rightarrow> ctx \<Rightarrow> string \<Rightarrow> ('w, gerror option) state" where
  "admin_StartLink c ctx name =
     unary_err (StartLink (admin_Client.raw c) ctx \<lparr>
         StoreScoped.StoreId = admin_Client.store c, LinkScoped.Name = name\<rparr>)"

definition admin_StopLink ::
  "'w admin_Client \<Rightarrow> ctx \<Rightarrow> string \<Rightarrow> ('w, gerror option) state" where
  "admin_StopLink c ctx name =
     unary_err (StopLink (admin_Client.raw c) ctx \<lparr>
         StoreScoped.StoreId = admin_Client.store c, LinkScoped.Name = name\<rparr>)"

definition admin_LinkInfo :: "'w admin_Client \<Rightarrow> ctx \<Rightarrow> string \<Rightarrow> ('w, LinkRuntime ret) state" where
  "admin_LinkInfo c ctx name =
     unary (GetLinkInfo (admin_Client.raw c) ctx \<lparr>
         StoreScoped.StoreId = admin_Client.store c, LinkScoped.Name = name\<rparr>)
       zero_LinkRuntime
       (\<lambda>resp. \<lparr>LinkRuntime.Name = Get pb_LinkRuntimeInfo.Name '''' resp,
          Status = Get pb_LinkRuntimeInfo.Status '''' resp,
          EventsProcessed = Get pb_LinkRuntimeInfo.EventsProcessed 0 resp,
          Details = Get pb_LinkRuntimeInfo.Details None resp\<rparr>)"

section \<open>The catalogue\<close>

definition admin_ReloadCatalogue ::
  "'w admin_Client \<Rightarrow> ctx \<Rightarrow> ('w, CatalogueReloadResult ret) state" where
  "admin_ReloadCatalogue c ctx =
     unary (ReloadCatalogue (admin_Client.raw c) ctx ())
       zero_CatalogueReloadResult
       (\<lambda>resp. \<lparr>CatalogueReloadResult.Added = Get pb_ReloadCatalogueResponse.Added None resp,
          Removed = Get pb_ReloadCatalogueResponse.Removed None resp,
          Restarted = Get pb_ReloadCatalogueResponse.Restarted None resp,
          Error = Get pb_ReloadCatalogueResponse.Error '''' resp\<rparr>)"

text \<open>A refresh time that is empty or does not parse is the zero time.\<close>

definition lastRefresh :: "string \<Rightarrow> gotime" where
  "lastRefresh s =
     (if s \<noteq> '''' then (case time_Parse_RFC3339 s of Some t \<Rightarrow> t | None \<Rightarrow> zeroTime)
      else zeroTime)"

definition catalogueClusterInfoFromProto ::
  "pb_CatalogueClusterStatus option \<Rightarrow> CatalogueClusterInfo" where
  "catalogueClusterInfoFromProto p = \<lparr>
     CatalogueClusterInfo.ClusterID = Get pb_CatalogueClusterStatus.ClusterId '''' p,
     Members = Get pb_CatalogueClusterStatus.Members None p,
     StoreCount = Get pb_CatalogueClusterStatus.StoreCount 0 p,
     Status = Get pb_CatalogueClusterStatus.Status '''' p,
     LastRefresh = lastRefresh (Get pb_CatalogueClusterStatus.LastRefresh '''' p),
     LastError = Get pb_CatalogueClusterStatus.LastError '''' p\<rparr>"

text \<open>
  The \<open>int32\<close> counts of the wire are converted to \<open>uint32\<close>: the same 32 bits. The clusters are
  filled into a slice of their length by index.
\<close>

definition admin_GetCatalogueStatus ::
  "'w admin_Client \<Rightarrow> ctx \<Rightarrow> ('w, CatalogueStatus ret) state" where
  "admin_GetCatalogueStatus c ctx =
     unary (GetCatalogueStatus (admin_Client.raw c) ctx ())
       zero_CatalogueStatus
       (\<lambda>resp. \<lparr>
          CatalogueStatus.CatalogueSize = Get pb_GetCatalogueStatusResponse.CatalogueSize 0 resp,
          GatewayUptimeMs = Get pb_GetCatalogueStatusResponse.GatewayUptimeMs 0 resp,
          Clusters = Some (map catalogueClusterInfoFromProto
            (Get pb_GetCatalogueStatusResponse.Clusters [] resp))\<rparr>)"

section \<open>The store firewall\<close>

definition admin_firewall :: "string \<Rightarrow> 'w AdminServiceClient \<Rightarrow> 'w AdminServiceClient" where
  "admin_firewall s stub = \<lparr>
     GetStoreStats = guarded s (GetStoreStats stub),
     GetStreamInfo = guarded s (GetStreamInfo stub),
     GetEventTypeSummary = guarded s (GetEventTypeSummary stub),
     Scavenge = guarded s (Scavenge stub),
     ScavengeMatching = guarded s (ScavengeMatching stub),
     ScavengeDryRun = guarded s (ScavengeDryRun stub),
     CreateLink = guarded s (CreateLink stub),
     DeleteLink = guarded s (DeleteLink stub),
     GetLink = guarded s (GetLink stub),
     ListLinks = guarded s (ListLinks stub),
     StartLink = guarded s (StartLink stub),
     StopLink = guarded s (StopLink stub),
     GetLinkInfo = guarded s (GetLinkInfo stub),
     ReloadCatalogue = ReloadCatalogue stub,
     GetCatalogueStatus = GetCatalogueStatus stub\<rparr>"

lemmas admin_ops =
  admin_StoreStats_def admin_StreamInfo_def admin_EventTypeSummary_def admin_scavenge_def
  admin_Scavenge_def admin_ScavengeDryRun_def admin_ScavengeMatching_def admin_CreateLink_def
  admin_DeleteLink_def admin_GetLink_def admin_ListLinks_def admin_StartLink_def
  admin_StopLink_def admin_LinkInfo_def admin_ReloadCatalogue_def admin_GetCatalogueStatus_def

lemma admin_firewall_ops [firewall]:
  fixes stub :: "'w AdminServiceClient" and s :: string
  defines "c \<equiv> admin_New stub s" and "d \<equiv> admin_New (admin_firewall s stub) s"
  shows "admin_StoreStats d = admin_StoreStats c"
    and "admin_StreamInfo d = admin_StreamInfo c"
    and "admin_EventTypeSummary d = admin_EventTypeSummary c"
    and "admin_Scavenge d = admin_Scavenge c"
    and "admin_ScavengeDryRun d = admin_ScavengeDryRun c"
    and "admin_ScavengeMatching d = admin_ScavengeMatching c"
    and "admin_CreateLink d = admin_CreateLink c"
    and "admin_DeleteLink d = admin_DeleteLink c"
    and "admin_GetLink d = admin_GetLink c"
    and "admin_ListLinks d = admin_ListLinks c"
    and "admin_StartLink d = admin_StartLink c"
    and "admin_StopLink d = admin_StopLink c"
    and "admin_LinkInfo d = admin_LinkInfo c"
    and "admin_ReloadCatalogue d = admin_ReloadCatalogue c"
    and "admin_GetCatalogueStatus d = admin_GetCatalogueStatus c"
  by (simp_all add: c_def d_def fun_eq_iff admin_ops admin_New_def admin_firewall_def)

end
