(* ===== verification/Json.thy ===== *)
theory Json
  imports Health GoTime
begin

text \<open>
  What the program uses of Go's \<open>unicode/utf8\<close> and \<open>encoding/json\<close>: \<open>utf8.Valid\<close>, the validity
  scanner of \<open>json.Valid\<close>, the pieces of a valid array or object, the text of a JSON string, and the
  values given to \<open>json.Encoder\<close>.
\<close>

section \<open>UTF-8\<close>

definition byte_in :: "nat \<Rightarrow> nat \<Rightarrow> char \<Rightarrow> bool" where
  "byte_in lo hi c \<longleftrightarrow> lo \<le> (of_char c :: nat) \<and> (of_char c :: nat) \<le> hi"

definition cont :: "char \<Rightarrow> bool" where
  "cont = byte_in 128 191"

text \<open>The length of the well-formed sequence at the head, or \<open>None\<close> for the invalid rune of width 1.\<close>

definition runeLen :: "string \<Rightarrow> nat option" where
  "runeLen s =
     (case s of
        [] \<Rightarrow> None
      | a # s1 \<Rightarrow>
          if byte_in 0 127 a then Some 1
          else (case s1 of
              [] \<Rightarrow> None
            | b # s2 \<Rightarrow>
                if byte_in 194 223 a then (if cont b then Some 2 else None)
                else (case s2 of
                    [] \<Rightarrow> None
                  | c # s3 \<Rightarrow>
                      if byte_in 224 239 a then
                        (if byte_in (if byte_in 224 224 a then 160 else 128)
                              (if byte_in 237 237 a then 159 else 191) b \<and> cont c
                         then Some 3 else None)
                      else (case s3 of
                          [] \<Rightarrow> None
                        | d # s4 \<Rightarrow>
                            if byte_in 240 244 a \<and>
                               byte_in (if byte_in 240 240 a then 144 else 128)
                                 (if byte_in 244 244 a then 143 else 191) b \<and> cont c \<and> cont d
                            then Some 4 else None))))"

lemma runeLen_bounds: "runeLen s = Some n \<Longrightarrow> 1 \<le> n \<and> n \<le> length s"
  by (auto simp: runeLen_def split: list.splits if_splits)

function utf8_Valid :: "bytes \<Rightarrow> bool" where
  "utf8_Valid s =
     (if s = [] then True
      else case runeLen s of None \<Rightarrow> False | Some n \<Rightarrow> utf8_Valid (drop n s))"
  by pat_completeness auto
termination
  by (relation "measure length") (auto dest!: runeLen_bounds)

declare utf8_Valid.simps [simp del]

lemma utf8_Valid_simps [simp]:
  "utf8_Valid []"
  "byte_in 0 127 c \<Longrightarrow> utf8_Valid (c # s) = utf8_Valid s"
  by (subst utf8_Valid.simps; simp add: runeLen_def)+

lemma utf8_Valid_ascii: "list_all (byte_in 0 127) s \<Longrightarrow> utf8_Valid s"
  by (induction s) auto

text \<open>\<open>EncodeRune\<close>, for a code point below 0x110000 that is not a surrogate.\<close>

definition encodeRune :: "nat \<Rightarrow> string" where
  "encodeRune r = map char_of
     (if r < 128 then [r]
      else if r < 2048 then [192 + r div 64, 128 + r mod 64]
      else if r < 65536 then [224 + r div 4096, 128 + r div 64 mod 64, 128 + r mod 64]
      else [240 + r div 262144, 128 + r div 4096 mod 64, 128 + r div 64 mod 64, 128 + r mod 64])"

definition RuneError :: nat where "RuneError = 65533"

section \<open>The scanner\<close>

text \<open>
  The states of \<open>encoding/json\<close>'s scanner, and what it is inside of. It reads one byte at a time;
  \<open>None\<close> is the scan error.
\<close>

datatype jmode =
    BeginValueOrEmpty | BeginValue | BeginStringOrEmpty | BeginString | EndValue | EndTop
  | InString | InStringEsc | InStringEscU nat
  | Neg | NonZero | Zero | Dot | Dot0 | Exp | ExpSign | Exp0
  | InLit string

datatype jparse = ParseObjectKey | ParseObjectValue | ParseArrayValue

type_synonym jscan = "jmode \<times> jparse list"

definition jspace :: "char \<Rightarrow> bool" where
  "jspace c \<longleftrightarrow> List.member [32, 9, 13, 10] (of_char c :: nat)"

definition jdigit :: "char \<Rightarrow> bool" where
  "jdigit = byte_in 48 57"

definition jhex :: "char \<Rightarrow> bool" where
  "jhex c \<longleftrightarrow> byte_in 48 57 c \<or> byte_in 97 102 c \<or> byte_in 65 70 c"

definition maxNestingDepth :: nat where "maxNestingDepth = 10000"

definition pushParse :: "jmode \<Rightarrow> jparse \<Rightarrow> jparse list \<Rightarrow> jscan option" where
  "pushParse m p st = (if Suc (length st) \<le> maxNestingDepth then Some (m, p # st) else None)"

definition popParse :: "jparse list \<Rightarrow> jscan option" where
  "popParse st = (case tl st of [] \<Rightarrow> Some (EndTop, []) | st' \<Rightarrow> Some (EndValue, st'))"

definition stepEndValue :: "char \<Rightarrow> jparse list \<Rightarrow> jscan option" where
  "stepEndValue c st =
     (case st of
        [] \<Rightarrow> if jspace c then Some (EndTop, []) else None
      | p # ps \<Rightarrow>
          if jspace c then Some (EndValue, st)
          else (case p of
              ParseObjectKey \<Rightarrow>
                if c = CHR '':'' then Some (BeginValue, ParseObjectValue # ps) else None
            | ParseObjectValue \<Rightarrow>
                if c = CHR '','' then Some (BeginString, ParseObjectKey # ps)
                else if c = CHR ''}'' then popParse st
                else None
            | ParseArrayValue \<Rightarrow>
                if c = CHR '','' then Some (BeginValue, st)
                else if c = CHR '']'' then popParse st
                else None))"

definition stepBeginValue :: "char \<Rightarrow> jmode \<Rightarrow> jparse list \<Rightarrow> jscan option" where
  "stepBeginValue c m st =
     (if jspace c then Some (m, st)
      else if c = CHR ''{'' then pushParse BeginStringOrEmpty ParseObjectKey st
      else if c = CHR ''['' then pushParse BeginValueOrEmpty ParseArrayValue st
      else if c = CHR 0x22 then Some (InString, st)
      else if c = CHR ''-'' then Some (Neg, st)
      else if c = CHR ''0'' then Some (Zero, st)
      else if c = CHR ''t'' then Some (InLit ''rue'', st)
      else if c = CHR ''f'' then Some (InLit ''alse'', st)
      else if c = CHR ''n'' then Some (InLit ''ull'', st)
      else if byte_in 49 57 c then Some (NonZero, st)
      else None)"

definition stepBeginString :: "char \<Rightarrow> jmode \<Rightarrow> jparse list \<Rightarrow> jscan option" where
  "stepBeginString c m st =
     (if jspace c then Some (m, st)
      else if c = CHR 0x22 then Some (InString, st)
      else None)"

definition stepZero :: "char \<Rightarrow> jparse list \<Rightarrow> jscan option" where
  "stepZero c st =
     (if c = CHR ''.'' then Some (Dot, st)
      else if c = CHR ''e'' \<or> c = CHR ''E'' then Some (Exp, st)
      else stepEndValue c st)"

fun jstep :: "char \<Rightarrow> jscan \<Rightarrow> jscan option" where
  "jstep c (BeginValueOrEmpty, st) =
     (if \<not> jspace c \<and> c = CHR '']'' then stepEndValue c st
      else stepBeginValue c (if jspace c then BeginValueOrEmpty else BeginValue) st)"
| "jstep c (BeginValue, st) = stepBeginValue c BeginValue st"
| "jstep c (BeginStringOrEmpty, st) =
     (if \<not> jspace c \<and> c = CHR ''}'' then stepEndValue c (ParseObjectValue # tl st)
      else stepBeginString c (if jspace c then BeginStringOrEmpty else BeginString) st)"
| "jstep c (BeginString, st) = stepBeginString c BeginString st"
| "jstep c (EndValue, st) = stepEndValue c st"
| "jstep c (EndTop, st) = (if jspace c then Some (EndTop, st) else None)"
| "jstep c (InString, st) =
     (if c = CHR 0x22 then Some (EndValue, st)
      else if c = CHR 0x5C then Some (InStringEsc, st)
      else if byte_in 0 31 c then None
      else Some (InString, st))"
| "jstep c (InStringEsc, st) =
     (if List.member [CHR ''b'', CHR ''f'', CHR ''n'', CHR ''r'', CHR ''t'', CHR 0x5C, CHR ''/'',
          CHR 0x22] c then Some (InString, st)
      else if c = CHR ''u'' then Some (InStringEscU 3, st)
      else None)"
| "jstep c (InStringEscU n, st) =
     (if jhex c then Some (case n of 0 \<Rightarrow> InString | Suc k \<Rightarrow> InStringEscU k, st) else None)"
| "jstep c (Neg, st) =
     (if c = CHR ''0'' then Some (Zero, st)
      else if byte_in 49 57 c then Some (NonZero, st)
      else None)"
| "jstep c (NonZero, st) = (if jdigit c then Some (NonZero, st) else stepZero c st)"
| "jstep c (Zero, st) = stepZero c st"
| "jstep c (Dot, st) = (if jdigit c then Some (Dot0, st) else None)"
| "jstep c (Dot0, st) =
     (if jdigit c then Some (Dot0, st)
      else if c = CHR ''e'' \<or> c = CHR ''E'' then Some (Exp, st)
      else stepEndValue c st)"
| "jstep c (Exp, st) =
     (if c = CHR ''+'' \<or> c = CHR ''-'' then Some (ExpSign, st)
      else if jdigit c then Some (Exp0, st) else None)"
| "jstep c (ExpSign, st) = (if jdigit c then Some (Exp0, st) else None)"
| "jstep c (Exp0, st) = (if jdigit c then Some (Exp0, st) else stepEndValue c st)"
| "jstep c (InLit l, st) =
     (case l of
        [] \<Rightarrow> stepEndValue c st
      | x # xs \<Rightarrow>
          if c = x then Some (if xs = [] then EndValue else InLit xs, st) else None)"

fun jscan_all :: "string \<Rightarrow> jscan \<Rightarrow> jscan option" where
  "jscan_all [] sc = Some sc"
| "jscan_all (c # cs) sc = (case jstep c sc of Some sc' \<Rightarrow> jscan_all cs sc' | None \<Rightarrow> None)"

text \<open>At the end of the input a space is fed in, to end a number at the top level.\<close>

definition jeof :: "jscan \<Rightarrow> bool" where
  "jeof sc \<longleftrightarrow> fst sc = EndTop \<or>
     (case jstep (CHR '' '') sc of Some sc' \<Rightarrow> fst sc' = EndTop | None \<Rightarrow> False)"

definition json_Valid :: "bytes \<Rightarrow> bool" where
  "json_Valid b \<longleftrightarrow> (case jscan_all b (BeginValue, []) of Some sc \<Rightarrow> jeof sc | None \<Rightarrow> False)"

lemma jscan_all_append:
  "jscan_all (xs @ ys) sc = (case jscan_all xs sc of Some sc' \<Rightarrow> jscan_all ys sc' | None \<Rightarrow> None)"
  by (induction xs arbitrary: sc) (auto split: option.splits)

section \<open>Pieces of a valid value\<close>

text \<open>
  The pieces of a text at the top-level occurrences of a separator: \<open>depth\<close> counts open brackets,
  \<open>str\<close> and \<open>esc\<close> tell whether the scan is in a string and past a backslash.
\<close>

fun split_top :: "char \<Rightarrow> nat \<Rightarrow> bool \<Rightarrow> bool \<Rightarrow> string \<Rightarrow> string list" where
  "split_top sep depth str esc [] = [[]]"
| "split_top sep depth str esc (c # cs) =
     (let put = (\<lambda>ps. case ps of p # ps' \<Rightarrow> (c # p) # ps' | [] \<Rightarrow> [[c]]) in
      if str then
        put (split_top sep depth (esc \<or> c \<noteq> CHR 0x22) (\<not> esc \<and> c = CHR 0x5C) cs)
      else if c = CHR 0x22 then put (split_top sep depth True False cs)
      else if c = CHR ''{'' \<or> c = CHR ''['' then put (split_top sep (Suc depth) False False cs)
      else if c = CHR ''}'' \<or> c = CHR '']'' then put (split_top sep (depth - 1) False False cs)
      else if c = sep \<and> depth = 0 then [] # split_top sep 0 False False cs
      else put (split_top sep depth False False cs))"

definition jtrim :: "string \<Rightarrow> string" where
  "jtrim s = rev (dropWhile jspace (rev (dropWhile jspace s)))"

text \<open>The elements of an array, and the members of an object, of a valid text.\<close>

definition jpieces :: "string \<Rightarrow> string list" where
  "jpieces txt =
     (let inner = butlast (tl (jtrim txt)) in
      if jtrim inner = [] then [] else map jtrim (split_top (CHR '','') 0 False False inner))"

definition jmember :: "string \<Rightarrow> string \<times> string" where
  "jmember piece =
     (case split_top (CHR '':'') 0 False False piece of
        k # v # _ \<Rightarrow> (jtrim k, jtrim v)
      | _ \<Rightarrow> (piece, []))"

definition hexVal :: "char \<Rightarrow> nat" where
  "hexVal c = (let n = of_char c in
     if byte_in 48 57 c then n - 48 else if byte_in 97 102 c then n - 87 else n - 55)"

definition getu4 :: "string \<Rightarrow> nat option" where
  "getu4 s =
     (case s of
        a # b # c # d # _ \<Rightarrow>
          if jhex a \<and> jhex b \<and> jhex c \<and> jhex d
          then Some (((hexVal a * 16 + hexVal b) * 16 + hexVal c) * 16 + hexVal d) else None
      | _ \<Rightarrow> None)"

definition unescape :: "char \<Rightarrow> char" where
  "unescape c =
     (if c = CHR ''b'' then char_of (8 :: nat) else if c = CHR ''f'' then char_of (12 :: nat)
      else if c = CHR ''n'' then char_of (10 :: nat) else if c = CHR ''r'' then char_of (13 :: nat)
      else if c = CHR ''t'' then char_of (9 :: nat) else c)"

text \<open>
  \<open>unquote\<close>: the text between the quotes. An escaped surrogate pair is one rune; a lone surrogate
  and an invalid byte become the replacement rune.
\<close>

function unquoteBody :: "string \<Rightarrow> string" where
  "unquoteBody s =
     (case s of
        [] \<Rightarrow> []
      | c # cs \<Rightarrow>
          if c = CHR 0x5C then
            (case cs of
               [] \<Rightarrow> []
             | e # es \<Rightarrow>
                 if e = CHR ''u'' then
                   (case getu4 es of
                      None \<Rightarrow> []
                    | Some r \<Rightarrow>
                        if 55296 \<le> r \<and> r < 57344 then
                          (case (if take 2 (drop 4 es) = [CHR 0x5C, CHR ''u'']
                                 then getu4 (drop 6 es) else None) of
                             Some r2 \<Rightarrow>
                               if r < 56320 \<and> 56320 \<le> r2 \<and> r2 < 57344
                               then encodeRune ((r - 55296) * 1024 + (r2 - 56320) + 65536)
                                 @ unquoteBody (drop 10 es)
                               else encodeRune RuneError @ unquoteBody (drop 4 es)
                           | None \<Rightarrow> encodeRune RuneError @ unquoteBody (drop 4 es))
                        else encodeRune r @ unquoteBody (drop 4 es))
                 else unescape e # unquoteBody es)
          else (case runeLen s of
              Some n \<Rightarrow> take n s @ unquoteBody (drop n s)
            | None \<Rightarrow> encodeRune RuneError @ unquoteBody cs))"
  by pat_completeness auto
termination
  by (relation "measure length") (auto dest!: runeLen_bounds)

declare unquoteBody.simps [simp del]

definition unquote :: "string \<Rightarrow> string" where
  "unquote txt = unquoteBody (butlast (tl txt))"

text \<open>The kind of a valid literal is told by its first byte.\<close>

definition isJsonString :: "string \<Rightarrow> bool" where
  "isJsonString txt \<longleftrightarrow> txt \<noteq> [] \<and> hd txt = CHR 0x22"

definition isJsonNull :: "string \<Rightarrow> bool" where
  "isJsonNull txt \<longleftrightarrow> txt \<noteq> [] \<and> hd txt = CHR ''n''"

definition isJsonObject :: "string \<Rightarrow> bool" where
  "isJsonObject txt \<longleftrightarrow> txt \<noteq> [] \<and> hd txt = CHR ''{''"

definition isJsonArray :: "string \<Rightarrow> bool" where
  "isJsonArray txt \<longleftrightarrow> txt \<noteq> [] \<and> hd txt = CHR ''[''"

section \<open>Values to encode\<close>

text \<open>
  The Go values the program hands to \<open>json.Encoder\<close>. An object is a Go map: an association list with
  one entry per key, whose order means nothing (the encoder sorts the keys).
\<close>

datatype json =
    JNull
  | JBool bool
  | JStr string
  | JInt int
  | JFloat float64
  | JRaw bytes
  | JArr "json list"
  | JObj "(string \<times> json) list"

text \<open>\<open>m[k] = v\<close> and the lookup of a key.\<close>

definition jset :: "string \<Rightarrow> json \<Rightarrow> (string \<times> json) list \<Rightarrow> (string \<times> json) list" where
  "jset k v m = AList.update k v m"

definition jfield :: "json \<Rightarrow> string \<Rightarrow> json option" where
  "jfield j k = (case j of JObj m \<Rightarrow> map_of m k | _ \<Rightarrow> None)"

lemma map_of_jset [simp]: "map_of (jset k v m) k' = (if k' = k then Some v else map_of m k')"
  by (simp add: jset_def update_conv')

text \<open>A \<open>float64\<close> whose exponent is all ones is an infinity or not a number: it has no JSON.\<close>

definition float_finite :: "float64 \<Rightarrow> bool" where
  "float_finite f \<longleftrightarrow> take_bit 11 (drop_bit 52 f) \<noteq> 2047"

fun json_ok :: "json \<Rightarrow> bool" where
  "json_ok (JFloat f) = float_finite f"
| "json_ok (JRaw b) = json_Valid b"
| "json_ok (JArr js) = (\<forall>j \<in> set js. json_ok j)"
| "json_ok (JObj m) = (\<forall>(k, j) \<in> set m. json_ok j)"
| "json_ok _ = True"

end
