(* ===== verification/JsonScan.thy ===== *)
theory JsonScan
  imports Json
begin

text \<open>
  What the scanner of \<open>encoding/json\<close> says about a text: how deep it nests, what \<open>json.Compact\<close>
  leaves of it, that a valid text is valid inside a larger one, and that the pieces of a composed text
  are the texts it was composed of.
\<close>

section \<open>Compaction\<close>

definition in_string :: "jmode \<Rightarrow> bool" where
  "in_string m = (case m of InString \<Rightarrow> True | InStringEsc \<Rightarrow> True | InStringEscU n \<Rightarrow> True | _ \<Rightarrow> False)"

text \<open>\<open>appendCompact\<close> drops the bytes for which the scanner says to skip space.\<close>

definition skips :: "char \<Rightarrow> jmode \<Rightarrow> bool" where
  "skips c m \<longleftrightarrow> jspace c \<and> \<not> in_string m"

fun compactFrom :: "string \<Rightarrow> jscan \<Rightarrow> string" where
  "compactFrom [] sc = []"
| "compactFrom (c # cs) sc =
     (case jstep c sc of
        None \<Rightarrow> []
      | Some sc' \<Rightarrow> if skips c (fst sc) then compactFrom cs sc' else c # compactFrom cs sc')"

definition compact :: "bytes \<Rightarrow> string" where
  "compact b = compactFrom b (BeginValue, [])"

text \<open>The most brackets open at a time.\<close>

fun jpeak :: "string \<Rightarrow> jscan \<Rightarrow> nat" where
  "jpeak [] sc = length (snd sc)"
| "jpeak (c # cs) sc =
     max (length (snd sc)) (case jstep c sc of None \<Rightarrow> 0 | Some sc' \<Rightarrow> jpeak cs sc')"

lemma jpeak_ge: "length (snd sc) \<le> jpeak cs sc"
  by (cases cs) simp_all

section \<open>Modes\<close>

text \<open>The modes in which a value may be over.\<close>

definition closing :: "jmode \<Rightarrow> bool" where
  "closing m \<longleftrightarrow> m \<in> {EndValue, Zero, NonZero, Dot0, Exp0, InLit []}"

lemma closing_simps [simp]: "closing EndValue" "closing Zero" "closing NonZero" "closing Dot0" "closing Exp0"
  by (simp_all add: closing_def)

lemma closing_not_string: "closing m \<Longrightarrow> \<not> in_string m"
  by (auto simp: closing_def in_string_def)

text \<open>What the scanner keeps of its own states.\<close>

definition scan_wf :: "jscan \<Rightarrow> bool" where
  "scan_wf sc \<longleftrightarrow> (fst sc = BeginStringOrEmpty \<longrightarrow> snd sc \<noteq> []) \<and> (fst sc = EndTop \<longrightarrow> snd sc = []) \<and>
     (\<forall>l. fst sc = InLit l \<longrightarrow> list_all (byte_in 97 122) l)"

lemma scan_wf_start [simp]: "scan_wf (BeginValue, st)"
  by (simp add: scan_wf_def)

lemma jspace_neq:
  assumes "jspace c"
  shows "c \<noteq> CHR ''{''" "c \<noteq> CHR ''}''" "c \<noteq> CHR ''[''" "c \<noteq> CHR '']''" "c \<noteq> CHR '',''"
    "c \<noteq> CHR '':''" "c \<noteq> CHR 0x22" "c \<noteq> CHR ''.''" "c \<noteq> CHR ''e''" "c \<noteq> CHR ''E''" "\<not> jdigit c"
    "\<not> byte_in 97 122 c" "\<not> byte_in 49 57 c" "c \<noteq> CHR ''0''" "c \<noteq> CHR ''+''" "c \<noteq> CHR ''-''"
  using assms by (auto simp: jspace_def jdigit_def byte_in_def)

lemma stepEndValue_wf: "stepEndValue c st = Some sc \<Longrightarrow> scan_wf sc"
  by (auto simp: stepEndValue_def popParse_def scan_wf_def split: list.splits jparse.splits if_splits)

lemma stepBeginValue_wf: "stepBeginValue c m st = Some sc \<Longrightarrow> scan_wf (m, st) \<Longrightarrow> scan_wf sc"
  by (auto simp: stepBeginValue_def pushParse_def scan_wf_def byte_in_def split: if_splits)

lemma stepZero_wf: "stepZero c st = Some sc \<Longrightarrow> scan_wf sc"
  by (auto simp: stepZero_def scan_wf_def dest!: stepEndValue_wf split: if_splits)

lemma jstep_wf: "jstep c sc = Some sc' \<Longrightarrow> scan_wf sc \<Longrightarrow> scan_wf sc'"
  by (cases "(c, sc)" rule: jstep.cases)
    (auto dest: stepEndValue_wf stepZero_wf stepBeginValue_wf
      simp: scan_wf_def stepBeginString_def split: if_splits nat.splits list.splits)

lemma jscan_all_wf: "jscan_all cs sc = Some sc' \<Longrightarrow> scan_wf sc \<Longrightarrow> scan_wf sc'"
  by (induction cs arbitrary: sc) (auto split: option.splits dest: jstep_wf)

text \<open>Outside a string a space leaves the scanner where it is, or ends the value.\<close>

lemma step_space [simp]:
  assumes "jspace c"
  shows "stepEndValue c st = Some (if st = [] then EndTop else EndValue, st)"
    and "stepBeginValue c m st = Some (m, st)" "stepBeginString c m st = Some (m, st)"
    and "stepZero c st = Some (if st = [] then EndTop else EndValue, st)"
  using assms jspace_neq [OF assms]
  by (simp_all add: stepEndValue_def stepBeginValue_def stepBeginString_def stepZero_def
      split: list.split)

lemma jstep_space:
  assumes "jstep c (m, st) = Some sc'" and "skips c m" and "scan_wf (m, st)"
  shows "sc' = (m, st) \<or> closing m \<and> sc' = (if st = [] then EndTop else EndValue, st)"
proof -
  from assms(2) have s: "jspace c" "\<not> in_string m" by (simp_all add: skips_def)
  note neq = jspace_neq [OF s(1)]
  show ?thesis
  proof (cases m)
    case (InLit l)
    with assms(1,3) s neq show ?thesis by (cases l) (auto simp: closing_def scan_wf_def split: if_splits)
  qed (use assms(1) s neq in \<open>simp_all add: in_string_def\<close>)
qed

text \<open>What ends a value is a separator or a bracket: a digit goes on with a number.\<close>

lemma closing_step:
  assumes "closing m" and "\<not> jdigit c" "c \<noteq> CHR ''.''" "c \<noteq> CHR ''e''" "c \<noteq> CHR ''E''"
  shows "jstep c (m, st) = stepEndValue c st"
  using assms by (auto simp: closing_def stepZero_def)

lemma stepEndValue_char:
  assumes "stepEndValue c st = Some sc"
  shows "\<not> jdigit c" "c \<noteq> CHR ''.''" "c \<noteq> CHR ''e''" "c \<noteq> CHR ''E''"
  using assms jspace_neq [of c]
  by (auto simp: stepEndValue_def jdigit_def byte_in_def split: list.splits jparse.splits if_splits)

section \<open>A valid text inside a larger one\<close>

text \<open>
  The scanner of a text with its skipped spaces, at the top, against the scanner of the compacted text
  inside the brackets \<open>base\<close>: the second may still be in a number where the first has seen the space
  behind it.
\<close>

definition tracks :: "jparse list \<Rightarrow> jscan \<Rightarrow> jscan \<Rightarrow> bool" where
  "tracks base sc sc' \<longleftrightarrow> scan_wf sc \<and> snd sc' = snd sc @ base \<and>
     (fst sc' = fst sc \<and> (fst sc = EndTop \<longrightarrow> base = []) \<or>
      fst sc \<in> {EndValue, EndTop} \<and> closing (fst sc'))"

lemma pushParse_base:
  "pushParse m p st = Some sc \<Longrightarrow> length (snd sc) + length base \<le> maxNestingDepth \<Longrightarrow>
     pushParse m p (st @ base) = Some (fst sc, snd sc @ base)"
  by (auto simp: pushParse_def split: if_splits)

text \<open>How a value begins that is not bracketed.\<close>

definition begin_mode :: "char \<Rightarrow> jmode option" where
  "begin_mode c =
     (if c = CHR 0x22 then Some InString
      else if c = CHR ''-'' then Some Neg
      else if c = CHR ''0'' then Some Zero
      else if c = CHR ''t'' then Some (InLit ''rue'')
      else if c = CHR ''f'' then Some (InLit ''alse'')
      else if c = CHR ''n'' then Some (InLit ''ull'')
      else if byte_in 49 57 c then Some NonZero
      else None)"

lemma begin_mode_not_end: "begin_mode c = Some m \<Longrightarrow> m \<noteq> EndTop"
  by (auto simp: begin_mode_def split: if_splits)

lemma stepBeginValue_alt:
  "stepBeginValue c m st =
     (if jspace c then Some (m, st)
      else if c = CHR ''{'' then pushParse BeginStringOrEmpty ParseObjectKey st
      else if c = CHR ''['' then pushParse BeginValueOrEmpty ParseArrayValue st
      else map_option (\<lambda>m. (m, st)) (begin_mode c))"
  by (simp add: stepBeginValue_def begin_mode_def)

lemma stepBeginValue_base:
  "stepBeginValue c BeginValue st = Some sc \<Longrightarrow> length (snd sc) + length base \<le> maxNestingDepth \<Longrightarrow>
     fst sc \<noteq> EndTop \<and> stepBeginValue c BeginValue (st @ base) = Some (fst sc, snd sc @ base)"
  unfolding stepBeginValue_alt
  by (cases "begin_mode c") (auto simp: pushParse_def begin_mode_not_end split: if_splits)

lemma stepEndValue_base:
  assumes "stepEndValue c st = Some sc" and "\<not> jspace c"
  shows "\<exists>m. stepEndValue c (st @ base) = Some (m, snd sc @ base) \<and>
    (m = fst sc \<and> (fst sc = EndTop \<longrightarrow> base = []) \<or> fst sc = EndTop \<and> m = EndValue)"
proof (cases st)
  case Nil
  with assms show ?thesis by (simp add: stepEndValue_def)
next
  case (Cons p ps)
  have pop: "\<exists>m. popParse (p # ps @ base) = Some (m, snd sc @ base) \<and>
      (m = fst sc \<and> (fst sc = EndTop \<longrightarrow> base = []) \<or> fst sc = EndTop \<and> m = EndValue)"
    if "popParse (p # ps) = Some sc"
  proof (cases ps)
    case Nil
    with that have "sc = (EndTop, [])" by (simp add: popParse_def)
    with Nil show ?thesis by (cases base) (simp_all add: popParse_def)
  next
    case (Cons q qs)
    with that have "sc = (EndValue, ps)" by (simp add: popParse_def)
    with Cons show ?thesis by (simp add: popParse_def)
  qed
  show ?thesis
  proof (cases p)
    case ParseObjectKey
    with assms Cons show ?thesis by (auto simp: stepEndValue_def split: if_splits)
  next
    case ParseObjectValue
    with assms Cons pop show ?thesis
      by (cases "c = CHR '',''"; cases "c = CHR ''}''") (auto simp: stepEndValue_def)
  next
    case ParseArrayValue
    with assms Cons pop show ?thesis
      by (cases "c = CHR '',''"; cases "c = CHR '']''") (auto simp: stepEndValue_def)
  qed
qed

lemma jstep_base:
  assumes "jstep c (m, st) = Some sc" and "\<not> skips c m" and "scan_wf (m, st)"
    and "length (snd sc) + length base \<le> maxNestingDepth"
  shows "\<exists>m'. jstep c (m, st @ base) = Some (m', snd sc @ base) \<and>
    (m' = fst sc \<and> (fst sc = EndTop \<longrightarrow> base = []) \<or> fst sc = EndTop \<and> m' = EndValue)"
proof (cases "in_string m")
  case True
  with assms(1) show ?thesis
    by (cases m) (auto simp: in_string_def split: if_splits nat.splits)
next
  case False
  with assms(2) have s: "\<not> jspace c" by (simp add: skips_def)
  note e = stepEndValue_base [OF _ s, of _ sc base]
  note b = stepBeginValue_base [OF _ assms(4)]
  have z: "stepZero c st = Some sc \<Longrightarrow> \<exists>m'. stepZero c (st @ base) = Some (m', snd sc @ base) \<and>
    (m' = fst sc \<and> (fst sc = EndTop \<longrightarrow> base = []) \<or> fst sc = EndTop \<and> m' = EndValue)"
    using e by (auto simp: stepZero_def split: if_splits)
  show ?thesis
  proof (cases m)
    case BeginStringOrEmpty
    with assms(3) have "tl st @ base = tl (st @ base)" by (simp add: scan_wf_def)
    with BeginStringOrEmpty assms(1) s e [of "ParseObjectValue # tl st"] show ?thesis
      by (auto simp: stepBeginString_def split: if_splits)
  next
    case EndTop
    with assms(1) s show ?thesis by simp
  qed (use assms(1) s e b z in \<open>auto simp: stepBeginString_def split: if_splits list.splits\<close>,
      use False in \<open>simp_all add: in_string_def\<close>)
qed

lemma tracks_step:
  assumes "jstep c sc = Some sc1" and "tracks base sc sc'"
    and "length (snd sc1) + length base \<le> maxNestingDepth"
  shows "if skips c (fst sc) then tracks base sc1 sc'
    else \<not> skips c (fst sc') \<and> (\<exists>sc1'. jstep c sc' = Some sc1' \<and> tracks base sc1 sc1')"
proof -
  have wf: "scan_wf sc1" using jstep_wf assms(1,2) by (auto simp: tracks_def)
  obtain m st m' where sc: "sc = (m, st)" "sc' = (m', st @ base)"
    using assms(2) by (cases sc; cases sc') (auto simp: tracks_def)
  show ?thesis
  proof (cases "skips c m")
    case True
    with jstep_space [of c m st sc1] assms(1,2) wf show ?thesis by (auto simp: sc tracks_def)
  next
    case False
    show ?thesis
    proof (cases "m' = m")
      case True
      obtain m1 where "jstep c (m, st @ base) = Some (m1, snd sc1 @ base)"
        "m1 = fst sc1 \<and> (fst sc1 = EndTop \<longrightarrow> base = []) \<or> fst sc1 = EndTop \<and> m1 = EndValue"
        using jstep_base [of c m st sc1 base] assms False by (auto simp: sc tracks_def)
      with False True wf show ?thesis by (auto simp: sc tracks_def)
    next
      case neq: False
      with assms(2) have c: "m \<in> {EndValue, EndTop}" "closing m'" by (auto simp: sc tracks_def)
      with False have s: "\<not> jspace c" by (auto simp: skips_def in_string_def)
      with c assms(1) have m: "stepEndValue c st = Some sc1" by (auto simp: sc)
      obtain m1 where "stepEndValue c (st @ base) = Some (m1, snd sc1 @ base)"
        "m1 = fst sc1 \<and> (fst sc1 = EndTop \<longrightarrow> base = []) \<or> fst sc1 = EndTop \<and> m1 = EndValue"
        using stepEndValue_base [OF m s] by blast
      moreover have "jstep c (m', st @ base) = stepEndValue c (st @ base)"
        using closing_step [OF c(2)] stepEndValue_char [OF m] by blast
      ultimately show ?thesis using False s wf by (auto simp: sc tracks_def skips_def)
    qed
  qed
qed

lemma tracks_scan:
  assumes "jscan_all b sc = Some sf" and "tracks base sc sc'"
    and "jpeak b sc + length base \<le> maxNestingDepth"
  shows "compactFrom (compactFrom b sc) sc' = compactFrom b sc \<and>
    (\<exists>sf'. jscan_all (compactFrom b sc) sc' = Some sf' \<and> tracks base sf sf')"
  using assms
proof (induction b arbitrary: sc sc')
  case Nil
  then show ?case by simp
next
  case (Cons c b)
  obtain sc1 where s: "jstep c sc = Some sc1" "jscan_all b sc1 = Some sf"
    using Cons.prems(1) by (auto split: option.splits)
  have p: "jpeak b sc1 + length base \<le> maxNestingDepth" using Cons.prems(3) s(1) by simp
  then have "length (snd sc1) + length base \<le> maxNestingDepth" using jpeak_ge [of sc1 b] by simp
  note t = tracks_step [OF s(1) Cons.prems(2) this]
  show ?case
  proof (cases "skips c (fst sc)")
    case True
    with t Cons.IH [OF s(2) _ p] s show ?thesis by simp
  next
    case False
    with t obtain sc1' where "jstep c sc' = Some sc1'" "tracks base sc1 sc1'" "\<not> skips c (fst sc')"
      by auto
    with Cons.IH [OF s(2) _ p] s False show ?thesis by simp
  qed
qed

section \<open>Texts and how they are composed\<close>

text \<open>A run of the scanner over a text without spaces to skip.\<close>

definition runs :: "string \<Rightarrow> jscan \<Rightarrow> jscan \<Rightarrow> bool" where
  "runs t sc sc' \<longleftrightarrow> jscan_all t sc = Some sc' \<and> compactFrom t sc = t"

lemma compactFrom_length: "length (compactFrom t sc) \<le> length t"
  by (induction t arbitrary: sc) (auto split: option.splits simp: le_SucI)

lemma runs_Nil [simp]: "runs [] sc sc' \<longleftrightarrow> sc' = sc"
  by (auto simp: runs_def)

lemma runs_Cons:
  "runs (c # cs) sc sc' \<longleftrightarrow> (\<exists>sc1. jstep c sc = Some sc1 \<and> \<not> skips c (fst sc) \<and> runs cs sc1 sc')"
proof -
  have "compactFrom cs sc1 \<noteq> c # cs" for sc1
    using compactFrom_length [of cs sc1] by auto
  then show ?thesis by (auto simp: runs_def split: option.splits if_splits)
qed

lemma runs_append: "runs (xs @ ys) sc sc' \<longleftrightarrow> (\<exists>sc1. runs xs sc sc1 \<and> runs ys sc1 sc')"
  by (induction xs arbitrary: sc) (auto simp: runs_Cons)

lemma runs_ConsI:
  "jstep c (m, st) = Some sc1 \<Longrightarrow> \<not> jspace c \<or> in_string m \<Longrightarrow> runs cs sc1 sc' \<Longrightarrow> runs (c # cs) (m, st) sc'"
  by (auto simp: runs_Cons skips_def)

lemma runs_appendI: "runs xs sc sc1 \<Longrightarrow> runs ys sc1 sc' \<Longrightarrow> runs (xs @ ys) sc sc'"
  by (simp only: runs_append) blast

text \<open>A text of one value, in which at most \<open>n\<close> brackets are open at a time.\<close>

definition json_text :: "nat \<Rightarrow> string \<Rightarrow> bool" where
  "json_text n t \<longleftrightarrow> (\<forall>st. n + length st \<le> maxNestingDepth \<longrightarrow>
     (\<exists>m. runs t (BeginValue, st) (m, st) \<and> (closing m \<or> m = EndTop \<and> st = [])))"

lemma json_text_mono: "json_text n t \<Longrightarrow> n \<le> k \<Longrightarrow> json_text k t"
  by (auto simp: json_text_def)

lemma json_textE:
  assumes "json_text n t" and "n + Suc (length st) \<le> maxNestingDepth"
  obtains m where "closing m" "runs t (BeginValue, p # st) (m, p # st)"
  using assms(1)[unfolded json_text_def, rule_format, of "p # st"] assms(2) that by auto

lemma closing_jeof: "closing m \<Longrightarrow> jeof (m, [])"
  by (auto simp: jeof_def closing_step jdigit_def byte_in_def stepEndValue_def jspace_def)

lemma jeof_end: "jeof sc \<Longrightarrow> scan_wf sc \<Longrightarrow> snd sc = [] \<and> (fst sc = EndTop \<or> closing (fst sc))"
proof -
  assume j: "jeof sc" and wf: "scan_wf sc"
  obtain m st where sc: "sc = (m, st)" by fastforce
  have sp: "jspace (CHR '' '')" by (simp add: jspace_def)
  show ?thesis
  proof (cases "m = EndTop")
    case False
    with j sc obtain sc' where sc': "jstep (CHR '' '') (m, st) = Some sc'" "fst sc' = EndTop"
      by (auto simp: jeof_def split: option.splits)
    then have "\<not> in_string m"
      by (cases m) (auto simp: in_string_def jhex_def byte_in_def)
    with jstep_space [OF sc'(1)] sp wf sc'(2) False show ?thesis
      by (auto simp: skips_def sc split: if_splits)
  qed (use wf in \<open>simp add: sc scan_wf_def\<close>)
qed

lemma json_text_Valid: "json_text n t \<Longrightarrow> n \<le> maxNestingDepth \<Longrightarrow> json_Valid t"
  unfolding json_text_def json_Valid_def
  by (drule spec [of _ "[]"]) (auto simp: runs_def closing_jeof jeof_def [of "(EndTop, [])"])

text \<open>What \<open>json.Compact\<close> leaves of a valid text is such a text.\<close>

lemma json_text_compact:
  assumes "json_Valid b"
  shows "json_text (jpeak b (BeginValue, [])) (compact b)"
  unfolding json_text_def
proof (intro allI impI)
  fix st :: "jparse list"
  assume n: "jpeak b (BeginValue, []) + length st \<le> maxNestingDepth"
  obtain sf where sf: "jscan_all b (BeginValue, []) = Some sf" "jeof sf"
    using assms by (auto simp: json_Valid_def split: option.splits)
  have t: "tracks st (BeginValue, []) (BeginValue, st)" by (simp add: tracks_def)
  obtain sf' where r: "runs (compact b) (BeginValue, st) sf'" "tracks st sf sf'"
    using tracks_scan [OF sf(1) t n] by (auto simp: runs_def compact_def)
  have "snd sf = []" "fst sf = EndTop \<or> closing (fst sf)"
    using jeof_end [OF sf(2)] r(2) by (simp_all add: tracks_def)
  with r(2) have "sf' = (fst sf', st)" "closing (fst sf') \<or> fst sf' = EndTop \<and> st = []"
    by (auto simp: tracks_def prod_eq_iff)
  with r(1) show "\<exists>m. runs (compact b) (BeginValue, st) (m, st) \<and> (closing m \<or> m = EndTop \<and> st = [])"
    by metis
qed

text \<open>Texts joined by commas.\<close>

fun joinComma :: "string list \<Rightarrow> string" where
  "joinComma [] = ''''"
| "joinComma [x] = x"
| "joinComma (x # y # ys) = x @ CHR '','' # joinComma (y # ys)"

lemma comma_step:
  "closing m \<Longrightarrow> jstep (CHR '','') (m, ParseArrayValue # st) = Some (BeginValue, ParseArrayValue # st)"
  "closing m \<Longrightarrow> jstep (CHR '','') (m, ParseObjectValue # st) = Some (BeginString, ParseObjectKey # st)"
  by (simp_all add: closing_step jdigit_def byte_in_def stepEndValue_def jspace_def)

lemma close_step:
  "closing m \<Longrightarrow> jstep (CHR '']'') (m, ParseArrayValue # st) = popParse (ParseArrayValue # st)"
  "closing m \<Longrightarrow> jstep (CHR ''}'') (m, ParseObjectValue # st) = popParse (ParseObjectValue # st)"
  by (simp_all add: closing_step jdigit_def byte_in_def stepEndValue_def jspace_def)

lemma not_space [simp]:
  "\<not> jspace (CHR '','')" "\<not> jspace (CHR '']'')" "\<not> jspace (CHR ''}'')" "\<not> jspace (CHR ''['')"
  "\<not> jspace (CHR ''{'')" "\<not> jspace (CHR '':'')" "\<not> jspace (CHR 0x22)"
  by (simp_all add: jspace_def)

lemma popParse_end:
  "popParse (p # st) = Some (if st = [] then EndTop else EndValue, st)"
  by (simp add: popParse_def split: list.split)

lemma runs_close:
  "closing m \<Longrightarrow> runs '']'' (m, ParseArrayValue # st) (if st = [] then EndTop else EndValue, st)"
  "closing m \<Longrightarrow> runs ''}'' (m, ParseObjectValue # st) (if st = [] then EndTop else EndValue, st)"
  by (simp_all add: runs_Cons close_step popParse_end skips_def)

lemma runs_joinComma:
  assumes "ts \<noteq> []" and "\<forall>t \<in> set ts. json_text n t" and "n + Suc (length st) \<le> maxNestingDepth"
  shows "\<exists>m. closing m \<and>
    runs (joinComma ts) (BeginValue, ParseArrayValue # st) (m, ParseArrayValue # st)"
  using assms(1,2)
proof (induction ts rule: joinComma.induct)
  case (2 t)
  then have "json_text n t" by simp
  then show ?case
    by (rule json_textE [OF _ assms(3), of _ ParseArrayValue]) auto
next
  case (3 t t' ts)
  then have "json_text n t" by simp
  then obtain m where m: "closing m" "runs t (BeginValue, ParseArrayValue # st) (m, ParseArrayValue # st)"
    by (rule json_textE [OF _ assms(3)])
  from 3 obtain m' where "closing m'"
    "runs (joinComma (t' # ts)) (BeginValue, ParseArrayValue # st) (m', ParseArrayValue # st)" by auto
  moreover from runs_appendI [OF m(2) runs_ConsI [OF comma_step(1) [OF m(1)] _ this(2)]]
  have "runs (joinComma (t # t' # ts)) (BeginValue, ParseArrayValue # st) (m', ParseArrayValue # st)"
    by simp
  ultimately show ?case by blast
qed simp

lemma runs_BeginValueOrEmpty:
  assumes "runs t (BeginValue, st) (m, st')" and "m \<noteq> BeginValue"
  shows "runs t (BeginValueOrEmpty, st) (m, st')"
proof (cases t)
  case (Cons c cs)
  with assms(1) obtain sc where s: "jstep c (BeginValue, st) = Some sc" "runs cs sc (m, st')"
    "\<not> skips c BeginValue"
    by (auto simp: runs_Cons)
  have sp: "\<not> jspace c" using s(3) by (simp add: skips_def in_string_def)
  moreover have "c \<noteq> CHR '']''" using s(1) by (auto simp: stepBeginValue_def byte_in_def)
  ultimately have "jstep c (BeginValueOrEmpty, st) = Some sc" using s(1) by simp
  with runs_ConsI [OF this _ s(2)] sp Cons show ?thesis by simp
qed (use assms in simp)

lemma json_text_array:
  assumes "\<forall>t \<in> set ts. json_text n t"
  shows "json_text (Suc n) (CHR ''['' # joinComma ts @ '']'')"
  unfolding json_text_def
proof (intro allI impI)
  fix st :: "jparse list"
  assume n: "Suc n + length st \<le> maxNestingDepth"
  let ?st = "ParseArrayValue # st"
  have o: "jstep (CHR ''['') (BeginValue, st) = Some (BeginValueOrEmpty, ?st)"
    using n by (simp add: stepBeginValue_alt pushParse_def)
  have e: "jstep (CHR '']'') (BeginValueOrEmpty, ?st) = popParse ?st"
    by (simp add: stepEndValue_def)
  show "\<exists>m. runs (CHR ''['' # joinComma ts @ '']'') (BeginValue, st) (m, st) \<and>
    (closing m \<or> m = EndTop \<and> st = [])"
  proof (cases "ts = []")
    case True
    with o e show ?thesis
      by (intro exI [of _ "if st = [] then EndTop else EndValue"])
        (simp add: runs_Cons skips_def popParse_end)
  next
    case False
    obtain m where m: "closing m" "runs (joinComma ts) (BeginValue, ?st) (m, ?st)"
      using runs_joinComma [OF False assms, of st] n by auto
    then have r: "runs (joinComma ts) (BeginValueOrEmpty, ?st) (m, ?st)"
      by (intro runs_BeginValueOrEmpty) (auto simp: closing_def)
    have "runs (CHR ''['' # joinComma ts @ '']'') (BeginValue, st)
        (if st = [] then EndTop else EndValue, st)"
      by (rule runs_ConsI [OF o _ runs_appendI [OF r runs_close(1) [OF m(1)]]]) simp
    then show ?thesis by (intro exI [of _ "if st = [] then EndTop else EndValue"]) simp
  qed
qed

text \<open>A text between quotes, and a member of an object.\<close>

definition string_body :: "string \<Rightarrow> bool" where
  "string_body b \<longleftrightarrow> (\<forall>st. runs b (InString, st) (InString, st))"

definition quoted :: "string \<Rightarrow> string" where
  "quoted b = CHR 0x22 # b @ [CHR 0x22]"

lemma string_bodyD: "string_body b \<Longrightarrow> runs b (InString, st) (InString, st)"
  by (simp add: string_body_def)

lemma runs_quoted:
  assumes "string_body b" and "jstep (CHR 0x22) (m, st) = Some (InString, st)"
  shows "runs (quoted b) (m, st) (EndValue, st)"
proof -
  have "runs [CHR 0x22] (InString, st) (EndValue, st)" by (simp add: runs_Cons skips_def)
  from runs_ConsI [OF assms(2) _ runs_appendI [OF string_bodyD [OF assms(1)] this]]
  show ?thesis by (simp add: quoted_def)
qed

lemma json_text_quoted: "string_body b \<Longrightarrow> json_text 0 (quoted b)"
  unfolding json_text_def
  by (intro allI impI exI [of _ EndValue] conjI runs_quoted)
    (simp_all add: stepBeginValue_alt begin_mode_def)

definition member :: "string \<times> string \<Rightarrow> string" where
  "member kv = quoted (fst kv) @ CHR '':'' # snd kv"

lemma runs_member:
  assumes "string_body k" and "json_text n v" and "n + Suc (length st) \<le> maxNestingDepth"
    and "jstep (CHR 0x22) (m0, ParseObjectKey # st) = Some (InString, ParseObjectKey # st)"
  shows "\<exists>m. closing m \<and>
    runs (member (k, v)) (m0, ParseObjectKey # st) (m, ParseObjectValue # st)"
proof -
  obtain m where "closing m" "runs v (BeginValue, ParseObjectValue # st) (m, ParseObjectValue # st)"
    by (rule json_textE [OF assms(2,3)])
  moreover have c: "jstep (CHR '':'') (EndValue, ParseObjectKey # st) =
      Some (BeginValue, ParseObjectValue # st)"
    by (simp add: stepEndValue_def)
  ultimately show ?thesis
    using runs_appendI [OF runs_quoted [OF assms(1,4)] runs_ConsI [OF c]]
    by (intro exI [of _ m]) (simp add: member_def)
qed

lemma runs_members:
  assumes "kvs \<noteq> []" and "\<forall>(k, v) \<in> set kvs. string_body k \<and> json_text n v"
    and "n + Suc (length st) \<le> maxNestingDepth"
    and "jstep (CHR 0x22) (m0, ParseObjectKey # st) = Some (InString, ParseObjectKey # st)"
  shows "\<exists>m. closing m \<and>
    runs (joinComma (map member kvs)) (m0, ParseObjectKey # st) (m, ParseObjectValue # st)"
  using assms(1,2,4)
proof (induction kvs arbitrary: m0 rule: induct_list012)
  case (2 kv)
  then show ?case using runs_member [OF _ _ assms(3)] by (cases kv) auto
next
  case (3 kv kv' kvs)
  obtain k v where kv: "kv = (k, v)" by fastforce
  obtain m where m: "closing m" "runs (member kv) (m0, ParseObjectKey # st) (m, ParseObjectValue # st)"
    using runs_member [OF _ _ assms(3) 3(5), of k v] 3(4) by (auto simp: kv)
  have "jstep (CHR 0x22) (BeginString, ParseObjectKey # st) = Some (InString, ParseObjectKey # st)"
    by (simp add: stepBeginString_def)
  from 3(2) [OF _ _ this] 3(4) obtain m' where "closing m'"
    "runs (joinComma (map member (kv' # kvs))) (BeginString, ParseObjectKey # st)
      (m', ParseObjectValue # st)" by auto
  moreover from runs_appendI [OF m(2) runs_ConsI [OF comma_step(2) [OF m(1)] _ this(2)]]
  have "runs (joinComma (map member (kv # kv' # kvs))) (m0, ParseObjectKey # st)
      (m', ParseObjectValue # st)" by simp
  ultimately show ?case by blast
qed simp

lemma json_text_object:
  assumes "\<forall>(k, v) \<in> set kvs. string_body k \<and> json_text n v"
  shows "json_text (Suc n) (CHR ''{'' # joinComma (map member kvs) @ ''}'')"
  unfolding json_text_def
proof (intro allI impI)
  fix st :: "jparse list"
  assume n: "Suc n + length st \<le> maxNestingDepth"
  let ?st = "ParseObjectKey # st"
  have o: "jstep (CHR ''{'') (BeginValue, st) = Some (BeginStringOrEmpty, ?st)"
    using n by (simp add: stepBeginValue_alt pushParse_def)
  have e: "jstep (CHR ''}'') (BeginStringOrEmpty, ?st) = popParse (ParseObjectValue # st)"
    by (simp add: stepEndValue_def)
  show "\<exists>m. runs (CHR ''{'' # joinComma (map member kvs) @ ''}'') (BeginValue, st) (m, st) \<and>
    (closing m \<or> m = EndTop \<and> st = [])"
  proof (cases "kvs = []")
    case True
    with o e show ?thesis
      by (intro exI [of _ "if st = [] then EndTop else EndValue"])
        (simp add: runs_Cons skips_def popParse_end)
  next
    case False
    have "jstep (CHR 0x22) (BeginStringOrEmpty, ?st) = Some (InString, ?st)"
      by (simp add: stepBeginString_def)
    from runs_members [OF False assms _ this] n obtain m where m: "closing m"
      "runs (joinComma (map member kvs)) (BeginStringOrEmpty, ?st) (m, ParseObjectValue # st)"
      by auto
    have "runs (CHR ''{'' # joinComma (map member kvs) @ ''}'') (BeginValue, st)
        (if st = [] then EndTop else EndValue, st)"
      by (rule runs_ConsI [OF o _ runs_appendI [OF m(2) runs_close(2) [OF m(1)]]]) simp
    then show ?thesis by (intro exI [of _ "if st = [] then EndTop else EndValue"]) simp
  qed
qed

section \<open>Cutting a composed text\<close>

text \<open>
  A text is solid for a separator when no cut falls inside it. A text of one value is, for the comma
  and the colon: the scanner at the top accepts neither outside of brackets.
\<close>

definition prepend :: "string \<Rightarrow> string list \<Rightarrow> string list" where
  "prepend t ps = (t @ hd ps) # tl ps"

definition solid :: "char \<Rightarrow> string \<Rightarrow> bool" where
  "solid sep t \<longleftrightarrow> (\<forall>rest. split_top sep 0 False False (t @ rest) =
     prepend t (split_top sep 0 False False rest))"

lemma split_top_ne [simp]: "split_top sep d str esc s \<noteq> []"
proof (cases s)
  case (Cons c cs)
  have "(case ps of p # ps' \<Rightarrow> (c # p) # ps' | [] \<Rightarrow> [[c]]) \<noteq> []" for ps
    by (simp split: list.split)
  with Cons show ?thesis by (simp add: Let_def)
qed simp

lemma prepend_prepend [simp]: "prepend s (prepend t ps) = prepend (s @ t) ps"
  by (simp add: prepend_def)

lemma prepend_Nil [simp]: "ps \<noteq> [] \<Longrightarrow> prepend [] ps = ps"
  by (simp add: prepend_def)

lemma split_top_Cons:
  "split_top sep d str esc (c # cs) =
     (if str then prepend [c] (split_top sep d (esc \<or> c \<noteq> CHR 0x22) (\<not> esc \<and> c = CHR 0x5C) cs)
      else if c = CHR 0x22 then prepend [c] (split_top sep d True False cs)
      else if c \<in> {CHR ''{'', CHR ''[''} then prepend [c] (split_top sep (Suc d) False False cs)
      else if c \<in> {CHR ''}'', CHR '']''} then prepend [c] (split_top sep (d - 1) False False cs)
      else if c = sep \<and> d = 0 then [] # split_top sep 0 False False cs
      else prepend [c] (split_top sep d False False cs))"
proof -
  have p: "(case ps of p # ps' \<Rightarrow> (c # p) # ps' | [] \<Rightarrow> [[c]]) = prepend [c] ps" if "ps \<noteq> []" for ps
    using that by (cases ps) (simp_all add: prepend_def)
  show ?thesis by (simp add: Let_def p)
qed

declare split_top.simps(2) [simp del]

lemma solid_append: "solid sep s \<Longrightarrow> solid sep t \<Longrightarrow> solid sep (s @ t)"
  by (simp add: solid_def)

text \<open>What a byte outside of strings does to the brackets.\<close>

definition or_empty :: "jmode \<Rightarrow> bool" where
  "or_empty m \<longleftrightarrow> m = BeginValueOrEmpty \<or> m = BeginStringOrEmpty"

definition outside :: "char \<Rightarrow> jparse list \<Rightarrow> jscan \<Rightarrow> bool" where
  "outside c st sc \<longleftrightarrow> fst sc \<noteq> InStringEsc \<and> in_string (fst sc) = (c = CHR 0x22) \<and>
     length (snd sc) = (if c = CHR ''{'' \<or> c = CHR ''['' then Suc (length st)
       else if c = CHR ''}'' \<or> c = CHR '']'' then length st - 1 else length st) \<and>
     (\<not> jspace c \<longrightarrow> or_empty (fst sc) = (c = CHR ''{'' \<or> c = CHR ''['')) \<and>
     (c = CHR '','' \<or> c = CHR '':'' \<longrightarrow> st \<noteq> [] \<and> (fst sc = BeginValue \<or> fst sc = BeginString))"

definition special :: "char \<Rightarrow> bool" where
  "special c \<longleftrightarrow> List.member [CHR 0x22, CHR ''{'', CHR ''}'', CHR ''['', CHR '']'', CHR '','', CHR '':''] c"

lemma special_alpha:
  "jdigit c \<Longrightarrow> \<not> special c" "byte_in 97 122 c \<Longrightarrow> \<not> special c" "byte_in 49 57 c \<Longrightarrow> \<not> special c"
  "\<not> special (CHR ''.'')" "\<not> special (CHR ''e'')" "\<not> special (CHR ''E'')" "\<not> special (CHR ''-'')"
  "\<not> special (CHR ''+'')" "\<not> special (CHR ''0'')"
  by (auto simp: special_def jdigit_def byte_in_def)

lemma outside_plain:
  assumes "\<not> in_string m" and "\<not> special c" and "\<not> or_empty m"
  shows "outside c st (m, st)"
proof -
  have "m \<noteq> InStringEsc" using assms(1) by (auto simp: in_string_def)
  with assms show ?thesis by (simp add: outside_def special_def)
qed

lemma outside_separator:
  assumes "m = BeginValue \<or> m = BeginString" and "c = CHR '','' \<or> c = CHR '':''"
  shows "outside c (p # st) (m, q # st)"
proof -
  have "\<not> in_string m" "m \<noteq> InStringEsc" "\<not> or_empty m"
    using assms(1) by (auto simp: in_string_def or_empty_def)
  then show ?thesis using assms by (elim disjE) (simp_all add: outside_def)
qed

lemma outside_close:
  assumes "m = EndTop \<or> m = EndValue" and "c = CHR ''}'' \<or> c = CHR '']''"
  shows "outside c (p # st) (m, st)"
proof -
  have "\<not> in_string m" "m \<noteq> InStringEsc" "\<not> or_empty m"
    using assms(1) by (auto simp: in_string_def or_empty_def)
  then show ?thesis using assms(2) by (elim disjE) (simp_all add: outside_def)
qed

lemma outside_popParse:
  assumes "popParse (q # st) = Some sc" and "c = CHR ''}'' \<or> c = CHR '']''"
  shows "outside c (p # st) sc"
proof -
  have "sc = (if st = [] then EndTop else EndValue, st)" using assms(1) by (simp add: popParse_end)
  then show ?thesis using assms(2) outside_close [of _ c p st] by (cases "st = []") simp_all
qed

lemma outside_EndValue:
  assumes "stepEndValue c st = Some sc" and "\<not> jspace c"
  shows "outside c st sc"
proof (cases st)
  case (Cons p ps)
  show ?thesis
  proof (cases p)
    case ParseObjectKey
    with assms Cons show ?thesis by (auto simp: stepEndValue_def outside_separator split: if_splits)
  next
    case ParseObjectValue
    with assms Cons show ?thesis
      by (auto simp: stepEndValue_def outside_separator outside_popParse split: if_splits)
  next
    case ParseArrayValue
    with assms Cons show ?thesis
      by (auto simp: stepEndValue_def outside_separator outside_popParse split: if_splits)
  qed
qed (use assms in \<open>simp add: stepEndValue_def\<close>)

lemma begin_mode_char:
  "begin_mode c = Some m \<Longrightarrow> c = CHR 0x22 \<and> m = InString \<or>
     \<not> in_string m \<and> \<not> special c \<and> \<not> or_empty m"
  by (auto simp: begin_mode_def in_string_def or_empty_def special_alpha special_def [of "CHR ''t''"]
      special_def [of "CHR ''f''"] special_def [of "CHR ''n''"] split: if_splits)

lemma outside_string: "outside (CHR 0x22) st (InString, st)"
  by (simp add: outside_def in_string_def or_empty_def)

lemma outside_BeginValue:
  assumes "stepBeginValue c m st = Some sc" and "\<not> jspace c"
  shows "outside c st sc"
proof (cases "c = CHR ''{'' \<or> c = CHR ''[''")
  case True
  with assms show ?thesis
    by (auto simp: stepBeginValue_alt pushParse_def outside_def in_string_def or_empty_def split: if_splits)
next
  case False
  with assms obtain m' where m: "begin_mode c = Some m'" "sc = (m', st)"
    by (auto simp: stepBeginValue_alt)
  from begin_mode_char [OF m(1)] show ?thesis by (auto simp: m(2) outside_string outside_plain)
qed

lemma outside_Zero: "stepZero c st = Some sc \<Longrightarrow> \<not> jspace c \<Longrightarrow> outside c st sc"
  using outside_EndValue [of c st sc]
  by (auto simp: stepZero_def in_string_def or_empty_def outside_plain special_alpha split: if_splits)

lemma jstep_outside:
  assumes "jstep c (m, st) = Some sc" and "\<not> in_string m" and "scan_wf (m, st)"
  shows "outside c st sc"
proof (cases "jspace c")
  case True
  from jspace_neq [OF this] jstep_space [OF assms(1)] assms(2,3) True show ?thesis
    by (auto simp: skips_def in_string_def closing_def or_empty_def outside_def split: if_splits)
next
  case sp: False
  note e = outside_EndValue [OF _ sp] outside_Zero [OF _ sp] outside_BeginValue [OF _ sp]
  have d: "jdigit c \<Longrightarrow> outside c st (Dot0, st)" "jdigit c \<Longrightarrow> outside c st (Exp0, st)"
    "jdigit c \<Longrightarrow> outside c st (NonZero, st)"
    by (simp_all add: outside_plain special_alpha in_string_def or_empty_def)
  have q: "stepBeginString c m' st = Some sc \<Longrightarrow> outside c st sc" for m'
    using sp by (auto simp: stepBeginString_def outside_string split: if_splits)
  show ?thesis
  proof (cases m)
    case BeginStringOrEmpty
    with assms(3) obtain p ps where st: "st = p # ps" by (cases st) (simp_all add: scan_wf_def)
    have "stepEndValue (CHR ''}'') (ParseObjectValue # ps) = popParse (ParseObjectValue # ps)"
      by (simp add: stepEndValue_def)
    with BeginStringOrEmpty assms(1) sp q show ?thesis
      by (cases "c = CHR ''}''") (auto simp: st outside_popParse)
  next
    case (InLit l)
    show ?thesis
    proof (cases l)
      case (Cons x xs)
      with InLit assms(1,3) show ?thesis
        by (auto simp: scan_wf_def byte_in_def in_string_def or_empty_def outside_plain special_alpha split: if_splits)
    qed (use InLit assms(1) e in simp)
  next
    case Neg
    with assms(1) show ?thesis
      by (auto simp: in_string_def or_empty_def outside_plain special_alpha split: if_splits)
  next
    case NonZero
    with assms(1) show ?thesis by (cases "jdigit c") (auto simp: e d)
  next
    case Exp
    with assms(1) show ?thesis
      by (cases "jdigit c") (auto simp: d in_string_def or_empty_def outside_plain special_alpha split: if_splits)
  next
    case ExpSign
    with assms(1) show ?thesis by (cases "jdigit c") (auto simp: d)
  next
    case Exp0
    with assms(1) show ?thesis by (cases "jdigit c") (auto simp: d e)
  next
    case Dot
    with assms(1) show ?thesis by (cases "jdigit c") (auto simp: d)
  next
    case Dot0
    with assms(1) show ?thesis
      by (cases "jdigit c"; cases "c = CHR ''e'' \<or> c = CHR ''E''")
        (auto simp: d e in_string_def or_empty_def outside_plain special_alpha)
  next
    case BeginValueOrEmpty
    with assms(1) sp show ?thesis by (cases "c = CHR '']''") (use e in auto)
  qed (use assms(1,2) sp e q in \<open>simp_all add: in_string_def\<close>)
qed

lemma jstep_inside:
  assumes "jstep c (m, st) = Some (m', st')" and "in_string m"
  shows "st' = st \<and> in_string m' = (m = InStringEsc \<or> c \<noteq> CHR 0x22) \<and>
    (m' = InStringEsc) = (m \<noteq> InStringEsc \<and> c = CHR 0x5C)"
  using assms
  by (cases m) (auto simp: in_string_def jhex_def byte_in_def split: if_splits nat.splits)

lemma split_scan:
  assumes "jscan_all t (m, st) = Some (m', st')" and "scan_wf (m, st)" and "sep \<in> {CHR '','', CHR '':''}"
  shows "split_top sep (length st) (in_string m) (m = InStringEsc) (t @ rest) =
    prepend t (split_top sep (length st') (in_string m') (m' = InStringEsc) rest)"
  using assms(1,2)
proof (induction t arbitrary: m st)
  case (Cons c t)
  obtain m1 st1 where s: "jstep c (m, st) = Some (m1, st1)" "jscan_all t (m1, st1) = Some (m', st')"
    using Cons.prems(1) by (auto split: option.splits)
  have "split_top sep (length st) (in_string m) (m = InStringEsc) (c # t @ rest) =
      prepend [c] (split_top sep (length st1) (in_string m1) (m1 = InStringEsc) (t @ rest))"
  proof (cases "in_string m")
    case True
    with jstep_inside [OF s(1) True] show ?thesis by (simp add: split_top_Cons)
  next
    case False
    note out = jstep_outside [OF s(1) False Cons.prems(2), unfolded outside_def fst_conv snd_conv]
    from False have "m \<noteq> InStringEsc" by (auto simp: in_string_def)
    with out False assms(3) show ?thesis
      by (cases "c = CHR 0x22"; cases "c \<in> {CHR ''{'', CHR ''[''}"; cases "c \<in> {CHR ''}'', CHR '']''}";
          cases "c = sep") (auto simp: split_top_Cons)
  qed
  with Cons.IH [OF s(2) jstep_wf [OF s(1) Cons.prems(2)]] show ?case by simp
qed simp

lemma json_text_solid:
  assumes "json_text n t" "n \<le> maxNestingDepth" and "sep \<in> {CHR '','', CHR '':''}"
  shows "solid sep t"
proof -
  obtain m where "jscan_all t (BeginValue, []) = Some (m, [])" "closing m \<or> m = EndTop"
    using assms(1)[unfolded json_text_def, rule_format, of "[]"] assms(2) by (auto simp: runs_def)
  then show ?thesis
    using split_scan [OF _ _ assms(3), of t BeginValue "[]" m "[]"]
    by (auto simp: solid_def in_string_def closing_def)
qed

lemma solid_member:
  assumes "string_body (fst kv)" and "json_text n (snd kv)" "n \<le> maxNestingDepth"
  shows "solid (CHR '','') (member kv)"
proof -
  have "solid (CHR '','') (quoted (fst kv))" "solid (CHR '','') (snd kv)"
    using json_text_solid json_text_quoted assms by blast+
  then show ?thesis by (simp add: member_def solid_def split_top_Cons)
qed

lemma split_top_joinComma:
  assumes "ts \<noteq> []" and "\<forall>t \<in> set ts. solid (CHR '','') t"
  shows "split_top (CHR '','') 0 False False (joinComma ts) = ts"
  using assms
proof (induction ts rule: joinComma.induct)
  case (2 t)
  then have "split_top (CHR '','') 0 False False (t @ []) = prepend t [[]]"
    unfolding solid_def by (metis split_top.simps(1) list.set_intros(1))
  then show ?case by (simp add: prepend_def)
next
  case (3 t t' ts)
  then have "split_top (CHR '','') 0 False False (t @ CHR '','' # joinComma (t' # ts)) =
      prepend t (split_top (CHR '','') 0 False False (CHR '','' # joinComma (t' # ts)))"
    by (simp add: solid_def)
  with 3 show ?case by (simp add: split_top_Cons prepend_def)
qed simp

text \<open>No space stands at either end of a text.\<close>

definition tight :: "string \<Rightarrow> bool" where
  "tight t \<longleftrightarrow> t \<noteq> [] \<and> \<not> jspace (hd t) \<and> \<not> jspace (last t)"

lemma jtrim_tight: "tight t \<Longrightarrow> jtrim t = t"
proof -
  assume t: "tight t"
  then have d: "dropWhile jspace t = t" by (cases t) (simp_all add: tight_def)
  have "dropWhile jspace (rev t) = rev t"
    using t by (cases t rule: rev_cases) (simp_all add: tight_def)
  with d show ?thesis by (simp add: jtrim_def)
qed

lemma tight_append: "tight s \<Longrightarrow> tight t \<Longrightarrow> tight (s @ u @ t)"
  by (simp add: tight_def)

lemma runs_tight:
  assumes "runs t (BeginValue, st) (m, st')" and "m \<noteq> BeginValue" and "\<not> in_string m"
  shows "tight t"
proof -
  have ne: "t \<noteq> []" using assms(1,2) by auto
  then have "\<not> jspace (hd t)"
    using assms(1) by (cases t) (auto simp: runs_Cons skips_def in_string_def)
  moreover obtain m1 st1 where s: "jstep (last t) (m1, st1) = Some (m, st')" "\<not> skips (last t) m1"
    using assms(1) ne by (cases t rule: rev_cases) (auto simp: runs_append runs_Cons)
  have "\<not> jspace (last t)"
  proof
    assume sp: "jspace (last t)"
    with s(2) have "in_string m1" by (simp add: skips_def)
    with jstep_inside [OF s(1)] assms(3) jspace_neq [OF sp] s(1) sp show False
      by (cases "m1 = InStringEsc") (auto simp: jspace_def split: if_splits)
  qed
  ultimately show ?thesis using ne by (simp add: tight_def)
qed

lemma json_text_tight: "json_text n t \<Longrightarrow> n \<le> maxNestingDepth \<Longrightarrow> tight t"
  unfolding json_text_def
  by (drule spec [of _ "[]"]) (auto intro!: runs_tight simp: closing_def in_string_def)

lemma tight_quoted [simp]: "tight (quoted b)"
  by (simp add: tight_def quoted_def)

lemma tight_member: "tight (snd kv) \<Longrightarrow> tight (member kv)"
  by (simp add: member_def tight_def quoted_def)

lemma tight_joinComma: "ts \<noteq> [] \<Longrightarrow> \<forall>t \<in> set ts. tight t \<Longrightarrow> tight (joinComma ts)"
  by (induction ts rule: joinComma.induct) (auto simp: tight_def)

lemma jpieces_joinComma:
  assumes "\<forall>t \<in> set ts. tight t \<and> solid (CHR '','') t" and "\<not> jspace a" "\<not> jspace b"
  shows "jpieces (a # joinComma ts @ [b]) = ts"
proof -
  have w: "jtrim (a # joinComma ts @ [b]) = a # joinComma ts @ [b]"
    using assms(2,3) by (intro jtrim_tight) (simp add: tight_def)
  show ?thesis
  proof (cases "ts = []")
    case False
    with assms(1) have t: "jtrim (joinComma ts) = joinComma ts" "joinComma ts \<noteq> []"
      using tight_joinComma [of ts] by (auto intro: jtrim_tight simp: tight_def)
    have "map jtrim ts = ts" using assms(1) by (simp add: map_idI jtrim_tight)
    with False t assms(1) show ?thesis
      by (simp add: jpieces_def w butlast_append split_top_joinComma)
  qed (use w in \<open>simp add: jpieces_def jtrim_def [of "[]"]\<close>)
qed

text \<open>The elements of an array, the members of an object, and the two parts of a member.\<close>

lemma jpieces_array:
  assumes "\<forall>t \<in> set ts. json_text n t" and "n \<le> maxNestingDepth"
  shows "jpieces (CHR ''['' # joinComma ts @ '']'') = ts"
  using assms by (intro jpieces_joinComma) (auto intro: json_text_tight json_text_solid)

lemma jpieces_object:
  assumes "\<forall>(k, v) \<in> set kvs. string_body k \<and> json_text n v" and "n \<le> maxNestingDepth"
  shows "jpieces (CHR ''{'' # joinComma (map member kvs) @ ''}'') = map member kvs"
  using assms
  by (intro jpieces_joinComma) (auto intro!: tight_member solid_member json_text_tight)

lemma jmember_member:
  assumes "string_body k" and "json_text n v" "n \<le> maxNestingDepth"
  shows "jmember (member (k, v)) = (quoted k, v)"
proof -
  have "solid (CHR '':'') (quoted k)" "solid (CHR '':'') v"
    using json_text_solid json_text_quoted assms by blast+
  then have "split_top (CHR '':'') 0 False False (quoted k @ CHR '':'' # v @ []) = [quoted k, v]"
    unfolding solid_def
    by (simp only: split_top_Cons split_top.simps(1)) (simp add: prepend_def)
  then show ?thesis
    using json_text_tight [OF assms(2,3)] by (simp add: jmember_def member_def jtrim_tight)
qed

section \<open>Closing brackets and spaces\<close>

lemma closer_char:
  assumes "c = CHR ''}'' \<or> c = CHR '']''"
  shows "\<not> jspace c" "\<not> jdigit c" "\<not> byte_in 97 122 c" "begin_mode c = None" "c \<noteq> CHR 0x22"
    "c \<noteq> CHR ''{''" "c \<noteq> CHR ''[''" "c \<noteq> CHR ''.''" "c \<noteq> CHR ''e''" "c \<noteq> CHR ''E''"
    "c \<noteq> CHR ''0''" "\<not> byte_in 49 57 c" "c \<noteq> CHR ''+''" "c \<noteq> CHR ''-''"
  using assms by (auto simp: jspace_def jdigit_def byte_in_def begin_mode_def)

lemma closer_mode:
  assumes "jstep c (m, st) = Some sc" and "c = CHR ''}'' \<or> c = CHR '']''" and "\<not> in_string m"
    and "scan_wf (m, st)"
  shows "or_empty m \<or> closing m \<and> st \<noteq> []"
proof (cases "closing m")
  case True
  have "jstep c (m, st) = stepEndValue c st"
    using closer_char [OF assms(2)] by (intro closing_step [OF True])
  with assms(1) closer_char(1) [OF assms(2)] True show ?thesis
    by (auto simp: stepEndValue_def)
next
  case False
  note ch = closer_char [OF assms(2)]
  show ?thesis
  proof (cases m)
    case (InLit l)
    with assms(1,4) False ch show ?thesis
      by (cases l) (auto simp: scan_wf_def closing_def split: if_splits)
  qed (use assms(1,3) ch False in \<open>simp_all add: or_empty_def in_string_def closing_def
        stepBeginValue_alt stepBeginString_def\<close>)
qed

lemma spaces_stay:
  assumes "list_all jspace s" and "fst sc \<in> {BeginValue, BeginString} \<or> or_empty (fst sc) \<or>
    fst sc = EndValue \<and> snd sc \<noteq> []"
  shows "jscan_all (s @ r) sc = jscan_all r sc \<and> compactFrom (s @ r) sc = compactFrom r sc"
  using assms(1)
proof (induction s)
  case (Cons c s)
  then have "jstep c sc = Some sc \<and> skips c (fst sc)"
    using assms(2) by (cases sc) (auto simp: skips_def in_string_def or_empty_def jspace_neq)
  with Cons show ?case by simp
qed simp

lemma spaces_closing:
  assumes "list_all jspace s" and "s \<noteq> []" and "closing m" and "st \<noteq> []"
  shows "jscan_all (s @ r) (m, st) = jscan_all r (EndValue, st) \<and>
    compactFrom (s @ r) (m, st) = compactFrom r (EndValue, st)"
proof (cases s)
  case (Cons c s')
  with assms(1) have c: "jspace c" "list_all jspace s'" by simp_all
  have "jstep c (m, st) = Some (EndValue, st)"
    using closing_step [OF assms(3), of c] jspace_neq [OF c(1)] assms(4) c(1) by simp
  moreover have "skips c m" using c(1) closing_not_string [OF assms(3)] by (simp add: skips_def)
  ultimately show ?thesis using spaces_stay [OF c(2), of "(EndValue, st)" r] assms(4) Cons by simp
qed (use assms(2) in simp)

end
