(* ===== verification/Render.thy ===== *)
theory Render
  imports JsonScan Strconv "HOL-Library.List_Lexorder" "HOL-Library.Char_ord"
begin

text \<open>
  The text that Go's \<open>json.Encoder\<close> writes, with HTML escaping off: quoted strings, objects with their
  keys in order, and the indentation of \<open>SetIndent("", "  ")\<close>. The lemmas: it is the text of one
  value, no line ends inside it, a quoted string is unquoted to itself, and indentation adds
  nothing but space.
\<close>

section \<open>Strings\<close>

definition hexDigit :: "nat \<Rightarrow> char" where
  "hexDigit d = (if d < 10 then char_of (48 + d) else char_of (87 + d))"

definition quoteByte :: "char \<Rightarrow> string" where
  "quoteByte c =
     (let n = of_char c :: nat in
      if c = CHR 0x22 \<or> c = CHR 0x5C then [CHR 0x5C, c]
      else if n = 8 then [CHR 0x5C, CHR ''b'']
      else if n = 12 then [CHR 0x5C, CHR ''f'']
      else if n = 10 then [CHR 0x5C, CHR ''n'']
      else if n = 13 then [CHR 0x5C, CHR ''r'']
      else if n = 9 then [CHR 0x5C, CHR ''t'']
      else if n < 32 then
        [CHR 0x5C, CHR ''u'', CHR ''0'', CHR ''0'', hexDigit (n div 16), hexDigit (n mod 16)]
      else [c])"

text \<open>The line and paragraph separators, U+2028 and U+2029, are escaped; other runes are not.\<close>

definition quoteRune :: "string \<Rightarrow> string" where
  "quoteRune r =
     (if r = map char_of [226, 128, 168 :: nat] then CHR 0x5C # ''u2028''
      else if r = map char_of [226, 128, 169 :: nat] then CHR 0x5C # ''u2029''
      else r)"

function quoteBody :: "string \<Rightarrow> string" where
  "quoteBody s =
     (case s of
        [] \<Rightarrow> []
      | c # cs \<Rightarrow>
          if byte_in 0 127 c then quoteByte c @ quoteBody cs
          else (case runeLen s of
              None \<Rightarrow> CHR 0x5C # ''ufffd'' @ quoteBody cs
            | Some n \<Rightarrow> quoteRune (take n s) @ quoteBody (drop n s)))"
  by pat_completeness auto
termination
  by (relation "measure length") (auto dest!: runeLen_bounds)

declare quoteBody.simps [simp del]

lemma quoteBody_Nil [simp]: "quoteBody [] = []"
  by (simp add: quoteBody.simps [of "[]"])

section \<open>Values\<close>

text \<open>
  \<open>fmt\<close> is the text of a finite \<open>float64\<close>, which \<open>strconv.AppendFloat\<close> gives. A raw message is
  compacted.
\<close>

fun render :: "(float64 \<Rightarrow> string) \<Rightarrow> json \<Rightarrow> string" where
  "render fmt JNull = ''null''"
| "render fmt (JBool b) = (if b then ''true'' else ''false'')"
| "render fmt (JStr s) = quoted (quoteBody s)"
| "render fmt (JInt i) = decInt i"
| "render fmt (JFloat f) = fmt f"
| "render fmt (JRaw b) = compact b"
| "render fmt (JArr js) = CHR ''['' # joinComma (map (render fmt) js) @ '']''"
| "render fmt (JObj m) =
     CHR ''{'' # joinComma (map (\<lambda>(k, t). member (quoteBody k, t))
       (sort_key fst (map (\<lambda>(k, j). (k, render fmt j)) m))) @ ''}''"

text \<open>How deep the brackets of the text nest.\<close>

fun nests :: "json \<Rightarrow> nat" where
  "nests (JArr js) = Suc (fold max (map nests js) 0)"
| "nests (JObj m) = Suc (fold max (map (\<lambda>(k, j). nests j) m) 0)"
| "nests (JRaw b) = jpeak b (BeginValue, [])"
| "nests _ = 0"

section \<open>Indentation\<close>

definition newline :: "nat \<Rightarrow> string" where
  "newline d = CHR 0x0A # replicate (2 * d) (CHR '' '')"

text \<open>
  \<open>appendIndent\<close> over a compact text: a new line after an opening bracket, unless it is closed at once
  (\<open>need\<close>), after a comma and before a closing bracket, and a space after a colon. \<open>indentByte\<close> gives
  what is written before and after a byte that is not in a string, and the new \<open>need\<close> and depth.
\<close>

definition indentByte :: "char \<Rightarrow> bool \<Rightarrow> nat \<Rightarrow> string \<times> string \<times> bool \<times> nat" where
  "indentByte c need d =
     (if c = CHR ''}'' \<or> c = CHR '']'' then
        (if need then ('''', '''', False, d) else (newline (d - 1), '''', False, d - 1))
      else
        let pre = (if need then newline (Suc d) else '''');
            d = (if need then Suc d else d) in
        if c = CHR ''{'' \<or> c = CHR ''['' then (pre, '''', True, d)
        else if c = CHR '','' then (pre, newline d, False, d)
        else if c = CHR '':'' then (pre, '' '', False, d)
        else (pre, '''', False, d))"

fun indentFrom :: "string \<Rightarrow> jscan \<Rightarrow> bool \<Rightarrow> nat \<Rightarrow> string" where
  "indentFrom [] sc need d = []"
| "indentFrom (c # cs) sc need d =
     (case jstep c sc of
        None \<Rightarrow> []
      | Some sc' \<Rightarrow>
          if skips c (fst sc) then indentFrom cs sc' need d
          else if in_string (fst sc) then c # indentFrom cs sc' need d
          else (case indentByte c need d of
              (pre, post, need', d') \<Rightarrow> pre @ c # post @ indentFrom cs sc' need' d'))"

definition indent :: "string \<Rightarrow> string" where
  "indent t = indentFrom t (BeginValue, []) False 0"

text \<open>What one call of \<open>Encode\<close> writes: the text and a line feed.\<close>

definition encodeLine :: "(float64 \<Rightarrow> string) \<Rightarrow> json \<Rightarrow> bool \<Rightarrow> string" where
  "encodeLine fmt v pretty =
     (let t = render fmt v in (if pretty then indent t else t) @ [CHR 0x0A])"

section \<open>Quoted strings\<close>

lemma byte_le [simp]: "(of_char c :: nat) \<le> 255"
  using nat_of_char_less_256 [of c] by linarith

lemma string_body_Nil [simp]: "string_body []"
  by (simp add: string_body_def)

lemma string_body_append: "string_body a \<Longrightarrow> string_body b \<Longrightarrow> string_body (a @ b)"
  unfolding string_body_def using runs_appendI by blast

lemma string_body_plain: "list_all (\<lambda>c. byte_in 32 255 c \<and> c \<noteq> CHR 0x22 \<and> c \<noteq> CHR 0x5C) s \<Longrightarrow> string_body s"
proof (induction s)
  case (Cons c s)
  then have "string_body [c]"
    by (auto simp: string_body_def runs_Cons skips_def in_string_def byte_in_def)
  with Cons show ?case using string_body_append [of "[c]" s] by simp
qed simp

lemma jhex_hexDigit [simp]: "d < 16 \<Longrightarrow> jhex (hexDigit d)"
  by (simp add: jhex_def hexDigit_def byte_in_def)

lemma hexVal_hexDigit [simp]: "d < 16 \<Longrightarrow> hexVal (hexDigit d) = d"
  by (simp add: hexVal_def hexDigit_def byte_in_def Let_def)

lemma string_body_escape:
  "List.member [CHR ''b'', CHR ''f'', CHR ''n'', CHR ''r'', CHR ''t'', CHR 0x5C, CHR ''/'', CHR 0x22] e \<Longrightarrow>
     string_body [CHR 0x5C, e]"
  by (simp add: string_body_def runs_Cons skips_def in_string_def)

lemma string_body_unicode:
  "jhex a \<Longrightarrow> jhex b \<Longrightarrow> jhex c \<Longrightarrow> jhex d \<Longrightarrow> string_body [CHR 0x5C, CHR ''u'', a, b, c, d]"
  by (simp add: string_body_def runs_Cons skips_def in_string_def numeral_3_eq_3)

lemma string_body_quoteByte: "string_body (quoteByte c)"
proof -
  let ?n = "of_char c :: nat"
  show ?thesis
  proof (cases "?n < 32 \<or> c = CHR 0x22 \<or> c = CHR 0x5C")
    case True
    then show ?thesis
      unfolding quoteByte_def Let_def
      by (auto intro!: string_body_escape string_body_unicode simp: jhex_def [of "CHR ''0''"] byte_in_def)
  next
    case False
    then have "string_body [c]"
      by (intro string_body_plain) (simp add: byte_in_def)
    with False show ?thesis by (auto simp: quoteByte_def Let_def)
  qed
qed

lemma byte_in_char_of: "n < 256 \<Longrightarrow> byte_in lo hi (char_of n) \<longleftrightarrow> lo \<le> n \<and> n \<le> hi"
  by (simp add: byte_in_def)

text \<open>A sequence of several bytes has none below 128.\<close>

lemma runeLen_high:
  "runeLen (c # cs) = Some n \<Longrightarrow> \<not> byte_in 0 127 c \<Longrightarrow> list_all (byte_in 128 255) (take n (c # cs))"
  by (auto simp: runeLen_def cont_def byte_in_def split: list.splits if_splits)

lemma string_body_high: "list_all (byte_in 128 255) s \<Longrightarrow> string_body s"
  by (rule string_body_plain) (auto simp: list_all_iff byte_in_def)

lemma string_body_quoteRune: "list_all (byte_in 128 255) r \<Longrightarrow> string_body (quoteRune r)"
  by (auto simp: quoteRune_def jhex_def byte_in_def intro: string_body_high string_body_unicode)

lemma string_body_quoteBody: "string_body (quoteBody s)"
proof (induction s rule: quoteBody.induct)
  case (1 s)
  have u: "string_body (CHR 0x5C # ''ufffd'' @ t)" if "string_body t" for t
    using string_body_append [OF string_body_unicode that] by (simp add: jhex_def byte_in_def)
  show ?case
  proof (cases s)
    case Nil
    then show ?thesis by simp
  next
    case (Cons c cs)
    show ?thesis
    proof (cases "byte_in 0 127 c")
      case True
      with 1 Cons show ?thesis
        by (simp add: quoteBody.simps [of "c # cs"] string_body_append string_body_quoteByte)
    next
      case False
      show ?thesis
      proof (cases "runeLen s")
        case None
        with 1(2) Cons False show ?thesis
          using u [of "quoteBody cs"] by (simp add: quoteBody.simps [of "c # cs"])
      next
        case (Some n)
        with Cons False have "string_body (quoteRune (take n s))"
          using runeLen_high string_body_quoteRune by blast
        with 1(3) Cons False Some show ?thesis
          by (simp add: quoteBody.simps [of "c # cs"] string_body_append)
      qed
    qed
  qed
qed

text \<open>What was quoted is unquoted, if it was valid UTF-8: an invalid byte is replaced for good.\<close>

lemma unquote_escape: "e \<noteq> CHR ''u'' \<Longrightarrow> unquoteBody (CHR 0x5C # e # s) = unescape e # unquoteBody s"
  by (simp add: unquoteBody.simps [of "CHR 0x5C # e # s"])

lemma unquote_unicode:
  "getu4 [a, b, c, d] = Some r \<Longrightarrow> r < 55296 \<Longrightarrow>
     unquoteBody (CHR 0x5C # CHR ''u'' # a # b # c # d # s) = encodeRune r @ unquoteBody s"
  by (simp add: unquoteBody.simps [of "CHR 0x5C # CHR ''u'' # a # b # c # d # s"] getu4_def
      split: if_splits)

lemma unquote_ascii:
  "byte_in 0 127 c \<Longrightarrow> c \<noteq> CHR 0x5C \<Longrightarrow> unquoteBody (c # s) = c # unquoteBody s"
  by (simp add: unquoteBody.simps [of "c # s"] runeLen_def)

lemma unquote_quoteByte:
  assumes "byte_in 0 127 c"
  shows "unquoteBody (quoteByte c @ s) = c # unquoteBody s"
proof -
  let ?n = "of_char c :: nat"
  have c: "?n = k \<Longrightarrow> c = char_of k" for k by auto
  have d: "?n div 16 < 16" by (rule less_mult_imp_div_less) simp
  show ?thesis
  proof (cases "?n < 32 \<and> ?n \<notin> {8, 9, 10, 12, 13} \<and> c \<noteq> CHR 0x22 \<and> c \<noteq> CHR 0x5C")
    case True
    have "getu4 [CHR ''0'', CHR ''0'', hexDigit (?n div 16), hexDigit (?n mod 16)] = Some ?n"
      using True d by (simp add: getu4_def jhex_def [of "CHR ''0''"] hexVal_def [of "CHR ''0''"] byte_in_def Let_def)
    from unquote_unicode [OF this, of s] True show ?thesis
      by (simp add: quoteByte_def Let_def encodeRune_def)
  next
    case False
    then consider "c = CHR 0x22 \<or> c = CHR 0x5C" | "?n = 8" | "?n = 9" | "?n = 10" | "?n = 12" | "?n = 13"
      | "32 \<le> ?n" "c \<noteq> CHR 0x22" "c \<noteq> CHR 0x5C" by force
    then show ?thesis
    proof cases
      case 1
      then show ?thesis by (auto simp: quoteByte_def unquote_escape unescape_def Let_def)
    next
      case 7
      with assms show ?thesis by (simp add: quoteByte_def unquote_ascii Let_def)
    qed (drule c, simp add: quoteByte_def unquote_escape unescape_def Let_def)+
  qed
qed

lemma runeLen_take:
  assumes "runeLen s = Some n"
  shows "runeLen (take n s @ t) = Some n"
proof -
  consider "s = []" | a where "s = [a]" | a b where "s = [a, b]" | a b c where "s = [a, b, c]"
    | a b c d s4 where "s = a # b # c # d # s4"
    by (metis list.exhaust)
  then show ?thesis
    using assms by cases (auto simp: runeLen_def split: if_split_asm)
qed

lemma unquote_rune:
  assumes "runeLen s = Some n" and "\<not> byte_in 0 127 (hd s)"
  shows "unquoteBody (quoteRune (take n s) @ t) = take n s @ unquoteBody t"
proof -
  obtain c cs where s: "take n s = c # cs" "\<not> byte_in 0 127 c"
    using runeLen_bounds [OF assms(1)] assms(2) by (cases s; cases n) auto
  then have c: "c \<noteq> CHR 0x5C" by (auto simp: byte_in_def)
  have "length (take n s) = n" using runeLen_bounds [OF assms(1)] by simp
  then have td: "take n (c # cs @ t) = c # cs" "drop n (c # cs @ t) = t" by (auto simp: s)
  have p: "unquoteBody (take n s @ t) = take n s @ unquoteBody t"
    using runeLen_take [OF assms(1), of t] c td
    by (simp add: s unquoteBody.simps [of "c # cs @ t"])
  have u: "getu4 ''2028'' = Some 8232" "getu4 ''2029'' = Some 8233"
    by (simp_all add: getu4_def jhex_def hexVal_def byte_in_def Let_def)
  show ?thesis
    using p unquote_unicode [OF u(1), of t] unquote_unicode [OF u(2), of t]
    by (auto simp: quoteRune_def encodeRune_def)
qed

lemma unquote_quoteBody: "utf8_Valid s \<Longrightarrow> unquoteBody (quoteBody s) = s"
proof (induction s rule: quoteBody.induct)
  case (1 s)
  show ?case
  proof (cases s)
    case Nil
    then show ?thesis by (simp add: unquoteBody.simps [of "[]"])
  next
    case (Cons c cs)
    show ?thesis
    proof (cases "byte_in 0 127 c")
      case True
      with 1(1,4) Cons show ?thesis
        by (simp add: quoteBody.simps [of "c # cs"] unquote_quoteByte)
    next
      case False
      from 1(4) Cons obtain n where n: "runeLen s = Some n" "utf8_Valid (drop n s)"
        by (subst (asm) utf8_Valid.simps) (auto split: option.splits)
      with 1(3) Cons False unquote_rune [OF n(1)] show ?thesis
        by (simp add: quoteBody.simps [of "c # cs"])
    qed
  qed
qed

lemma unquote_quoted: "utf8_Valid s \<Longrightarrow> unquote (quoted (quoteBody s)) = s"
  by (simp add: unquote_def quoted_def butlast_append unquote_quoteBody)

section \<open>The text of a value\<close>

lemma runs_digits:
  "list_all jdigit cs \<Longrightarrow> runs cs (NonZero, st) (NonZero, st)"
  by (induction cs) (auto simp: runs_Cons skips_def dest: jspace_neq)

lemma json_textI: "(\<And>st. runs t (BeginValue, st) (m, st)) \<Longrightarrow> closing m \<Longrightarrow> json_text n t"
  by (auto simp: json_text_def)

lemma begin_digit:
  assumes "byte_in 49 57 c"
  shows "stepBeginValue c m st = Some (NonZero, st)" "c \<noteq> CHR ''0''" "byte_in 49 57 c"
proof -
  have "\<not> jspace c" using assms jspace_neq(13) by blast
  moreover have "c \<noteq> x" if "x \<in> set ''{[-0tfn'' \<or> x = CHR 0x22" for x
    using that assms by (auto simp: byte_in_def)
  ultimately show "stepBeginValue c m st = Some (NonZero, st)" "c \<noteq> CHR ''0''"
    using assms by (simp_all add: stepBeginValue_def)
  show "byte_in 49 57 c" by (rule assms)
qed

lemma runs_dec:
  "runs (dec n) (m, st) (if n = 0 then Zero else NonZero, st)" if "m = BeginValue \<or> m = Neg"
proof (cases "n = 0")
  case True
  have "runs ''0'' (m, st) (Zero, st)"
    using that by (auto simp: runs_Cons stepBeginValue_alt begin_mode_def skips_def jspace_def)
  moreover have "dec 0 = ''0''"
    by (simp add: dec.simps [of 0] digit_def char_of_eq_iff take_bit_eq_mod)
  ultimately show ?thesis using True by simp
next
  case False
  obtain c cs where c: "dec n = c # cs" "isDigit c" "list_all isDigit cs"
    using dec_digits [of n] by (cases "dec n") auto
  have d: "jdigit x = isDigit x" for x by (simp add: jdigit_def isDigit_def byte_in_def)
  have c1: "byte_in 49 57 c" "c \<noteq> CHR ''0''" "\<not> jspace c"
  proof -
    show "c \<noteq> CHR ''0''" using dec_hd [of n] False c(1) by auto
    then have "(of_char c :: nat) \<noteq> of_char (CHR ''0'')" by (simp only: of_char_eq_iff not_False_eq_True)
    then have "(of_char c :: nat) \<noteq> 48" by simp
    with c(2) show "byte_in 49 57 c" by (simp add: isDigit_def byte_in_def)
    then show "\<not> jspace c" using jspace_neq(13) by blast
  qed
  then have "jstep c (m, st) = Some (NonZero, st)"
    using that begin_digit [OF c1(1)] by (elim disjE) simp_all
  with c1(3) runs_digits [of cs st] c d False show ?thesis
    by (simp add: runs_Cons skips_def list_all_iff)
qed

lemma json_text_decInt: "json_text n (decInt i)"
proof -
  have z: "closing (if k = 0 then Zero else NonZero)" for k :: nat by simp
  have "runs (CHR ''-'' # dec k) (BeginValue, st) (if k = 0 then Zero else NonZero, st)" for k st
    by (rule runs_ConsI [OF _ _ runs_dec [of Neg]])
      (simp_all add: stepBeginValue_alt begin_mode_def jspace_def)
  then have "json_text n (CHR ''-'' # dec k)" for k by (rule json_textI [OF _ z])
  moreover have "json_text n (dec k)" for k by (rule json_textI [OF runs_dec [of BeginValue] z]) simp
  ultimately show ?thesis by (simp add: decInt_def)
qed

lemma json_text_words: "json_text n ''null''" "json_text n ''true''" "json_text n ''false''"
  by (rule json_textI [of _ EndValue];
      simp add: runs_Cons stepBeginValue_alt begin_mode_def skips_def jspace_def in_string_def)+

lemma fold_max_le: "x \<in> set xs \<Longrightarrow> (x :: nat) \<le> fold max xs n" "n \<le> fold max xs n"
proof -
  show le: "n \<le> fold max xs n" for xs :: "nat list" and n
    by (induction xs arbitrary: n) (auto intro: order_trans [OF max.cobounded2])
  show "x \<in> set xs \<Longrightarrow> x \<le> fold max xs n"
    using le by (induction xs arbitrary: n) (auto intro: order_trans [OF max.cobounded1])
qed

definition float_text :: "(float64 \<Rightarrow> string) \<Rightarrow> bool" where
  "float_text fmt \<longleftrightarrow> (\<forall>f. float_finite f \<longrightarrow> json_text 0 (fmt f))"

lemma float_text_zero: "float_text (\<lambda>_. ''0'')"
proof -
  have "decInt 0 = ''0''"
    by (simp add: decInt_def dec.simps [of 0] digit_def char_of_eq_iff take_bit_eq_mod)
  with json_text_decInt [of 0 0] show ?thesis by (simp add: float_text_def)
qed

lemma json_text_render:
  assumes "float_text fmt"
  shows "json_ok v \<Longrightarrow> json_text (nests v) (render fmt v)"
proof (induction v)
  case (JFloat f)
  with assms show ?case by (simp add: float_text_def)
next
  case (JRaw b)
  then show ?case by (simp add: json_text_compact)
next
  case (JArr js)
  have "\<forall>t \<in> set (map (render fmt) js). json_text (fold max (map nests js) 0) t"
  proof
    fix t assume "t \<in> set (map (render fmt) js)"
    then obtain j where j: "j \<in> set js" "t = render fmt j" by auto
    moreover have "nests j \<le> fold max (map nests js) 0" using j by (intro fold_max_le) simp
    ultimately show "json_text (fold max (map nests js) 0) t"
      using JArr by (auto intro: json_text_mono)
  qed
  from json_text_array [OF this] show ?case by simp
next
  case (JObj m)
  let ?n = "fold max (map (\<lambda>(k, j). nests j) m) 0"
  define kvs where "kvs = map (\<lambda>(k, t). (quoteBody k, t))
    (sort_key fst (map (\<lambda>(k, j). (k, render fmt j)) m))"
  have "json_text ?n (render fmt j)" if "(k, j) \<in> set m" for k j
  proof -
    have "nests j \<le> ?n" using that by (intro fold_max_le) force
    moreover have "json_text (nests j) (render fmt j)" using JObj that by (auto simp: snds.simps)
    ultimately show ?thesis by (rule json_text_mono [rotated])
  qed
  then have "\<forall>(k, v) \<in> set kvs. string_body k \<and> json_text ?n v"
    by (auto simp: kvs_def string_body_quoteBody)
  moreover have "map member kvs = map (\<lambda>(k, t). member (quoteBody k, t))
      (sort_key fst (map (\<lambda>(k, j). (k, render fmt j)) m))"
    by (simp add: kvs_def comp_def case_prod_beta)
  ultimately show ?case using json_text_object [of kvs ?n] by simp
qed (auto simp: json_text_words json_text_decInt json_text_quoted string_body_quoteBody)

section \<open>One line\<close>

lemma compactFrom_line: "CHR 0x0A \<notin> set (compactFrom t sc)"
proof (induction t arbitrary: sc)
  case (Cons c t)
  have "in_string (fst sc) \<Longrightarrow> jstep (CHR 0x0A) sc = None"
    by (cases sc; cases "fst sc") (auto simp: in_string_def byte_in_def jhex_def)
  with Cons show ?case by (auto simp: skips_def jspace_def split: option.split)
qed simp

lemma runs_line: "runs t sc sc' \<Longrightarrow> CHR 0x0A \<notin> set t"
  using compactFrom_line [of t sc] by (simp add: runs_def)

lemma quoted_line: "CHR 0x0A \<notin> set (quoted (quoteBody s))"
  using runs_line [OF string_bodyD [OF string_body_quoteBody [of s]]] by (simp add: quoted_def)

lemma set_joinComma: "set (joinComma ts) \<subseteq> insert (CHR '','') (\<Union> (set ` set ts))"
  by (induction ts rule: joinComma.induct) auto

lemma render_line:
  assumes "float_text fmt"
  shows "json_ok v \<Longrightarrow> CHR 0x0A \<notin> set (render fmt v)"
proof (induction v)
  case (JFloat f)
  with assms json_textE [of 0 "fmt f" "[]"] show ?case
    by (auto simp: float_text_def maxNestingDepth_def dest: runs_line)
next
  case (JInt i)
  obtain m where "runs (decInt i) (BeginValue, [ParseArrayValue]) (m, [ParseArrayValue])"
    by (rule json_textE [OF json_text_decInt [of 0 i], of "[]" ParseArrayValue])
      (auto simp: maxNestingDepth_def)
  then show ?case by (auto dest: runs_line)
next
  case (JRaw b)
  then show ?case by (simp add: compact_def compactFrom_line)
next
  case (JArr js)
  then show ?case using set_joinComma [of "map (render fmt) js"] by auto
next
  case (JObj m)
  have "CHR 0x0A \<notin> set (render fmt j)" if "(k, j) \<in> set m" for k j
    using JObj that by (auto simp: snds.simps)
  then show ?case
    using set_joinComma [of "map (\<lambda>(k, t). member (quoteBody k, t))
        (sort_key fst (map (\<lambda>(k, j). (k, render fmt j)) m))"] quoted_line
    by (force simp: member_def)
qed (auto simp: quoted_line)

section \<open>Indentation adds nothing but space\<close>

lemma newline_spaces [simp]: "list_all jspace (newline d)" "newline d \<noteq> []"
  by (simp_all add: newline_def jspace_def list_all_iff)

text \<open>What is written around a byte are spaces, and before it only where a value may be over.\<close>

lemma indentByte_spaces:
  assumes "indentByte c need d = (pre, post, need', d')"
  shows "list_all jspace pre" "list_all jspace post" "need' = (c = CHR ''{'' \<or> c = CHR ''['')"
    "post \<noteq> [] \<Longrightarrow> c = CHR '','' \<or> c = CHR '':''"
    "pre \<noteq> [] \<Longrightarrow> need \<or> c = CHR ''}'' \<or> c = CHR '']''"
  using assms by (auto simp: indentByte_def Let_def jspace_def split: if_splits)

lemma indentFrom_runs:
  assumes "runs t sc sf" and "scan_wf sc"
  shows "jscan_all (indentFrom t sc (or_empty (fst sc)) d) sc = Some sf \<and>
    compactFrom (indentFrom t sc (or_empty (fst sc)) d) sc = t"
  using assms
proof (induction t arbitrary: sc d)
  case Nil
  then show ?case by simp
next
  case (Cons c t)
  obtain m st where sc: "sc = (m, st)" by fastforce
  obtain sc1 where s: "jstep c (m, st) = Some sc1" "\<not> skips c m" "runs t sc1 sf"
    using Cons.prems(1) by (auto simp: sc runs_Cons)
  have wf: "scan_wf sc1" "scan_wf (m, st)" using jstep_wf [OF s(1)] Cons.prems(2) by (simp_all add: sc)
  note IH = Cons.IH [OF s(3) wf(1)]
  show ?case
  proof (cases "in_string m")
    case True
    then have "\<not> or_empty m" "\<not> or_empty (fst sc1)"
      using s(1) by (auto simp: in_string_def or_empty_def split: jmode.splits if_splits nat.splits)
    with True s IH [of d] show ?thesis by (simp add: sc)
  next
    case False
    then have sp: "\<not> jspace c" using s(2) by (simp add: skips_def)
    have out: "outside c st sc1" by (rule jstep_outside [OF s(1) False wf(2)])
    obtain pre post need' d' where b: "indentByte c (or_empty m) d = (pre, post, need', d')"
      by (metis prod_cases4)
    note b' = indentByte_spaces [OF b]
    let ?r = "indentFrom t sc1 need' d'"
    have need': "need' = or_empty (fst sc1)" using b'(3) out sp by (simp add: outside_def)
    have post: "jscan_all (post @ ?r) sc1 = jscan_all ?r sc1 \<and>
        compactFrom (post @ ?r) sc1 = compactFrom ?r sc1"
    proof (cases "post = []")
      case False
      with b'(4) out have "fst sc1 \<in> {BeginValue, BeginString}" by (auto simp: outside_def)
      with spaces_stay [OF b'(2)] show ?thesis by blast
    qed simp
    have r: "jscan_all (c # post @ ?r) (m, st) = Some sf" "compactFrom (c # post @ ?r) (m, st) = c # t"
      using s post IH [of d'] by (simp_all add: need')
    have "jscan_all (pre @ c # post @ ?r) (m, st) = Some sf \<and>
        compactFrom (pre @ c # post @ ?r) (m, st) = c # t"
    proof (cases "pre = [] \<or> or_empty m")
      case True
      with r spaces_stay [OF b'(1), of "(m, st)"] show ?thesis by (elim disjE) simp_all
    next
      case no: False
      with b'(5) have c: "c = CHR ''}'' \<or> c = CHR '']''" by auto
      with closer_mode [OF s(1) _ False wf(2)] no have m: "closing m" "st \<noteq> []" by auto
      have "jstep c (EndValue, st) = jstep c (m, st)"
        using closing_step [OF m(1), of c st] closer_char [OF c] by simp
      then have "jscan_all (c # post @ ?r) (EndValue, st) = jscan_all (c # post @ ?r) (m, st)"
        "compactFrom (c # post @ ?r) (EndValue, st) = compactFrom (c # post @ ?r) (m, st)"
        using sp by (simp_all add: skips_def split: option.split)
      with spaces_closing [OF b'(1) _ m, of "c # post @ ?r"] no r show ?thesis by simp
    qed
    with False s b show ?thesis by (simp add: sc)
  qed
qed

lemma indent_text:
  assumes "json_text n t" and "n \<le> maxNestingDepth"
  shows "json_Valid (indent t)" "compact (indent t) = t"
proof -
  obtain m where m: "runs t (BeginValue, []) (m, [])" "closing m \<or> m = EndTop"
    using assms(1)[unfolded json_text_def, rule_format, of "[]"] assms(2) by auto
  have "jscan_all (indent t) (BeginValue, []) = Some (m, []) \<and> compactFrom (indent t) (BeginValue, []) = t"
    using indentFrom_runs [OF m(1), of 0] by (simp add: indent_def or_empty_def)
  then show "json_Valid (indent t)" "compact (indent t) = t"
    using m(2) closing_jeof by (auto simp: json_Valid_def compact_def jeof_def [of "(EndTop, [])"])
qed

section \<open>Taking a rendered value apart\<close>

lemma jpieces_render_array:
  assumes "float_text fmt" and "json_ok (JArr js)" and "nests (JArr js) \<le> Suc maxNestingDepth"
  shows "jpieces (render fmt (JArr js)) = map (render fmt) js"
proof -
  have "\<forall>t \<in> set (map (render fmt) js). json_text maxNestingDepth t"
  proof
    fix t assume "t \<in> set (map (render fmt) js)"
    then obtain j where j: "j \<in> set js" "t = render fmt j" by auto
    moreover have "nests j \<le> fold max (map nests js) 0" using j by (intro fold_max_le) simp
    ultimately show "json_text maxNestingDepth t"
      using json_text_render [OF assms(1), of j] assms(2,3) by (auto intro: json_text_mono)
  qed
  from jpieces_array [OF this] show ?thesis by simp
qed

definition members :: "(float64 \<Rightarrow> string) \<Rightarrow> (string \<times> json) list \<Rightarrow> (string \<times> string) list" where
  "members fmt m = map (\<lambda>(k, j). (quoted (quoteBody k), render fmt j)) (sort_key fst m)"

lemma insort_key_map:
  "insort_key fst (k, f j) (map (\<lambda>(k, j). (k, f j)) m) = map (\<lambda>(k, j). (k, f j)) (insort_key fst (k, j) m)"
  by (induction m) auto

lemma sort_key_map_snd:
  "sort_key fst (map (\<lambda>(k, j). (k, f j)) m) = map (\<lambda>(k, j). (k, f j)) (sort_key fst m)"
  by (induction m) (auto simp: insort_key_map)

lemma jmembers_render:
  assumes "float_text fmt" and "json_ok (JObj m)" and "nests (JObj m) \<le> Suc maxNestingDepth"
  shows "map jmember (jpieces (render fmt (JObj m))) = members fmt m"
proof -
  let ?kvs = "map (\<lambda>(k, j). (quoteBody k, render fmt j)) (sort_key fst m)"
  have t: "json_text maxNestingDepth (render fmt j)" if "(k, j) \<in> set m" for k j
  proof -
    have "nests j \<le> fold max (map (\<lambda>(k, j). nests j) m) 0" using that by (intro fold_max_le) force
    then show ?thesis
      using json_text_render [OF assms(1), of j] assms(2,3) that by (auto intro: json_text_mono)
  qed
  have kvs: "\<forall>(k, v) \<in> set ?kvs. string_body k \<and> json_text maxNestingDepth v"
    by (auto simp: string_body_quoteBody t)
  have "render fmt (JObj m) = CHR ''{'' # joinComma (map member ?kvs) @ ''}''"
    by (simp add: sort_key_map_snd comp_def case_prod_beta)
  then have "jpieces (render fmt (JObj m)) = map member ?kvs"
    using jpieces_object [OF kvs] by simp
  moreover have "jmember (member kv) = (quoted (fst kv), snd kv)" if "kv \<in> set ?kvs" for kv
    using jmember_member [of "fst kv" maxNestingDepth "snd kv"] kvs that by fastforce
  ultimately show ?thesis
    by (simp add: members_def comp_def case_prod_beta)
qed

end
