(* ===== verification/Base64.thy ===== *)
theory Base64
  imports GoPrelude
begin

text \<open>
  \<open>base64.StdEncoding\<close>: \<open>EncodeToString\<close> and \<open>DecodeString\<close>. Decoding skips carriage returns and
  line feeds, wants padding, and does not check the unused bits of a padded quantum, as the
  library's non-strict decoder does. The lemmas show that decoding inverts encoding on all byte
  strings.
\<close>

definition b64char :: "nat \<Rightarrow> char" where
  "b64char i =
     (if i < 26 then char_of (65 + i)
      else if i < 52 then char_of (71 + i)
      else if i < 62 then char_of (i - 4)
      else if i = 62 then CHR ''+'' else CHR ''/'')"

definition b64val :: "char \<Rightarrow> nat option" where
  "b64val c =
     (let n = of_char c :: nat in
      if 65 \<le> n \<and> n \<le> 90 then Some (n - 65)
      else if 97 \<le> n \<and> n \<le> 122 then Some (n - 71)
      else if 48 \<le> n \<and> n \<le> 57 then Some (n + 4)
      else if n = 43 then Some 62
      else if n = 47 then Some 63
      else None)"

definition b64pad :: char where "b64pad = CHR ''=''"

fun b64encode :: "bytes \<Rightarrow> string" where
  "b64encode [] = []"
| "b64encode [a] =
     (let x = of_char a :: nat in
      [b64char (x div 4), b64char (x mod 4 * 16), b64pad, b64pad])"
| "b64encode [a, b] =
     (let x = of_char a :: nat; y = of_char b in
      [b64char (x div 4), b64char (x mod 4 * 16 + y div 16), b64char (y mod 16 * 4), b64pad])"
| "b64encode (a # b # c # cs) =
     (let x = of_char a :: nat; y = of_char b; z = of_char c in
      b64char (x div 4) # b64char (x mod 4 * 16 + y div 16) #
      b64char (y mod 16 * 4 + z div 64) # b64char (z mod 64) # b64encode cs)"

text \<open>One quantum of four characters; only the last one may be padded.\<close>

fun b64quanta :: "string \<Rightarrow> bytes option" where
  "b64quanta [] = Some []"
| "b64quanta (p # q # r # s # cs) =
     (case (b64val p, b64val q) of
        (Some a, Some b) \<Rightarrow>
          let x = char_of (a * 4 + b div 16) in
          (case b64val r of
             None \<Rightarrow>
               if r = b64pad \<and> s = b64pad \<and> cs = [] then Some [x] else None
           | Some c \<Rightarrow>
               let y = char_of (b mod 16 * 16 + c div 4) in
               (case b64val s of
                  None \<Rightarrow> if s = b64pad \<and> cs = [] then Some [x, y] else None
                | Some d \<Rightarrow>
                    map_option (\<lambda>bs. x # y # char_of (c mod 4 * 64 + d) # bs) (b64quanta cs)))
      | _ \<Rightarrow> None)"
| "b64quanta _ = None"

definition b64newline :: "char \<Rightarrow> bool" where
  "b64newline c \<longleftrightarrow> (of_char c :: nat) = 10 \<or> (of_char c :: nat) = 13"

definition b64decode :: "string \<Rightarrow> bytes option" where
  "b64decode s = b64quanta (filter (\<lambda>c. \<not> b64newline c) s)"

section \<open>Decoding inverts encoding\<close>

lemma of_char_b64char:
  "i < 64 \<Longrightarrow> of_char (b64char i) =
     (if i < 26 then 65 + i else if i < 52 then 71 + i else if i < 62 then i - 4
      else if i = 62 then 43 else 47 :: nat)"
  by (simp add: b64char_def)

lemma b64val_b64char [simp]: "i < 64 \<Longrightarrow> b64val (b64char i) = Some i"
  by (auto simp: b64val_def of_char_b64char Let_def)

lemma b64newline_b64char [simp]: "i < 64 \<Longrightarrow> \<not> b64newline (b64char i)"
  by (auto simp: b64newline_def of_char_b64char)

lemma b64pad_simps [simp]: "b64val b64pad = None" "\<not> b64newline b64pad"
  by (simp_all add: b64val_def b64newline_def b64pad_def)

lemma byte_lt [simp]: "(of_char a :: nat) < 256"
  by (rule nat_of_char_less_256)

lemma sixbits [simp]:
  fixes x y z :: nat
  shows "x < 256 \<Longrightarrow> x div 4 < 64" "x mod 4 * 16 < 64"
    "y < 256 \<Longrightarrow> x mod 4 * 16 + y div 16 < 64" "y mod 16 * 4 < 64"
    "z < 256 \<Longrightarrow> y mod 16 * 4 + z div 64 < 64" "z mod 64 < 64"
  by auto

lemma rejoin [simp]:
  fixes y :: nat
  assumes "y < 256"
  shows "y div 16 div 16 = 0" "y div 16 mod 16 = y div 16" "y div 64 div 4 = 0"
    "y div 64 mod 4 = y div 64"
  using assms by auto

lemma b64encode_clean: "filter (\<lambda>c. \<not> b64newline c) (b64encode bs) = b64encode bs"
  by (induction bs rule: b64encode.induct) (simp_all add: Let_def)

lemma b64quanta_encode: "b64quanta (b64encode bs) = Some bs"
  by (induction bs rule: b64encode.induct) (simp_all add: Let_def)

lemma b64decode_encode: "b64decode (b64encode bs) = Some bs"
  by (simp add: b64decode_def b64encode_clean b64quanta_encode)

interpretation base64: codec b64encode b64decode "\<lambda>_. True"
  by unfold_locales (rule b64decode_encode)

lemma b64encode_Nil: "b64encode bs = [] \<longleftrightarrow> bs = []"
  by (cases bs rule: b64encode.cases) (simp_all add: Let_def)

end
