(* ===== verification/Encode.thy ===== *)
theory Encode
  imports Json Base64 Rfc3339 Streams Subscriptions Snapshots Schema Stores Health Admin
begin

text \<open>
  Package \<open>encode\<close>: \<^verbatim>\<open>cmd/reckon/encode/encode.go\<close> and \<^verbatim>\<open>encode_more.go\<close>, the JSON
  shapes of the command line. Each function gives the map that is handed to the JSON encoder. The
  lemmas are about the byte-field policy: what is always there, what is there for convenience, and
  that nothing is lost.
\<close>

section \<open>Modes and fields\<close>

datatype Bytes = Auto | Base64

definition ParseBytes :: "string \<Rightarrow> Bytes \<times> bool" where
  "ParseBytes s =
     (if s = ''auto'' \<or> s = '''' then (Auto, True)
      else if s = ''base64'' then (Base64, True)
      else (Auto, False))"

definition encode_Time :: "gotime \<Rightarrow> json" where
  "encode_Time t = (if IsZero t then JNull else JStr (FormatRFC3339Nano t))"

abbreviation jstrs :: "string list \<Rightarrow> json" where
  "jstrs xs \<equiv> JArr (map JStr xs)"

definition tags :: "strs \<Rightarrow> string list" where
  "tags t = (case t of None \<Rightarrow> [] | Some ts \<Rightarrow> ts)"

definition encode_strs :: "strs \<Rightarrow> string list" where
  "encode_strs s = (case s of None \<Rightarrow> [] | Some xs \<Rightarrow> xs)"

definition strMap :: "(string, string) gomap \<Rightarrow> json" where
  "strMap m = JObj (map (\<lambda>(k, v). (k, JStr v)) (case m of None \<Rightarrow> [] | Some kvs \<Rightarrow> kvs))"

definition u32Map :: "(string, u32) gomap \<Rightarrow> json" where
  "u32Map m = JObj (map (\<lambda>(k, v). (k, JInt (uint v))) (case m of None \<Rightarrow> [] | Some kvs \<Rightarrow> kvs))"

definition u64Map :: "(string, u64) gomap \<Rightarrow> json" where
  "u64Map m = JObj (map (\<lambda>(k, v). (k, JInt (uint v))) (case m of None \<Rightarrow> [] | Some kvs \<Rightarrow> kvs))"

type_synonym jmap = "(string \<times> json) list"

definition addBytes :: "jmap \<Rightarrow> string \<Rightarrow> bytes \<Rightarrow> string \<Rightarrow> Bytes \<Rightarrow> jmap" where
  "addBytes m key b contentType mode =
     (let m = jset (key @ ''_b64'') (JStr (b64encode b)) m in
      if mode \<noteq> Auto \<or> length b = 0 then m
      else if contentType = ''application/json'' \<and> json_Valid b then jset key (JRaw b) m
      else if utf8_Valid b then jset key (JStr b) m
      else m)"

definition addBlob :: "jmap \<Rightarrow> string \<Rightarrow> bytes \<Rightarrow> Bytes \<Rightarrow> jmap" where
  "addBlob m key b mode =
     (let m = jset (key @ ''_b64'') (JStr (b64encode b)) m in
      if mode \<noteq> Auto \<or> length b = 0 then m
      else if json_Valid b then jset key (JRaw b) m
      else if utf8_Valid b then jset key (JStr b) m
      else m)"

definition addHash :: "jmap \<Rightarrow> string \<Rightarrow> bytes \<Rightarrow> jmap" where
  "addHash m key b =
     (if length b = 0 then m else jset (key @ ''_b64'') (JStr (b64encode b)) m)"

section \<open>Streams and stores\<close>

definition encode_Event :: "streams_RecordedEvent \<Rightarrow> Bytes \<Rightarrow> json" where
  "encode_Event e mode =
     (let m = [
        (''event_id'', JStr (streams_RecordedEvent.EventID e)),
        (''event_type'', JStr (streams_RecordedEvent.EventType e)),
        (''stream_id'', JStr (streams_RecordedEvent.StreamID e)),
        (''version'', JInt (uint (streams_RecordedEvent.Version e))),
        (''tags'', jstrs (tags (streams_RecordedEvent.Tags e))),
        (''timestamp'', encode_Time (streams_RecordedEvent.Timestamp e)),
        (''epoch'', encode_Time (streams_RecordedEvent.Epoch e)),
        (''data_content_type'', JStr (streams_RecordedEvent.DataContentType e)),
        (''metadata_content_type'', JStr (streams_RecordedEvent.MetadataContentType e))];
      m = addBytes m ''data'' (streams_RecordedEvent.Data e)
            (streams_RecordedEvent.DataContentType e) mode;
      m = addBytes m ''metadata'' (streams_RecordedEvent.Metadata e)
            (streams_RecordedEvent.MetadataContentType e) mode;
      m = addHash m ''prev_event_hash'' (streams_RecordedEvent.PrevEventHash e)
      in JObj m)"

text \<open>\<open>Duration.Milliseconds\<close>: integer division truncates toward zero.\<close>

definition Milliseconds :: "i64 \<Rightarrow> int" where
  "Milliseconds d = (if sint d < 0 then - (- sint d div 10 ^ 6) else sint d div 10 ^ 6)"

definition encode_Instance :: "StoreInst \<Rightarrow> json" where
  "encode_Instance i = JObj [
     (''store_id'', JStr (StoreInst.StoreID i)),
     (''node'', JStr (StoreInst.Node i)),
     (''mode'', JStr (StoreInst.Mode i)),
     (''data_dir'', JStr (StoreInst.DataDir i)),
     (''timeout_ms'', JInt (Milliseconds (Timeout i))),
     (''registered_at'', encode_Time (RegisteredAt i))]"

definition encode_StoreEvent :: "StoreEvent \<Rightarrow> jmap" where
  "encode_StoreEvent e = [
     (''type'', JStr ''store_event''),
     (''change'', JStr (StoreEvent.Type e)),
     (''instance'', encode_Instance (StoreEvent.Instance e)),
     (''at'', encode_Time (StoreEvent.At e))]"

section \<open>Subscriptions\<close>

definition encode_SubInfo :: "SubInfo \<Rightarrow> json" where
  "encode_SubInfo i = JObj [
     (''id'', JStr (SubInfo.ID i)), (''name'', JStr (SubInfo.Name i)),
     (''type'', JStr (SubInfo.Type i)), (''selector'', JStr (SubInfo.Selector i)),
     (''created_at'', encode_Time (SubInfo.CreatedAt i)),
     (''pool_size'', JInt (uint (SubInfo.PoolSize i))),
     (''checkpoint'', JInt (uint (SubInfo.Checkpoint i)))]"

definition encode_Lag :: "SubLag \<Rightarrow> json" where
  "encode_Lag l = JObj [
     (''lag'', JInt (uint (SubLag.Lag l))),
     (''current_checkpoint'', JInt (uint (SubLag.CurrentCheckpoint l))),
     (''latest_version'', JInt (uint (SubLag.LatestVersion l)))]"

definition encode_Delivery :: "Delivery \<Rightarrow> Bytes \<Rightarrow> jmap" where
  "encode_Delivery d mode = [
     (''type'', JStr ''delivery''),
     (''event'', encode_Event (Delivery.Event d) mode),
     (''checkpoint'', JInt (uint (Delivery.Checkpoint d)))]"

section \<open>Snapshots and schemas\<close>

definition encode_Snapshot :: "SnapRecord \<Rightarrow> Bytes \<Rightarrow> json" where
  "encode_Snapshot r mode =
     (let m = [
        (''stream_id'', JStr (SnapRecord.StreamID r)),
        (''version'', JInt (uint (SnapRecord.Version r))),
        (''timestamp'', encode_Time (SnapRecord.Timestamp r))];
      m = addBlob m ''data'' (SnapRecord.Data r) mode;
      m = addBlob m ''metadata'' (SnapRecord.Metadata r) mode;
      m = addHash m ''anchor_hash'' (SnapRecord.AnchorHash r)
      in JObj m)"

definition encode_SchemaDef :: "Definition \<Rightarrow> Bytes \<Rightarrow> json" where
  "encode_SchemaDef d mode =
     JObj (addBlob [(''event_type'', JStr (Definition.EventType d)),
       (''version'', JInt (uint (Definition.Version d)))] ''schema'' (Definition.Schema d) mode)"

section \<open>Administration\<close>

definition encode_StoreStats :: "StoreStats \<Rightarrow> json" where
  "encode_StoreStats s = JObj [
     (''total_streams'', JInt (uint (StoreStats.TotalStreams s))),
     (''total_events'', JInt (uint (StoreStats.TotalEvents s))),
     (''total_subscriptions'', JInt (uint (StoreStats.TotalSubscriptions s))),
     (''total_snapshots'', JInt (uint (StoreStats.TotalSnapshots s))),
     (''details'', strMap (StoreStats.Details s))]"

definition encode_StreamInfo :: "StreamInfo \<Rightarrow> json" where
  "encode_StreamInfo s = JObj [
     (''stream_id'', JStr (StreamInfo.StreamID s)),
     (''version'', JInt (uint (StreamInfo.Version s))),
     (''event_count'', JInt (uint (StreamInfo.EventCount s))),
     (''created_at'', encode_Time (StreamInfo.CreatedAt s)),
     (''last_event_at'', encode_Time (StreamInfo.LastEventAt s)),
     (''event_types'', jstrs (encode_strs (StreamInfo.EventTypes s)))]"

definition encode_EventTypeCount :: "EventTypeCount \<Rightarrow> json" where
  "encode_EventTypeCount e = JObj [
     (''event_type'', JStr (EventTypeCount.EventType e)),
     (''count'', JInt (uint (EventTypeCount.Count e)))]"

definition encode_ScavengeResult :: "ScavengeResult \<Rightarrow> json" where
  "encode_ScavengeResult s = JObj [
     (''events_removed'', JInt (uint (ScavengeResult.EventsRemoved s))),
     (''events_remaining'', JInt (uint (ScavengeResult.EventsRemaining s))),
     (''space_reclaimed_bytes'', JInt (uint (ScavengeResult.SpaceReclaimedBytes s))),
     (''details'', strMap (ScavengeResult.Details s))]"

definition encode_LinkSpec :: "LinkSpec \<Rightarrow> json" where
  "encode_LinkSpec l = JObj [
     (''name'', JStr (LinkSpec.Name l)), (''source'', JStr (LinkSpec.Source l)),
     (''target'', JStr (LinkSpec.Target l)), (''options'', strMap (LinkSpec.Options l))]"

definition encode_LinkRuntime :: "LinkRuntime \<Rightarrow> json" where
  "encode_LinkRuntime l = JObj [
     (''name'', JStr (LinkRuntime.Name l)), (''status'', JStr (LinkRuntime.Status l)),
     (''events_processed'', JInt (uint (LinkRuntime.EventsProcessed l))),
     (''details'', strMap (LinkRuntime.Details l))]"

definition encode_Cluster :: "CatalogueClusterInfo \<Rightarrow> json" where
  "encode_Cluster c = JObj [
     (''cluster_id'', JStr (CatalogueClusterInfo.ClusterID c)),
     (''members'', jstrs (encode_strs (CatalogueClusterInfo.Members c))),
     (''store_count'', JInt (uint (CatalogueClusterInfo.StoreCount c))),
     (''status'', JStr (CatalogueClusterInfo.Status c)),
     (''last_refresh'', encode_Time (CatalogueClusterInfo.LastRefresh c)),
     (''last_error'', JStr (CatalogueClusterInfo.LastError c))]"

definition encode_CatalogueStatus :: "CatalogueStatus \<Rightarrow> json" where
  "encode_CatalogueStatus s = JObj [
     (''catalogue_size'', JInt (uint (CatalogueStatus.CatalogueSize s))),
     (''gateway_uptime_ms'', JInt (sint (CatalogueStatus.GatewayUptimeMs s))),
     (''clusters'', JArr (map encode_Cluster
        (case CatalogueStatus.Clusters s of None \<Rightarrow> [] | Some cs \<Rightarrow> cs)))]"

definition encode_CatalogueReload :: "CatalogueReloadResult \<Rightarrow> json" where
  "encode_CatalogueReload r = JObj [
     (''added'', jstrs (encode_strs (CatalogueReloadResult.Added r))),
     (''removed'', jstrs (encode_strs (CatalogueReloadResult.Removed r))),
     (''restarted'', jstrs (encode_strs (CatalogueReloadResult.Restarted r))),
     (''error'', JStr (CatalogueReloadResult.Error r))]"

section \<open>Health\<close>

definition encode_CheckResult :: "CheckResult \<Rightarrow> json" where
  "encode_CheckResult r = JObj [
     (''status'', JStr (CheckResult.Status r)), (''details'', strMap (CheckResult.Details r))]"

definition encode_ClusterResult :: "ClusterResult \<Rightarrow> json" where
  "encode_ClusterResult r = JObj [
     (''status'', JStr (ClusterResult.Status r)), (''details'', strMap (ClusterResult.Details r))]"

definition encode_HealthResult :: "HealthResult \<Rightarrow> json" where
  "encode_HealthResult r = JObj [
     (''status'', JStr (HealthResult.Status r)), (''stores'', u32Map (HealthResult.Stores r)),
     (''total_workers'', JInt (uint (HealthResult.TotalWorkers r))),
     (''node'', JStr (HealthResult.Node r)),
     (''timestamp'', encode_Time (HealthResult.Timestamp r))]"

definition encode_MemoryStats :: "MemoryStats \<Rightarrow> json" where
  "encode_MemoryStats m = JObj [
     (''used_bytes'', JInt (uint (MemoryStats.UsedBytes m))),
     (''total_bytes'', JInt (uint (MemoryStats.TotalBytes m))),
     (''usage_percent'', JFloat (MemoryStats.UsagePercent m)),
     (''breakdown'', u64Map (MemoryStats.Breakdown m))]"

definition encode_ServerInfo :: "ServerInfo \<Rightarrow> json" where
  "encode_ServerInfo s = JObj [
     (''reckon_db_version'', JStr (ServerInfo.ReckonDbVersion s)),
     (''reckon_gateway_version'', JStr (ServerInfo.ReckonGatewayVersion s)),
     (''api_compatibility_version'', JStr (ServerInfo.APICompatibilityVersion s)),
     (''integrity_enabled'', JBool (ServerInfo.IntegrityEnabled s)),
     (''integrity_algo'', JStr (ServerInfo.IntegrityAlgo s)),
     (''hmac_key_id'', JInt (uint (ServerInfo.HmacKeyId s)))]"

section \<open>The byte-field policy\<close>

lemma map_of_addBytes:
  "map_of (addBytes m key b ct mode) k =
     (if k = key @ ''_b64'' then Some (JStr (b64encode b))
      else if k = key \<and> mode = Auto \<and> b \<noteq> [] \<and> ct = ''application/json'' \<and> json_Valid b
        then Some (JRaw b)
      else if k = key \<and> mode = Auto \<and> b \<noteq> [] \<and> utf8_Valid b then Some (JStr b)
      else map_of m k)"
  by (auto simp: addBytes_def Let_def)

lemma map_of_addBlob:
  "map_of (addBlob m key b mode) k =
     (if k = key @ ''_b64'' then Some (JStr (b64encode b))
      else if k = key \<and> mode = Auto \<and> b \<noteq> [] \<and> json_Valid b then Some (JRaw b)
      else if k = key \<and> mode = Auto \<and> b \<noteq> [] \<and> utf8_Valid b then Some (JStr b)
      else map_of m k)"
  by (auto simp: addBlob_def Let_def)

lemma map_of_addHash:
  "map_of (addHash m key b) k =
     (if k = key @ ''_b64'' \<and> b \<noteq> [] then Some (JStr (b64encode b)) else map_of m k)"
  by (auto simp: addHash_def)

lemmas field_simps_encode = map_of_addBytes map_of_addBlob map_of_addHash

text \<open>What is put into a map may be encoded when every value is.\<close>

definition jmap_ok :: "jmap \<Rightarrow> bool" where
  "jmap_ok m \<longleftrightarrow> (\<forall>(k, j) \<in> set m. json_ok j)"

lemma jmap_ok_jset: "jmap_ok m \<Longrightarrow> json_ok v \<Longrightarrow> jmap_ok (jset k v m)"
  by (induction m) (auto simp: jmap_ok_def jset_def)

lemma jmap_ok_add [intro]:
  "jmap_ok m \<Longrightarrow> jmap_ok (addBytes m key b ct mode)"
  "jmap_ok m \<Longrightarrow> jmap_ok (addBlob m key b mode)"
  "jmap_ok m \<Longrightarrow> jmap_ok (addHash m key b)"
  by (auto simp: addBytes_def addBlob_def addHash_def Let_def intro!: jmap_ok_jset)

lemma json_ok_JObj: "json_ok (JObj m) \<longleftrightarrow> jmap_ok m"
  by (simp add: jmap_ok_def)

lemma json_ok_simps [simp]:
  "json_ok (encode_Time t)" "json_ok (strMap sm)" "json_ok (u32Map um)" "json_ok (u64Map wm)"
  by (auto simp: encode_Time_def strMap_def u32Map_def u64Map_def)

lemma json_ok_Event: "json_ok (encode_Event e mode)"
  unfolding encode_Event_def Let_def json_ok_JObj
  by (intro jmap_ok_add) (simp add: jmap_ok_def)

lemma json_ok_Snapshot: "json_ok (encode_Snapshot r mode)"
  unfolding encode_Snapshot_def Let_def json_ok_JObj
  by (intro jmap_ok_add) (simp add: jmap_ok_def)

lemma json_ok_SchemaDef: "json_ok (encode_SchemaDef d mode)"
  unfolding encode_SchemaDef_def json_ok_JObj
  by (intro jmap_ok_add) (simp add: jmap_ok_def)

lemma json_ok_MemoryStats:
  "json_ok (encode_MemoryStats m) \<longleftrightarrow> float_finite (MemoryStats.UsagePercent m)"
  by (simp add: encode_MemoryStats_def)

section \<open>Events can be read back\<close>

text \<open>
  A reader of the event object: it takes the bytes from the \<open>_b64\<close> fields alone, a missing hash as
  the empty one and \<open>null\<close> as the zero time.
\<close>

definition json_str :: "json \<Rightarrow> string option" where
  "json_str j = (case j of JStr s \<Rightarrow> Some s | _ \<Rightarrow> None)"

definition json_u64 :: "json \<Rightarrow> u64 option" where
  "json_u64 j = (case j of JInt i \<Rightarrow> Some (word_of_int i) | _ \<Rightarrow> None)"

definition json_time :: "json \<Rightarrow> gotime option" where
  "json_time j = (case j of
     JNull \<Rightarrow> Some zeroTime | JStr s \<Rightarrow> time_Parse_RFC3339 s | _ \<Rightarrow> None)"

definition json_strs :: "json \<Rightarrow> string list option" where
  "json_strs j = (case j of JArr js \<Rightarrow> those (map json_str js) | _ \<Rightarrow> None)"

definition json_b64 :: "json option \<Rightarrow> bytes option" where
  "json_b64 j = (case j of
     None \<Rightarrow> Some [] | Some v \<Rightarrow> Option.bind (json_str v) b64decode)"

definition event_of_json :: "json \<Rightarrow> streams_RecordedEvent option" where
  "event_of_json j = do {
     i \<leftarrow> Option.bind (jfield j ''event_id'') json_str;
     ty \<leftarrow> Option.bind (jfield j ''event_type'') json_str;
     str \<leftarrow> Option.bind (jfield j ''stream_id'') json_str;
     v \<leftarrow> Option.bind (jfield j ''version'') json_u64;
     d \<leftarrow> json_b64 (jfield j ''data_b64'');
     md \<leftarrow> json_b64 (jfield j ''metadata_b64'');
     ts \<leftarrow> Option.bind (jfield j ''tags'') json_strs;
     tm \<leftarrow> Option.bind (jfield j ''timestamp'') json_time;
     ep \<leftarrow> Option.bind (jfield j ''epoch'') json_time;
     dct \<leftarrow> Option.bind (jfield j ''data_content_type'') json_str;
     mct \<leftarrow> Option.bind (jfield j ''metadata_content_type'') json_str;
     h \<leftarrow> json_b64 (jfield j ''prev_event_hash_b64'');
     Some \<lparr>streams_RecordedEvent.EventID = i, EventType = ty, StreamID = str, Version = v,
       Data = d, Metadata = md, Tags = Some ts, Timestamp = tm, Epoch = ep,
       DataContentType = dct, MetadataContentType = mct, PrevEventHash = h\<rparr>
   }"

text \<open>Tags that are \<open>nil\<close> print as the empty array.\<close>

definition with_tags :: "streams_RecordedEvent \<Rightarrow> streams_RecordedEvent" where
  "with_tags e = e\<lparr>Tags := Some (tags (streams_RecordedEvent.Tags e))\<rparr>"

definition printable :: "gotime \<Rightarrow> bool" where
  "printable t \<longleftrightarrow> IsZero t \<or> printableYear t"

lemma json_time_encode: "printable t \<Longrightarrow> json_time (encode_Time t) = Some t"
  by (auto simp: json_time_def encode_Time_def printable_def IsZero_def rfc3339.dec_enc)

lemma json_strs_encode: "json_strs (jstrs xs) = Some xs"
proof -
  have "those (map json_str (map JStr xs)) = Some xs"
    by (induction xs) (auto simp: json_str_def)
  then show ?thesis by (simp add: json_strs_def)
qed

lemma event_of_json_encode:
  assumes "printable (streams_RecordedEvent.Timestamp e)" "printable (streams_RecordedEvent.Epoch e)"
  shows "event_of_json (encode_Event e mode) = Some (with_tags e)"
proof -
  have f: "jfield (encode_Event e mode) ''event_id'' = Some (JStr (streams_RecordedEvent.EventID e))"
    "jfield (encode_Event e mode) ''event_type'' = Some (JStr (streams_RecordedEvent.EventType e))"
    "jfield (encode_Event e mode) ''stream_id'' = Some (JStr (streams_RecordedEvent.StreamID e))"
    "jfield (encode_Event e mode) ''version'' = Some (JInt (uint (streams_RecordedEvent.Version e)))"
    "jfield (encode_Event e mode) ''tags'' = Some (jstrs (tags (streams_RecordedEvent.Tags e)))"
    "jfield (encode_Event e mode) ''timestamp'' =
       Some (encode_Time (streams_RecordedEvent.Timestamp e))"
    "jfield (encode_Event e mode) ''epoch'' = Some (encode_Time (streams_RecordedEvent.Epoch e))"
    "jfield (encode_Event e mode) ''data_content_type'' =
       Some (JStr (streams_RecordedEvent.DataContentType e))"
    "jfield (encode_Event e mode) ''metadata_content_type'' =
       Some (JStr (streams_RecordedEvent.MetadataContentType e))"
    "jfield (encode_Event e mode) ''data_b64'' =
       Some (JStr (b64encode (streams_RecordedEvent.Data e)))"
    "jfield (encode_Event e mode) ''metadata_b64'' =
       Some (JStr (b64encode (streams_RecordedEvent.Metadata e)))"
    "jfield (encode_Event e mode) ''prev_event_hash_b64'' =
       (if streams_RecordedEvent.PrevEventHash e = [] then None
        else Some (JStr (b64encode (streams_RecordedEvent.PrevEventHash e))))"
    by (simp_all add: jfield_def encode_Event_def Let_def field_simps_encode)
  have b: "json_b64 (Some (JStr (b64encode bs))) = Some bs" for bs
    by (simp add: json_b64_def json_str_def base64.dec_enc)
  show ?thesis
    unfolding event_of_json_def f
    by (simp add: b json_str_def json_u64_def json_time_encode [OF assms(1)]
        json_time_encode [OF assms(2)] json_strs_encode with_tags_def)
      (simp add: json_b64_def)
qed

interpretation event_json: codec "\<lambda>e. encode_Event (with_tags e) mode"
  "\<lambda>j. event_of_json j"
  "\<lambda>e. printable (streams_RecordedEvent.Timestamp e) \<and> printable (streams_RecordedEvent.Epoch e) \<and>
     with_tags e = e"
  for mode
  by unfold_locales (auto simp: event_of_json_encode)

text \<open>
  C21: An event printed as JSON can be read back, in either byte mode: identifiers, version, tags,
  both time stamps to the nanosecond, and the data, metadata and hash byte for byte, whatever the
  bytes are. Only \<open>nil\<close> tags read back as the empty list.
\<close>

theorem encode_event_lossless:
  assumes "printable (streams_RecordedEvent.Timestamp e)" "printable (streams_RecordedEvent.Epoch e)"
  shows "event_of_json (encode_Event e mode) = Some (with_tags e)"
  by (rule event_of_json_encode [OF assms])

definition sample_event_out :: streams_RecordedEvent where
  "sample_event_out = \<lparr>streams_RecordedEvent.EventID = ''e1'', EventType = ''user_registered_v1'',
     StreamID = ''users-42'', Version = 7, Data = [char_of (255 :: nat), CHR ''x''],
     Metadata = ''{}'', Tags = None, Timestamp = Instant 1700000000123000000,
     Epoch = zeroTime, DataContentType = ''application/octet-stream'',
     MetadataContentType = ''application/json'', PrevEventHash = []\<rparr>"

theorem encode_event_lossless_witness:
  "event_of_json (encode_Event sample_event_out Base64) = Some (with_tags sample_event_out)"
proof -
  have "printableYear (Instant 1700000000123000000)"
    by (simp add: printableYear_def unixSec_def year_of_days_def cycle_def Let_def)
  then show ?thesis
    by (intro encode_event_lossless) (simp_all add: sample_event_out_def printable_def IsZero_def)
qed

text \<open>
  The byte-field policy. The base64 field of a byte field is always there, and decodes to the
  bytes; the convenience field is there only in the automatic mode for non-empty bytes, and then is
  those bytes: as raw JSON only when the content type says so and they are valid JSON, as text only
  when they are valid UTF-8. No other field of the map changes, and what is added can be encoded.
\<close>

theorem add_bytes_policy:
  assumes "map_of m key = None" and "jmap_ok m"
  shows "let m' = addBytes m key b ct mode in
    json_b64 (map_of m' (key @ ''_b64'')) = Some b \<and>
    (map_of m' key \<noteq> None \<longrightarrow> mode = Auto \<and> b \<noteq> [] \<and>
       (map_of m' key = Some (JRaw b) \<and> ct = ''application/json'' \<and> json_Valid b \<or>
        map_of m' key = Some (JStr b) \<and> utf8_Valid b)) \<and>
    (\<forall>k. k \<noteq> key \<longrightarrow> k \<noteq> key @ ''_b64'' \<longrightarrow> map_of m' k = map_of m k) \<and>
    jmap_ok m'"
  using assms
  by (auto simp: Let_def map_of_addBytes json_b64_def json_str_def base64.dec_enc split: if_splits)

theorem add_bytes_policy_witness:
  "json_b64 (map_of (addBytes [] ''data'' ''[1]'' ''application/json'' Auto) (''data'' @ ''_b64''))
    = Some ''[1]''"
  using add_bytes_policy [of "[]" "''data''" "''[1]''" "''application/json''" Auto]
  by (simp add: jmap_ok_def Let_def)

end
