(* ===== verification/Output.thy ===== *)
theory Output
  imports Render
begin

text \<open>
  The command line's errors and output: \<^verbatim>\<open>cmd/reckon/output.go\<close>. Standard output and
  standard error are lists of the JSON values written, each with its pretty flag; \<open>writtenText\<close> is the
  text of them. \<open>Runtime\<close> collects what the program takes from its
  surroundings.
\<close>

section \<open>Surroundings\<close>

text \<open>
  \<open>strconv.Quote\<close>, \<open>os.Getenv\<close>, \<open>time.Now\<close>, the blocks that successive calls of \<open>rand.Read\<close> fill,
  \<open>time.ParseDuration\<close> (nanoseconds; its fractions go through \<open>float64\<close>), the texts of the errors of
  \<open>json.Unmarshal\<close>, of \<open>base64\<close> decoding and of \<open>bufio.Scanner\<close>, \<open>os.ReadFile\<close> (a text is an
  error), \<open>AppendCertsFromPEM\<close>, the version stamped at build time, and the text that the JSON encoder
  gives a finite \<open>float64\<close>.
\<close>

record runtime =
  rt_Quote :: "string \<Rightarrow> string"
  rt_Getenv :: "string \<Rightarrow> string"
  rt_Now :: gotime
  rt_Rand :: "nat \<Rightarrow> bytes"
  rt_ParseDuration :: "string \<Rightarrow> int option"
  rt_jsonError :: "string \<Rightarrow> string"
  rt_base64Error :: "string \<Rightarrow> string"
  rt_scanError :: string
  rt_ReadFile :: "string \<Rightarrow> string + bytes"
  rt_CertsInPEM :: "bytes \<Rightarrow> bool"
  rt_version :: string
  rt_FormatFloat :: "float64 \<Rightarrow> string"

section \<open>Errors\<close>

record cliError =
  Code :: string
  Msg :: string
  GRPC :: int
  Exit :: int

text \<open>The error a handler returns: a \<open>*cliError\<close>, or another one with its text.\<close>

datatype cmdError = Cli cliError | Other string

definition mkError :: "string \<Rightarrow> string \<Rightarrow> int \<Rightarrow> int \<Rightarrow> cliError" where
  "mkError code msg grpc exit = \<lparr>cliError.Code = code, Msg = msg, GRPC = grpc, Exit = exit\<rparr>"

definition usageErr :: "runtime \<Rightarrow> string \<Rightarrow> fmtArg list \<Rightarrow> cliError" where
  "usageErr rt format args = mkError ''usage'' (Sprintf (rt_Quote rt) format args) (- 1) 2"

text \<open>The codes of \<open>google.golang.org/grpc/codes\<close> the program names.\<close>

definition codes_Canceled :: int where "codes_Canceled = 1"
definition codes_InvalidArgument :: int where "codes_InvalidArgument = 3"
definition codes_DeadlineExceeded :: int where "codes_DeadlineExceeded = 4"
definition codes_NotFound :: int where "codes_NotFound = 5"
definition codes_AlreadyExists :: int where "codes_AlreadyExists = 6"
definition codes_FailedPrecondition :: int where "codes_FailedPrecondition = 9"
definition codes_Unavailable :: int where "codes_Unavailable = 14"

lemmas codes_defs =
  codes_Canceled_def codes_InvalidArgument_def codes_DeadlineExceeded_def codes_NotFound_def
  codes_AlreadyExists_def codes_FailedPrecondition_def codes_Unavailable_def

definition fromGRPC :: "gerror \<Rightarrow> cliError" where
  "fromGRPC err =
     (case err_status err of
        None \<Rightarrow> mkError ''internal'' (err_Error err) (- 1) 1
      | Some (c, msg) \<Rightarrow>
          let (codeName, exit) =
            (if c = codes_NotFound then (''not_found'', 3)
             else if c = codes_Unavailable then (''unavailable'', 4)
             else if c = codes_DeadlineExceeded then (''timeout'', 5)
             else if c = codes_InvalidArgument then (''invalid_argument'', 7)
             else if c = codes_FailedPrecondition then (''precondition'', 8)
             else if c = codes_AlreadyExists then (''already_exists'', 9)
             else (''internal'', 1))
          in mkError codeName msg c exit)"

definition isCanceled :: "gerror \<Rightarrow> bool" where
  "isCanceled err \<longleftrightarrow> err_isCanceled err \<or>
     (case err_status err of Some (c, _) \<Rightarrow> c = codes_Canceled | None \<Rightarrow> False)"

section \<open>Output\<close>

type_synonym written = "(json \<times> bool) list"

text \<open>
  The encoder's error: the first \<open>float64\<close> it meets that is infinite or not a number (a raw message is
  checked before it is put into a value).
\<close>

fun badFloats :: "json \<Rightarrow> float64 list" where
  "badFloats (JFloat f) = (if float_finite f then [] else [f])"
| "badFloats (JArr js) = concat (map badFloats js)"
| "badFloats (JObj m) = concat (map snd (sort_key fst (map (\<lambda>(k, j). (k, badFloats j)) m)))"
| "badFloats _ = []"

definition floatName :: "float64 \<Rightarrow> string" where
  "floatName f =
     (if take_bit 52 f \<noteq> 0 then ''NaN'' else if bit f 63 then ''-Inf'' else ''+Inf'')"

definition encodeError :: "json \<Rightarrow> string" where
  "encodeError v =
     (case badFloats v of
        f # _ \<Rightarrow> ''json: unsupported value: '' @ floatName f
      | [] \<Rightarrow> ''json: error calling MarshalJSON for type json.RawMessage'')"

text \<open>
  The bracket at which the indentation gives up: it scans the text again, and the scanner bounds the
  nesting. A number has no brackets, so \<open>0\<close> stands for every \<open>float64\<close>.
\<close>

fun failAt :: "string \<Rightarrow> jscan \<Rightarrow> char option" where
  "failAt [] sc = None"
| "failAt (c # cs) sc = (case jstep c sc of None \<Rightarrow> Some c | Some sc' \<Rightarrow> failAt cs sc')"

definition tooDeep :: "json \<Rightarrow> char option" where
  "tooDeep v = failAt (render (\<lambda>_. ''0'') v) (BeginValue, [])"

text \<open>
  \<open>writeJSON\<close>: \<open>Encode\<close> writes the whole text at once, so a value that cannot be encoded, or indented,
  writes nothing.
\<close>

definition writeJSON :: "json \<Rightarrow> bool \<Rightarrow> written \<times> cmdError option" where
  "writeJSON v pretty =
     (if \<not> json_ok v then ([], Some (Other (encodeError v)))
      else if pretty then
        (case tooDeep v of
           Some c \<Rightarrow> ([], Some (Other (''invalid character '' @ [CHR 0x27, c, CHR 0x27] @
             '' exceeded max depth'')))
         | None \<Rightarrow> ([(v, pretty)], None))
      else ([(v, pretty)], None))"

definition writtenText :: "runtime \<Rightarrow> written \<Rightarrow> string" where
  "writtenText rt ws = concat (map (\<lambda>(v, pretty). encodeLine (rt_FormatFloat rt) v pretty) ws)"

lemma failAt_None: "jscan_all t sc = Some sc' \<Longrightarrow> failAt t sc = None"
  by (induction t arbitrary: sc) (auto split: option.splits)

lemma tooDeep_None: "json_ok v \<Longrightarrow> nests v \<le> maxNestingDepth \<Longrightarrow> tooDeep v = None"
proof -
  assume v: "json_ok v" "nests v \<le> maxNestingDepth"
  from json_text_render [OF float_text_zero v(1)] v(2)
  obtain sc where "jscan_all (render (\<lambda>_. ''0'') v) (BeginValue, []) = Some sc"
    unfolding json_text_def by (auto simp: runs_def dest: spec [of _ "[]"])
  then show ?thesis by (simp add: tooDeep_def failAt_None)
qed

lemma writeJSON_fits: "json_ok v \<Longrightarrow> nests v \<le> maxNestingDepth \<Longrightarrow> writeJSON v p = ([(v, p)], None)"
  by (simp add: writeJSON_def tooDeep_None)

definition errorObject :: "cliError \<Rightarrow> json" where
  "errorObject ce = JObj [(''error'', JObj [
     (''code'', JStr (cliError.Code ce)),
     (''message'', JStr (Msg ce)),
     (''grpc_status'', JInt (GRPC ce)),
     (''details'', JObj [])])]"

definition asCliError :: "cmdError \<Rightarrow> cliError" where
  "asCliError e = (case e of Cli ce \<Rightarrow> ce | Other s \<Rightarrow> mkError ''internal'' s (- 1) 1)"

text \<open>What goes to standard error, and the exit code.\<close>

definition emitErr :: "cmdError \<Rightarrow> written \<times> int" where
  "emitErr err = (let ce = asCliError err in (fst (writeJSON (errorObject ce) False), Exit ce))"

lemma emitErr_writes: "emitErr err = ([(errorObject (asCliError err), False)], Exit (asCliError err))"
  by (simp add: emitErr_def writeJSON_def errorObject_def Let_def)

lemma usageErr_simps [simp]:
  "cliError.Code (usageErr rt f as) = ''usage''" "Exit (usageErr rt f as) = 2"
  "GRPC (usageErr rt f as) = - 1"
  by (simp_all add: usageErr_def mkError_def)

text \<open>The exit-code table of the design document (section 6.1), as a list.\<close>

definition exit_table :: "(int \<times> string \<times> int) list" where
  "exit_table = [(5, ''not_found'', 3), (14, ''unavailable'', 4), (4, ''timeout'', 5),
     (3, ''invalid_argument'', 7), (9, ''precondition'', 8), (6, ''already_exists'', 9)]"

text \<open>
  Errors of the gateway become exit codes by the documented table. A status with a row of its
  own gets that row's name and code, every other status and every error without one is internal with
  exit code 1; the message and the status number are kept. The exit codes of distinct rows differ,
  and none of them is 0 (success), 2 (usage) or 6 (unreachable).
\<close>

theorem grpc_error_table:
  "(case err_status err of
      None \<Rightarrow> fromGRPC err = mkError ''internal'' (err_Error err) (- 1) 1
    | Some (c, msg) \<Rightarrow>
        fromGRPC err = (case map_of exit_table c of
           Some (name, code) \<Rightarrow> mkError name msg c code
         | None \<Rightarrow> mkError ''internal'' msg c 1)) \<and>
   distinct (map (snd \<circ> snd) exit_table) \<and> Exit (fromGRPC err) \<in> {1, 3, 4, 5, 7, 8, 9}"
  by (auto simp: fromGRPC_def exit_table_def codes_defs mkError_def Let_def
      split: option.split prod.split)

end
