(* ===== verification/Flags.thy ===== *)
theory Flags
  imports Output
begin

text \<open>
  Command-line flags: Go's package \<open>flag\<close> with \<open>ContinueOnError\<close>, as far as the program uses it,
  and \<open>flagsThenArgs\<close> of \<^verbatim>\<open>cmd/reckon/main.go\<close>, which lets flags and positional arguments
  mix. A flag set is an association list from names to current values; a value's constructor is its
  type.
\<close>

section \<open>Values\<close>

datatype flagVal =
    FStr string
  | FBool bool
  | FUint64 u64
  | FDuration int
  | FKv "(string \<times> string) list"

type_synonym flagSet = "(string \<times> flagVal) list"

definition flagNumError :: "numErr \<Rightarrow> string" where
  "flagNumError e = (case e of ErrSyntax \<Rightarrow> ''parse error'' | ErrRange \<Rightarrow> ''value out of range'')"

text \<open>
  \<open>kvFlag.Set\<close>: the part before the first \<open>=\<close> is the key.
\<close>

definition kvSet :: "runtime \<Rightarrow> (string \<times> string) list \<Rightarrow> string \<Rightarrow>
    string + (string \<times> string) list" where
  "kvSet rt k s =
     (case Cut (CHR ''='') s of
        None \<Rightarrow> Inl (Sprintf (rt_Quote rt) ''expected key=value, got %q'' [ArgQ s])
      | Some (key, val) \<Rightarrow> Inr (AList.update key val k))"

text \<open>\<open>Value.Set\<close>: the text of the error, or the new value. \<open>Uint\<close> is 64 bits wide.\<close>

definition flagSetValue :: "runtime \<Rightarrow> flagVal \<Rightarrow> string \<Rightarrow> string + flagVal" where
  "flagSetValue rt v s =
     (case v of
        FStr _ \<Rightarrow> Inr (FStr s)
      | FBool _ \<Rightarrow> (case ParseBool s of Some b \<Rightarrow> Inr (FBool b) | None \<Rightarrow> Inl ''parse error'')
      | FUint64 _ \<Rightarrow>
          (case ParseUint0 s of
             Inr n \<Rightarrow> Inr (FUint64 (word_of_nat n)) | Inl e \<Rightarrow> Inl (flagNumError e))
      | FDuration _ \<Rightarrow>
          (case rt_ParseDuration rt s of
             Some d \<Rightarrow> Inr (FDuration d) | None \<Rightarrow> Inl ''parse error'')
      | FKv k \<Rightarrow> (case kvSet rt k s of Inr k' \<Rightarrow> Inr (FKv k') | Inl e \<Rightarrow> Inl e))"

section \<open>Parsing\<close>

text \<open>
  One call of \<open>parseOne\<close>: it stops before an argument that is not a flag or after \<open>--\<close>, fails, or
  has seen a flag.
\<close>

datatype parsed =
    Stop "string list"
  | Fail string
  | Seen flagSet "string list"

definition flagName :: "string \<Rightarrow> string \<times> string option" where
  "flagName name = (case Cut (CHR ''='') name of Some (n, v) \<Rightarrow> (n, Some v) | None \<Rightarrow> (name, None))"

definition isBoolFlag :: "flagVal \<Rightarrow> bool" where
  "isBoolFlag v = (case v of FBool _ \<Rightarrow> True | _ \<Rightarrow> False)"

text \<open>Set the flag \<open>name\<close> to \<open>val\<close> and go on with \<open>rest\<close>, or fail with the message.\<close>

definition storeFlag :: "runtime \<Rightarrow> flagSet \<Rightarrow> string \<Rightarrow> flagVal \<Rightarrow> string \<Rightarrow> (string \<Rightarrow> string) \<Rightarrow>
    string list \<Rightarrow> parsed" where
  "storeFlag rt fs name old val failure rest =
     (case flagSetValue rt old val of
        Inr v \<Rightarrow> Seen (AList.update name v fs) rest
      | Inl e \<Rightarrow> Fail (failure e))"

definition setFlag :: "runtime \<Rightarrow> flagSet \<Rightarrow> string \<Rightarrow> string option \<Rightarrow> string list \<Rightarrow> parsed" where
  "setFlag rt fs name value args =
     (case map_of fs name of
        None \<Rightarrow>
          if name = ''help'' \<or> name = ''h'' then Fail ''flag: help requested''
          else Fail (Sprintf (rt_Quote rt) ''flag provided but not defined: -%s'' [ArgS name])
      | Some old \<Rightarrow>
          if isBoolFlag old then
            (case value of
               Some v \<Rightarrow> storeFlag rt fs name old v
                 (\<lambda>e. Sprintf (rt_Quote rt) ''invalid boolean value %q for -%s: %v''
                    [ArgQ v, ArgS name, ArgS e]) args
             | None \<Rightarrow> storeFlag rt fs name old ''true''
                 (\<lambda>e. Sprintf (rt_Quote rt) ''invalid boolean flag %s: %v''
                    [ArgS name, ArgS e]) args)
          else
            (let failure = (\<lambda>v e. Sprintf (rt_Quote rt) ''invalid value %q for flag -%s: %v''
                    [ArgQ v, ArgS name, ArgS e]) in
             case value of
               Some v \<Rightarrow> storeFlag rt fs name old v (failure v) args
             | None \<Rightarrow>
                 (case args of
                    [] \<Rightarrow> Fail (Sprintf (rt_Quote rt) ''flag needs an argument: -%s'' [ArgS name])
                  | v # args' \<Rightarrow> storeFlag rt fs name old v (failure v) args')))"

definition isFlag :: "string \<Rightarrow> bool" where
  "isFlag s \<longleftrightarrow> 2 \<le> length s \<and> hd s = CHR ''-''"

definition parseOne :: "runtime \<Rightarrow> flagSet \<Rightarrow> string list \<Rightarrow> parsed" where
  "parseOne rt fs args =
     (case args of
        [] \<Rightarrow> Stop args
      | s # args' \<Rightarrow>
          if \<not> isFlag s then Stop args
          else if s = ''--'' then Stop args'
          else let name = (if s ! 1 = CHR ''-'' then drop 2 s else drop 1 s) in
            if name = [] \<or> hd name = CHR ''-'' \<or> hd name = CHR ''=''
            then Fail (Sprintf (rt_Quote rt) ''bad flag syntax: %s'' [ArgS s])
            else let (n, value) = flagName name in setFlag rt fs n value args')"

lemma storeFlag_Seen:
  "storeFlag rt fs n old v f args = Seen fs' args' \<longleftrightarrow>
     args' = args \<and> (\<exists>w. flagSetValue rt old v = Inr w \<and> fs' = AList.update n w fs)"
  by (auto simp: storeFlag_def split: sum.splits)

lemma storeFlag_not_Stop [simp]: "storeFlag rt fs n old v f args \<noteq> Stop rest"
  by (simp add: storeFlag_def split: sum.splits)

text \<open>
  How a flag is seen: it is defined, and its text is the one given with it, \<open>true\<close> for a boolean flag,
  or the next argument.
\<close>

lemma setFlag_Seen:
  assumes "setFlag rt fs n v args = Seen fs' args'"
  obtains old w inp where "map_of fs n = Some old" "flagSetValue rt old inp = Inr w"
    "fs' = AList.update n w fs"
    "v = Some inp \<and> args' = args \<or> v = None \<and> isBoolFlag old \<and> inp = ''true'' \<and> args' = args \<or>
     v = None \<and> \<not> isBoolFlag old \<and> args = inp # args'"
proof (cases "map_of fs n")
  case None
  with assms show thesis by (simp add: setFlag_def split: if_splits)
next
  case (Some old)
  show thesis
  proof (cases v)
    case None
    show thesis
    proof (cases "isBoolFlag old")
      case True
      with assms Some None show thesis by (auto simp: setFlag_def storeFlag_Seen intro: that)
    next
      case False
      with assms Some None show thesis
        by (cases args) (auto simp: setFlag_def storeFlag_Seen Let_def intro: that)
    qed
  next
    case (Some inp)
    with assms \<open>map_of fs n = Some old\<close> show thesis
      by (cases "isBoolFlag old") (auto simp: setFlag_def storeFlag_Seen Let_def intro: that)
  qed
qed

lemma setFlag_length: "setFlag rt fs n v args = Seen fs' args' \<Longrightarrow> length args' \<le> length args"
  by (erule setFlag_Seen) auto

lemma setFlag_not_Stop [simp]: "setFlag rt fs n v args \<noteq> Stop rest"
  by (cases "map_of fs n"; cases v; cases args) (simp_all add: setFlag_def Let_def)

lemma parseOne_length: "parseOne rt fs args = Seen fs' args' \<Longrightarrow> length args' < length args"
  by (auto simp: parseOne_def Let_def split: list.splits if_splits prod.splits
      dest!: setFlag_length)

lemma parseOne_Stop_length: "parseOne rt fs args = Stop args' \<Longrightarrow> length args' \<le> length args"
  by (auto simp: parseOne_def Let_def split: list.splits if_splits prod.splits)

function flagParse :: "runtime \<Rightarrow> flagSet \<Rightarrow> string list \<Rightarrow> string + flagSet \<times> string list" where
  "flagParse rt fs args =
     (case parseOne rt fs args of
        Stop rest \<Rightarrow> Inr (fs, rest)
      | Fail msg \<Rightarrow> Inl msg
      | Seen fs' rest \<Rightarrow> flagParse rt fs' rest)"
  by pat_completeness auto
termination
  by (relation "measure (\<lambda>(rt, fs, args). length args)") (auto dest: parseOne_length)

declare flagParse.simps [simp del]

lemma flagParse_length: "flagParse rt fs args = Inr (fs', rest) \<Longrightarrow> length rest \<le> length args"
proof (induction rt fs args rule: flagParse.induct)
  case (1 rt fs args)
  then show ?case
    by (subst (asm) (2) flagParse.simps)
      (auto split: parsed.splits dest: parseOne_length parseOne_Stop_length intro: order_trans
        less_imp_le)
qed

text \<open>\<open>flagsThenArgs\<close>, with the flag set it leaves behind.\<close>

function flagsThenArgs ::
  "runtime \<Rightarrow> flagSet \<Rightarrow> string list \<Rightarrow> string list \<Rightarrow> string + flagSet \<times> string list" where
  "flagsThenArgs rt fs args pos =
     (case flagParse rt fs args of
        Inl msg \<Rightarrow> Inl msg
      | Inr (fs', rest) \<Rightarrow>
          (case rest of
             [] \<Rightarrow> Inr (fs', pos)
           | p # rest' \<Rightarrow> flagsThenArgs rt fs' rest' (pos @ [p])))"
  by pat_completeness auto
termination
  by (relation "measure (\<lambda>(rt, fs, args, pos). length args)") (auto dest!: flagParse_length)

declare flagsThenArgs.simps [simp del]

section \<open>Reading the values\<close>

definition getStr :: "flagSet \<Rightarrow> string \<Rightarrow> string" where
  "getStr fs name = (case map_of fs name of Some (FStr s) \<Rightarrow> s | _ \<Rightarrow> '''')"

definition getBool :: "flagSet \<Rightarrow> string \<Rightarrow> bool" where
  "getBool fs name = (case map_of fs name of Some (FBool b) \<Rightarrow> b | _ \<Rightarrow> False)"

definition getUint64 :: "flagSet \<Rightarrow> string \<Rightarrow> u64" where
  "getUint64 fs name = (case map_of fs name of Some (FUint64 n) \<Rightarrow> n | _ \<Rightarrow> 0)"

definition getDuration :: "flagSet \<Rightarrow> string \<Rightarrow> int" where
  "getDuration fs name = (case map_of fs name of Some (FDuration d) \<Rightarrow> d | _ \<Rightarrow> 0)"

definition getKv :: "flagSet \<Rightarrow> string \<Rightarrow> (string, string) gomap" where
  "getKv fs name = (case map_of fs name of Some (FKv k) \<Rightarrow> Some k | _ \<Rightarrow> None)"

section \<open>Mixing flags and arguments\<close>

lemma parseOne_positional: "\<not> isFlag p \<Longrightarrow> parseOne rt fs (p # args) = Stop (p # args)"
  by (simp add: parseOne_def)

lemma flagsThenArgs_positional:
  "\<not> isFlag p \<Longrightarrow> flagsThenArgs rt fs (p # args) pos = flagsThenArgs rt fs args (pos @ [p])"
  by (subst flagsThenArgs.simps) (simp add: flagParse.simps [of rt fs "p # args"] parseOne_positional)

text \<open>A flag that was complete on its own is parsed the same way with more words behind it.\<close>

lemma setFlag_extend:
  "setFlag rt fs n v args = Seen fs' args' \<Longrightarrow> setFlag rt fs n v (args @ extra) = Seen fs' (args' @ extra)"
  by (erule setFlag_Seen, elim disjE) (auto simp: setFlag_def storeFlag_Seen Let_def)

lemma parseOne_extend:
  "parseOne rt fs args = Seen fs' args' \<Longrightarrow> parseOne rt fs (args @ extra) = Seen fs' (args' @ extra)"
  by (auto simp: parseOne_def Let_def split: list.splits if_splits prod.splits
      intro: setFlag_extend)

lemma parseOne_Stop_Nil: "parseOne rt fs args = Stop [] \<Longrightarrow> args = [] \<or> args = [''--'']"
  by (auto simp: parseOne_def Let_def split: list.splits if_splits prod.splits)

text \<open>The tail of the arguments that \<open>parseOne\<close> leaves.\<close>

lemma setFlag_suffix: "setFlag rt fs n v args = Seen fs' args' \<Longrightarrow> set args' \<subseteq> set args"
  by (erule setFlag_Seen) auto

lemma parseOne_suffix: "parseOne rt fs args = Seen fs' args' \<Longrightarrow> set args' \<subseteq> set args"
  by (auto simp: parseOne_def Let_def split: list.splits if_splits prod.splits
      dest!: setFlag_suffix)

lemma flagParse_extend:
  assumes "flagParse rt fs fl = Inr (fs', [])" and "''--'' \<notin> set fl"
  shows "flagParse rt fs (fl @ extra) = flagParse rt fs' extra"
  using assms
proof (induction rt fs fl rule: flagParse.induct)
  case (1 rt fs fl)
  show ?case
  proof (cases "parseOne rt fs fl")
    case (Stop rest)
    with 1(2) have "fs' = fs" "rest = []" by (simp_all add: flagParse.simps [of rt fs fl])
    with Stop 1(3) show ?thesis by (auto dest: parseOne_Stop_Nil)
  next
    case (Fail msg)
    with 1(2) show ?thesis by (simp add: flagParse.simps [of rt fs fl])
  next
    case (Seen fs1 rest)
    then have "flagParse rt fs1 rest = Inr (fs', [])"
      using 1(2) by (simp add: flagParse.simps [of rt fs fl])
    moreover have "''--'' \<notin> set rest" using parseOne_suffix [OF Seen] 1(3) by auto
    ultimately have "flagParse rt fs1 (rest @ extra) = flagParse rt fs' extra"
      using 1(1) [OF Seen] by simp
    with parseOne_extend [OF Seen] show ?thesis
      by (simp add: flagParse.simps [of rt fs "fl @ extra"])
  qed
qed

lemma flagsThenArgs_flags:
  assumes "flagParse rt fs fl = Inr (fs', [])" and "''--'' \<notin> set fl"
  shows "flagsThenArgs rt fs (fl @ extra) pos = flagsThenArgs rt fs' extra pos"
  by (subst (1 2) flagsThenArgs.simps) (simp add: flagParse_extend [OF assms])

text \<open>
  C30: Flags and positional arguments mix freely: a run of complete flags (none of its words being
  the terminator) may stand before or after a positional argument, with anything behind, and the
  result is the same values and the same positionals in the same order.
\<close>

theorem flags_intersperse:
  assumes "flagParse rt fs fl = Inr (fs', [])" and "''--'' \<notin> set fl" and "\<not> isFlag p"
  shows "flagsThenArgs rt fs (fl @ p # extra) pos = flagsThenArgs rt fs (p # fl @ extra) pos"
  using assms by (simp add: flagsThenArgs_flags flagsThenArgs_positional)

definition sample_rt :: runtime where
  "sample_rt = \<lparr>rt_Quote = \<lambda>s. s, rt_Getenv = \<lambda>_. '''', rt_Now = Instant 0,
     rt_Rand = \<lambda>_. replicate 16 (CHR ''x''), rt_ParseDuration = \<lambda>_. Some 5000000000,
     rt_jsonError = \<lambda>_. ''invalid character'', rt_base64Error = \<lambda>_. ''illegal base64 data'',
     rt_scanError = ''token too long'', rt_ReadFile = \<lambda>_. Inl ''no such file'',
     rt_CertsInPEM = \<lambda>_. False, rt_version = ''dev'', rt_FormatFloat = \<lambda>_. ''0''\<rparr>"

theorem flags_intersperse_witness:
  "flagsThenArgs sample_rt [(''count'', FUint64 100)] [''--count'', ''1'', ''orders''] [] =
   flagsThenArgs sample_rt [(''count'', FUint64 100)] [''orders'', ''--count'', ''1''] []"
proof -
  have "flagParse sample_rt [(''count'', FUint64 100)] [''--count'', ''1''] =
      Inr ([(''count'', FUint64 1)], [])"
    by (simp add: flagParse.simps parseOne_def isFlag_def flagName_def setFlag_def
        storeFlag_def isBoolFlag_def flagSetValue_def ParseUint0_def split_base_def alnum_val_def isDigit_def digitVal_def)
  from flags_intersperse [OF this, of "''orders''" "[]" "[]"] show ?thesis
    by (simp add: isFlag_def)
qed

text \<open>
  A terminator protects one word only. After \<open>--\<close> the next word is positional whatever it looks
  like, and the words after it are parsed for flags again.
\<close>

theorem terminator_protects_one:
  "flagsThenArgs rt fs (''--'' # p # extra) pos = flagsThenArgs rt fs extra (pos @ [p])"
proof -
  have "flagParse rt fs (''--'' # p # extra) = Inr (fs, p # extra)"
    by (simp add: flagParse.simps [of rt fs "''--'' # p # extra"] parseOne_def isFlag_def)
  then show ?thesis by (subst flagsThenArgs.simps) simp
qed

section \<open>Numbers and flags with a value\<close>

text \<open>A flag written as two words.\<close>

lemma flagsThenArgs_flag:
  assumes "map_of fs name = Some old" and "\<not> isBoolFlag old" and "flagSetValue rt old v = Inr new"
    and "name \<noteq> ''''" and "hd name \<noteq> CHR ''-''" and "CHR ''='' \<notin> set name"
  shows "flagsThenArgs rt fs ((''--'' @ name) # v # args) pos =
    flagsThenArgs rt (AList.update name new fs) args pos"
proof -
  have "hd name \<noteq> CHR ''=''" using assms(4,6) by (cases name) auto
  then have "parseOne rt fs ((''--'' @ name) # v # args) = Seen (AList.update name new fs) args"
    using assms Cut_None [of "CHR ''=''" name]
    by (simp add: parseOne_def isFlag_def flagName_def setFlag_def storeFlag_def)
  then have "flagParse rt fs ((''--'' @ name) # v # args) = flagParse rt (AList.update name new fs) args"
    by (subst flagParse.simps) simp
  then show ?thesis by (subst (1 2) flagsThenArgs.simps) simp
qed

lemma flagsThenArgs_Nil: "flagsThenArgs rt fs [] pos = Inr (fs, pos)"
  by (subst flagsThenArgs.simps) (simp add: flagParse.simps [of rt fs "[]"] parseOne_def)


lemma flagsThenArgs_one: "\<not> isFlag p \<Longrightarrow> flagsThenArgs rt fs [p] pos = Inr (fs, pos @ [p])"
  by (simp add: flagsThenArgs_positional flagsThenArgs_Nil)

text \<open>
  C31: A numeric flag is the number written, or an error. The decimal form of a number sets a \<open>uint64\<close>
  flag to it when it fits, and is refused as out of range when it does not: it never wraps around.
\<close>

theorem uint_flag_exact:
  assumes "map_of fs name = Some (FUint64 old)"
    and "name \<noteq> ''''" and "hd name \<noteq> CHR ''-''" and "CHR ''='' \<notin> set name"
  shows "flagsThenArgs rt fs [''--'' @ name, dec n] pos =
    (if n < 2 ^ 64 then Inr (AList.update name (FUint64 (word_of_nat n)) fs, pos)
     else Inl (Sprintf (rt_Quote rt) ''invalid value %q for flag -%s: %v''
       [ArgQ (dec n), ArgS name, ArgS ''value out of range'']))"
proof (cases "n < 2 ^ 64")
  case True
  then have "flagSetValue rt (FUint64 old) (dec n) = Inr (FUint64 (word_of_nat n))"
    by (simp add: flagSetValue_def ParseUint0_dec)
  from flagsThenArgs_flag [OF assms(1) _ this assms(2-4)] True show ?thesis
    by (simp add: isBoolFlag_def flagsThenArgs_Nil)
next
  case False
  have "hd name \<noteq> CHR ''=''" using assms(2,4) by (cases name) auto
  with False assms Cut_None [of "CHR ''=''" name]
  have "flagParse rt fs [''--'' @ name, dec n] = Inl (Sprintf (rt_Quote rt)
      ''invalid value %q for flag -%s: %v''
      [ArgQ (dec n), ArgS name, ArgS ''value out of range''])"
    by (subst flagParse.simps) (simp add: parseOne_def isFlag_def flagName_def setFlag_def
        storeFlag_def isBoolFlag_def flagSetValue_def ParseUint0_dec flagNumError_def)
  with False show ?thesis by (subst flagsThenArgs.simps) simp
qed

theorem uint_flag_exact_witness:
  "flagsThenArgs sample_rt [(''count'', FUint64 100)] [''--count'', dec (2 ^ 64 + 1)] [] =
   Inl (Sprintf (\<lambda>s. s) ''invalid value %q for flag -%s: %v''
     [ArgQ (dec (2 ^ 64 + 1)), ArgS ''count'', ArgS ''value out of range''])"
  using uint_flag_exact [of "[(''count'', FUint64 100)]" "''count''" 100 sample_rt "2 ^ 64 + 1" "[]"]
  by (simp add: sample_rt_def)

end
