(* ===== verification/Client.thy ===== *)
theory Client
  imports Streams Dcb Subscriptions Snapshots Schema Temporal Stores Health Admin Output
begin

text \<open>
  The facade of the library: \<^verbatim>\<open>client.go\<close> and the \<^verbatim>\<open>*_facade.go\<close> files. A connection is the
  target and the transport credentials it was dialed with; the network gives the service stubs of a
  connection.
\<close>

section \<open>Transport credentials\<close>

text \<open>
  A TLS configuration: the certificates to trust (\<open>None\<close> for the system roots), the name to verify
  (empty for the dialed host) and the lowest protocol version.
\<close>

record tlsConfig =
  RootCAs :: "bytes option"
  ServerName :: string
  MinVersion :: int

definition VersionTLS12 :: int where "VersionTLS12 = 771"

datatype dialOption = PlaintextCreds | TLSCreds tlsConfig

definition Insecure :: dialOption where
  "Insecure = PlaintextCreds"

definition TLSWithCA :: "runtime \<Rightarrow> string \<Rightarrow> string \<Rightarrow> string + dialOption" where
  "TLSWithCA rt caFile serverName =
     (case rt_ReadFile rt caFile of
        Inl err \<Rightarrow> Inl (''read CA bundle: '' @ err)
      | Inr pem \<Rightarrow>
          if \<not> rt_CertsInPEM rt pem then Inl (''no certificates found in '' @ caFile)
          else Inr (TLSCreds \<lparr>RootCAs = Some pem, ServerName = serverName,
            MinVersion = VersionTLS12\<rparr>))"

definition TLSWithServerName :: "string \<Rightarrow> dialOption" where
  "TLSWithServerName serverName =
     TLSCreds \<lparr>RootCAs = None, ServerName = serverName, MinVersion = VersionTLS12\<rparr>"

definition defaultTLS :: dialOption where
  "defaultTLS = TLSCreds \<lparr>RootCAs = None, ServerName = '''', MinVersion = VersionTLS12\<rparr>"

section \<open>Connections\<close>

record conn =
  conn_target :: string
  conn_opts :: "dialOption list"

record 'w stubs =
  st_streams :: "'w StreamServiceClient"
  st_dcb :: "'w DcbServiceClient"
  st_subs :: "'w SubscriptionServiceClient"
  st_snaps :: "'w SnapshotServiceClient"
  st_schema :: "'w SchemaServiceClient"
  st_temporal :: "'w TemporalServiceClient"
  st_stores :: "'w StoresServiceClient"
  st_health :: "'w HealthServiceClient"
  st_admin :: "'w AdminServiceClient"

text \<open>The error of \<open>grpc.NewClient\<close>, if any, and the services behind a connection.\<close>

record 'w network =
  net_NewClient :: "string \<Rightarrow> dialOption list \<Rightarrow> string option"
  net_stubs :: "conn \<Rightarrow> 'w stubs"

fun has_prefix :: "string \<Rightarrow> string \<Rightarrow> bool" where
  "has_prefix [] s = True"
| "has_prefix (p # ps) [] = False"
| "has_prefix (p # ps) (c # cs) = (p = c \<and> has_prefix ps cs)"

fun contains :: "string \<Rightarrow> string \<Rightarrow> bool" where
  "contains sub [] = (sub = [])"
| "contains sub (c # cs) = (has_prefix sub (c # cs) \<or> contains sub cs)"

definition Connect :: "'w network \<Rightarrow> string \<Rightarrow> dialOption list \<Rightarrow> string + conn" where
  "Connect net endpoint opts =
     (let opts = (if opts = [] then [defaultTLS] else opts);
          target = (if \<not> contains ''://'' endpoint then ''passthrough:///'' @ endpoint
                    else endpoint)
      in case net_NewClient net target opts of
           Some err \<Rightarrow> Inl err
         | None \<Rightarrow> Inr \<lparr>conn_target = target, conn_opts = opts\<rparr>)"

text \<open>
  The zero \<open>Client\<close> has no connection, the ones \<open>Connect\<close> makes have theirs. Closing what has none is
  no error and no call; closing a connection is the transport's \<open>close\<close>.
\<close>

definition Client_Close ::
  "(conn \<Rightarrow> ('w, gerror option) state) \<Rightarrow> conn option \<Rightarrow> ('w, gerror option) state" where
  "Client_Close close c =
     (case c of None \<Rightarrow> State_Monad.return None | Some cn \<Rightarrow> close cn)"

definition Client_Conn :: "conn option \<Rightarrow> conn option" where
  "Client_Conn c = c"

section \<open>Sub-clients\<close>

definition Client_Streams :: "'w network \<Rightarrow> conn \<Rightarrow> string \<Rightarrow> 'w streams_Client" where
  "Client_Streams net c storeID = streams_New (st_streams (net_stubs net c)) storeID"

definition Client_Dcb :: "'w network \<Rightarrow> conn \<Rightarrow> string \<Rightarrow> 'w dcb_Client" where
  "Client_Dcb net c storeID = dcb_New (st_dcb (net_stubs net c)) storeID"

definition Client_Subscriptions :: "'w network \<Rightarrow> conn \<Rightarrow> string \<Rightarrow> 'w subs_Client" where
  "Client_Subscriptions net c storeID = subs_New (st_subs (net_stubs net c)) storeID"

definition Client_Snapshots :: "'w network \<Rightarrow> conn \<Rightarrow> string \<Rightarrow> 'w snaps_Client" where
  "Client_Snapshots net c storeID = snaps_New (st_snaps (net_stubs net c)) storeID"

definition Client_Schema :: "'w network \<Rightarrow> conn \<Rightarrow> string \<Rightarrow> 'w schema_Client" where
  "Client_Schema net c storeID = schema_New (st_schema (net_stubs net c)) storeID"

definition Client_Temporal :: "'w network \<Rightarrow> conn \<Rightarrow> string \<Rightarrow> 'w temporal_Client" where
  "Client_Temporal net c storeID = temporal_New (st_temporal (net_stubs net c)) storeID"

definition Client_Stores :: "'w network \<Rightarrow> conn \<Rightarrow> 'w stores_Client" where
  "Client_Stores net c = stores_New (st_stores (net_stubs net c))"

definition Client_Health :: "'w network \<Rightarrow> conn \<Rightarrow> string \<Rightarrow> 'w health_Client" where
  "Client_Health net c storeID = health_New (st_health (net_stubs net c)) storeID"

definition Client_Admin :: "'w network \<Rightarrow> conn \<Rightarrow> string \<Rightarrow> 'w admin_Client" where
  "Client_Admin net c storeID = admin_New (st_admin (net_stubs net c)) storeID"

section \<open>The store firewall\<close>

text \<open>
  The network behind a firewall for the store \<open>s\<close>: no request that names another store gets through
  any service. The calls of the gateway-wide services, which name no store, are not its business.
\<close>

definition stubs_firewall :: "string \<Rightarrow> 'w stubs \<Rightarrow> 'w stubs" where
  "stubs_firewall s st = \<lparr>
     st_streams = streams_firewall s (st_streams st),
     st_dcb = dcb_firewall s (st_dcb st),
     st_subs = subs_firewall s (st_subs st),
     st_snaps = snaps_firewall s (st_snaps st),
     st_schema = schema_firewall s (st_schema st),
     st_temporal = temporal_firewall s (st_temporal st),
     st_stores = st_stores st,
     st_health = health_firewall s (st_health st),
     st_admin = admin_firewall s (st_admin st)\<rparr>"

definition net_firewall :: "string \<Rightarrow> 'w network \<Rightarrow> 'w network" where
  "net_firewall s net = \<lparr>net_NewClient = net_NewClient net,
     net_stubs = (\<lambda>c. stubs_firewall s (net_stubs net c))\<rparr>"

lemma Connect_firewall [firewall]: "Connect (net_firewall s net) e opts = Connect net e opts"
  by (simp add: Connect_def net_firewall_def)

lemmas client_defs =
  Client_Streams_def Client_Dcb_def Client_Subscriptions_def Client_Snapshots_def
  Client_Schema_def Client_Temporal_def Client_Stores_def Client_Health_def Client_Admin_def

lemma client_firewall:
  "Client_Streams (net_firewall s net) c s' =
     streams_New (streams_firewall s (st_streams (net_stubs net c))) s'"
  "Client_Dcb (net_firewall s net) c s' = dcb_New (dcb_firewall s (st_dcb (net_stubs net c))) s'"
  "Client_Subscriptions (net_firewall s net) c s' =
     subs_New (subs_firewall s (st_subs (net_stubs net c))) s'"
  "Client_Snapshots (net_firewall s net) c s' =
     snaps_New (snaps_firewall s (st_snaps (net_stubs net c))) s'"
  "Client_Schema (net_firewall s net) c s' =
     schema_New (schema_firewall s (st_schema (net_stubs net c))) s'"
  "Client_Temporal (net_firewall s net) c s' =
     temporal_New (temporal_firewall s (st_temporal (net_stubs net c))) s'"
  "Client_Stores (net_firewall s net) c = Client_Stores net c"
  "Client_Health (net_firewall s net) c s' =
     health_New (health_firewall s (st_health (net_stubs net c))) s'"
  "Client_Admin (net_firewall s net) c s' =
     admin_New (admin_firewall s (st_admin (net_stubs net c))) s'"
  by (simp_all add: client_defs net_firewall_def stubs_firewall_def)

text \<open>
  A client bound to a store never names another one. Behind a firewall that refuses every
  request for another store, each service's operations are the same functions, effects and results
  included: no request they send is ever refused.
\<close>

theorem sub_clients_stay_in_store:
  "streams_Append (Client_Streams (net_firewall s net) c s) =
      streams_Append (Client_Streams net c s) \<and>
    streams_Read (Client_Streams (net_firewall s net) c s) =
      streams_Read (Client_Streams net c s) \<and>
    streams_Watch (Client_Streams (net_firewall s net) c s) =
      streams_Watch (Client_Streams net c s) \<and>
    streams_Delete (Client_Streams (net_firewall s net) c s) =
      streams_Delete (Client_Streams net c s) \<and>
    streams_ReadByTags (Client_Streams (net_firewall s net) c s) =
      streams_ReadByTags (Client_Streams net c s) \<and>
    streams_ReadCorrelated (Client_Streams (net_firewall s net) c s) =
      streams_ReadCorrelated (Client_Streams net c s) \<and>
    dcb_Append (Client_Dcb (net_firewall s net) c s) =
      dcb_Append (Client_Dcb net c s) \<and>
    dcb_Read (Client_Dcb (net_firewall s net) c s) =
      dcb_Read (Client_Dcb net c s) \<and>
    subs_Subscribe (Client_Subscriptions (net_firewall s net) c s) =
      subs_Subscribe (Client_Subscriptions net c s) \<and>
    subs_Ack (Client_Subscriptions (net_firewall s net) c s) =
      subs_Ack (Client_Subscriptions net c s) \<and>
    subs_Remove (Client_Subscriptions (net_firewall s net) c s) =
      subs_Remove (Client_Subscriptions net c s) \<and>
    snaps_Save (Client_Snapshots (net_firewall s net) c s) =
      snaps_Save (Client_Snapshots net c s) \<and>
    snaps_Latest (Client_Snapshots (net_firewall s net) c s) =
      snaps_Latest (Client_Snapshots net c s) \<and>
    snaps_Delete (Client_Snapshots (net_firewall s net) c s) =
      snaps_Delete (Client_Snapshots net c s) \<and>
    schema_Register (Client_Schema (net_firewall s net) c s) =
      schema_Register (Client_Schema net c s) \<and>
    schema_Upcast (Client_Schema (net_firewall s net) c s) =
      schema_Upcast (Client_Schema net c s) \<and>
    temporal_Range (Client_Temporal (net_firewall s net) c s) =
      temporal_Range (Client_Temporal net c s) \<and>
    health_Check (Client_Health (net_firewall s net) c s) =
      health_Check (Client_Health net c s) \<and>
    admin_Scavenge (Client_Admin (net_firewall s net) c s) =
      admin_Scavenge (Client_Admin net c s) \<and>
    admin_CreateLink (Client_Admin (net_firewall s net) c s) = admin_CreateLink (Client_Admin net c s)"
  unfolding client_firewall by (simp add: firewall client_defs)

end
