(* ===== verification/Globals.thy ===== *)
theory Globals
  imports Client Flags Encode
begin

text \<open>
  Global flags, transport and dialing of the command line: the first half of
  \<^verbatim>\<open>cmd/reckon/main.go\<close>. The lemmas show which connection a command may get.
\<close>

section \<open>Options\<close>

record opts =
  endpoint :: string
  store :: string
  timeout :: int
  bytes :: Bytes
  pretty :: bool
  showVersion :: bool
  plaintext :: bool
  caFile :: string
  serverName :: string

definition pick :: "string \<Rightarrow> string \<Rightarrow> string" where
  "pick short long = (if short \<noteq> '''' then short else long)"

definition Second :: int where "Second = 10 ^ 9"

definition parseDur :: "runtime \<Rightarrow> string \<Rightarrow> int" where
  "parseDur rt s = (case rt_ParseDuration rt s of Some d \<Rightarrow> d | None \<Rightarrow> 5 * Second)"

definition envDef :: "runtime \<Rightarrow> string \<Rightarrow> string \<Rightarrow> string" where
  "envDef rt env fallback = (let v = rt_Getenv rt env in if v \<noteq> '''' then v else fallback)"

text \<open>The flags \<open>parseGlobal\<close> defines, with their defaults.\<close>

definition globalFlags :: "runtime \<Rightarrow> flagSet" where
  "globalFlags rt = [
     (''endpoint'', FStr (envDef rt ''RECKON_ENDPOINT'' ''localhost:50051'')),
     (''e'', FStr ''''),
     (''store'', FStr (envDef rt ''RECKON_STORE'' '''')),
     (''s'', FStr ''''),
     (''timeout'', FDuration (parseDur rt (envDef rt ''RECKON_TIMEOUT'' ''5s''))),
     (''bytes'', FStr (envDef rt ''RECKON_BYTES'' ''auto'')),
     (''pretty'', FBool False),
     (''version'', FBool False),
     (''V'', FBool False),
     (''plaintext'', FBool (rt_Getenv rt ''RECKON_PLAINTEXT'' = ''1'')),
     (''ca'', FStr (envDef rt ''RECKON_CA'' '''')),
     (''server-name'', FStr (envDef rt ''RECKON_SERVER_NAME'' ''''))]"

definition parseGlobal :: "runtime \<Rightarrow> string list \<Rightarrow> cliError + opts \<times> string list" where
  "parseGlobal rt argv =
     (case flagParse rt (globalFlags rt) argv of
        Inl err \<Rightarrow> Inl (usageErr rt ''flag error: %v'' [ArgS err])
      | Inr (fs, rest) \<Rightarrow>
          let (bm, ok) = ParseBytes (getStr fs ''bytes'') in
          if \<not> ok then
            Inl (usageErr rt ''invalid --bytes %q (want auto|base64)'' [ArgQ (getStr fs ''bytes'')])
          else let ov = \<lparr>opts.endpoint = pick (getStr fs ''e'') (getStr fs ''endpoint''),
              store = pick (getStr fs ''s'') (getStr fs ''store''),
              timeout = getDuration fs ''timeout'',
              bytes = bm,
              pretty = getBool fs ''pretty'',
              showVersion = (getBool fs ''version'' \<or> getBool fs ''V''),
              plaintext = getBool fs ''plaintext'',
              caFile = getStr fs ''ca'',
              serverName = getStr fs ''server-name''\<rparr> in
            if plaintext ov \<and> (caFile ov \<noteq> '''' \<or> serverName ov \<noteq> '''')
            then Inl (usageErr rt ''--plaintext conflicts with --ca/--server-name'' [])
            else Inr (ov, rest))"

definition requireStore :: "runtime \<Rightarrow> opts \<Rightarrow> cliError option" where
  "requireStore rt ov =
     (if opts.store ov = ''''
      then Some (usageErr rt ''this command requires --store (or RECKON_STORE)'' [])
      else None)"

definition rpcCtx :: "opts \<Rightarrow> ctx \<Rightarrow> ctx" where
  "rpcCtx ov ctx = WithTimeout ctx (timeout ov)"

section \<open>Transport\<close>

definition transport :: "runtime \<Rightarrow> opts \<Rightarrow> string + dialOption list" where
  "transport rt ov =
     (if plaintext ov then Inr [Insecure]
      else if caFile ov \<noteq> '''' then
        (case TLSWithCA rt (caFile ov) (serverName ov) of
           Inl err \<Rightarrow> Inl err
         | Inr opt \<Rightarrow> Inr [opt])
      else if serverName ov \<noteq> '''' then Inr [TLSWithServerName (serverName ov)]
      else Inr [])"

definition dial :: "runtime \<Rightarrow> 'w network \<Rightarrow> opts \<Rightarrow> cliError + conn" where
  "dial rt net ov =
     (case transport rt ov of
        Inl err \<Rightarrow> Inl (mkError ''usage'' err (- 1) 2)
      | Inr dialOpts \<Rightarrow>
          (case Connect net (opts.endpoint ov) dialOpts of
             Inl err \<Rightarrow> Inl (mkError ''unreachable'' err (- 1) 6)
           | Inr c \<Rightarrow> Inr c))"

lemma dial_firewall [firewall]: "dial rt (net_firewall s net) ov = dial rt net ov"
  by (simp add: dial_def Connect_firewall split: sum.split)

section \<open>What a flag is changed by\<close>

text \<open>The name an argument would set, if it is taken as a flag.\<close>

definition names_flag :: "string \<Rightarrow> string \<Rightarrow> bool" where
  "names_flag name a \<longleftrightarrow> isFlag a \<and>
     fst (flagName (if a ! 1 = CHR ''-'' then drop 2 a else drop 1 a)) = name"

lemma setFlag_other:
  "setFlag rt fs n v args = Seen fs' args' \<Longrightarrow> n \<noteq> name \<Longrightarrow> map_of fs' name = map_of fs name"
  by (erule setFlag_Seen) (simp add: update_conv')

lemma parseOne_other:
  assumes "parseOne rt fs args = Seen fs' args'" and "\<forall>a \<in> set args. \<not> names_flag name a"
  shows "map_of fs' name = map_of fs name"
  using assms
  by (auto simp: parseOne_def names_flag_def Let_def split: list.splits if_splits prod.splits
      dest!: setFlag_other)

lemma flagParse_other:
  "flagParse rt fs args = Inr (fs', rest) \<Longrightarrow> \<forall>a \<in> set args. \<not> names_flag name a \<Longrightarrow>
     map_of fs' name = map_of fs name"
proof (induction rt fs args rule: flagParse.induct)
  case (1 rt fs args)
  show ?case
  proof (cases "parseOne rt fs args")
    case (Seen fs1 args1)
    then have "flagParse rt fs1 args1 = Inr (fs', rest)"
      using 1(2) by (simp add: flagParse.simps [of rt fs args])
    moreover have "\<forall>a \<in> set args1. \<not> names_flag name a"
      using parseOne_suffix [OF Seen] 1(3) by blast
    ultimately have "map_of fs' name = map_of fs1 name" using 1(1) [OF Seen] by blast
    with parseOne_other [OF Seen 1(3)] show ?thesis by simp
  qed (use 1(2) in \<open>simp_all add: flagParse.simps [of rt fs args]\<close>)
qed

lemma parseGlobal_plaintext:
  assumes "parseGlobal rt argv = Inr (ov, rest)" and "\<forall>a \<in> set argv. \<not> names_flag ''plaintext'' a"
    and "rt_Getenv rt ''RECKON_PLAINTEXT'' \<noteq> ''1''"
  shows "\<not> plaintext ov"
proof -
  obtain fs where fs: "flagParse rt (globalFlags rt) argv = Inr (fs, rest)"
    and ov: "plaintext ov = getBool fs ''plaintext''"
    using assms(1)
    by (auto simp: parseGlobal_def Let_def split: sum.splits prod.splits if_splits)
  have "map_of fs ''plaintext'' = map_of (globalFlags rt) ''plaintext''"
    by (rule flagParse_other [OF fs assms(2)])
  with assms(3) ov show ?thesis by (simp add: globalFlags_def getBool_def)
qed

section \<open>Transport security\<close>

definition secure :: "dialOption \<Rightarrow> bool" where
  "secure d \<longleftrightarrow> (case d of TLSCreds t \<Rightarrow> VersionTLS12 \<le> MinVersion t | PlaintextCreds \<Rightarrow> False)"

text \<open>
  C20: Plaintext is never a silent default. A command that was not given the plaintext flag, in an
  environment that does not ask for it, reaches the gateway over TLS 1.2 or later or not at all; with
  a certificate file it trusts that bundle alone, under the name asked for, and otherwise the system
  roots.
\<close>

theorem dial_is_secure:
  assumes "parseGlobal rt argv = Inr (ov, rest)"
    and "\<forall>a \<in> set argv. \<not> names_flag ''plaintext'' a"
    and "rt_Getenv rt ''RECKON_PLAINTEXT'' \<noteq> ''1''"
    and "dial rt net ov = Inr c"
  shows "\<exists>t. conn_opts c = [TLSCreds t] \<and> secure (TLSCreds t) \<and> ServerName t = serverName ov \<and>
    (if caFile ov = '''' then RootCAs t = None
     else \<exists>pem. rt_ReadFile rt (caFile ov) = Inr pem \<and> RootCAs t = Some pem)"
  using assms(4) parseGlobal_plaintext [OF assms(1-3)]
  by (auto simp: dial_def transport_def Connect_def TLSWithCA_def TLSWithServerName_def
      defaultTLS_def secure_def Let_def split: sum.splits option.splits if_splits)

definition sample_net :: "nat network" where
  "sample_net = \<lparr>net_NewClient = \<lambda>_ _. None, net_stubs = \<lambda>_. undefined\<rparr>"

lemma sample_parseGlobal:
  "\<exists>ov. parseGlobal sample_rt [''-s'', ''orders'', ''streams'', ''list''] =
     Inr (ov, [''streams'', ''list'']) \<and> opts.store ov = ''orders'' \<and> \<not> plaintext ov \<and>
     caFile ov = '''' \<and> serverName ov = '''' \<and> \<not> showVersion ov"
  by (simp add: parseGlobal_def flagParse.simps parseOne_def isFlag_def flagName_def setFlag_def
      storeFlag_def isBoolFlag_def flagSetValue_def globalFlags_def getStr_def getBool_def
      ParseBytes_def envDef_def sample_rt_def pick_def Let_def)

theorem dial_is_secure_witness:
  "\<exists>ov c t. parseGlobal sample_rt [''-s'', ''orders'', ''streams'', ''list''] =
     Inr (ov, [''streams'', ''list'']) \<and> dial sample_rt sample_net ov = Inr c \<and>
     conn_opts c = [TLSCreds t] \<and> secure (TLSCreds t)"
proof -
  obtain ov where ov: "parseGlobal sample_rt [''-s'', ''orders'', ''streams'', ''list''] =
      Inr (ov, [''streams'', ''list''])" "\<not> plaintext ov" "caFile ov = ''''" "serverName ov = ''''"
    using sample_parseGlobal by blast
  obtain c where c: "dial sample_rt sample_net ov = Inr c"
    by (simp add: dial_def transport_def ov Connect_def sample_net_def)
  have "\<forall>a \<in> set [''-s'', ''orders'', ''streams'', ''list'']. \<not> names_flag ''plaintext'' a"
    by (simp add: names_flag_def isFlag_def flagName_def)
  then show ?thesis
    using dial_is_secure [OF ov(1) _ _ c] ov(1) c by (simp add: sample_rt_def) blast
qed

end
