(* ===== verification/Input.thy ===== *)
theory Input
  imports Flags Encode Client
begin

text \<open>
  The command line's inputs: \<^verbatim>\<open>cmd/reckon/input.go\<close>. Version expectations, numbers,
  subscription types and time stamps from arguments; proposed events from standard input, as a JSON
  array or one JSON object per line; identifiers. An error is its text (\<open>Inl\<close>).
\<close>

section \<open>Arguments\<close>

definition parseExpected :: "runtime \<Rightarrow> string \<Rightarrow> string + ExpectedVersion" where
  "parseExpected rt s =
     (if s = ''no-stream'' then Inr NoStream
      else if s = ''any'' \<or> s = '''' then Inr AnyVersion
      else if s = ''exists'' then Inr StreamExists
      else (case ParseInt10 s of
          Inl _ \<Rightarrow> Inl (Sprintf (rt_Quote rt)
            ''invalid --expect %q (want no-stream|any|exists|<N>)'' [ArgQ s])
        | Inr n \<Rightarrow> Inr (word_of_int n)))"

definition parseU64 :: "runtime \<Rightarrow> string \<Rightarrow> string + u64" where
  "parseU64 rt s =
     (case ParseUint10 s of
        Inl e \<Rightarrow> Inl (numError (rt_Quote rt) ''ParseUint'' s e)
      | Inr n \<Rightarrow> Inr (word_of_nat n))"

definition parseSubType :: "runtime \<Rightarrow> string \<Rightarrow> string + SubType" where
  "parseSubType rt s =
     (if List.member [TypeStream, TypeEventType, TypeEventPattern, TypeEventPayload, TypeTags] s
      then Inr s
      else Inl (Sprintf (rt_Quote rt)
        ''invalid --type %q (want stream|event_type|event_pattern|event_payload|tags)'' [ArgQ s]))"

definition parseTime :: "runtime \<Rightarrow> string \<Rightarrow> string + gotime" where
  "parseTime rt s =
     (case time_Parse_RFC3339 s of
        Some t \<Rightarrow> Inr t
      | None \<Rightarrow>
          (case ParseInt10 s of
             Inr ms \<Rightarrow> Inr (time_UnixMilli (word_of_int ms))
           | Inl _ \<Rightarrow> Inl (Sprintf (rt_Quote rt)
               ''invalid timestamp %q (want RFC3339 or epoch-ms)'' [ArgQ s])))"

section \<open>Identifiers\<close>

definition hexByte :: "char \<Rightarrow> string" where
  "hexByte c = (let n = of_char c :: nat in [hexDigit (n div 16), hexDigit (n mod 16)])"

definition hexBytes :: "bytes \<Rightarrow> string" where
  "hexBytes b = concat (map hexByte b)"

text \<open>The \<open>n\<close>-th identifier: \<open>rand.Read\<close> fills 16 bytes, then the version and variant bits are set.\<close>

definition genUUID :: "runtime \<Rightarrow> nat \<Rightarrow> string" where
  "genUUID rt n =
     (let b = rt_Rand rt n;
          b = b[6 := char_of (or (and (of_char (b ! 6)) 15) 64 :: nat)];
          b = b[8 := char_of (or (and (of_char (b ! 8)) 63) 128 :: nat)]
      in hexBytes (take 4 b) @ CHR ''-'' # hexBytes (take 2 (drop 4 b)) @ CHR ''-'' #
         hexBytes (take 2 (drop 6 b)) @ CHR ''-'' # hexBytes (take 2 (drop 8 b)) @ CHR ''-'' #
         hexBytes (take 6 (drop 10 b)))"

section \<open>Proposed events\<close>

text \<open>\<open>json.RawMessage\<close> fields hold the text of a JSON value, or nothing.\<close>

record proposedInput =
  EventID :: string
  EventType :: string
  Data :: bytes
  DataB64 :: string
  Metadata :: bytes
  MetadataB64 :: string
  Tags :: strs
  DataContentType :: string
  MetadataContentType :: string

definition zero_proposedInput :: proposedInput where
  "zero_proposedInput = \<lparr>proposedInput.EventID = '''', EventType = '''', Data = [], DataB64 = '''',
     Metadata = [], MetadataB64 = '''', Tags = None, DataContentType = '''',
     MetadataContentType = ''''\<rparr>"

text \<open>
  Keys match a field's name exactly or after case folding: ASCII letters, and the two runes that
  fold to one (long s and the Kelvin sign).
\<close>

definition toUpper :: "char \<Rightarrow> char" where
  "toUpper c = (if byte_in 97 122 c then char_of (of_char c - 32 :: nat) else c)"

fun foldName :: "string \<Rightarrow> string" where
  "foldName (a # b # c # cs) =
     (if (of_char a :: nat) = 197 \<and> (of_char b :: nat) = 191 then CHR ''S'' # foldName (c # cs)
      else if (of_char a :: nat) = 226 \<and> (of_char b :: nat) = 132 \<and> (of_char c :: nat) = 170
      then CHR ''K'' # foldName cs
      else toUpper a # foldName (b # c # cs))"
| "foldName [a, b] =
     (if (of_char a :: nat) = 197 \<and> (of_char b :: nat) = 191 then ''S'' else [toUpper a, toUpper b])"
| "foldName [a] = [toUpper a]"
| "foldName [] = []"

definition isField :: "string \<Rightarrow> string \<Rightarrow> bool" where
  "isField key name \<longleftrightarrow> foldName key = foldName name"

text \<open>
  The decoder of a JSON value into a field, given the field's old value: the new one, and whether
  the types agree. \<open>null\<close> leaves a string alone and empties a slice; a raw message takes any text.
\<close>

definition decodeString :: "string \<Rightarrow> string \<Rightarrow> string \<times> bool" where
  "decodeString old txt =
     (if isJsonNull txt then (old, True)
      else if isJsonString txt then (unquote txt, True)
      else (old, False))"

definition decodeStrings :: "strs \<Rightarrow> string \<Rightarrow> strs \<times> bool" where
  "decodeStrings old txt =
     (if isJsonNull txt then (None, True)
      else if isJsonArray txt then
        let ds = map (decodeString '''') (jpieces txt) in (Some (map fst ds), list_all snd ds)
      else (old, False))"

definition setField :: "string \<Rightarrow> string \<Rightarrow> proposedInput \<Rightarrow> proposedInput \<times> bool" where
  "setField key txt p =
     (if isField key ''event_id'' then
        (case decodeString (proposedInput.EventID p) txt of (s, ok) \<Rightarrow> (p\<lparr>EventID := s\<rparr>, ok))
      else if isField key ''event_type'' then
        (case decodeString (proposedInput.EventType p) txt of (s, ok) \<Rightarrow> (p\<lparr>EventType := s\<rparr>, ok))
      else if isField key ''data'' then (p\<lparr>Data := txt\<rparr>, True)
      else if isField key ''data_b64'' then
        (case decodeString (DataB64 p) txt of (s, ok) \<Rightarrow> (p\<lparr>DataB64 := s\<rparr>, ok))
      else if isField key ''metadata'' then (p\<lparr>Metadata := txt\<rparr>, True)
      else if isField key ''metadata_b64'' then
        (case decodeString (MetadataB64 p) txt of (s, ok) \<Rightarrow> (p\<lparr>MetadataB64 := s\<rparr>, ok))
      else if isField key ''tags'' then
        (case decodeStrings (proposedInput.Tags p) txt of (s, ok) \<Rightarrow> (p\<lparr>Tags := s\<rparr>, ok))
      else if isField key ''data_content_type'' then
        (case decodeString (proposedInput.DataContentType p) txt of
           (s, ok) \<Rightarrow> (p\<lparr>DataContentType := s\<rparr>, ok))
      else if isField key ''metadata_content_type'' then
        (case decodeString (proposedInput.MetadataContentType p) txt of
           (s, ok) \<Rightarrow> (p\<lparr>MetadataContentType := s\<rparr>, ok))
      else (p, True))"

fun setFields :: "(string \<times> string) list \<Rightarrow> proposedInput \<Rightarrow> proposedInput \<times> bool" where
  "setFields [] p = (p, True)"
| "setFields ((key, txt) # ms) p =
     (case setField (unquote key) txt p of (p', ok) \<Rightarrow>
        (case setFields ms p' of (p'', ok') \<Rightarrow> (p'', ok \<and> ok')))"

text \<open>A valid value into a zero input; \<open>None\<close> is the decoder's type error.\<close>

definition decodeInput :: "string \<Rightarrow> proposedInput option" where
  "decodeInput txt =
     (if isJsonNull txt then Some zero_proposedInput
      else if isJsonObject txt then
        (case setFields (map jmember (jpieces txt)) zero_proposedInput of
           (p, ok) \<Rightarrow> if ok then Some p else None)
      else None)"

definition unmarshalInput :: "runtime \<Rightarrow> string \<Rightarrow> string + proposedInput" where
  "unmarshalInput rt line =
     (if json_Valid line then
        (case decodeInput (jtrim line) of
           Some p \<Rightarrow> Inr p | None \<Rightarrow> Inl (rt_jsonError rt line))
      else Inl (rt_jsonError rt line))"

definition unmarshalInputs :: "runtime \<Rightarrow> string \<Rightarrow> string + proposedInput list" where
  "unmarshalInputs rt txt =
     (if json_Valid txt then
        (case those (map decodeInput (jpieces txt)) of
           Some ps \<Rightarrow> Inr ps | None \<Rightarrow> Inl (rt_jsonError rt txt))
      else Inl (rt_jsonError rt txt))"

text \<open>
  \<open>scanProposedInputs\<close>: the lines as \<open>bufio.ScanLines\<close> cuts them, of less than 16 MiB; blank ones are
  skipped.
\<close>

definition maxToken :: nat where "maxToken = 16 * 1024 * 1024"

definition scanLines :: "string \<Rightarrow> string list" where
  "scanLines s =
     (let ls = Split (CHR 0x0A) s in if last ls = [] then butlast ls else ls)"

fun scanInputs :: "runtime \<Rightarrow> string list \<Rightarrow> proposedInput list \<Rightarrow> string + proposedInput list" where
  "scanInputs rt [] inputs = Inr inputs"
| "scanInputs rt (l # ls) inputs =
     (if maxToken \<le> length l then Inl (rt_scanError rt)
      else let line = TrimSpace l in
        if line = '''' then scanInputs rt ls inputs
        else (case unmarshalInput rt line of
            Inl err \<Rightarrow> Inl err
          | Inr p \<Rightarrow> scanInputs rt ls (inputs @ [p])))"

definition scanProposedInputs :: "runtime \<Rightarrow> string \<Rightarrow> string + proposedInput list" where
  "scanProposedInputs rt trimmed = scanInputs rt (scanLines trimmed) []"

definition parseProposedInputs :: "runtime \<Rightarrow> string \<Rightarrow> string + proposedInput list" where
  "parseProposedInputs rt trimmed =
     (if trimmed = '''' then Inl ''no input''
      else if has_prefix ''['' trimmed then unmarshalInputs rt trimmed
      else scanProposedInputs rt trimmed)"

definition resolveInputBytes :: "runtime \<Rightarrow> bytes \<Rightarrow> string \<Rightarrow> string + bytes" where
  "resolveInputBytes rt txt b64 =
     (if b64 \<noteq> '''' then
        (case b64decode b64 of Some b \<Rightarrow> Inr b | None \<Rightarrow> Inl (rt_base64Error rt b64))
      else if length txt = 0 then Inr []
      else if isJsonString txt then Inr (unquote txt)
      else if isJsonNull txt then Inr []
      else Inr txt)"

definition defaultStr :: "string \<Rightarrow> string \<Rightarrow> string" where
  "defaultStr s def = (if s = '''' then def else s)"

text \<open>The loop of \<open>toProposedEvents\<close>: \<open>i\<close> counts inputs and \<open>n\<close> the identifiers made so far.\<close>

fun toProposedLoop :: "runtime \<Rightarrow> nat \<Rightarrow> nat \<Rightarrow> proposedInput list \<Rightarrow> streams_ProposedEvent list \<Rightarrow>
    string + streams_ProposedEvent list" where
  "toProposedLoop rt i n [] out = Inr out"
| "toProposedLoop rt i n (p # ps) out =
     (case resolveInputBytes rt (proposedInput.Data p) (DataB64 p) of
        Inl err \<Rightarrow> Inl (''event '' @ dec i @ '' data: '' @ err)
      | Inr data \<Rightarrow>
          (case resolveInputBytes rt (proposedInput.Metadata p) (MetadataB64 p) of
             Inl err \<Rightarrow> Inl (''event '' @ dec i @ '' metadata: '' @ err)
           | Inr meta \<Rightarrow>
               let fresh = (proposedInput.EventID p = '''');
                   id = (if fresh then genUUID rt n else proposedInput.EventID p) in
               toProposedLoop rt (Suc i) (if fresh then Suc n else n) ps
                 (out @ [\<lparr>streams_ProposedEvent.EventID = id,
                    EventType = proposedInput.EventType p,
                    Data = data,
                    Metadata = meta,
                    Tags = proposedInput.Tags p,
                    DataContentType =
                      defaultStr (proposedInput.DataContentType p) ''application/json'',
                    MetadataContentType =
                      defaultStr (proposedInput.MetadataContentType p) ''application/json''\<rparr>])))"

definition toProposedEvents ::
  "runtime \<Rightarrow> proposedInput list \<Rightarrow> string + streams_ProposedEvent list" where
  "toProposedEvents rt inputs = toProposedLoop rt 0 0 inputs []"

text \<open>
  Standard input is the bytes read, or the text of the read error with the bytes that came before it.
\<close>

type_synonym stdin = "(string \<times> bytes) + bytes"

text \<open>\<open>io.ReadAll\<close>: all of it, or the error.\<close>

definition readAll :: "stdin \<Rightarrow> string + bytes" where
  "readAll r = (case r of Inl (err, _) \<Rightarrow> Inl err | Inr txt \<Rightarrow> Inr txt)"

lemma readAll_simps [simp]: "readAll (Inl (err, txt)) = Inl err" "readAll (Inr txt) = Inr txt"
  by (simp_all add: readAll_def)

definition readProposedEvents :: "runtime \<Rightarrow> stdin \<Rightarrow> string + streams_ProposedEvent list" where
  "readProposedEvents rt r =
     (case readAll r of
        Inl err \<Rightarrow> Inl err
      | Inr txt \<Rightarrow>
          (case parseProposedInputs rt (TrimSpace txt) of
             Inl err \<Rightarrow> Inl err
           | Inr inputs \<Rightarrow> toProposedEvents rt inputs))"

definition proposedToRecorded :: "streams_ProposedEvent list \<Rightarrow> streams_RecordedEvent list" where
  "proposedToRecorded ps = map (\<lambda>p. \<lparr>
     streams_RecordedEvent.EventID = streams_ProposedEvent.EventID p,
     EventType = streams_ProposedEvent.EventType p,
     StreamID = '''',
     Version = 0,
     Data = streams_ProposedEvent.Data p,
     Metadata = streams_ProposedEvent.Metadata p,
     Tags = streams_ProposedEvent.Tags p,
     Timestamp = zeroTime,
     Epoch = zeroTime,
     DataContentType = streams_ProposedEvent.DataContentType p,
     MetadataContentType = streams_ProposedEvent.MetadataContentType p,
     PrevEventHash = []\<rparr>) ps"

section \<open>Arguments: what is accepted\<close>

text \<open>The plain decimal numbers are not RFC 3339 time stamps: a dash comes first or none comes fifth.\<close>

lemma parseYear_digits: "parseYear s = Some (y, s') \<Longrightarrow> s = take 4 s @ s' \<and> list_all isDigit (take 4 s)"
  by (auto simp: parseYear_def split: if_splits)

lemma time_Parse_digits:
  assumes "list_all isDigit s"
  shows "time_Parse_RFC3339 s = None"
proof (cases "parseYear s")
  case (Some r)
  then obtain y s' where r: "parseYear s = Some (y, s')" by (cases r) auto
  then have "list_all isDigit s'" using assms parseYear_digits [OF r] by (metis list_all_append)
  then have "expect (CHR ''-'') s' = None"
    by (cases s') (auto simp: expect_def isDigit_def)
  with r show ?thesis by (simp add: time_Parse_RFC3339_def)
qed (simp add: time_Parse_RFC3339_def)

lemma time_Parse_decInt: "time_Parse_RFC3339 (decInt i) = None"
proof (cases "i < 0")
  case True
  then have "parseYear (decInt i) = None"
    by (simp add: decInt_def parseYear_def isDigit_def)
  then show ?thesis by (simp add: time_Parse_RFC3339_def)
next
  case False
  then show ?thesis using dec_digits [of "nat i"] by (simp add: decInt_def time_Parse_digits)
qed

lemma sint_bounds: "- (2 ^ 63) \<le> sint (w :: i64)" "sint (w :: i64) < 2 ^ 63"
  using sint_ge [of w] sint_lt [of w] by simp_all

text \<open>
  C35: Time stamps survive the command line. A time stamp the program has printed is accepted as an
  argument and denotes the same instant to the nanosecond, and so does any count of milliseconds
  since the epoch that fits an \<open>int64\<close>.
\<close>

theorem parse_time_roundtrip:
  assumes "printableYear t"
  shows "parseTime rt (FormatRFC3339Nano t) = Inr t \<and>
    parseTime rt (decInt (sint (ms :: i64))) = Inr (time_UnixMilli ms)"
  using time_Parse_Format [OF assms] ParseInt10_decInt [OF sint_bounds [of ms]]
  by (simp add: parseTime_def time_Parse_decInt)

theorem parse_time_roundtrip_witness:
  "parseTime sample_rt (FormatRFC3339Nano (Instant 1700000000123456789)) =
     Inr (Instant 1700000000123456789)"
proof -
  have "printableYear (Instant 1700000000123456789)"
    by (simp add: printableYear_def unixSec_def year_of_days_def cycle_def Let_def)
  from parse_time_roundtrip [OF this, of sample_rt 0] show ?thesis by simp
qed

lemma decInt_chars: "c \<in> set (decInt i) \<Longrightarrow> isDigit c \<or> c = CHR ''-''"
  using dec_digits by (auto simp: decInt_def list_all_iff split: if_splits)

lemma decInt_not_word:
  assumes "x \<in> set w" "\<not> isDigit x" "x \<noteq> CHR ''-''"
  shows "decInt i \<noteq> w"
  using assms decInt_chars [of x i] by auto

lemma decInt_not_names:
  "decInt i \<noteq> ''no-stream''" "decInt i \<noteq> ''any''" "decInt i \<noteq> ''exists''" "decInt i \<noteq> ''''"
proof -
  show "decInt i \<noteq> ''no-stream''" by (rule decInt_not_word [of "CHR ''o''"]) (auto simp: isDigit_def)
  show "decInt i \<noteq> ''any''" by (rule decInt_not_word [of "CHR ''a''"]) (auto simp: isDigit_def)
  show "decInt i \<noteq> ''exists''" by (rule decInt_not_word [of "CHR ''e''"]) (auto simp: isDigit_def)
  show "decInt i \<noteq> ''''" using dec_digits by (auto simp: decInt_def)
qed

lemma parseExpected_decInt: "parseExpected rt (decInt (sint (v :: i64))) = Inr v"
  using decInt_not_names ParseInt10_decInt [OF sint_bounds [of v]]
  by (simp add: parseExpected_def)

text \<open>
  The version expectation an append is guarded by is exactly the one written: the three words
  stand for their sentinels, the decimal form of any \<open>int64\<close> stands for itself, and whatever else is
  accepted is a number within the bounds of \<open>int64\<close>, never one that wrapped around.
\<close>

theorem parse_expected_exact:
  "parseExpected rt ''no-stream'' = Inr NoStream \<and> parseExpected rt ''any'' = Inr AnyVersion \<and>
   parseExpected rt ''exists'' = Inr StreamExists \<and>
   parseExpected rt (decInt (sint (v :: i64))) = Inr v \<and>
   (\<forall>s v'. s \<notin> {''no-stream'', ''any'', '''', ''exists''} \<longrightarrow> parseExpected rt s = Inr v' \<longrightarrow>
      ParseInt10 s = Inr (sint v'))"
proof -
  have "parseExpected rt (decInt (sint v)) = Inr v" by (rule parseExpected_decInt)
  moreover have "ParseInt10 s = Inr (sint v')"
    if s: "s \<notin> {''no-stream'', ''any'', '''', ''exists''}" and v: "parseExpected rt s = Inr v'"
    for s v'
  proof -
    obtain n where n: "ParseInt10 s = Inr n" "v' = word_of_int n"
      using s v by (cases "ParseInt10 s") (simp_all add: parseExpected_def)
    then show ?thesis
      using ParseInt10_bound [OF n(1)] by (simp only: sint_word_of_int_64)
  qed
  ultimately show ?thesis by (simp add: parseExpected_def)
qed

theorem parse_expected_exact_witness:
  "parseExpected sample_rt ''42'' = Inr 42 \<and> ParseInt10 ''42'' = Inr (sint (42 :: i64))"
proof -
  have "parseExpected sample_rt ''42'' = Inr 42"
    by (simp add: parseExpected_def ParseInt10_def ParseUint10_def alnum_val_def isDigit_def
        digitVal_def Let_def)
  with parse_expected_exact [of sample_rt 0] show ?thesis by auto
qed

section \<open>Identifiers\<close>

lemma and_mask_nat: "and (x :: nat) (2 ^ k - 1) = x mod 2 ^ k"
proof -
  have "and x (2 ^ k - 1) = take_bit k x" by (simp add: take_bit_eq_mask mask_eq_exp_minus_1)
  then show ?thesis by (simp add: take_bit_eq_mod)
qed

lemma or_exp_nat: "(y :: nat) < 2 ^ k \<Longrightarrow> or y (2 ^ k) = y + 2 ^ k"
proof -
  assume y: "y < 2 ^ k"
  then have "\<not> bit y k" by (simp add: bit_iff_odd)
  then have "and y (2 ^ k) = 0"
    by (intro bit_eqI) (auto simp: bit_simps)
  then show ?thesis by (simp add: disjunctive_add_eq_or)
qed

lemma uuid_bits:
  "or (and (x :: nat) 15) 64 = x mod 16 + 64" "or (and (x :: nat) 63) 128 = x mod 64 + 128"
  using and_mask_nat [of x 4] or_exp_nat [of "x mod 16" 6] and_mask_nat [of x 6]
    or_exp_nat [of "x mod 64" 7] by simp_all

lemma hexByte_of: "n < 256 \<Longrightarrow> hexByte (char_of n) = [hexDigit (n div 16), hexDigit (n mod 16)]"
  by (simp add: hexByte_def Let_def)

definition isHex :: "char \<Rightarrow> bool" where
  "isHex c \<longleftrightarrow> byte_in 48 57 c \<or> byte_in 97 102 c"

lemma isHex_hexDigit [simp]: "d < 16 \<Longrightarrow> isHex (hexDigit d)"
  by (simp add: isHex_def hexDigit_def byte_in_def)

lemma hexByte_isHex [simp]: "list_all isHex (hexByte c)" "length (hexByte c) = 2"
proof -
  have "(of_char c :: nat) div 16 < 16" by (rule less_mult_imp_div_less) simp
  then show "list_all isHex (hexByte c)" "length (hexByte c) = 2"
    by (simp_all add: hexByte_def Let_def)
qed

text \<open>The two bytes that carry the version and the variant.\<close>

lemma hexByte_version:
  "hexByte (char_of (or (and x 15) 64 :: nat)) = [CHR ''4'', hexDigit (x mod 16)]"
proof -
  obtain y where y: "x mod 16 = y" "y < 16" by simp
  have "(y + 4 * 16) div 16 = y div 16 + 4" "(y + 4 * 16) mod 16 = y mod 16"
    by (simp_all only: div_mult_self1 mod_mult_self1)
  with y(2) have "(y + 64) div 16 = 4" "(y + 64) mod 16 = y" by simp_all
  with y show ?thesis
    unfolding uuid_bits
    by (subst hexByte_of) (simp_all add: hexDigit_def char_of_eq_iff take_bit_eq_mod)
qed

lemma hexByte_variant:
  "hexByte (char_of (or (and x 63) 128 :: nat)) =
     [hexDigit (x mod 64 div 16 + 8), hexDigit (x mod 64 mod 16)]"
proof -
  have "(x mod 64 + 8 * 16) div 16 = x mod 64 div 16 + 8" "(x mod 64 + 8 * 16) mod 16 = x mod 64 mod 16"
    by (simp_all only: div_mult_self1 mod_mult_self1)
  moreover have "x mod 64 + 128 < 256"
    using mod_less_divisor [of 64 x] by linarith
  ultimately show ?thesis
    unfolding uuid_bits by (subst hexByte_of) simp_all
qed

lemma hexDigit_variant:
  "hexDigit (x mod 64 div 16 + 8) \<in> set ''89ab''" "isHex (hexDigit (x mod 64 div 16 + 8))"
proof -
  have q: "x mod 64 div 16 < 4" by (rule less_mult_imp_div_less) simp
  then show "isHex (hexDigit (x mod 64 div 16 + 8))" by simp
  obtain y where y: "y = x mod 64 div 16" by blast
  with q have "y = 0 \<or> y = 1 \<or> y = 2 \<or> y = 3" by linarith
  then show "hexDigit (x mod 64 div 16 + 8) \<in> set ''89ab''"
    unfolding y [symmetric]
    by (elim disjE) (simp_all add: hexDigit_def char_of_eq_iff take_bit_eq_mod)
qed

lemma genUUID_groups:
  assumes "length (rt_Rand rt n) = 16"
  obtains u v x p y q z where
    "genUUID rt n = hexBytes u @ ''-'' @ hexBytes v @ ''-4'' @ (hexDigit (x mod 16) # hexByte p) @
       ''-'' @ (hexDigit (y mod 64 div 16 + 8) # hexDigit (y mod 64 mod 16) # hexByte q) @ ''-'' @
       hexBytes z"
    "length u = 4" "length v = 2" "length z = 6"
proof -
  obtain b0 b1 b2 b3 b4 b5 b6 b7 b8 b9 b10 b11 b12 b13 b14 b15 where
    b: "rt_Rand rt n = [b0, b1, b2, b3, b4, b5, b6, b7, b8, b9, b10, b11, b12, b13, b14, b15]"
    using assms by (auto simp: numeral_eq_Suc length_Suc_conv)
  show thesis
    by (rule that [of "[b0, b1, b2, b3]" "[b4, b5]" "of_char b6" b7 "of_char b8" b9
          "[b10, b11, b12, b13, b14, b15]"])
      (simp_all add: genUUID_def b hexByte_version hexByte_variant hexBytes_def)
qed

lemma hexBytes_isHex [simp]: "list_all isHex (hexBytes b)" "length (hexBytes b) = 2 * length b"
  by (induction b) (simp_all add: hexBytes_def)

text \<open>
  C39: A generated event identifier is a version 4 UUID: groups of 8, 4, 4, 4 and 12 lower-case
  hexadecimal digits, the third beginning with 4 and the fourth with 8, 9, a or b, whatever the 16
  random bytes are.
\<close>

theorem uuid_is_v4:
  assumes "length (rt_Rand rt n) = 16"
  shows "\<exists>a b c d e. genUUID rt n = a @ ''-'' @ b @ ''-4'' @ c @ ''-'' @ d @ ''-'' @ e \<and>
    map length [a, b, c, d, e] = [8, 4, 3, 4, 12] \<and> hd d \<in> set ''89ab'' \<and>
    list_all isHex (a @ b @ c @ d @ e)"
proof -
  obtain u v x p y q z where g:
    "genUUID rt n = hexBytes u @ ''-'' @ hexBytes v @ ''-4'' @ (hexDigit (x mod 16) # hexByte p) @
       ''-'' @ (hexDigit (y mod 64 div 16 + 8) # hexDigit (y mod 64 mod 16) # hexByte q) @ ''-'' @
       hexBytes z"
    and l: "length u = 4" "length v = 2" "length z = 6"
    by (rule genUUID_groups [OF assms])
  show ?thesis
    by (rule exI [of _ "hexBytes u"], rule exI [of _ "hexBytes v"],
        rule exI [of _ "hexDigit (x mod 16) # hexByte p"],
        rule exI [of _ "hexDigit (y mod 64 div 16 + 8) # hexDigit (y mod 64 mod 16) # hexByte q"],
        rule exI [of _ "hexBytes z"], intro conjI, rule g)
      (use l hexDigit_variant [of y] in simp_all)
qed

theorem uuid_is_v4_witness:
  "\<exists>a b c d e. genUUID sample_rt 0 = a @ ''-'' @ b @ ''-4'' @ c @ ''-'' @ d @ ''-'' @ e \<and>
    map length [a, b, c, d, e] = [8, 4, 3, 4, 12] \<and> hd d \<in> set ''89ab'' \<and>
    list_all isHex (a @ b @ c @ d @ e)"
  by (rule uuid_is_v4) (simp add: sample_rt_def)

section \<open>Proposed events\<close>

text \<open>A reference for the lines: each on its own, then all or the first error.\<close>

fun collect :: "(string + 'a) list \<Rightarrow> string + 'a list" where
  "collect [] = Inr []"
| "collect (Inl e # rs) = Inl e"
| "collect (Inr a # rs) = (case collect rs of Inl e \<Rightarrow> Inl e | Inr as \<Rightarrow> Inr (a # as))"

definition nonblank :: "string list \<Rightarrow> string list" where
  "nonblank ls = filter (\<lambda>l. l \<noteq> '''') (map TrimSpace ls)"

lemma scanInputs_collect:
  "\<forall>l \<in> set ls. length l < maxToken \<Longrightarrow>
     scanInputs rt ls inputs =
       (case collect (map (unmarshalInput rt) (nonblank ls)) of
          Inl e \<Rightarrow> Inl e | Inr ps \<Rightarrow> Inr (inputs @ ps))"
proof (induction ls arbitrary: inputs)
  case (Cons l ls)
  show ?case
  proof (cases "TrimSpace l = ''''")
    case True
    with Cons show ?thesis by (simp add: nonblank_def)
  next
    case False
    with Cons show ?thesis
      by (cases "unmarshalInput rt (TrimSpace l)") (auto simp: nonblank_def Let_def split: sum.splits)
  qed
qed (simp add: nonblank_def)

text \<open>
  C33: Events on separate lines are all or nothing. Input that is not an array is read line by line:
  blank lines are skipped, every other line is decoded on its own, in order, and the first line that
  fails fails the whole input; no line is dropped. (Lines of 16 MiB or more are an error.)
\<close>

theorem ndjson_all_or_nothing:
  assumes "trimmed \<noteq> ''''" and "\<not> has_prefix ''['' trimmed"
    and "\<forall>l \<in> set (scanLines trimmed). length l < maxToken"
  shows "parseProposedInputs rt trimmed =
    collect (map (unmarshalInput rt) (nonblank (scanLines trimmed)))"
  using assms scanInputs_collect [OF assms(3), of rt "[]"]
  by (simp add: parseProposedInputs_def scanProposedInputs_def split: sum.splits)

theorem ndjson_all_or_nothing_witness:
  "parseProposedInputs sample_rt (''{}'' @ [CHR 0x0A] @ ''bad!'') = Inl ''invalid character''"
proof -
  define inp where "inp = ''{}'' @ [CHR 0x0A] @ ''bad!''"
  have lines: "scanLines inp = [''{}'', ''bad!'']"
    by (simp add: scanLines_def inp_def)
  have trim: "TrimSpace ''{}'' = ''{}''" "TrimSpace ''bad!'' = ''bad!''"
    by (rule TrimSpace_noop; simp add: spaceRunes_def upt_rec char_of_eq_iff take_bit_eq_mod)+
  have "parseProposedInputs sample_rt inp =
      collect (map (unmarshalInput sample_rt) (nonblank (scanLines inp)))"
  proof (rule ndjson_all_or_nothing)
    show "inp \<noteq> ''''" by (simp add: inp_def)
    show "\<not> has_prefix ''['' inp" by (simp add: inp_def)
    show "\<forall>l \<in> set (scanLines inp). length l < maxToken" by (simp add: lines maxToken_def)
  qed
  moreover have "unmarshalInput sample_rt ''bad!'' = Inl ''invalid character''"
    by (simp add: unmarshalInput_def json_Valid_def stepBeginValue_def jspace_def byte_in_def
        sample_rt_def)
  moreover have "\<exists>p. unmarshalInput sample_rt ''{}'' = Inr p"
    by (simp add: unmarshalInput_def json_Valid_def stepBeginValue_def jspace_def byte_in_def
        pushParse_def maxNestingDepth_def stepEndValue_def popParse_def jeof_def decodeInput_def
        jtrim_def isJsonNull_def isJsonObject_def jpieces_def)
  ultimately have "parseProposedInputs sample_rt inp = Inl ''invalid character''"
    by (auto simp: lines nonblank_def trim)
  then show ?thesis unfolding inp_def .
qed

text \<open>What an input promises of the event made of it.\<close>

definition proposes :: "runtime \<Rightarrow> proposedInput \<Rightarrow> streams_ProposedEvent \<Rightarrow> bool" where
  "proposes rt p e \<longleftrightarrow>
     streams_ProposedEvent.EventType e = proposedInput.EventType p \<and>
     streams_ProposedEvent.Tags e = proposedInput.Tags p \<and>
     resolveInputBytes rt (proposedInput.Data p) (DataB64 p) =
       Inr (streams_ProposedEvent.Data e) \<and>
     resolveInputBytes rt (proposedInput.Metadata p) (MetadataB64 p) =
       Inr (streams_ProposedEvent.Metadata e) \<and>
     streams_ProposedEvent.DataContentType e =
       defaultStr (proposedInput.DataContentType p) ''application/json'' \<and>
     streams_ProposedEvent.MetadataContentType e =
       defaultStr (proposedInput.MetadataContentType p) ''application/json'' \<and>
     (if proposedInput.EventID p = ''''
      then streams_ProposedEvent.EventID e \<in> range (genUUID rt)
      else streams_ProposedEvent.EventID e = proposedInput.EventID p)"

lemma toProposedLoop_spec:
  assumes "toProposedLoop rt i n ps out = Inr evs"
  shows "\<exists>new. evs = out @ new \<and> list_all2 (proposes rt) ps new"
  using assms
proof (induction ps arbitrary: i n out)
  case (Cons p ps)
  obtain data meta where res: "resolveInputBytes rt (proposedInput.Data p) (DataB64 p) = Inr data"
    "resolveInputBytes rt (proposedInput.Metadata p) (MetadataB64 p) = Inr meta"
    using Cons.prems by (auto split: sum.splits)
  define e where "e = \<lparr>streams_ProposedEvent.EventID =
      (if proposedInput.EventID p = '''' then genUUID rt n else proposedInput.EventID p),
    EventType = proposedInput.EventType p, Data = data, Metadata = meta,
    Tags = proposedInput.Tags p,
    DataContentType = defaultStr (proposedInput.DataContentType p) ''application/json'',
    MetadataContentType = defaultStr (proposedInput.MetadataContentType p) ''application/json''\<rparr>"
  have "toProposedLoop rt (Suc i) (if proposedInput.EventID p = '''' then Suc n else n) ps
      (out @ [e]) = Inr evs"
    using Cons.prems unfolding toProposedLoop.simps res sum.case Let_def e_def by simp
  from Cons.IH [OF this] obtain new where "evs = out @ e # new" "list_all2 (proposes rt) ps new"
    by auto
  moreover have "proposes rt p e" by (simp add: proposes_def e_def res)
  ultimately show ?case by auto
qed simp

text \<open>
  C34: Reading events from standard input keeps them all, in order: each proposed event has its
  input's type, tags, content types (JSON unless told otherwise) and resolved bytes, and its
  identifier, or a generated one when it had none.
\<close>

theorem proposed_events_in_order:
  assumes "toProposedEvents rt inputs = Inr evs"
  shows "length evs = length inputs \<and> (\<forall>i < length inputs. proposes rt (inputs ! i) (evs ! i))"
  using toProposedLoop_spec [OF assms [unfolded toProposedEvents_def]]
  by (auto simp: list_all2_conv_all_nth)

theorem proposed_events_in_order_witness:
  "\<exists>e. toProposedEvents sample_rt [zero_proposedInput\<lparr>EventID := ''e1'', Data := ''42''\<rparr>] = Inr [e] \<and>
     streams_ProposedEvent.EventID e = ''e1''"
proof -
  obtain e where e: "toProposedEvents sample_rt
      [zero_proposedInput\<lparr>EventID := ''e1'', Data := ''42''\<rparr>] = Inr [e]"
    by (simp add: toProposedEvents_def resolveInputBytes_def zero_proposedInput_def
        isJsonString_def isJsonNull_def)
  with proposed_events_in_order [OF e] show ?thesis by (auto simp: zero_proposedInput_def proposes_def)
qed

text \<open>The wire value of an accepted subscription type stands for the word written.\<close>

lemma subscription_type_exact:
  "case parseSubType rt s of
     Inr t \<Rightarrow> t = s \<and> typeFromProto (typeToProto t) = s \<and>
       typeToProto t \<noteq> SUBSCRIPTION_TYPE_UNSPECIFIED
   | Inl _ \<Rightarrow> typeToProto s = SUBSCRIPTION_TYPE_UNSPECIFIED"
  by (simp add: parseSubType_def typeFromProto_def typeToProto_def SubType_defs pb_enum_defs)

end
