(* ===== verification/Replay.thy ===== *)
theory Replay
  imports Input
begin

text \<open>
  What is printed can be given back: the text that the command line prints for recorded events is
  input from which \<open>streams append\<close> takes the same events again.
\<close>

section \<open>Keys and fields\<close>

text \<open>Keys in small letters match a field exactly.\<close>

definition plainKey :: "string \<Rightarrow> bool" where
  "plainKey k \<longleftrightarrow> list_all (\<lambda>c. byte_in 97 122 c \<or> byte_in 48 57 c \<or> c = CHR ''_'') k"

lemma plainKey_Cons [simp]:
  "plainKey (c # k) \<longleftrightarrow> (byte_in 97 122 c \<or> byte_in 48 57 c \<or> c = CHR ''_'') \<and> plainKey k"
  by (simp add: plainKey_def)

lemma plainKey_Nil [simp]: "plainKey []"
  by (simp add: plainKey_def)

lemma foldName_plain: "plainKey k \<Longrightarrow> foldName k = map toUpper k"
  by (induction k rule: foldName.induct) (auto simp: byte_in_def)

lemma upper_code_inj:
  assumes "(if 97 \<le> x \<and> x \<le> 122 then x - 32 else x) = (if 97 \<le> y \<and> y \<le> 122 then y - 32 else y)"
    and "97 \<le> x \<and> x \<le> 122 \<or> 48 \<le> x \<and> x \<le> 57 \<or> x = 95"
    and "97 \<le> y \<and> y \<le> 122 \<or> 48 \<le> y \<and> y \<le> 57 \<or> y = 95"
  shows "x = (y :: nat)"
  using assms by (auto split: if_splits)

lemma toUpper_inj:
  assumes "plainKey [a]" and "plainKey [b]" and "toUpper a = toUpper b"
  shows "a = b"
proof -
  have u: "of_char (toUpper c) = (if byte_in 97 122 c then of_char c - 32 else of_char c :: nat)" for c
  proof -
    have "(of_char c :: nat) - 32 < 256" by (rule le_less_trans [OF diff_le_self]) simp
    then show ?thesis by (simp add: toUpper_def byte_in_def)
  qed
  have "(of_char (toUpper a) :: nat) = of_char (toUpper b)" using assms(3) by simp
  then have "(of_char a :: nat) = of_char b"
    unfolding u byte_in_def
    by (rule upper_code_inj) (use assms(1,2) in \<open>auto simp: byte_in_def\<close>)
  then show ?thesis by (simp add: of_char_eq_iff)
qed

lemma isField_plain:
  assumes "plainKey k" and "plainKey n"
  shows "isField k n \<longleftrightarrow> k = n"
proof -
  have "inj_on toUpper {c. plainKey [c]}" by (auto intro!: inj_onI toUpper_inj)
  moreover have "set k \<union> set n \<subseteq> {c. plainKey [c]}"
    using assms by (auto simp: plainKey_def list_all_iff)
  ultimately show ?thesis
    using assms by (auto simp: isField_def foldName_plain dest!: inj_on_map_eq_map [THEN iffD1, rotated -1]
        intro: inj_on_subset)
qed

lemma plainKey_Valid: "plainKey k \<Longrightarrow> utf8_Valid k"
  by (rule utf8_Valid_ascii) (auto simp: plainKey_def list_all_iff byte_in_def)

lemma b64encode_Valid: "utf8_Valid (b64encode bs)"
proof (rule utf8_Valid_ascii)
  have c: "byte_in 0 127 (b64char i)" if "i < 64" for i
    using that by (auto simp: byte_in_def of_char_b64char)
  have p: "byte_in 0 127 b64pad" by (simp add: b64pad_def byte_in_def)
  show "list_all (byte_in 0 127) (b64encode bs)"
    by (induction bs rule: b64encode.induct) (simp_all add: c p Let_def)
qed

text \<open>
  What a field holds after all members were set, when no key comes twice: \<open>f\<close> is the decoder of the
  field \<open>get\<close>, and \<open>name\<close> its key.
\<close>

lemma setFields_get:
  assumes upd: "\<And>k t p. get (fst (setField k t p)) = (if isField k name then f (get p) t else get p)"
    and "plainKey name" and "list_all plainKey (map fst kts)" and "distinct (map fst kts)"
  shows "get (fst (setFields (map (\<lambda>(k, t). (quoted (quoteBody k), t)) kts) p)) =
    (case map_of kts name of None \<Rightarrow> get p | Some t \<Rightarrow> f (get p) t)"
  using assms(3,4)
proof (induction kts arbitrary: p)
  case (Cons kt kts)
  obtain k t where kt: "kt = (k, t)" by fastforce
  obtain p' ok where s: "setField k t p = (p', ok)" by fastforce
  have "get p' = (if k = name then f (get p) t else get p)"
    using upd [of k t p] s Cons.prems(1) isField_plain [OF _ assms(2)] by (simp add: kt)
  moreover have "map_of kts k = None" if "k = name"
    using Cons.prems(2) by (simp add: kt map_of_eq_None_iff)
  moreover have "unquote (quoted (quoteBody k)) = k"
    using Cons.prems(1) by (simp add: kt unquote_quoted plainKey_Valid)
  ultimately show ?case
    using Cons.IH [of p'] Cons.prems s by (auto simp: kt split: prod.split option.split)
qed simp

lemma setFields_ok:
  assumes "list_all plainKey (map fst kts)" and "\<And>k t p. (k, t) \<in> set kts \<Longrightarrow> snd (setField k t p)"
  shows "snd (setFields (map (\<lambda>(k, t). (quoted (quoteBody k), t)) kts) p)"
  using assms
proof (induction kts arbitrary: p)
  case (Cons kt kts)
  obtain k t where kt: "kt = (k, t)" by fastforce
  obtain p' ok where s: "setField k t p = (p', ok)" by fastforce
  have "unquote (quoted (quoteBody k)) = k"
    using Cons.prems(1) by (simp add: kt unquote_quoted plainKey_Valid)
  moreover have "ok" using Cons.prems(2) [of k t p] s by (simp add: kt)
  moreover have "snd (setFields (map (\<lambda>(k, t). (quoted (quoteBody k), t)) kts) p')"
    using Cons.IH Cons.prems by (simp add: kt)
  ultimately show ?case using s by (simp add: kt split: prod.split)
qed simp

text \<open>The updates of the nine fields.\<close>

lemma toUpper_letters:
  "map toUpper ''event_id'' = ''EVENT_ID''" "map toUpper ''event_type'' = ''EVENT_TYPE''"
  "map toUpper ''data'' = ''DATA''" "map toUpper ''data_b64'' = ''DATA_B64''"
  "map toUpper ''metadata'' = ''METADATA''" "map toUpper ''metadata_b64'' = ''METADATA_B64''"
  "map toUpper ''tags'' = ''TAGS''" "map toUpper ''data_content_type'' = ''DATA_CONTENT_TYPE''"
  "map toUpper ''metadata_content_type'' = ''METADATA_CONTENT_TYPE''"
  by (simp_all add: toUpper_def byte_in_def char_of_eq_iff take_bit_eq_mod)

lemma field_names:
  "isField k ''event_id'' \<longleftrightarrow> foldName k = ''EVENT_ID''"
  "isField k ''event_type'' \<longleftrightarrow> foldName k = ''EVENT_TYPE''"
  "isField k ''data'' \<longleftrightarrow> foldName k = ''DATA''"
  "isField k ''data_b64'' \<longleftrightarrow> foldName k = ''DATA_B64''"
  "isField k ''metadata'' \<longleftrightarrow> foldName k = ''METADATA''"
  "isField k ''metadata_b64'' \<longleftrightarrow> foldName k = ''METADATA_B64''"
  "isField k ''tags'' \<longleftrightarrow> foldName k = ''TAGS''"
  "isField k ''data_content_type'' \<longleftrightarrow> foldName k = ''DATA_CONTENT_TYPE''"
  "isField k ''metadata_content_type'' \<longleftrightarrow> foldName k = ''METADATA_CONTENT_TYPE''"
  unfolding isField_def
  by (subst foldName_plain, simp add: byte_in_def, simp only: toUpper_letters)+

lemma decode_case: "(case d of (s, ok) \<Rightarrow> (g s, ok)) = (g (fst d), snd d)"
  by (simp add: case_prod_beta)

lemma setField_updates:
  "proposedInput.EventID (fst (setField k t p)) = (if isField k ''event_id''
     then fst (decodeString (proposedInput.EventID p) t) else proposedInput.EventID p)"
  "proposedInput.EventType (fst (setField k t p)) = (if isField k ''event_type''
     then fst (decodeString (proposedInput.EventType p) t) else proposedInput.EventType p)"
  "proposedInput.Data (fst (setField k t p)) = (if isField k ''data'' then t else proposedInput.Data p)"
  "DataB64 (fst (setField k t p)) = (if isField k ''data_b64''
     then fst (decodeString (DataB64 p) t) else DataB64 p)"
  "proposedInput.Metadata (fst (setField k t p)) =
     (if isField k ''metadata'' then t else proposedInput.Metadata p)"
  "MetadataB64 (fst (setField k t p)) = (if isField k ''metadata_b64''
     then fst (decodeString (MetadataB64 p) t) else MetadataB64 p)"
  "proposedInput.Tags (fst (setField k t p)) = (if isField k ''tags''
     then fst (decodeStrings (proposedInput.Tags p) t) else proposedInput.Tags p)"
  "proposedInput.DataContentType (fst (setField k t p)) = (if isField k ''data_content_type''
     then fst (decodeString (proposedInput.DataContentType p) t) else proposedInput.DataContentType p)"
  "proposedInput.MetadataContentType (fst (setField k t p)) = (if isField k ''metadata_content_type''
     then fst (decodeString (proposedInput.MetadataContentType p) t)
     else proposedInput.MetadataContentType p)"
  unfolding setField_def decode_case field_names by (simp_all split: if_split)

section \<open>An event read back as an input\<close>

text \<open>The member of an object in its rendered form, and what decoding it gives.\<close>

lemma decode_rendered_string:
  "utf8_Valid s \<Longrightarrow> decodeString old (render fmt (JStr s)) = (s, True)"
  by (simp add: decodeString_def isJsonNull_def isJsonString_def quoted_def unquote_def butlast_append
      unquote_quoteBody)

lemma decode_rendered_strings:
  assumes "float_text fmt" and "\<forall>x \<in> set xs. utf8_Valid x"
  shows "decodeStrings old (render fmt (jstrs xs)) = (Some xs, True)"
proof -
  have n: "nests (jstrs xs) \<le> Suc maxNestingDepth"
  proof -
    have "fold max (map nests (map JStr xs)) k = k" for k
      by (induction xs arbitrary: k) simp_all
    then show ?thesis by simp
  qed
  have j: "jpieces (render fmt (jstrs xs)) = map (render fmt) (map JStr xs)"
    by (rule jpieces_render_array [OF assms(1) _ n]) simp
  have "map (decodeString '''') (map (render fmt) (map JStr xs)) = map (\<lambda>x. (x, True)) xs"
    using assms(2) decode_rendered_string by simp
  then show ?thesis
    unfolding decodeStrings_def j
    by (simp add: isJsonNull_def isJsonArray_def Let_def comp_def list_all_iff map_idI)
qed

text \<open>The object of an event, and the texts that Go's UTF-8 check of messages speaks of.\<close>

definition event_map :: "streams_RecordedEvent \<Rightarrow> Bytes \<Rightarrow> jmap" where
  "event_map e mode = (case encode_Event e mode of JObj m \<Rightarrow> m | _ \<Rightarrow> [])"

lemma encode_Event_map: "encode_Event e mode = JObj (event_map e mode)"
  by (simp add: event_map_def encode_Event_def Let_def)

definition utf8_fields :: "streams_RecordedEvent \<Rightarrow> bool" where
  "utf8_fields e \<longleftrightarrow> utf8_Valid (streams_RecordedEvent.EventID e) \<and>
     utf8_Valid (streams_RecordedEvent.EventType e) \<and>
     utf8_Valid (streams_RecordedEvent.DataContentType e) \<and>
     utf8_Valid (streams_RecordedEvent.MetadataContentType e) \<and>
     (\<forall>t \<in> set (tags (streams_RecordedEvent.Tags e)). utf8_Valid t)"

definition plain_map :: "jmap \<Rightarrow> bool" where
  "plain_map m \<longleftrightarrow> list_all plainKey (map fst m) \<and> distinct (map fst m)"

lemma plain_map_jset:
  assumes "plain_map m" and "plainKey k"
  shows "plain_map (jset k v m)"
proof -
  have "fst ` set (jset k v m) = insert k (fst ` set m)" by (simp add: jset_def dom_update)
  with assms have "list_all plainKey (map fst (jset k v m))"
    by (simp only: plain_map_def list_all_iff set_map) blast
  with assms(1) show ?thesis by (simp add: plain_map_def jset_def distinct_update)
qed

lemma plainKey_append [simp]: "plainKey (k @ l) \<longleftrightarrow> plainKey k \<and> plainKey l"
  by (simp add: plainKey_def)

lemma plain_map_add:
  "plain_map m \<Longrightarrow> plainKey key \<Longrightarrow> plain_map (addBytes m key b ct mode)"
  "plain_map m \<Longrightarrow> plainKey key \<Longrightarrow> plain_map (addHash m key b)"
  by (simp_all add: addBytes_def addHash_def Let_def plain_map_jset byte_in_def)

lemma event_keys: "plain_map (event_map e mode)"
proof -
  have "plainKey ''data''" "plainKey ''metadata''" "plainKey ''prev_event_hash''"
    by (simp_all add: byte_in_def)
  then show ?thesis
    unfolding event_map_def encode_Event_def Let_def json.case
    by (intro plain_map_add) (simp_all add: plain_map_def byte_in_def)
qed

lemma event_fields:
  "map_of (event_map e mode) ''event_id'' = Some (JStr (streams_RecordedEvent.EventID e))"
  "map_of (event_map e mode) ''event_type'' = Some (JStr (streams_RecordedEvent.EventType e))"
  "map_of (event_map e mode) ''tags'' = Some (jstrs (tags (streams_RecordedEvent.Tags e)))"
  "map_of (event_map e mode) ''data_content_type'' =
     Some (JStr (streams_RecordedEvent.DataContentType e))"
  "map_of (event_map e mode) ''metadata_content_type'' =
     Some (JStr (streams_RecordedEvent.MetadataContentType e))"
  "map_of (event_map e mode) ''data_b64'' = Some (JStr (b64encode (streams_RecordedEvent.Data e)))"
  "map_of (event_map e mode) ''metadata_b64'' =
     Some (JStr (b64encode (streams_RecordedEvent.Metadata e)))"
  "streams_RecordedEvent.Data e = [] \<Longrightarrow> map_of (event_map e mode) ''data'' = None"
  "streams_RecordedEvent.Metadata e = [] \<Longrightarrow> map_of (event_map e mode) ''metadata'' = None"
  by (simp_all add: event_map_def encode_Event_def Let_def field_simps_encode)

text \<open>The input that the printed event is: the convenience fields in their text, the bytes in base64.\<close>

definition printed_field :: "(float64 \<Rightarrow> string) \<Rightarrow> jmap \<Rightarrow> string \<Rightarrow> string" where
  "printed_field fmt m k = (case map_of m k of None \<Rightarrow> [] | Some j \<Rightarrow> render fmt j)"

definition inputOf :: "(float64 \<Rightarrow> string) \<Rightarrow> Bytes \<Rightarrow> streams_RecordedEvent \<Rightarrow> proposedInput" where
  "inputOf fmt mode e = \<lparr>
     proposedInput.EventID = streams_RecordedEvent.EventID e,
     EventType = streams_RecordedEvent.EventType e,
     Data = printed_field fmt (event_map e mode) ''data'',
     DataB64 = b64encode (streams_RecordedEvent.Data e),
     Metadata = printed_field fmt (event_map e mode) ''metadata'',
     MetadataB64 = b64encode (streams_RecordedEvent.Metadata e),
     Tags = Some (tags (streams_RecordedEvent.Tags e)),
     DataContentType = streams_RecordedEvent.DataContentType e,
     MetadataContentType = streams_RecordedEvent.MetadataContentType e\<rparr>"

lemma setField_snd:
  "snd (setField k t p) = (
     if isField k ''event_id'' then snd (decodeString (proposedInput.EventID p) t)
     else if isField k ''event_type'' then snd (decodeString (proposedInput.EventType p) t)
     else if isField k ''data'' then True
     else if isField k ''data_b64'' then snd (decodeString (DataB64 p) t)
     else if isField k ''metadata'' then True
     else if isField k ''metadata_b64'' then snd (decodeString (MetadataB64 p) t)
     else if isField k ''tags'' then snd (decodeStrings (proposedInput.Tags p) t)
     else if isField k ''data_content_type''
       then snd (decodeString (proposedInput.DataContentType p) t)
     else if isField k ''metadata_content_type''
       then snd (decodeString (proposedInput.MetadataContentType p) t)
     else True)"
  unfolding setField_def decode_case by simp

definition string_fields :: "string list" where
  "string_fields = [''event_id'', ''event_type'', ''data_b64'', ''metadata_b64'',
     ''data_content_type'', ''metadata_content_type'']"

lemma setField_ok:
  assumes "plainKey k" and "k \<in> set string_fields \<Longrightarrow> \<exists>s. t = quoted s"
    and "k = ''tags'' \<Longrightarrow> snd (decodeStrings (proposedInput.Tags p) t)"
  shows "snd (setField k t p)"
proof -
  have names: "isField k n \<longleftrightarrow> k = n" if "plainKey n" for n
    by (rule isField_plain [OF assms(1) that])
  have str: "snd (decodeString old t)" if "k \<in> set string_fields" for old
    using assms(2) [OF that] by (auto simp: decodeString_def isJsonString_def quoted_def)
  note names = names [of "''event_id''"] names [of "''event_type''"] names [of "''data''"]
    names [of "''data_b64''"] names [of "''metadata''"] names [of "''metadata_b64''"]
    names [of "''tags''"] names [of "''data_content_type''"] names [of "''metadata_content_type''"]
  show ?thesis
    unfolding setField_snd using assms(3) str
    by (simp add: names byte_in_def string_fields_def split: if_split)
qed

lemma distinct_keys_sort: "distinct (map fst m) \<Longrightarrow> distinct (map fst (sort_key fst m))"
  by (simp add: distinct_map)

lemma map_of_rendered:
  assumes "distinct (map fst m)"
  shows "map_of (map (\<lambda>(k, j). (k, render fmt j)) (sort_key fst m)) k =
    map_option (render fmt) (map_of m k)"
proof -
  have "map_of (sort_key fst m) = map_of m"
    using assms distinct_keys_sort [OF assms] by (subst map_of_inject_set) simp_all
  then show ?thesis by (simp add: map_of_map)
qed

lemma decodeInput_event:
  assumes "float_text fmt" and "utf8_fields e"
    and "nests (encode_Event e mode) \<le> Suc maxNestingDepth"
  shows "decodeInput (render fmt (encode_Event e mode)) = Some (inputOf fmt mode e)"
proof -
  let ?m = "event_map e mode"
  let ?kts = "map (\<lambda>(k, j). (k, render fmt j)) (sort_key fst ?m)"
  let ?p = "setFields (map (\<lambda>(k, t). (quoted (quoteBody k), t)) ?kts) zero_proposedInput"
  note u = assms(2) [unfolded utf8_fields_def]
  note pm = event_keys [of e mode, unfolded plain_map_def]
  have keys: "list_all plainKey (map fst ?kts)" "distinct (map fst ?kts)"
    using pm distinct_keys_sort [of ?m] by (simp_all add: list_all_iff comp_def case_prod_beta)
  have of: "map_of ?kts k = map_option (render fmt) (map_of ?m k)" for k
    by (rule map_of_rendered) (simp add: pm)
  have jm: "map jmember (jpieces (render fmt (JObj ?m))) = map (\<lambda>(k, t). (quoted (quoteBody k), t)) ?kts"
    using jmembers_render [OF assms(1)] assms(3) json_ok_Event [of e mode]
    by (simp add: encode_Event_map members_def comp_def case_prod_beta)
  have ok: "snd ?p"
  proof (rule setFields_ok [OF keys(1)])
    fix k t p assume kt: "(k, t) \<in> set ?kts"
    then have t: "map_of ?kts k = Some t" using keys(2) by (simp add: map_of_is_SomeI)
    have "plainKey k" using keys(1) kt by (force simp: list_all_iff)
    then show "snd (setField k t p)"
    proof (rule setField_ok)
      show "k \<in> set string_fields \<Longrightarrow> \<exists>s. t = quoted s"
        using t [unfolded of] by (auto simp: string_fields_def event_fields)
      show "k = ''tags'' \<Longrightarrow> snd (decodeStrings (proposedInput.Tags p) t)"
        using t [unfolded of] decode_rendered_strings [OF assms(1)] u by (auto simp: event_fields)
    qed
  qed
  have pk: "list_all plainKey (''data'' # ''metadata'' # ''tags'' # string_fields)"
    by (simp add: string_fields_def byte_in_def)
  note get = setFields_get [OF _ _ keys, unfolded of]
  note eval = event_fields option.map option.case decode_rendered_string decode_rendered_strings
    fst_conv printed_field_def b64encode_Valid
  have "fst ?p = inputOf fmt mode e"
  proof (rule proposedInput.equality)
    show "proposedInput.EventID (fst ?p) = proposedInput.EventID (inputOf fmt mode e)"
      using get [OF setField_updates(1)] pk u
      by (simp add: eval inputOf_def string_fields_def del: render.simps)
    show "proposedInput.EventType (fst ?p) = proposedInput.EventType (inputOf fmt mode e)"
      using get [OF setField_updates(2)] pk u
      by (simp add: eval inputOf_def string_fields_def del: render.simps)
    show "proposedInput.Data (fst ?p) = proposedInput.Data (inputOf fmt mode e)"
      using get [OF setField_updates(3)] pk
      by (simp add: printed_field_def inputOf_def zero_proposedInput_def split: option.split)
    show "DataB64 (fst ?p) = DataB64 (inputOf fmt mode e)"
      using get [OF setField_updates(4)] pk
      by (simp add: eval inputOf_def string_fields_def del: render.simps)
    show "proposedInput.Metadata (fst ?p) = proposedInput.Metadata (inputOf fmt mode e)"
      using get [OF setField_updates(5)] pk
      by (simp add: printed_field_def inputOf_def zero_proposedInput_def split: option.split)
    show "MetadataB64 (fst ?p) = MetadataB64 (inputOf fmt mode e)"
      using get [OF setField_updates(6)] pk
      by (simp add: eval inputOf_def string_fields_def del: render.simps)
    show "proposedInput.Tags (fst ?p) = proposedInput.Tags (inputOf fmt mode e)"
      using get [OF setField_updates(7)] pk u
      by (simp add: eval assms(1) inputOf_def del: render.simps)
    show "proposedInput.DataContentType (fst ?p) = proposedInput.DataContentType (inputOf fmt mode e)"
      using get [OF setField_updates(8)] pk u
      by (simp add: eval inputOf_def string_fields_def del: render.simps)
    show "proposedInput.MetadataContentType (fst ?p) =
        proposedInput.MetadataContentType (inputOf fmt mode e)"
      using get [OF setField_updates(9)] pk u
      by (simp add: eval inputOf_def string_fields_def del: render.simps)
  qed simp
  with ok have "?p = (inputOf fmt mode e, True)" by (simp only: prod_eq_iff fst_conv snd_conv)
  moreover have "isJsonObject (render fmt (JObj ?m))" "\<not> isJsonNull (render fmt (JObj ?m))"
    by (simp_all add: isJsonObject_def isJsonNull_def)
  ultimately show ?thesis
    unfolding decodeInput_def encode_Event_map jm by (simp only: if_True if_False prod.case)
qed

section \<open>A printed list of events given back\<close>

text \<open>The event proposed again: its place in the stream and its hash are the server's to give.\<close>

definition reproposed :: "streams_RecordedEvent \<Rightarrow> streams_ProposedEvent" where
  "reproposed e = \<lparr>
     streams_ProposedEvent.EventID = streams_RecordedEvent.EventID e,
     EventType = streams_RecordedEvent.EventType e,
     Data = streams_RecordedEvent.Data e,
     Metadata = streams_RecordedEvent.Metadata e,
     Tags = Some (tags (streams_RecordedEvent.Tags e)),
     DataContentType = defaultStr (streams_RecordedEvent.DataContentType e) ''application/json'',
     MetadataContentType =
       defaultStr (streams_RecordedEvent.MetadataContentType e) ''application/json''\<rparr>"

text \<open>The base64 text printed for a byte field resolves to its bytes, whatever the plain field holds.\<close>

lemma resolve_printed:
  assumes "b = [] \<longrightarrow> txt = []"
  shows "resolveInputBytes rt txt (b64encode b) = Inr b"
  using assms by (auto simp: resolveInputBytes_def b64encode_Nil base64.dec_enc)

lemma input_simps:
  "proposedInput.EventID (inputOf fmt mode e) = streams_RecordedEvent.EventID e"
  "proposedInput.EventType (inputOf fmt mode e) = streams_RecordedEvent.EventType e"
  "proposedInput.Tags (inputOf fmt mode e) = Some (tags (streams_RecordedEvent.Tags e))"
  "proposedInput.DataContentType (inputOf fmt mode e) = streams_RecordedEvent.DataContentType e"
  "proposedInput.MetadataContentType (inputOf fmt mode e) =
     streams_RecordedEvent.MetadataContentType e"
  by (simp_all add: inputOf_def)

lemma toProposedLoop_printed:
  assumes "\<forall>e \<in> set es. streams_RecordedEvent.EventID e \<noteq> ''''"
  shows "toProposedLoop rt i n (map (inputOf fmt mode) es) out = Inr (out @ map reproposed es)"
  using assms
proof (induction es arbitrary: i n out)
  case (Cons e es)
  have "resolveInputBytes rt (proposedInput.Data (inputOf fmt mode e)) (DataB64 (inputOf fmt mode e)) =
      Inr (streams_RecordedEvent.Data e)"
    "resolveInputBytes rt (proposedInput.Metadata (inputOf fmt mode e))
      (MetadataB64 (inputOf fmt mode e)) = Inr (streams_RecordedEvent.Metadata e)"
    by (simp_all add: inputOf_def resolve_printed printed_field_def event_fields)
  with Cons show ?case
    by (simp only: list.map toProposedLoop.simps sum.case Let_def)
      (simp add: input_simps reproposed_def [of e])
qed simp

lemma TrimSpace_line:
  assumes "s \<noteq> []" and "\<forall>p \<in> set spaceRunes. hd p \<noteq> hd s \<and> last p \<noteq> last s"
  shows "TrimSpace (s @ [CHR 0x0A]) = s"
proof -
  have "trim_with spaceRunes (s @ [CHR 0x0A]) = s @ [CHR 0x0A]"
    using assms trim_with_stop [OF spaceRunes_nonempty(1), of "hd s" "tl s @ [CHR 0x0A]"]
    by (cases s) auto
  moreover have "trim_with (map rev spaceRunes) (CHR 0x0A # rev s) = trim_with (map rev spaceRunes) (rev s)"
    using spaceRunes_nonempty(2)
    by (subst trim_with.simps) (simp add: spaceRunes_def char_of_eq_iff take_bit_eq_mod)
  moreover have "TrimSpace s = s" by (rule TrimSpace_noop [OF assms])
  moreover have "trim_with spaceRunes s = s"
    using assms trim_with_stop [OF spaceRunes_nonempty(1), of "hd s" "tl s"] by simp
  ultimately show ?thesis by (simp add: TrimSpace_def)
qed

text \<open>How deep a list of events nests: the data and metadata of an event stand inside two brackets.\<close>

definition shallow :: "streams_RecordedEvent \<Rightarrow> bool" where
  "shallow e \<longleftrightarrow> jpeak (streams_RecordedEvent.Data e) (BeginValue, []) + 2 \<le> maxNestingDepth \<and>
     jpeak (streams_RecordedEvent.Metadata e) (BeginValue, []) + 2 \<le> maxNestingDepth"

definition low :: "nat \<Rightarrow> jmap \<Rightarrow> bool" where
  "low n m \<longleftrightarrow> (\<forall>(k, j) \<in> set m. nests j \<le> n)"

lemma low_jset: "low n m \<Longrightarrow> nests v \<le> n \<Longrightarrow> low n (jset k v m)"
  by (induction m) (auto simp: low_def jset_def)

lemma low_add:
  "low n m \<Longrightarrow> jpeak b (BeginValue, []) \<le> n \<Longrightarrow> low n (addBytes m key b ct mode)"
  "low n m \<Longrightarrow> low n (addHash m key b)"
  by (auto simp: addBytes_def addHash_def Let_def intro!: low_jset)

lemma fold_max_bound: "\<forall>x \<in> set xs. x \<le> n \<Longrightarrow> k \<le> n \<Longrightarrow> fold max xs k \<le> (n :: nat)"
  by (induction xs arbitrary: k) auto

lemma nests_low: "low n m \<Longrightarrow> nests (JObj m) \<le> Suc n"
  by (auto simp: low_def intro!: fold_max_bound)

lemma nests_Time [simp]: "nests (encode_Time t) = 0"
  by (simp add: encode_Time_def)

lemma nests_strs: "nests (jstrs xs) = 1"
proof -
  have "fold max (map nests (map JStr xs)) 0 = 0" by (induction xs) simp_all
  then show ?thesis by simp
qed

lemma nests_Event:
  assumes "jpeak (streams_RecordedEvent.Data e) (BeginValue, []) \<le> n"
    and "jpeak (streams_RecordedEvent.Metadata e) (BeginValue, []) \<le> n" and "1 \<le> n"
  shows "nests (encode_Event e mode) \<le> Suc n"
  unfolding encode_Event_def Let_def
  by (intro nests_low low_add assms(1,2)) (use assms(3) nests_strs in \<open>simp add: low_def\<close>)

definition printed_list :: "Bytes \<Rightarrow> streams_RecordedEvent list \<Rightarrow> json" where
  "printed_list mode es = JArr (map (\<lambda>e. encode_Event e mode) es)"

lemma nests_printed_list:
  assumes "\<forall>e \<in> set es. shallow e"
  shows "nests (printed_list mode es) \<le> maxNestingDepth"
proof -
  have "nests (encode_Event e mode) \<le> Suc (maxNestingDepth - 2)" if "e \<in> set es" for e
    using assms that by (intro nests_Event) (auto simp: shallow_def maxNestingDepth_def)
  then have "nests (printed_list mode es) \<le> Suc (Suc (maxNestingDepth - 2))"
    by (auto simp: printed_list_def intro!: fold_max_bound)
  then show ?thesis by (simp add: maxNestingDepth_def)
qed

lemma read_printed_list:
  assumes "float_text fmt" and "nests (printed_list mode es) \<le> maxNestingDepth"
    and "\<forall>e \<in> set es. utf8_fields e \<and> streams_RecordedEvent.EventID e \<noteq> ''''"
  shows "readProposedEvents rt (Inr (encodeLine fmt (printed_list mode es) False)) =
    Inr (map reproposed es)"
proof -
  let ?js = "map (\<lambda>e. encode_Event e mode) es" and ?t = "render fmt (printed_list mode es)"
  have ok: "json_ok (JArr ?js)" by (simp add: json_ok_Event)
  have t: "?t = CHR ''['' # joinComma (map (render fmt) ?js) @ '']''"
    by (simp add: printed_list_def)
  have trim: "TrimSpace (encodeLine fmt (printed_list mode es) False) = ?t"
    unfolding encodeLine_def Let_def if_False
    by (rule TrimSpace_line) (simp_all add: t spaceRunes_def upt_rec char_of_eq_iff take_bit_eq_mod)
  have valid: "json_Valid ?t"
    using json_text_Valid [OF json_text_render [OF assms(1) ok]] assms(2) by (simp add: printed_list_def)
  have pieces: "jpieces ?t = map (render fmt) ?js"
    unfolding printed_list_def using assms(2)
    by (intro jpieces_render_array [OF assms(1) ok]) (simp add: printed_list_def)
  have "decodeInput (render fmt (encode_Event e mode)) = Some (inputOf fmt mode e)" if "e \<in> set es" for e
  proof (rule decodeInput_event [OF assms(1)])
    have "nests (encode_Event e mode) \<le> fold max (map nests ?js) 0"
      using that by (intro fold_max_le) simp
    then show "nests (encode_Event e mode) \<le> Suc maxNestingDepth"
      using assms(2) by (simp add: printed_list_def)
  qed (use assms(3) that in blast)
  then have "map decodeInput (jpieces ?t) = map (\<lambda>e. Some (inputOf fmt mode e)) es"
    by (simp add: pieces)
  moreover have "those (map (\<lambda>e. Some (inputOf fmt mode e)) es) = Some (map (inputOf fmt mode) es)"
    by (induction es) simp_all
  ultimately have "unmarshalInputs rt ?t = Inr (map (inputOf fmt mode) es)"
    using valid by (simp add: unmarshalInputs_def)
  then have "parseProposedInputs rt ?t = Inr (map (inputOf fmt mode) es)"
    by (simp add: parseProposedInputs_def t)
  then show ?thesis
    using toProposedLoop_printed [of es rt 0 0 fmt mode "[]"] assms(3)
    by (simp add: readProposedEvents_def trim toProposedEvents_def)
qed

end
