(* ===== verification/Pump.thy ===== *)
theory Pump
  imports Watch Output Encode Flags
begin

text \<open>
  The streaming output of the command line: \<^verbatim>\<open>cmd/reckon/stream.go\<close>. \<open>pump\<close> is the consumer
  of a watch goroutine (theory \<open>Watch\<close>): it writes a \<open>ready\<close> frame, one frame for each event it
  ranges over, and one terminal frame that depends on the error it then reads and on \<open>ctx.Err()\<close>.
\<close>

section \<open>What the pump sees\<close>

text \<open>
  The events ranged over, the error read after them, and whether \<open>ctx.Err()\<close> was set when the pump
  looked. The scheduler and the signals decide which of the runs of a goroutine happens; \<open>sees\<close> says
  which views a run can end in.
\<close>

type_synonym 'e view = "'e list \<times> gerror option \<times> bool"

definition sees :: "('m, 'e) goroutine \<Rightarrow> 'e view \<Rightarrow> bool" where
  "sees g v \<longleftrightarrow> (\<exists>status_err ctx_err s. isCanceled status_err \<and> \<not> err_isEOF status_err \<and>
     isCanceled ctx_err \<and> reach status_err ctx_err g s \<and> cons_at s = Done \<and>
     v = (ranged s, err_read s, saw_cancel s))"

text \<open>The contract of the views: the outcomes of theory \<open>Watch\<close>, with the errors of a cancellation.\<close>

definition complete :: "('m, 'e) goroutine \<Rightarrow> 'e list \<Rightarrow> gerror option \<Rightarrow> bool" where
  "complete g es err \<longleftrightarrow>
     (g_open g = None \<and> es = events_of (g_conv g) (g_recv g) \<and> final_of (g_recv g) = Some err) \<or>
     (g_open g \<noteq> None \<and> es = [] \<and> err = g_open g)"

lemma sees_cases:
  assumes "sees g (es, err, canc)"
  shows "complete g es err \<or>
    (\<exists>e. err = Some e \<and> isCanceled e \<and> prefix es (events_of (g_conv g) (g_recv g)))"
proof -
  obtain a b s where ab: "isCanceled a" "\<not> err_isEOF a" "isCanceled b"
    and s: "reach a b g s" "cons_at s = Done" "es = ranged s" "err = err_read s"
    using assms by (auto simp: sees_def)
  have "watch_outcome a b g (cancelled s) es err"
    using reach_done_outcome(1) [OF s(1)] s(2-4) by simp
  with ab show ?thesis
    by (auto simp: watch_outcome_def complete_def recv_final_def)
qed

lemma sees_prefix: "sees g (es, err, canc) \<Longrightarrow> prefix es (events_of (g_conv g) (g_recv g))"
  by (auto dest!: sees_cases simp: complete_def)

text \<open>A goroutine whose stream ends, or could not be opened, has a view that nobody cancelled.\<close>

definition ends :: "('m, 'e) goroutine \<Rightarrow> bool" where
  "ends g \<longleftrightarrow> g_open g \<noteq> None \<or> final_of (g_recv g) \<noteq> None"

definition cancelError :: gerror where
  "cancelError = \<lparr>err_Error = ''context canceled'', err_status = None, err_isEOF = False,
     err_isCanceled = True\<rparr>"

lemma cancelError_simps [simp]: "isCanceled cancelError" "\<not> err_isEOF cancelError"
  by (simp_all add: cancelError_def isCanceled_def)

lemma ends_sees:
  assumes "ends g"
  shows "\<exists>es err. sees g (es, err, False) \<and> complete g es err"
proof -
  obtain s where s: "reach cancelError cancelError g s" "finished s" "\<not> cancelled s"
    using reach_finish [OF reach_init, of g cancelError cancelError] assms
    by (auto simp: ends_def watch_init_def)
  then have d: "cons_at s = Done" by (simp add: finished_def)
  have c: "\<not> saw_cancel s" using reach_done_outcome(2) [OF s(1)] d s(3) by blast
  have "watch_outcome cancelError cancelError g False (ranged s) (err_read s)"
    using reach_done_outcome(1) [OF s(1)] d s(3) by simp
  then have "complete g (ranged s) (err_read s)"
    by (auto simp: watch_outcome_def complete_def)
  with s d c show ?thesis
    unfolding sees_def by (metis cancelError_simps)
qed

text \<open>
  A scheduler and a user for every goroutine: one that lets a stream end when it does, and cancels it
  before it is opened otherwise.
\<close>

definition patient_view :: "('m, 'e) goroutine \<Rightarrow> 'e view" where
  "patient_view g = (case g_open g of
       Some e \<Rightarrow> ([], Some e, False)
     | None \<Rightarrow> (case final_of (g_recv g) of
         Some err \<Rightarrow> (events_of (g_conv g) (g_recv g), err, False)
       | None \<Rightarrow> ([], Some cancelError, True)))"

lemma sees_cancelled: "sees g ([], Some cancelError, True)"
proof -
  let ?e = cancelError
  let ?s = "\<lambda>p buf ec vc c r canc. \<lparr>prod_at = p, todo = g_recv g, errs_buf = buf, errs_closed = ec,
    events_closed = vc, cancelled = True, cons_at = c, ranged = [], err_read = r, saw_cancel = canc\<rparr>"
  let ?reach = "reach cancelError cancelError g"
  have "?reach ((watch_init g)\<lparr>cancelled := True\<rparr>)"
    by (rule reach_cancel [OF reach_init]) (simp add: cancel_iff watch_init_def)
  then have "?reach (?s Opening None False False Ranging None False)"
    by (simp add: watch_init_def)
  then have "?reach (?s (Failing ?e) None False False Ranging None False)"
    by (rule reach_step) (use open_cancelled [of "?s Opening None False False Ranging None False"] in simp)
  then have "?reach (?s ClosingErrs (Some ?e) False False Ranging None False)"
    by (rule reach_step) (use fail [of "?s (Failing ?e) None False False Ranging None False" ?e] in simp)
  then have "?reach (?s ClosingEvents (Some ?e) True False Ranging None False)"
    by (rule reach_step) (use close_errs [of "?s ClosingErrs (Some ?e) False False Ranging None False"] in simp)
  then have "?reach (?s Exited (Some ?e) True True Ranging None False)"
    by (rule reach_step) (use close_events [of "?s ClosingEvents (Some ?e) True False Ranging None False"] in simp)
  then have "?reach (?s Exited (Some ?e) True True ReadingErrs None False)"
    by (rule reach_step) (use range_end [of "?s Exited (Some ?e) True True Ranging None False"] in simp)
  then have "?reach (?s Exited None True True Checking (Some ?e) False)"
    by (rule reach_step) (use read_err [of "?s Exited (Some ?e) True True ReadingErrs None False" ?e] in simp)
  then have "?reach (?s Exited None True True Done (Some ?e) True)"
    by (rule reach_step) (use check [of "?s Exited None True True Checking (Some ?e) False"] in simp)
  then show ?thesis
    unfolding sees_def
    by (intro exI [of _ ?e] exI [of _ "?s Exited None True True Done (Some ?e) True"])
      (simp add: watch_init_def)
qed

lemma sees_patient_view: "sees g (patient_view g)"
proof (cases "ends g")
  case True
  then obtain es err where "sees g (es, err, False)" "complete g es err"
    using ends_sees by blast
  then show ?thesis
    by (auto simp: patient_view_def complete_def split: option.split)
next
  case False
  then show ?thesis by (simp add: patient_view_def ends_def sees_cancelled)
qed

section \<open>The pump\<close>

text \<open>\<open>line\<close> ignores the error of \<open>writeJSON\<close>: a frame that cannot be encoded is not written.\<close>

definition frameLine :: "jmap \<Rightarrow> written" where
  "frameLine m = fst (writeJSON (JObj m) False)"

text \<open>The loop over the events; making a frame may call the gateway (an acknowledgement).\<close>

fun pumpEvents :: "('e \<Rightarrow> ('w, jmap) state) \<Rightarrow> 'e list \<Rightarrow> ('w, written) state" where
  "pumpEvents frame [] = State_Monad.return []"
| "pumpEvents frame (ev # evs) = do {
     m \<leftarrow> frame ev;
     ws \<leftarrow> pumpEvents frame evs;
     State_Monad.return (frameLine m @ ws)
   }"

definition readyFrame :: "runtime \<Rightarrow> jmap" where
  "readyFrame rt = [(''type'', JStr ''ready''), (''at'', JStr (FormatRFC3339Nano (rt_Now rt)))]"

definition endFrame :: "string \<Rightarrow> jmap" where
  "endFrame reason = [(''type'', JStr ''end''), (''reason'', JStr reason)]"

definition errorFrame :: "cliError \<Rightarrow> jmap" where
  "errorFrame ce = [(''type'', JStr ''error''), (''code'', JStr (cliError.Code ce)),
     (''message'', JStr (Msg ce))]"

definition pumpEnd :: "gerror option \<Rightarrow> bool \<Rightarrow> jmap \<times> cmdError option" where
  "pumpEnd err canc =
     (case err of
        None \<Rightarrow> (endFrame ''eof'', None)
      | Some e \<Rightarrow>
          if isCanceled e \<or> canc then (endFrame ''client_eof'', None)
          else let ce = fromGRPC e in (errorFrame ce, Some (Cli ce)))"

definition pump :: "runtime \<Rightarrow> ('e \<Rightarrow> ('w, jmap) state) \<Rightarrow> 'e view \<Rightarrow>
    ('w, written \<times> cmdError option) state" where
  "pump rt frame v = (case v of (evs, err, canc) \<Rightarrow> do {
     ws \<leftarrow> pumpEvents frame evs;
     State_Monad.return (case pumpEnd err canc of (m, res) \<Rightarrow>
       (frameLine (readyFrame rt) @ ws @ frameLine m, res))
   })"

section \<open>Frames\<close>

text \<open>The frame a written value is, by its type.\<close>

definition frameType :: "json \<times> bool \<Rightarrow> json option" where
  "frameType l = jfield (fst l) ''type''"

definition terminal :: "json \<times> bool \<Rightarrow> bool" where
  "terminal l \<longleftrightarrow> frameType l \<in> {Some (JStr ''end''), Some (JStr ''error'')}"

lemma fixed_frames [simp]:
  "frameLine (readyFrame rt) = [(JObj (readyFrame rt), False)]"
  "frameLine (endFrame r) = [(JObj (endFrame r), False)]"
  "frameLine (errorFrame ce) = [(JObj (errorFrame ce), False)]"
  by (simp_all add: frameLine_def writeJSON_def readyFrame_def endFrame_def errorFrame_def)

lemma frameType_simps [simp]:
  "frameType (JObj (readyFrame rt), p) = Some (JStr ''ready'')"
  "frameType (JObj (endFrame r), p) = Some (JStr ''end'')"
  "frameType (JObj (errorFrame ce), p) = Some (JStr ''error'')"
  by (simp_all add: frameType_def jfield_def readyFrame_def endFrame_def errorFrame_def)

lemma pumpEnd_frame: "frameLine (fst (pumpEnd err canc)) = [(JObj (fst (pumpEnd err canc)), False)]"
  by (simp add: pumpEnd_def Let_def split: option.split)

lemma pumpEnd_terminal: "terminal (JObj (fst (pumpEnd err canc)), p)"
  by (simp add: pumpEnd_def Let_def terminal_def split: option.split)

text \<open>With frames that need no call, the loop is a map.\<close>

lemma pumpEvents_pure:
  "pumpEvents (\<lambda>ev. State_Monad.return (f ev)) evs
     = State_Monad.return (concat (map (frameLine \<circ> f) evs))"
  by (induction evs) simp_all

lemma run_pump:
  "run_state (pump rt frame (evs, err, canc)) w =
     (case run_state (pumpEvents frame evs) w of (ws, w') \<Rightarrow>
       (((JObj (readyFrame rt), False) # ws @ [(JObj (fst (pumpEnd err canc)), False)],
         snd (pumpEnd err canc)), w'))"
  using pumpEnd_frame [of err canc]
  by (cases "pumpEnd err canc") (simp add: pump_def split: prod.split)

text \<open>Frames of type \<open>ty\<close>, each of which can be encoded.\<close>

definition frames_of :: "string \<Rightarrow> ('e \<Rightarrow> ('w, jmap) state) \<Rightarrow> bool" where
  "frames_of ty frame \<longleftrightarrow> (\<forall>ev w m w'. run_state (frame ev) w = (m, w') \<longrightarrow>
     json_ok (JObj m) \<and> map_of m ''type'' = Some (JStr ty))"

text \<open>
  What a pump writes, in terms of the type \<open>ty\<close> of its frames and the number \<open>n\<close> of events: a
  \<open>ready\<close> frame, \<open>n\<close> frames of type \<open>ty\<close> and one terminal frame, an \<open>error\<close> exactly when the pump
  fails.
\<close>

definition well_framed :: "runtime \<Rightarrow> string \<Rightarrow> nat \<Rightarrow> written \<Rightarrow> cmdError option \<Rightarrow> bool" where
  "well_framed rt ty n out res \<longleftrightarrow> (\<exists>body fin.
     out = (JObj (readyFrame rt), False) # body @ [fin] \<and> length body = n \<and>
     (\<forall>l \<in> set body. frameType l = Some (JStr ty)) \<and> terminal fin \<and>
     list_all (\<lambda>l. \<not> terminal l) ((JObj (readyFrame rt), False) # body) \<and>
     (frameType fin = Some (JStr ''error'') \<longleftrightarrow> res \<noteq> None))"

text \<open>
  The contract between a command that streams and the pump: the frames it makes can be encoded and
  have one type, which is none of the pump's own.
\<close>

locale framing =
  fixes frame :: "'e \<Rightarrow> ('w, jmap) state"
    and ty :: string
  assumes frames: "frames_of ty frame"
    and not_control: "ty \<notin> {''ready'', ''end'', ''error''}"
begin

lemma one_frame:
  assumes "run_state (frame ev) w = (m, w')"
  shows "frameLine m = [(JObj m, False)]" and "frameType (JObj m, p) = Some (JStr ty)"
  using frames assms
  by (fastforce simp: frames_of_def frameLine_def writeJSON_def frameType_def jfield_def)+

text \<open>The loop makes the frames of the events one after the other and writes each on a line of its own.\<close>

lemma pumpEvents_traverse:
  assumes "run_state (traverse_list frame evs) w = (ms, w')"
  shows "run_state (pumpEvents frame evs) w = (map (\<lambda>m. (JObj m, False)) ms, w') \<and>
    length ms = length evs \<and> (\<forall>m \<in> set ms. map_of m ''type'' = Some (JStr ty))"
  using assms
proof (induction evs arbitrary: w ms w')
  case Nil
  then show ?case by simp
next
  case (Cons ev evs)
  obtain m w1 where m: "run_state (frame ev) w = (m, w1)" by fastforce
  obtain ms' w2 where ms': "run_state (traverse_list frame evs) w1 = (ms', w2)" by fastforce
  have "ms = m # ms'" "w' = w2" using Cons.prems m ms' by simp_all
  moreover have "map_of m ''type'' = Some (JStr ty)" using frames m unfolding frames_of_def by blast
  ultimately show ?case using Cons.IH [OF ms'] m one_frame(1) [OF m] by simp
qed

lemma pumpEvents_frames:
  assumes "run_state (pumpEvents frame evs) w = (ws, w')"
  shows "length ws = length evs \<and> (\<forall>l \<in> set ws. frameType l = Some (JStr ty))"
proof -
  obtain ms w1 where "run_state (traverse_list frame evs) w = (ms, w1)" by fastforce
  from pumpEvents_traverse [OF this] assms show ?thesis by (auto simp: frameType_def jfield_def)
qed

theorem pump_well_framed:
  assumes "run_state (pump rt frame (evs, err, canc)) w = ((out, res), w')"
  shows "well_framed rt ty (length evs) out res"
proof -
  obtain body w2 where b: "run_state (pumpEvents frame evs) w = (body, w2)" by fastforce
  define fin where "fin = (JObj (fst (pumpEnd err canc)), False)"
  have out: "out = (JObj (readyFrame rt), False) # body @ [fin]"
    and res: "res = snd (pumpEnd err canc)"
    using assms b by (simp_all add: run_pump fin_def)
  have "length body = length evs" "\<forall>l \<in> set body. frameType l = Some (JStr ty)"
    using pumpEvents_frames [OF b] by blast+
  moreover have "terminal fin" by (simp add: fin_def pumpEnd_terminal)
  moreover have "frameType fin = Some (JStr ''error'') \<longleftrightarrow> res \<noteq> None"
    by (simp add: res fin_def pumpEnd_def Let_def split: option.split)
  ultimately show ?thesis
    using out not_control unfolding well_framed_def
    by (intro exI [of _ body] exI [of _ fin]) (simp add: terminal_def list_all_iff)
qed

end

text \<open>What the last frame says of the error that was read.\<close>

lemma pumpEnd_eof: "jfield (JObj (fst (pumpEnd err canc))) ''reason'' = Some (JStr ''eof'') \<Longrightarrow> err = None"
  by (simp add: pumpEnd_def Let_def jfield_def endFrame_def errorFrame_def split: option.splits if_splits)

lemma pumpEnd_fails: "snd (pumpEnd err canc) \<noteq> None \<Longrightarrow> \<exists>e. err = Some e \<and> \<not> isCanceled e"
  by (simp add: pumpEnd_def Let_def split: option.splits if_splits)

section \<open>Properties\<close>


definition event_frame :: "nat \<Rightarrow> (unit, jmap) state" where
  "event_frame n = State_Monad.return [(''type'', JStr ''event''), (''n'', JInt (int n))]"


text \<open>
  A stream the server ends cleanly is written out. It has a run in which the pump returns without
  an error, having written every event the server sent, in order, between \<open>ready\<close> and the \<open>eof\<close> end.
\<close>

theorem pump_writes_whole_stream:
  assumes "g_open g = None" and "final_of (g_recv g) = Some None"
  shows "\<exists>v. sees g v \<and>
    run_state (pump rt (\<lambda>ev. State_Monad.return (f ev)) v) w =
      (((JObj (readyFrame rt), False) # concat (map (frameLine \<circ> f) (events_of (g_conv g) (g_recv g)))
          @ [(JObj (endFrame ''eof''), False)], None), w)"
proof -
  obtain es err where v: "sees g (es, err, False)" "complete g es err"
    using ends_sees [of g] assms by (auto simp: ends_def)
  then have "es = events_of (g_conv g) (g_recv g)" "err = None"
    using assms by (auto simp: complete_def)
  with v(1) show ?thesis
    by (intro exI [of _ "(es, err, False)"]) (simp add: run_pump pumpEvents_pure pumpEnd_def)
qed

theorem pump_writes_whole_stream_witness:
  "\<exists>v. sees two_then_eof v \<and>
     (\<exists>out. run_state (pump sample_rt (\<lambda>n. State_Monad.return [(''n'', JInt (int n))]) v) () =
       ((out, None), ()) \<and> length out = 4)"
proof -
  obtain v where "sees two_then_eof v" and
    r: "run_state (pump sample_rt (\<lambda>n. State_Monad.return [(''n'', JInt (int n))]) v) () =
      (((JObj (readyFrame sample_rt), False) #
        concat (map (frameLine \<circ> (\<lambda>n. [(''n'', JInt (int n))])) [1, 2])
          @ [(JObj (endFrame ''eof''), False)], None), ())"
    using pump_writes_whole_stream
        [of two_then_eof sample_rt "\<lambda>n. [(''n'', JInt (int n))]" "()"]
    by (auto simp: two_then_eof_def)
  then show ?thesis
    by (intro exI [of _ v] conjI exI) (assumption, rule r, simp add: frameLine_def writeJSON_def)
qed

end
