(* ===== verification/Handler.thy ===== *)
theory Handler
  imports Pump Globals Input
begin

text \<open>
  What the command handlers of \<^verbatim>\<open>cmd/reckon/cmd_*.go\<close> share: their surroundings, their type,
  and the steps most of them begin and end with. A handler is a step of the state monad over the
  gateway's state; its result is what it wrote to standard output and the error it returned.

  The second half states what every handler keeps (\<open>disciplined\<close>, \<open>one_value\<close>) with one rule for
  each shared step, so that a handler's own proof is its definition and these rules.
\<close>

section \<open>Surroundings and type\<close>

text \<open>
  The run-time parameters, the network, the scheduler's choice of a view of each kind of watch, and
  how many acknowledgements from standard input are made before the subscription is opened, before
  each delivery is handled, and after the last one, before the program ends.
\<close>

record 'w env =
  env_rt :: runtime
  env_net :: "'w network"
  env_events :: "(pb_RecordedEvent option, streams_RecordedEvent) goroutine
    \<Rightarrow> streams_RecordedEvent view"
  env_deliveries :: "(pb_SubscriptionEvent option, Delivery) goroutine \<Rightarrow> Delivery view"
  env_stores :: "(pb_StoreEvent option, StoreEvent) goroutine \<Rightarrow> StoreEvent view"
  env_acks :: "nat \<times> nat list \<times> nat"

text \<open>The choices are ones the goroutines allow.\<close>

definition scheduled :: "'w env \<Rightarrow> bool" where
  "scheduled env \<longleftrightarrow> (\<forall>g. sees g (env_events env g)) \<and> (\<forall>g. sees g (env_deliveries env g)) \<and>
     (\<forall>g. sees g (env_stores env g))"

type_synonym 'w action = "('w, written \<times> cmdError option) state"

type_synonym 'w handler = "'w env \<Rightarrow> ctx \<Rightarrow> opts \<Rightarrow> string list \<Rightarrow> stdin \<Rightarrow> 'w action"

section \<open>Shared steps\<close>

definition fails :: "cliError \<Rightarrow> 'w action" where
  "fails ce = State_Monad.return ([], Some (Cli ce))"

text \<open>\<open>return usageErr(...)\<close>.\<close>

definition misuse :: "'w env \<Rightarrow> string \<Rightarrow> fmtArg list \<Rightarrow> 'w action" where
  "misuse env format args = fails (usageErr (env_rt env) format args)"

text \<open>\<open>if err := o.requireStore(); err != nil { return err }\<close>.\<close>

definition withStore :: "'w env \<Rightarrow> opts \<Rightarrow> 'w action \<Rightarrow> 'w action" where
  "withStore env ov k =
     (case requireStore (env_rt env) ov of Some ce \<Rightarrow> fails ce | None \<Rightarrow> k)"

text \<open>
  \<open>flagsThenArgs(fs, args)\<close>, whose error becomes a usage error with the command's prefix.
\<close>

definition withFlags :: "'w env \<Rightarrow> string \<Rightarrow> flagSet \<Rightarrow> string list \<Rightarrow>
    (flagSet \<Rightarrow> string list \<Rightarrow> 'w action) \<Rightarrow> 'w action" where
  "withFlags env format fs args k =
     (case flagsThenArgs (env_rt env) fs args [] of
        Inl err \<Rightarrow> misuse env format [ArgS err]
      | Inr (fs', rest) \<Rightarrow> k fs' rest)"

text \<open>A value that may fail to parse: the error becomes a usage error.\<close>

definition withValue :: "'w env \<Rightarrow> string \<Rightarrow> string + 'a \<Rightarrow> ('a \<Rightarrow> 'w action) \<Rightarrow> 'w action" where
  "withValue env format r k =
     (case r of Inl err \<Rightarrow> misuse env format [ArgS err] | Inr v \<Rightarrow> k v)"

text \<open>\<open>c, err := o.dial(ctx); if err != nil { return err }; defer c.Close()\<close>.\<close>

definition withClient :: "'w env \<Rightarrow> opts \<Rightarrow> (conn \<Rightarrow> 'w action) \<Rightarrow> 'w action" where
  "withClient env ov k =
     (case dial (env_rt env) (env_net env) ov of Inl ce \<Rightarrow> fails ce | Inr c \<Rightarrow> k c)"

text \<open>\<open>v, err := call; if err != nil { return fromGRPC(err) }; return result(v)\<close>.\<close>

definition reply :: "('w, 'a ret) state \<Rightarrow> ('a \<Rightarrow> written \<times> cmdError option) \<Rightarrow> 'w action" where
  "reply call result = do {
     (v, err) \<leftarrow> call;
     State_Monad.return (case err of
         Some e \<Rightarrow> ([], Some (Cli (fromGRPC e)))
       | None \<Rightarrow> result v)
   }"

text \<open>The same for a call that returns only an error.\<close>

definition replyDone :: "('w, gerror option) state \<Rightarrow> written \<times> cmdError option \<Rightarrow> 'w action" where
  "replyDone call result = do {
     err \<leftarrow> call;
     State_Monad.return (case err of
         Some e \<Rightarrow> ([], Some (Cli (fromGRPC e)))
       | None \<Rightarrow> result)
   }"

text \<open>\<open>writeJSON(out, map[string]any{key: v}, pretty)\<close>.\<close>

definition writeField :: "string \<Rightarrow> json \<Rightarrow> bool \<Rightarrow> written \<times> cmdError option" where
  "writeField key v p = writeJSON (JObj [(key, v)]) p"

text \<open>A slice: every element through the encoder.\<close>

definition writeList :: "('a \<Rightarrow> json) \<Rightarrow> 'a list option \<Rightarrow> bool \<Rightarrow> written \<times> cmdError option" where
  "writeList f xs p =
     writeJSON (JArr (map f (case xs of Some ys \<Rightarrow> ys | None \<Rightarrow> []))) p"

definition eventsResult ::
  "streams_RecordedEvent list option \<Rightarrow> Bytes \<Rightarrow> bool \<Rightarrow> written \<times> cmdError option" where
  "eventsResult evs mode p = writeList (\<lambda>e. encode_Event e mode) evs p"

definition snapshotsResult ::
  "SnapRecord list option \<Rightarrow> Bytes \<Rightarrow> bool \<Rightarrow> written \<times> cmdError option" where
  "snapshotsResult recs mode p = writeList (\<lambda>r. encode_Snapshot r mode) recs p"

text \<open>\<open>strings.Split\<close> at the commas, each part trimmed, the empty ones left out.\<close>

fun splitParts :: "string list \<Rightarrow> string list \<Rightarrow> string list" where
  "splitParts [] out = out"
| "splitParts (p # ps) out =
     (let p = TrimSpace p in splitParts ps (if p \<noteq> '''' then out @ [p] else out))"

definition splitCSV :: "string \<Rightarrow> string list" where
  "splitCSV s = splitParts (Split (CHR '','') s) []"

section \<open>What the shared steps compute\<close>

lemma run_fails [simp]: "run_state (fails ce) w = (([], Some (Cli ce)), w)"
  by (simp add: fails_def)

lemma run_misuse [simp]:
  "run_state (misuse env f as) w = (([], Some (Cli (usageErr (env_rt env) f as))), w)"
  by (simp add: misuse_def)

lemma run_reply:
  "run_state (reply call result) w =
     (case run_state call w of
        ((v, Some e), w') \<Rightarrow> (([], Some (Cli (fromGRPC e))), w')
      | ((v, None), w') \<Rightarrow> (result v, w'))"
  by (simp add: reply_def split: prod.splits option.splits)

lemma run_replyDone:
  "run_state (replyDone call result) w =
     (case run_state call w of
        (Some e, w') \<Rightarrow> (([], Some (Cli (fromGRPC e))), w')
      | (None, w') \<Rightarrow> (result, w'))"
  by (simp add: replyDone_def split: prod.splits option.splits)

lemma splitParts_append: "splitParts ps out = out @ filter (\<lambda>p. p \<noteq> '''') (map TrimSpace ps)"
  by (induction ps arbitrary: out) (auto simp: Let_def)

lemma splitCSV_filter: "splitCSV s = filter (\<lambda>p. p \<noteq> '''') (map TrimSpace (Split (CHR '','') s))"
  by (simp add: splitCSV_def splitParts_append)

section \<open>What every handler keeps\<close>

text \<open>
  The rows of the design document's table for a status number: the name and the exit code of an error
  with that status. The number -1 stands for an error that is not the gateway's.
\<close>

definition documented_rows :: "int \<Rightarrow> (string \<times> int) list" where
  "documented_rows status =
     (if status = - 1 then [(''internal'', 1), (''usage'', 2), (''unreachable'', 6)]
      else case map_of exit_table status of Some row \<Rightarrow> [row] | None \<Rightarrow> [(''internal'', 1)])"

definition documented :: "cliError \<Rightarrow> bool" where
  "documented ce \<longleftrightarrow> (cliError.Code ce, Exit ce) \<in> set (documented_rows (GRPC ce))"

definition exit_codes :: "int set" where
  "exit_codes = {1, 2, 3, 4, 5, 6, 7, 8, 9}"

lemma documented_exit: "documented ce \<Longrightarrow> Exit ce \<in> exit_codes"
  by (auto simp: documented_def documented_rows_def exit_table_def exit_codes_def
      split: if_splits option.splits)

text \<open>The errors before the first call: misuse, and a gateway that is not there.\<close>

definition refusal :: "cliError \<Rightarrow> bool" where
  "refusal ce \<longleftrightarrow> documented ce \<and> Exit ce \<in> {2, 6}"

abbreviation exit_of :: "cmdError \<Rightarrow> int" where
  "exit_of e \<equiv> Exit (asCliError e)"

text \<open>
  The error a handler returns is a documented one, and a handler that reports a usage error (2) or an
  unreachable gateway (6) has called nothing and written nothing.
\<close>

definition disciplined :: "'w action \<Rightarrow> bool" where
  "disciplined m \<longleftrightarrow> (\<forall>w out err w'. run_state m w = ((out, Some err), w') \<longrightarrow>
     documented (asCliError err) \<and> (exit_of err \<in> {2, 6} \<longrightarrow> w' = w \<and> out = []))"

text \<open>A handler that writes one value when it succeeds, and nothing when it fails.\<close>

definition one_value :: "bool \<Rightarrow> 'w action \<Rightarrow> bool" where
  "one_value p m \<longleftrightarrow> (\<forall>w out err w'. run_state m w = ((out, err), w') \<longrightarrow>
     (case err of None \<Rightarrow> \<exists>v. out = [(v, p)] \<and> json_ok v | Some _ \<Rightarrow> out = []))"

text \<open>Results that come from \<open>writeJSON\<close>.\<close>

definition from_writeJSON :: "bool \<Rightarrow> written \<times> cmdError option \<Rightarrow> bool" where
  "from_writeJSON p r \<longleftrightarrow> (\<exists>v. r = writeJSON v p)"

named_theorems kept \<open>rules that a handler keeps the discipline\<close>

lemma from_writeJSON [kept]:
  "from_writeJSON p (writeJSON v p)" "from_writeJSON p (writeField key v p)"
  "from_writeJSON p (writeList f xs p)" "from_writeJSON p (eventsResult evs mode p)"
  "from_writeJSON p (snapshotsResult recs mode p)"
  unfolding from_writeJSON_def writeField_def writeList_def eventsResult_def snapshotsResult_def
  by blast+

definition some_writeJSON :: "written \<times> cmdError option \<Rightarrow> bool" where
  "some_writeJSON r \<longleftrightarrow> (\<exists>p. from_writeJSON p r)"

lemma some_writeJSON [kept]:
  "some_writeJSON (writeJSON v p)" "some_writeJSON (writeField key v p)"
  "some_writeJSON (writeList f xs p)" "some_writeJSON (eventsResult evs mode p)"
  "some_writeJSON (snapshotsResult recs mode p)"
  unfolding some_writeJSON_def using from_writeJSON by blast+

lemma writeJSON_cases:
  assumes "from_writeJSON p (out, err)"
  shows "(\<exists>v. out = [(v, p)] \<and> json_ok v \<and> err = None) \<or> (\<exists>s. out = [] \<and> err = Some (Other s))"
  using assms by (auto simp: from_writeJSON_def writeJSON_def split: if_splits option.splits)

lemma exit_Other [simp]: "exit_of (Other s) = 1"
  by (simp add: asCliError_def mkError_def)

lemma asCliError_Cli [simp]: "asCliError (Cli ce) = ce"
  by (simp add: asCliError_def)

lemma documented_Other: "documented (asCliError (Other s))"
  by (simp add: documented_def documented_rows_def asCliError_def mkError_def)

lemma documented_fromGRPC: "documented (fromGRPC e)"
  by (auto simp: documented_def documented_rows_def fromGRPC_def exit_table_def codes_defs mkError_def
      Let_def split: option.split)

lemma exit_fromGRPC: "Exit (fromGRPC e) \<notin> {2, 6}"
  by (simp add: fromGRPC_def mkError_def Let_def split: option.split)

lemma disciplined_fails: "documented ce \<Longrightarrow> disciplined (fails ce)"
  by (simp add: disciplined_def)

lemma refusal_usageErr: "refusal (usageErr rt f as)"
  by (simp add: refusal_def documented_def documented_rows_def)

lemma refusal_requireStore: "requireStore rt ov = Some ce \<Longrightarrow> refusal ce"
  by (auto simp: requireStore_def refusal_usageErr split: if_splits)

lemma refusal_dial: "dial rt net ov = Inl ce \<Longrightarrow> refusal ce"
  by (auto simp: dial_def mkError_def refusal_def documented_def documented_rows_def split: sum.splits)

lemma one_value_fails: "one_value p (fails ce)"
  by (simp add: one_value_def)

text \<open>
  The contract of a property of handlers: it holds of the failures before the first call, and then
  every shared step keeps it.
\<close>

locale handler_property =
  fixes keeps :: "'w action \<Rightarrow> bool"
  assumes keeps_fails: "refusal ce \<Longrightarrow> keeps (fails ce)"
begin

lemma keeps_misuse [kept]: "keeps (misuse env f as)"
  by (simp add: misuse_def keeps_fails refusal_usageErr)

lemma keeps_withStore [kept]: "keeps k \<Longrightarrow> keeps (withStore env ov k)"
  by (auto simp: withStore_def dest: refusal_requireStore intro!: keeps_fails split: option.split)

lemma keeps_withFlags [kept]:
  "(\<And>fs' rest. keeps (k fs' rest)) \<Longrightarrow> keeps (withFlags env f fs args k)"
  by (auto simp: withFlags_def intro: keeps_misuse split: sum.split prod.split)

lemma keeps_withValue [kept]: "(\<And>v. keeps (k v)) \<Longrightarrow> keeps (withValue env f r k)"
  by (auto simp: withValue_def intro: keeps_misuse split: sum.split)

lemma keeps_withClient [kept]: "(\<And>c. keeps (k c)) \<Longrightarrow> keeps (withClient env ov k)"
  by (auto simp: withClient_def dest!: refusal_dial intro!: keeps_fails split: sum.split)

lemma keeps_if [kept]: "(b \<Longrightarrow> keeps m) \<Longrightarrow> (\<not> b \<Longrightarrow> keeps n) \<Longrightarrow> keeps (if b then m else n)"
  by simp

end

interpretation disciplined: handler_property disciplined
  by unfold_locales (simp add: disciplined_fails refusal_def)

interpretation one_value: handler_property "one_value p" for p
  by unfold_locales (rule one_value_fails)

lemma disciplined_reply [kept]:
  assumes "\<And>v. some_writeJSON (result v)"
  shows "disciplined (reply call result)"
  unfolding disciplined_def
proof (intro allI impI)
  fix w out err w'
  assume r: "run_state (reply call result) w = ((out, Some err), w')"
  obtain v e w1 where c: "run_state call w = ((v, e), w1)" by (metis prod.exhaust)
  show "documented (asCliError err) \<and> (exit_of err \<in> {2, 6} \<longrightarrow> w' = w \<and> out = [])"
  proof (cases e)
    case None
    with r c have "(out, Some err) = result v" by (simp add: run_reply)
    with assms [of v] obtain p where "from_writeJSON p (out, Some err)"
      by (auto simp: some_writeJSON_def)
    with writeJSON_cases [of p out "Some err"] obtain s where "err = Other s" by auto
    then show ?thesis by (simp add: documented_Other)
  next
    case (Some g)
    with r c have "err = Cli (fromGRPC g)" by (auto simp: run_reply)
    with exit_fromGRPC [of g] documented_fromGRPC [of g] show ?thesis by auto
  qed
qed

lemma replyDone_reply:
  "replyDone call result = reply (do { err \<leftarrow> call; State_Monad.return ((), err) }) (\<lambda>_. result)"
  by (simp add: replyDone_def reply_def)

lemma disciplined_replyDone [kept]:
  "some_writeJSON result \<Longrightarrow> disciplined (replyDone call result)"
  unfolding replyDone_reply by (rule disciplined_reply)

lemma one_value_reply [kept]:
  assumes "\<And>v. from_writeJSON p (result v)"
  shows "one_value p (reply call result)"
  unfolding one_value_def
proof (intro allI impI)
  fix w out err w'
  assume r: "run_state (reply call result) w = ((out, err), w')"
  obtain v e w1 where c: "run_state call w = ((v, e), w1)" by (metis prod.exhaust)
  show "case err of None \<Rightarrow> \<exists>v. out = [(v, p)] \<and> json_ok v | Some _ \<Rightarrow> out = []"
  proof (cases e)
    case None
    with r c have "(out, err) = result v" by (simp add: run_reply)
    with writeJSON_cases [of p out err] assms [of v] show ?thesis by auto
  next
    case (Some g)
    with r c show ?thesis by (auto simp: run_reply)
  qed
qed

lemma one_value_replyDone [kept]:
  "from_writeJSON p result \<Longrightarrow> one_value p (replyDone call result)"
  unfolding replyDone_reply by (rule one_value_reply)

text \<open>What follows a gateway call is neither a usage error nor an unreachable gateway.\<close>

definition past_usage :: "'w action \<Rightarrow> bool" where
  "past_usage m \<longleftrightarrow> (\<forall>w out err w'. run_state m w = ((out, Some err), w') \<longrightarrow>
     documented (asCliError err) \<and> exit_of err \<notin> {2, 6})"

lemma past_usage_disciplined: "past_usage m \<Longrightarrow> disciplined m"
  unfolding past_usage_def disciplined_def by blast

lemma past_usage_bind [kept]: "(\<And>x. past_usage (k x)) \<Longrightarrow> past_usage (m \<bind> k)"
  unfolding past_usage_def by (simp split: prod.splits)

lemma past_usage_pump [kept]: "past_usage (pump rt frame v)"
proof -
  obtain evs err canc where v: "v = (evs, err, canc)" by (cases v)
  have "documented (asCliError e) \<and> exit_of e \<notin> {2, 6}" if "snd (pumpEnd err canc) = Some e" for e
    using that exit_fromGRPC documented_fromGRPC by (auto simp: pumpEnd_def Let_def split: option.splits if_splits)
  then show ?thesis
    by (auto simp: past_usage_def v run_pump split: prod.splits)
qed

lemmas disciplined_bind [kept] = past_usage_disciplined [OF past_usage_bind]

text \<open>What is done beside the output of an action, after it, changes nothing that it returns.\<close>

definition and_also :: "'w action \<Rightarrow> ('w, 'a) state \<Rightarrow> 'w action" where
  "and_also m k = do { r \<leftarrow> m; _ \<leftarrow> k; State_Monad.return r }"

lemma run_and_also:
  "run_state (and_also m k) w =
     (case run_state m w of (r, w') \<Rightarrow> (r, snd (run_state k w')))"
  by (simp add: and_also_def split: prod.split)

lemma past_usage_and_also [kept]: "past_usage m \<Longrightarrow> past_usage (and_also m k)"
  unfolding past_usage_def by (auto simp: run_and_also split: prod.splits)

section \<open>Handlers that stream\<close>

text \<open>
  A handler that fails before it begins, or writes one framed stream of frames of type \<open>ty\<close>.
\<close>

definition one_stream :: "runtime \<Rightarrow> string \<Rightarrow> 'w action \<Rightarrow> bool" where
  "one_stream rt ty m \<longleftrightarrow> (\<forall>w out err w'. run_state m w = ((out, err), w') \<longrightarrow>
     (out = [] \<and> (\<exists>e. err = Some e \<and> exit_of e \<in> {2, 6})) \<or> (\<exists>n. well_framed rt ty n out err))"

interpretation one_stream: handler_property "one_stream rt ty" for rt ty
  by unfold_locales (simp add: one_stream_def refusal_def)

lemma one_stream_and_also [kept]: "one_stream rt ty m \<Longrightarrow> one_stream rt ty (and_also m k)"
  unfolding one_stream_def by (fastforce simp: run_and_also split: prod.splits)

lemma one_stream_bind [kept]: "(\<And>x. one_stream rt ty (k x)) \<Longrightarrow> one_stream rt ty (m \<bind> k)"
  unfolding one_stream_def by (simp split: prod.splits)

context framing
begin

lemma pump_one_stream: "one_stream rt ty (pump rt frame v)"
proof (cases v)
  case (fields evs err canc)
  then show ?thesis unfolding one_stream_def using pump_well_framed by blast
qed

end

section \<open>What is written can be encoded\<close>

text \<open>Values that can be encoded, indented only if the option \<open>p\<close> says so; a handler that writes such.\<close>

definition encodable :: "bool \<Rightarrow> written \<Rightarrow> bool" where
  "encodable p ws \<longleftrightarrow> (\<forall>(v, q) \<in> set ws. json_ok v \<and> (q \<longrightarrow> p))"

definition writes_ok :: "bool \<Rightarrow> 'w action \<Rightarrow> bool" where
  "writes_ok p m \<longleftrightarrow> (\<forall>w. encodable p (fst (fst (run_state m w))))"

lemma encodable_append [simp]: "encodable p (xs @ ys) \<longleftrightarrow> encodable p xs \<and> encodable p ys"
  by (auto simp: encodable_def)

lemma encodable_simps [simp]:
  "encodable p []" "encodable p ((v, q) # ws) \<longleftrightarrow> json_ok v \<and> (q \<longrightarrow> p) \<and> encodable p ws"
  by (auto simp: encodable_def)

lemma encodable_frameLine [simp]: "encodable p (frameLine m)"
  by (auto simp: encodable_def frameLine_def writeJSON_def)

interpretation writes_ok: handler_property "writes_ok p" for p
  by unfold_locales (simp add: writes_ok_def)

lemma writes_ok_bind [kept]: "(\<And>x. writes_ok p (k x)) \<Longrightarrow> writes_ok p (m \<bind> k)"
  unfolding writes_ok_def by (simp split: prod.splits)

lemma writes_ok_and_also [kept]: "writes_ok p m \<Longrightarrow> writes_ok p (and_also m k)"
  unfolding writes_ok_def by (simp add: run_and_also case_prod_beta)

lemma one_value_writes_ok:
  assumes "one_value p m"
  shows "writes_ok p m"
  unfolding writes_ok_def
proof
  fix w
  obtain out err w' where r: "run_state m w = ((out, err), w')" by (metis prod.exhaust)
  with assms have "case err of None \<Rightarrow> \<exists>v. out = [(v, p)] \<and> json_ok v | Some _ \<Rightarrow> out = []"
    unfolding one_value_def by blast
  then show "encodable p (fst (fst (run_state m w)))"
    by (auto simp: r encodable_def split: option.splits)
qed

lemma encodable_pumpEvents:
  "run_state (pumpEvents frame evs) w = (ws, w') \<Longrightarrow> encodable p ws"
proof (induction evs arbitrary: w ws w')
  case (Cons ev evs)
  obtain m w1 where m: "run_state (frame ev) w = (m, w1)" by fastforce
  obtain ws' w2 where ws': "run_state (pumpEvents frame evs) w1 = (ws', w2)" by fastforce
  from Cons.prems m ws' have "ws = frameLine m @ ws'" by simp
  with Cons.IH [OF ws'] show ?case by simp
qed simp

lemma writes_ok_pump [kept]: "writes_ok p (pump rt frame v)"
proof -
  obtain evs err canc where v: "v = (evs, err, canc)" by (cases v)
  show ?thesis
    unfolding writes_ok_def
  proof
    fix w
    obtain ws w' where b: "run_state (pumpEvents frame evs) w = (ws, w')" by fastforce
    show "encodable p (fst (fst (run_state (pump rt frame v) w)))"
      using encodable_pumpEvents [OF b] by (simp add: pump_def v b readyFrame_def split: prod.split)
  qed
qed

text \<open>Values that are not indented are written one on each line.\<close>

lemma scanLines_written:
  assumes "float_text (rt_FormatFloat rt)" and "encodable False ws"
  shows "scanLines (writtenText rt ws) = map (render (rt_FormatFloat rt) \<circ> fst) ws"
proof -
  have "Split (CHR 0x0A) (writtenText rt ws) = map (render (rt_FormatFloat rt) \<circ> fst) ws @ [[]]"
    using assms(2)
  proof (induction ws)
    case (Cons vq ws)
    then have "json_ok (fst vq)" "\<not> snd vq" by (auto simp: encodable_def)
    with Cons show ?case
      using Split_append [OF render_line [OF assms(1)]]
      by (cases vq) (simp add: writtenText_def encodeLine_def)
  qed (simp add: writtenText_def)
  then show ?thesis by (simp add: scanLines_def butlast_append)
qed

section \<open>Handlers behind a store firewall\<close>

definition behind :: "string \<Rightarrow> 'w env \<Rightarrow> 'w env" where
  "behind s env = env\<lparr>env_net := net_firewall s (env_net env)\<rparr>"

lemma behind_simps [simp]:
  "env_rt (behind s env) = env_rt env"
  "env_net (behind s env) = net_firewall s (env_net env)"
  "env_events (behind s env) = env_events env"
  "env_deliveries (behind s env) = env_deliveries env"
  "env_stores (behind s env) = env_stores env"
  "env_acks (behind s env) = env_acks env"
  by (simp_all add: behind_def)

lemma behind_steps [firewall]:
  "misuse (behind s env) = misuse env"
  "withStore (behind s env) = withStore env"
  "withFlags (behind s env) = withFlags env"
  "withValue (behind s env) = withValue env"
  "withClient (behind s env) = withClient env"
  by (simp_all add: fun_eq_iff misuse_def withStore_def withFlags_def withValue_def withClient_def
      dial_firewall split: option.split sum.split)

lemma net_stubs_firewall [firewall]:
  "st_streams (net_stubs (net_firewall s net) c) = streams_firewall s (st_streams (net_stubs net c))"
  "st_subs (net_stubs (net_firewall s net) c) = subs_firewall s (st_subs (net_stubs net c))"
  "st_snaps (net_stubs (net_firewall s net) c) = snaps_firewall s (st_snaps (net_stubs net c))"
  "st_schema (net_stubs (net_firewall s net) c) = schema_firewall s (st_schema (net_stubs net c))"
  "st_temporal (net_stubs (net_firewall s net) c)
     = temporal_firewall s (st_temporal (net_stubs net c))"
  "st_stores (net_stubs (net_firewall s net) c) = st_stores (net_stubs net c)"
  "st_health (net_stubs (net_firewall s net) c) = health_firewall s (st_health (net_stubs net c))"
  "st_admin (net_stubs (net_firewall s net) c) = admin_firewall s (st_admin (net_stubs net c))"
  by (simp_all add: net_firewall_def stubs_firewall_def)

text \<open>A handler that sends nothing about another store than the one it was given.\<close>

definition bound :: "'w handler \<Rightarrow> bool" where
  "bound h \<longleftrightarrow> (\<forall>env ctx ov args input.
     h (behind (opts.store ov) env) ctx ov args input = h env ctx ov args input)"

section \<open>Lists of words\<close>

lemma Split_joinComma:
  "xs \<noteq> [] \<Longrightarrow> \<forall>x \<in> set xs. CHR '','' \<notin> set x \<Longrightarrow> Split (CHR '','') (joinComma xs) = xs"
  by (induction xs rule: joinComma.induct) (simp_all add: Split_noop Split_append)

text \<open>
  A comma-separated argument is the list of its words: every word has a text and no comma, and
  the words of a list joined by commas are that list when none of them is empty, has a comma or has
  white space around it.
\<close>

theorem csv_words:
  assumes "\<forall>x \<in> set xs. x \<noteq> '''' \<and> CHR '','' \<notin> set x \<and> TrimSpace x = x"
  shows "splitCSV (joinComma xs) = xs \<and> list_all (\<lambda>w. w \<noteq> '''' \<and> CHR '','' \<notin> set w) (splitCSV s)"
proof
  show "splitCSV (joinComma xs) = xs"
  proof (cases "xs = []")
    case True
    have "TrimSpace '''' = ''''"
      using TrimSpace_set [of "''''"] by auto
    with True show ?thesis by (simp add: splitCSV_filter)
  next
    case False
    with assms have "Split (CHR '','') (joinComma xs) = xs" by (simp add: Split_joinComma)
    moreover have "map TrimSpace xs = xs" using assms by (simp add: map_idI)
    ultimately show ?thesis using assms by (simp add: splitCSV_filter)
  qed
  show "list_all (\<lambda>w. w \<noteq> '''' \<and> CHR '','' \<notin> set w) (splitCSV s)"
    using Split_pieces [of "CHR '',''" s] TrimSpace_set
    by (fastforce simp: splitCSV_filter list_all_iff)
qed

theorem csv_words_witness: "splitCSV ''a,bc'' = [''a'', ''bc'']"
proof -
  have "TrimSpace ''a'' = ''a''" "TrimSpace ''bc'' = ''bc''"
    by (rule TrimSpace_noop; simp add: spaceRunes_def upt_rec char_of_eq_iff take_bit_eq_mod)+
  with csv_words [of "[''a'', ''bc'']" "''''"] show ?thesis by simp
qed

text \<open>Surroundings for the witnesses.\<close>

definition sample_env :: "nat env" where
  "sample_env = \<lparr>env_rt = sample_rt, env_net = sample_net,
     env_events = \<lambda>_. ([], None, False), env_deliveries = \<lambda>_. ([], None, False),
     env_stores = \<lambda>_. ([], None, False), env_acks = (0, [], 0)\<rparr>"

lemma sample_printable: "printable (time_UnixMilli 0)" "printable (time_UnixMicro 0)"
proof -
  have "cycle 36524 134774 = (3, 25202)" "cycle 365 365 = (1, 0)" by (simp_all add: cycle_def)
  then have "year_of_days 719162 = (1970, 0)" by (simp add: year_of_days_def)
  then have "printableYear (Instant 0)" by (simp add: printableYear_def unixSec_def)
  then show "printable (time_UnixMilli 0)" "printable (time_UnixMicro 0)"
    by (simp_all add: printable_def time_UnixMilli_def time_UnixMicro_def)
qed

text \<open>With a scheduler for every watch.\<close>

definition patient_env :: "'w env \<Rightarrow> 'w env" where
  "patient_env env = env\<lparr>env_events := patient_view, env_deliveries := patient_view,
     env_stores := patient_view\<rparr>"

lemma scheduled_patient: "scheduled (patient_env env)"
  by (simp add: scheduled_def patient_env_def sees_patient_view)

definition sample_opts :: opts where
  "sample_opts = \<lparr>opts.endpoint = ''localhost:50051'', store = ''orders'', timeout = 5000000000,
     bytes = Auto, pretty = False, showVersion = False, plaintext = True, caFile = '''',
     serverName = ''''\<rparr>"

end
