(* ===== verification/CmdStreams.thy ===== *)
theory CmdStreams
  imports Handler Replay
begin

text \<open>The commands on streams: \<^verbatim>\<open>cmd/reckon/cmd_streams.go\<close>.\<close>

definition streamsList :: "'w handler" where
  "streamsList env ctx ov args input =
     withStore env ov (withClient env ov (\<lambda>c.
       let rctx = rpcCtx ov ctx in
       reply (streams_List (Client_Streams (env_net env) c (opts.store ov)) rctx)
         (\<lambda>ids. writeList JStr ids (pretty ov))))"

definition streamsRead :: "'w handler" where
  "streamsRead env ctx ov args input =
     withStore env ov (
     withFlags env ''streams read: %v''
       [(''from'', FUint64 0), (''count'', FUint64 100), (''backward'', FBool False)] args
       (\<lambda>fs rest.
         if length rest \<noteq> 1 then
           misuse env ''streams read: expected exactly one <stream> argument'' []
         else withClient env ov (\<lambda>c.
           let rctx = rpcCtx ov ctx;
               sc = Client_Streams (env_net env) c (opts.store ov);
               read = (if getBool fs ''backward'' then streams_ReadBackward sc
                       else streams_Read sc) in
           reply (read rctx (rest ! 0) (getUint64 fs ''from'') (getUint64 fs ''count''))
             (\<lambda>evs. eventsResult evs (opts.bytes ov) (pretty ov)))))"

definition streamsVersion :: "'w handler" where
  "streamsVersion env ctx ov args input =
     withStore env ov (
       if length args \<noteq> 1 then
         misuse env ''streams version: expected exactly one <stream> argument'' []
       else withClient env ov (\<lambda>c.
         let rctx = rpcCtx ov ctx in
         reply (streams_Version (Client_Streams (env_net env) c (opts.store ov)) rctx (args ! 0))
           (\<lambda>v. writeField ''version'' (JInt (sint v)) (pretty ov))))"

definition streamsDelete :: "'w handler" where
  "streamsDelete env ctx ov args input =
     withStore env ov (
       if length args \<noteq> 1 then
         misuse env ''streams delete: expected exactly one <stream> argument'' []
       else withClient env ov (\<lambda>c.
         let rctx = rpcCtx ov ctx in
         replyDone (streams_Delete (Client_Streams (env_net env) c (opts.store ov)) rctx (args ! 0))
           (writeField ''deleted'' (JBool True) (pretty ov))))"

definition streamsAppend :: "'w handler" where
  "streamsAppend env ctx ov args input =
     withStore env ov (
     withFlags env ''streams append: %v'' [(''expect'', FStr ''any'')] args (\<lambda>fs rest.
       if length rest \<noteq> 1 then
         misuse env ''streams append: expected exactly one <stream> argument'' []
       else
         withValue env ''streams append: %v''
           (parseExpected (env_rt env) (getStr fs ''expect'')) (\<lambda>ev.
         withValue env ''streams append: reading events from stdin: %v''
           (readProposedEvents (env_rt env) input) (\<lambda>events.
         withClient env ov (\<lambda>c.
           let rctx = rpcCtx ov ctx in
           reply (streams_Append (Client_Streams (env_net env) c (opts.store ov)) rctx (rest ! 0)
               ev events)
             (\<lambda>res. writeJSON (JObj [
                (''version'', JInt (uint (AppendResult.Version res))),
                (''position'', JInt (uint (AppendResult.Position res))),
                (''count'', JInt (uint (AppendResult.Count res)))]) (pretty ov)))))))"

definition streamsByTypes :: "'w handler" where
  "streamsByTypes env ctx ov args input =
     withStore env ov (
     withFlags env ''streams by-types: %v'' [(''batch'', FUint64 100)] args (\<lambda>fs rest.
       if length rest \<noteq> 1 then
         misuse env ''streams by-types: expected comma-separated <types>'' []
       else withClient env ov (\<lambda>c.
         let rctx = rpcCtx ov ctx in
         reply (streams_ReadByEventTypes (Client_Streams (env_net env) c (opts.store ov)) rctx
             (Some (splitCSV (rest ! 0))) (getUint64 fs ''batch''))
           (\<lambda>evs. eventsResult evs (opts.bytes ov) (pretty ov)))))"

definition streamsByTags :: "'w handler" where
  "streamsByTags env ctx ov args input =
     withStore env ov (
     withFlags env ''streams by-tags: %v'' [(''match'', FStr ''any''), (''batch'', FUint64 100)] args
       (\<lambda>fs rest.
       if length rest \<noteq> 1 then
         misuse env ''streams by-tags: expected comma-separated <tags>'' []
       else let match = getStr fs ''match'' in
         if match \<noteq> ''any'' \<and> match \<noteq> '''' \<and> match \<noteq> ''all'' then
           misuse env ''streams by-tags: invalid --match %q (want any|all)'' [ArgQ match]
         else let tm = (if match = ''all'' then TagMatchAll else TagMatchAny) in
           withClient env ov (\<lambda>c.
             let rctx = rpcCtx ov ctx in
             reply (streams_ReadByTags (Client_Streams (env_net env) c (opts.store ov)) rctx
                 (Some (splitCSV (rest ! 0))) tm (getUint64 fs ''batch''))
               (\<lambda>evs. eventsResult evs (opts.bytes ov) (pretty ov)))))"

definition streamsAll :: "'w handler" where
  "streamsAll env ctx ov args input =
     withStore env ov (
     withFlags env ''streams all: %v'' [(''offset'', FUint64 0), (''limit'', FUint64 100)] args
       (\<lambda>fs rest.
       withClient env ov (\<lambda>c.
         let rctx = rpcCtx ov ctx in
         reply (streams_ReadAllGlobal (Client_Streams (env_net env) c (opts.store ov)) rctx
             (getUint64 fs ''offset'') (getUint64 fs ''limit''))
           (\<lambda>evs. eventsResult evs (opts.bytes ov) (pretty ov)))))"

text \<open>The frame of an event; the pump has the command's own context, without a deadline.\<close>

definition eventFrame :: "opts \<Rightarrow> streams_RecordedEvent \<Rightarrow> jmap" where
  "eventFrame ov e = [(''type'', JStr ''event''), (''event'', encode_Event e (opts.bytes ov))]"

definition streamsWatch :: "'w handler" where
  "streamsWatch env ctx ov args input =
     withStore env ov (
     withFlags env ''streams watch: %v'' [(''from'', FUint64 0), (''count'', FUint64 0)] args
       (\<lambda>fs rest.
       if length rest \<noteq> 1 then
         misuse env ''streams watch: expected exactly one <stream> argument'' []
       else withClient env ov (\<lambda>c. do {
         g \<leftarrow> streams_Watch (Client_Streams (env_net env) c (opts.store ov)) ctx (rest ! 0)
               (getUint64 fs ''from'') (getUint64 fs ''count'');
         pump (env_rt env) (\<lambda>e. State_Monad.return (eventFrame ov e)) (env_events env g)
       })))"

lemmas stream_commands =
  streamsList_def streamsRead_def streamsVersion_def streamsDelete_def streamsAppend_def
  streamsByTypes_def streamsByTags_def streamsAll_def streamsWatch_def

lemma stream_commands_bound [firewall]:
  "bound streamsList" "bound streamsRead" "bound streamsVersion" "bound streamsDelete"
  "bound streamsAppend" "bound streamsByTypes" "bound streamsByTags" "bound streamsAll"
  "bound streamsWatch"
  by (simp_all add: bound_def stream_commands firewall Client_Streams_def Let_def cong: if_cong)

lemma stream_commands_kept [kept]:
  "disciplined (streamsList env ctx ov args input)"
  "disciplined (streamsRead env ctx ov args input)"
  "disciplined (streamsVersion env ctx ov args input)"
  "disciplined (streamsDelete env ctx ov args input)"
  "disciplined (streamsAppend env ctx ov args input)"
  "disciplined (streamsByTypes env ctx ov args input)"
  "disciplined (streamsByTags env ctx ov args input)"
  "disciplined (streamsAll env ctx ov args input)"
  unfolding stream_commands Let_def by (intro kept)+

lemma stream_commands_one_value [kept]:
  "one_value (pretty ov) (streamsList env ctx ov args input)"
  "one_value (pretty ov) (streamsRead env ctx ov args input)"
  "one_value (pretty ov) (streamsVersion env ctx ov args input)"
  "one_value (pretty ov) (streamsDelete env ctx ov args input)"
  "one_value (pretty ov) (streamsAppend env ctx ov args input)"
  "one_value (pretty ov) (streamsByTypes env ctx ov args input)"
  "one_value (pretty ov) (streamsByTags env ctx ov args input)"
  "one_value (pretty ov) (streamsAll env ctx ov args input)"
  unfolding stream_commands Let_def by (intro kept)+

lemma streamsWatch_kept [kept]: "disciplined (streamsWatch env ctx ov args input)"
  unfolding streamsWatch_def Let_def by (intro kept)

text \<open>The frames of a watch keep the contract of the pump.\<close>

interpretation event_frames: framing "\<lambda>e. State_Monad.return (eventFrame ov e)" "''event''" for ov
  by unfold_locales (auto simp: frames_of_def eventFrame_def json_ok_Event)

lemma streamsWatch_stream [kept]:
  "one_stream (env_rt env) ''event'' (streamsWatch env ctx ov args input)"
  unfolding streamsWatch_def by (intro kept event_frames.pump_one_stream)

section \<open>Reading and appending, end to end\<close>

definition reader_env :: "nat env" where
  "reader_env = sample_env\<lparr>env_net := sample_net\<lparr>net_stubs := \<lambda>_. undefined\<lparr>st_streams := undefined
     \<lparr>ReadStreamForward := \<lambda>_ _. State_Monad.return
        (Some \<lparr>pb_ReadStreamResponse.Events = [None]\<rparr>, None),
      AppendEvents := \<lambda>_ _. State_Monad.return
        (Some \<lparr>pb_AppendEventsResponse.Version = 6, Position = 40, Count = 0\<rparr>, None)\<rparr>\<rparr>\<rparr>\<rparr>"

lemma reader_dial: "\<exists>c. dial (env_rt reader_env) (env_net reader_env) sample_opts = Inr c"
  by (simp add: dial_def transport_def Connect_def reader_env_def sample_opts_def sample_env_def
      sample_net_def Let_def)

lemma streamsRead_run:
  assumes "opts.store ov \<noteq> ''''" and "dial (env_rt env) (env_net env) ov = Inr c"
    and "\<not> isFlag stream"
    and "run_state (ReadStreamForward (st_streams (net_stubs (env_net env) c)) (rpcCtx ov ctx)
        \<lparr>StoreScoped.StoreId = opts.store ov, StreamScoped.StreamId = stream, StartVersion = 0,
         Count = 100\<rparr>) w = ((Some \<lparr>pb_ReadStreamResponse.Events = ps\<rparr>, None), w')"
    and "pretty ov \<longrightarrow> (\<forall>p \<in> set ps. shallow (recordedFromProto p))"
  shows "run_state (streamsRead env ctx ov [stream] input) w =
    (([(printed_list (opts.bytes ov) (map recordedFromProto ps), pretty ov)], None), w')"
proof -
  let ?v = "printed_list (opts.bytes ov) (map recordedFromProto ps)"
  have ok: "json_ok ?v" by (simp add: printed_list_def json_ok_Event)
  have "pretty ov \<Longrightarrow> tooDeep ?v = None"
    using assms(5) by (intro tooDeep_None ok nests_printed_list) simp
  then have "writeJSON ?v (pretty ov) = ([(?v, pretty ov)], None)"
    using ok by (simp add: writeJSON_def)
  then have "eventsResult (Some (map recordedFromProto ps)) (opts.bytes ov) (pretty ov) =
      ([(?v, pretty ov)], None)"
    by (simp add: eventsResult_def writeList_def printed_list_def)
  then show ?thesis using assms(1-4)
    by (simp add: streamsRead_def withStore_def requireStore_def withFlags_def flagsThenArgs_one
        withClient_def run_reply Client_Streams_def streams_New_def streams_Read_def run_unary
        getBool_def getUint64_def recordedSliceFromProto_def range_append_map)
qed

text \<open>
  C11: Reading a stream prints what the gateway sent. The command asks for the stream once, from
  version 0 and for 100 events unless told otherwise, and writes one JSON array whose elements, read
  back, are the recorded events of the answer, all of them, in order. (Indented output must not nest
  deeper than the JSON scanner goes.)
\<close>

theorem read_prints_what_was_sent:
  assumes "opts.store ov \<noteq> ''''" and "dial (env_rt env) (env_net env) ov = Inr c"
    and "\<not> isFlag stream"
    and "run_state (ReadStreamForward (st_streams (net_stubs (env_net env) c)) (rpcCtx ov ctx)
        \<lparr>StoreScoped.StoreId = opts.store ov, StreamScoped.StreamId = stream, StartVersion = 0,
         Count = 100\<rparr>) w = ((Some \<lparr>pb_ReadStreamResponse.Events = ps\<rparr>, None), w')"
    and "\<forall>p \<in> set ps. printable (streams_RecordedEvent.Timestamp (recordedFromProto p)) \<and>
      printable (streams_RecordedEvent.Epoch (recordedFromProto p))"
    and "pretty ov \<longrightarrow> (\<forall>p \<in> set ps. shallow (recordedFromProto p))"
  shows "\<exists>js. run_state (streamsRead env ctx ov [stream] input) w =
      (([(JArr js, pretty ov)], None), w') \<and>
    map event_of_json js = map (\<lambda>p. Some (with_tags (recordedFromProto p))) ps"
proof -
  let ?js = "map (\<lambda>p. encode_Event (recordedFromProto p) (opts.bytes ov)) ps"
  have "run_state (streamsRead env ctx ov [stream] input) w = (([(JArr ?js, pretty ov)], None), w')"
    using streamsRead_run [OF assms(1-4,6)] by (simp add: printed_list_def comp_def)
  moreover have "map event_of_json ?js = map (\<lambda>p. Some (with_tags (recordedFromProto p))) ps"
    using assms(5) by (simp add: event_of_json_encode)
  ultimately show ?thesis by blast
qed

text \<open>
  C14: What was read can be appended. The text that reading a stream writes to standard output, given
  to an append as its standard input, is taken as the same events in the same order: identifiers,
  types, tags and content types, and the data and metadata byte for byte, in either byte mode. (The
  identifiers are not empty, the strings are valid UTF-8, as those of a received message are, and the
  data does not nest deeper than the JSON scanner goes.)
\<close>

theorem read_can_be_appended:
  assumes "opts.store ov \<noteq> ''''" and "dial (env_rt env) (env_net env) ov = Inr c"
    and "\<not> isFlag stream" and "\<not> pretty ov"
    and "run_state (ReadStreamForward (st_streams (net_stubs (env_net env) c)) (rpcCtx ov ctx)
        \<lparr>StoreScoped.StoreId = opts.store ov, StreamScoped.StreamId = stream, StartVersion = 0,
         Count = 100\<rparr>) w = ((Some \<lparr>pb_ReadStreamResponse.Events = ps\<rparr>, None), w')"
    and "\<forall>p \<in> set ps. utf8_fields (recordedFromProto p) \<and> shallow (recordedFromProto p) \<and>
      streams_RecordedEvent.EventID (recordedFromProto p) \<noteq> ''''"
    and "float_text (rt_FormatFloat (env_rt env))"
  shows "\<exists>out. run_state (streamsRead env ctx ov [stream] input) w = ((out, None), w') \<and>
    readProposedEvents rt (Inr (writtenText (env_rt env) out)) =
      Inr (map (\<lambda>p. reproposed (recordedFromProto p)) ps)"
proof -
  have "run_state (streamsRead env ctx ov [stream] input) w =
      (([(printed_list (opts.bytes ov) (map recordedFromProto ps), pretty ov)], None), w')"
    using assms(4) by (intro streamsRead_run [OF assms(1-3,5)]) simp
  moreover have "readProposedEvents rt (Inr (encodeLine (rt_FormatFloat (env_rt env))
      (printed_list (opts.bytes ov) (map recordedFromProto ps)) False)) =
      Inr (map reproposed (map recordedFromProto ps))"
    using assms(6) by (intro read_printed_list [OF assms(7)] nests_printed_list) auto
  ultimately show ?thesis using assms(4) by (simp add: writtenText_def comp_def)
qed

lemma streamsAppend_expect:
  assumes "\<not> isFlag stream" and "readProposedEvents (env_rt env) input = Inr evs"
  shows "streamsAppend env ctx ov [''--expect'', decInt (sint v), stream] input =
    withStore env ov (withClient env ov (\<lambda>c.
      reply (streams_Append (Client_Streams (env_net env) c (opts.store ov)) (rpcCtx ov ctx) stream v evs)
        (\<lambda>res. writeJSON (JObj [
           (''version'', JInt (uint (AppendResult.Version res))),
           (''position'', JInt (uint (AppendResult.Position res))),
           (''count'', JInt (uint (AppendResult.Count res)))]) (pretty ov))))"
proof -
  have "flagsThenArgs rt [(''expect'', FStr ''any'')] [''--expect'', decInt (sint v), stream] [] =
      Inr ([(''expect'', FStr (decInt (sint v)))], [stream])" for rt
    using flagsThenArgs_flag [of "[(''expect'', FStr ''any'')]" "''expect''" "FStr ''any''" rt
        "decInt (sint v)" "FStr (decInt (sint v))" "[stream]" "[]"] assms(1)
    by (simp add: isBoolFlag_def flagSetValue_def flagsThenArgs_one)
  moreover have "parseExpected rt (decInt (sint v)) = Inr v" for rt
    using parseExpected_decInt .
  ultimately show ?thesis
    using assms(2) by (simp add: streamsAppend_def withFlags_def withValue_def getStr_def Let_def)
qed

text \<open>
  C13: An append carries what was given. The command makes one \<open>AppendEvents\<close> call, with the version
  expected and the events read from standard input in order. It reports the version, position and
  count of the answer, or, whatever comes with an error, the gateway's error alone.
\<close>

theorem append_sends_what_was_given:
  assumes "opts.store ov \<noteq> ''''" and "dial (env_rt env) (env_net env) ov = Inr c"
    and "\<not> isFlag stream" and "readProposedEvents (env_rt env) input = Inr evs"
    and "run_state (AppendEvents (st_streams (net_stubs (env_net env) c)) (rpcCtx ov ctx)
        \<lparr>StoreScoped.StoreId = opts.store ov, StreamScoped.StreamId = stream,
         ExpectedVersion = v, pb_AppendEventsRequest.Events = map (\<lambda>e. Some (streams_toProto e)) evs\<rparr>) w
      = ((resp, err), w')"
  shows "run_state (streamsAppend env ctx ov [''--expect'', decInt (sint v), stream] input) w =
    (case err of
       None \<Rightarrow> ([(JObj [
          (''version'', JInt (uint (Get pb_AppendEventsResponse.Version 0 resp))),
          (''position'', JInt (uint (Get pb_AppendEventsResponse.Position 0 resp))),
          (''count'', JInt (uint (Get pb_AppendEventsResponse.Count 0 resp)))], pretty ov)], None)
     | Some e \<Rightarrow> ([], Some (Cli (fromGRPC e))), w')"
  unfolding streamsAppend_expect [OF assms(3,4)]
  using assms(1,2,5)
  by (simp add: withStore_def requireStore_def withClient_def run_reply Client_Streams_def
      streams_New_def streams_Append_def run_unary range_append_map writeJSON_fits
      maxNestingDepth_def Let_def split: option.split)

text \<open>The event a frame carries.\<close>

definition event_of_frame :: "json \<times> bool \<Rightarrow> streams_RecordedEvent option" where
  "event_of_frame l = Option.bind (jfield (fst l) ''event'') event_of_json"

lemma streamsWatch_run:
  assumes "opts.store ov \<noteq> ''''" and "dial (env_rt env) (env_net env) ov = Inr c"
    and "\<not> isFlag stream"
    and "run_state (StreamEventsForward (st_streams (net_stubs (env_net env) c)) ctx
        \<lparr>StoreScoped.StoreId = opts.store ov, StreamScoped.StreamId = stream, StartVersion = 0,
         Count = 0\<rparr>) w = ((Some s, None), w')"
    and "env_events env \<lparr>g_open = None, g_recv = s, g_conv = recordedFromProto\<rparr> = (evs, err, canc)"
  shows "run_state (streamsWatch env ctx ov [stream] input) w =
    (((JObj (readyFrame (env_rt env)), False) #
       map (\<lambda>e. (JObj (eventFrame ov e), False)) evs @
       [(JObj (fst (pumpEnd err canc)), False)], snd (pumpEnd err canc)), w')"
proof -
  have "frameLine (eventFrame ov e) = [(JObj (eventFrame ov e), False)]" for e
    by (simp add: frameLine_def writeJSON_def eventFrame_def json_ok_Event)
  then have "concat (map (frameLine \<circ> eventFrame ov) evs) =
      map (\<lambda>e. (JObj (eventFrame ov e), False)) evs"
    by (induction evs) simp_all
  with assms show ?thesis
    by (simp add: streamsWatch_def withStore_def requireStore_def withFlags_def flagsThenArgs_one
        withClient_def Client_Streams_def streams_New_def streams_Watch_def launch_def run_pump
        pumpEvents_pure getUint64_def)
qed

text \<open>
  C12: A watch prints what the server streams. Once the stream is open the command writes a \<open>ready\<close>
  frame, a frame for each of a prefix of the recorded events the server sends, which read back are
  those events, in order, and a last frame; it ends with \<open>eof\<close> only after all of them and a clean end
  of the stream, and fails only with the error the stream ended with, after all of them.
\<close>

theorem watch_prints_what_was_streamed:
  assumes "scheduled env"
    and "opts.store ov \<noteq> ''''" and "dial (env_rt env) (env_net env) ov = Inr c"
    and "\<not> isFlag stream"
    and "run_state (StreamEventsForward (st_streams (net_stubs (env_net env) c)) ctx
        \<lparr>StoreScoped.StoreId = opts.store ov, StreamScoped.StreamId = stream, StartVersion = 0,
         Count = 0\<rparr>) w = ((Some s, None), w')"
    and "\<forall>e \<in> set (events_of recordedFromProto s).
      printable (streams_RecordedEvent.Timestamp e) \<and> printable (streams_RecordedEvent.Epoch e)"
  shows "\<exists>body fin res evs. run_state (streamsWatch env ctx ov [stream] input) w =
      (((JObj (readyFrame (env_rt env)), False) # body @ [fin], res), w') \<and>
    map event_of_frame body = map (\<lambda>e. Some (with_tags e)) evs \<and>
    prefix evs (events_of recordedFromProto s) \<and>
    (jfield (fst fin) ''reason'' = Some (JStr ''eof'') \<longrightarrow>
       evs = events_of recordedFromProto s \<and> final_of s = Some None) \<and>
    (res \<noteq> None \<longrightarrow> evs = events_of recordedFromProto s \<and>
       (\<exists>e. final_of s = Some (Some e) \<and> res = Some (Cli (fromGRPC e))))"
proof -
  let ?g = "\<lparr>g_open = None, g_recv = s, g_conv = recordedFromProto\<rparr>"
  obtain evs err canc where v: "env_events env ?g = (evs, err, canc)" by (metis prod.exhaust)
  then have sees: "sees ?g (evs, err, canc)"
    using assms(1) unfolding scheduled_def by metis
  have pre: "prefix evs (events_of recordedFromProto s)"
    using sees_prefix [OF sees] by simp
  have out: "complete ?g evs err \<or> (\<exists>e. err = Some e \<and> isCanceled e)"
    using sees_cases [OF sees] by blast
  let ?body = "map (\<lambda>e. (JObj (eventFrame ov e), False)) evs"
  let ?fin = "(JObj (fst (pumpEnd err canc)), False)" and ?res = "snd (pumpEnd err canc)"
  have "map event_of_frame ?body = map (\<lambda>e. Some (with_tags e)) evs"
    using assms(6) set_mono_prefix [OF pre]
    by (auto simp: event_of_frame_def eventFrame_def jfield_def event_of_json_encode)
  moreover have "evs = events_of recordedFromProto s \<and> final_of s = Some None"
    if "jfield (fst ?fin) ''reason'' = Some (JStr ''eof'')"
    using pumpEnd_eof [of err canc] that out by (auto simp: complete_def)
  moreover have "evs = events_of recordedFromProto s \<and>
      (\<exists>e. final_of s = Some (Some e) \<and> ?res = Some (Cli (fromGRPC e)))"
    if r: "?res \<noteq> None"
  proof -
    obtain e where e: "err = Some e" "\<not> isCanceled e" using pumpEnd_fails [OF r] by blast
    then have "?res = Some (Cli (fromGRPC e))"
      using r by (simp add: pumpEnd_def Let_def split: if_splits)
    with e out show ?thesis by (auto simp: complete_def)
  qed
  ultimately show ?thesis
    using streamsWatch_run [OF assms(2-5) v] pre
    by (intro exI [of _ ?body] exI [of _ ?fin] exI [of _ ?res] exI [of _ evs]) blast
qed

text \<open>A gateway that streams one event and ends.\<close>

definition watcher_env :: "nat env" where
  "watcher_env = patient_env (sample_env\<lparr>env_net := sample_net\<lparr>net_stubs := \<lambda>_. undefined
     \<lparr>st_streams := undefined\<lparr>StreamEventsForward := \<lambda>_ _. State_Monad.return
        (Some [RMsg None, REOF], None)\<rparr>\<rparr>\<rparr>\<rparr>)"

theorem watch_prints_what_was_streamed_witness:
  "\<exists>out res. run_state (streamsWatch watcher_env SignalCtx sample_opts [''users-42''] (Inr '''')) 0 =
     ((out, res), 0) \<and> length out \<le> 3 \<and> 2 \<le> length out"
proof -
  obtain c where c: "dial (env_rt watcher_env) (env_net watcher_env) sample_opts = Inr c"
    by (simp add: dial_def transport_def Connect_def watcher_env_def patient_env_def sample_opts_def
        sample_env_def sample_net_def Let_def)
  note t = sample_printable
  have s: "scheduled watcher_env" by (simp add: watcher_env_def scheduled_patient)
  show ?thesis
    using watch_prints_what_was_streamed
        [OF s _ c, of "''users-42''" SignalCtx 0 "[RMsg None, REOF]" 0 "Inr ''''"] t
    by (auto simp: sample_opts_def watcher_env_def patient_env_def isFlag_def recordedFromProto_def
        prefix_Cons dest!: arg_cong [of _ _ length])
qed

text \<open>An event, and standard input with its text.\<close>

definition stored_event :: pb_RecordedEvent where
  "stored_event = \<lparr>pb_RecordedEvent.EventId = ''e-1'', EventType = ''seen_v1'', StreamId = ''users-42'',
     Version = 0, Data = '''', Metadata = '''', Tags = Some [''a''], Timestamp = 0, EpochUs = 0,
     DataContentType = ''text/plain'', MetadataContentType = '''', PrevEventHash = ''''\<rparr>"

lemma stored_event_fields:
  "utf8_fields (recordedFromProto (Some stored_event))" "shallow (recordedFromProto (Some stored_event))"
  by (simp_all add: utf8_fields_def recordedFromProto_def stored_event_def byte_in_def tags_def
      shallow_def maxNestingDepth_def Get_def)

definition one_event_input :: stdin where
  "one_event_input = Inr (encodeLine (\<lambda>_. ''0'')
     (printed_list Auto [recordedFromProto (Some stored_event)]) False)"

lemma one_event_input_read:
  "readProposedEvents rt one_event_input = Inr [reproposed (recordedFromProto (Some stored_event))]"
proof -
  let ?e = "recordedFromProto (Some stored_event)"
  have "streams_RecordedEvent.EventID ?e \<noteq> ''''"
    by (simp add: recordedFromProto_def stored_event_def Get_def)
  with stored_event_fields read_printed_list [OF float_text_zero nests_printed_list, of "[?e]" rt Auto]
  show ?thesis by (simp add: one_event_input_def)
qed

text \<open>A gateway that takes appends to one stream and refuses all others, with an error and no answer.\<close>

definition staleError :: gerror where
  "staleError = \<lparr>err_Error = ''wrong expected version'',
     err_status = Some (codes_FailedPrecondition, ''wrong expected version''), err_isEOF = False,
     err_isCanceled = False\<rparr>"

definition appender_env :: "nat env" where
  "appender_env = sample_env\<lparr>env_net := sample_net\<lparr>net_stubs := \<lambda>_. undefined\<lparr>st_streams := undefined
     \<lparr>AppendEvents := \<lambda>_ q. State_Monad.return
        (if StreamScoped.StreamId q = ''users-42'' then (Some \<lparr>pb_AppendEventsResponse.Version = 6,
           Position = 40, Count = of_nat (length (pb_AppendEventsRequest.Events q))\<rparr>, None)
         else (None, Some staleError))\<rparr>\<rparr>\<rparr>\<rparr>"

theorem append_sends_what_was_given_witness:
  "run_state (streamsAppend appender_env SignalCtx sample_opts
      [''--expect'', decInt (sint (5 :: i64)), ''users-42''] one_event_input) 0 =
    (([(JObj [(''version'', JInt 6), (''position'', JInt 40), (''count'', JInt 1)], False)], None), 0) \<and>
   run_state (streamsAppend appender_env SignalCtx sample_opts
      [''--expect'', decInt (sint (5 :: i64)), ''a-1''] one_event_input) 0 =
    (([], Some (Cli (fromGRPC staleError))), 0)"
proof -
  obtain c where c: "dial (env_rt appender_env) (env_net appender_env) sample_opts = Inr c"
    by (simp add: dial_def transport_def Connect_def appender_env_def sample_opts_def sample_env_def
        sample_net_def Let_def)
  have s: "opts.store sample_opts \<noteq> ''''" "\<not> pretty sample_opts" by (simp_all add: sample_opts_def)
  have flag: "\<not> isFlag ''users-42''" "\<not> isFlag ''a-1''" by (simp_all add: isFlag_def)
  note append = append_sends_what_was_given [OF s(1) c _ one_event_input_read]
  let ?call = "\<lambda>str. AppendEvents (st_streams (net_stubs (env_net appender_env) c))
    (rpcCtx sample_opts SignalCtx) \<lparr>StoreScoped.StoreId = opts.store sample_opts,
     StreamScoped.StreamId = str, ExpectedVersion = 5, pb_AppendEventsRequest.Events =
       map (\<lambda>e. Some (streams_toProto e)) [reproposed (recordedFromProto (Some stored_event))]\<rparr>"
  have "run_state (?call ''users-42'') 0 =
      ((Some \<lparr>pb_AppendEventsResponse.Version = 6, Position = 40, Count = 1\<rparr>, None), 0)"
    and "run_state (?call ''a-1'') 0 = ((None, Some staleError), 0)"
    by (simp_all add: appender_env_def)
  from append [OF flag(1) this(1)] append [OF flag(2) this(2)] show ?thesis by (simp add: s(2))
qed

theorem read_prints_what_was_sent_witness:
  "\<exists>js. run_state (streamsRead reader_env SignalCtx sample_opts [''users-42''] (Inr '''')) 0 =
      (([(JArr js, False)], None), 0) \<and> length js = 1"
proof -
  obtain c where c: "dial (env_rt reader_env) (env_net reader_env) sample_opts = Inr c"
    using reader_dial by blast
  note t = sample_printable
  show ?thesis
    using read_prints_what_was_sent [OF _ c, of "''users-42''" SignalCtx 0 "[None]" 0 "Inr ''''"] t
    by (auto simp: sample_opts_def reader_env_def isFlag_def recordedFromProto_def
        dest!: arg_cong [of _ _ length])
qed

text \<open>A gateway whose stream has one event.\<close>

definition replay_env :: "nat env" where
  "replay_env = sample_env\<lparr>env_net := sample_net\<lparr>net_stubs := \<lambda>_. undefined\<lparr>st_streams := undefined
     \<lparr>ReadStreamForward := \<lambda>_ _. State_Monad.return
        (Some \<lparr>pb_ReadStreamResponse.Events = [Some stored_event]\<rparr>, None)\<rparr>\<rparr>\<rparr>\<rparr>"

theorem read_can_be_appended_witness:
  "\<exists>out e. run_state (streamsRead replay_env SignalCtx sample_opts [''users-42''] (Inr '''')) 0 =
      ((out, None), 0) \<and>
    readProposedEvents sample_rt (Inr (writtenText sample_rt out)) = Inr [e] \<and>
    streams_ProposedEvent.EventID e = ''e-1''"
proof -
  obtain c where c: "dial (env_rt replay_env) (env_net replay_env) sample_opts = Inr c"
    by (simp add: dial_def transport_def Connect_def replay_env_def sample_opts_def sample_env_def
        sample_net_def Let_def)
  have rt: "env_rt replay_env = sample_rt" by (simp add: replay_env_def sample_env_def)
  note e = stored_event_fields
  have f: "float_text (rt_FormatFloat (env_rt replay_env))"
    by (simp add: rt sample_rt_def float_text_zero)
  have call: "run_state (ReadStreamForward (st_streams (net_stubs (env_net replay_env) c))
      (rpcCtx sample_opts SignalCtx) req) 0 =
      ((Some \<lparr>pb_ReadStreamResponse.Events = [Some stored_event]\<rparr>, None), 0)" for req
    by (simp add: replay_env_def)
  have "opts.store sample_opts \<noteq> ''''" "\<not> isFlag ''users-42''" "\<not> pretty sample_opts"
    by (simp_all add: sample_opts_def isFlag_def)
  from read_can_be_appended [OF this(1) c this(2,3) call _ f, of "Inr ''''" sample_rt] e
  show ?thesis by (auto simp: rt recordedFromProto_def stored_event_def reproposed_def Get_def)
qed

end
