(* ===== verification/CmdSubs.thy ===== *)
theory CmdSubs
  imports Handler
begin

text \<open>
  The commands on subscriptions: \<^verbatim>\<open>cmd/reckon/cmd_subs.go\<close>. Consuming has three ways to
  acknowledge: each delivery before its frame is written (\<open>auto\<close>), not at all (\<open>none\<close>), or the lines
  read from standard input (\<open>stdin\<close>).
\<close>

section \<open>Managing subscriptions\<close>

definition subsList :: "'w handler" where
  "subsList env ctx ov args input =
     withStore env ov (withClient env ov (\<lambda>c.
       let rctx = rpcCtx ov ctx in
       reply (subs_List (Client_Subscriptions (env_net env) c (opts.store ov)) rctx)
         (\<lambda>infos. writeList encode_SubInfo infos (pretty ov))))"

definition subsGet :: "'w handler" where
  "subsGet env ctx ov args input =
     withStore env ov (
       if length args \<noteq> 1 then
         misuse env ''subs get: expected exactly one <name> argument'' []
       else withClient env ov (\<lambda>c.
         let rctx = rpcCtx ov ctx in
         reply (subs_Get (Client_Subscriptions (env_net env) c (opts.store ov)) rctx (args ! 0))
           (\<lambda>info. writeJSON (encode_SubInfo info) (pretty ov))))"

definition subsLag :: "'w handler" where
  "subsLag env ctx ov args input =
     withStore env ov (
       if length args \<noteq> 1 then
         misuse env ''subs lag: expected exactly one <name> argument'' []
       else withClient env ov (\<lambda>c.
         let rctx = rpcCtx ov ctx in
         reply (subs_Lag (Client_Subscriptions (env_net env) c (opts.store ov)) rctx (args ! 0))
           (\<lambda>lag. writeJSON (encode_Lag lag) (pretty ov))))"

text \<open>The conversion \<open>uint32(*pool)\<close> keeps the low 32 bits.\<close>

definition subsCreate :: "'w handler" where
  "subsCreate env ctx ov args input =
     withStore env ov (
     withFlags env ''subs create: %v''
       [(''type'', FStr ''''), (''selector'', FStr ''''), (''from'', FUint64 0),
        (''pool'', FUint64 1)] args (\<lambda>fs rest.
       if length rest \<noteq> 1 then
         misuse env ''subs create: expected exactly one <name> argument'' []
       else withValue env ''subs create: %v'' (parseSubType (env_rt env) (getStr fs ''type''))
         (\<lambda>st. withClient env ov (\<lambda>c.
           let rctx = rpcCtx ov ctx in
           reply (subs_Create (Client_Subscriptions (env_net env) c (opts.store ov)) rctx
               \<lparr>SubSpec.Type = st, Selector = getStr fs ''selector'', Name = rest ! 0,
                StartFrom = getUint64 fs ''from'', PoolSize = ucast (getUint64 fs ''pool'')\<rparr>)
             (\<lambda>id. writeField ''subscription_id'' (JStr id) (pretty ov))))))"

definition subsRemove :: "'w handler" where
  "subsRemove env ctx ov args input =
     withStore env ov (
     withFlags env ''subs remove: %v'' [(''type'', FStr ''''), (''selector'', FStr '''')] args
       (\<lambda>fs rest.
       if length rest \<noteq> 1 then
         misuse env ''subs remove: expected exactly one <name> argument'' []
       else withValue env ''subs remove: %v'' (parseSubType (env_rt env) (getStr fs ''type''))
         (\<lambda>st. withClient env ov (\<lambda>c.
           let rctx = rpcCtx ov ctx in
           replyDone (subs_Remove (Client_Subscriptions (env_net env) c (opts.store ov)) rctx
               \<lparr>SubSpec.Type = st, Selector = getStr fs ''selector'', Name = rest ! 0,
                StartFrom = 0, PoolSize = 0\<rparr>)
             (writeField ''removed'' (JBool True) (pretty ov))))))"

definition subsAck :: "'w handler" where
  "subsAck env ctx ov args input =
     withStore env ov (
       if length args \<noteq> 3 then misuse env ''subs ack: expected <stream> <name> <version>'' []
       else withValue env ''subs ack: invalid <version>: %v'' (parseU64 (env_rt env) (args ! 2))
         (\<lambda>v. withClient env ov (\<lambda>c.
           let rctx = rpcCtx ov ctx in
           replyDone (subs_Ack (Client_Subscriptions (env_net env) c (opts.store ov)) rctx
               (args ! 0) (args ! 1) v)
             (writeField ''acked'' (JBool True) (pretty ov)))))"

section \<open>Acknowledgements from standard input\<close>

record ackLine =
  Ack :: u64
  Stream :: string

text \<open>
  A line into the struct with the fields \<open>ack\<close> and \<open>stream\<close>, both zero when absent; \<open>None\<close> is an
  error of \<open>json.Unmarshal\<close>. A number must be the decimal form of a \<open>uint64\<close>.
\<close>

definition decodeUint64 :: "u64 \<Rightarrow> string \<Rightarrow> u64 \<times> bool" where
  "decodeUint64 old txt =
     (if isJsonNull txt then (old, True)
      else (case ParseUint10 txt of Inr n \<Rightarrow> (word_of_nat n, True) | Inl _ \<Rightarrow> (old, False)))"

definition setAckField :: "string \<Rightarrow> string \<Rightarrow> ackLine \<Rightarrow> ackLine \<times> bool" where
  "setAckField key txt m =
     (if isField key ''ack'' then
        (case decodeUint64 (Ack m) txt of (n, ok) \<Rightarrow> (m\<lparr>Ack := n\<rparr>, ok))
      else if isField key ''stream'' then
        (case decodeString (Stream m) txt of (s, ok) \<Rightarrow> (m\<lparr>Stream := s\<rparr>, ok))
      else (m, True))"

fun setAckFields :: "(string \<times> string) list \<Rightarrow> ackLine \<Rightarrow> ackLine \<times> bool" where
  "setAckFields [] m = (m, True)"
| "setAckFields ((key, txt) # ms) m =
     (case setAckField (unquote key) txt m of (m', ok) \<Rightarrow>
        (case setAckFields ms m' of (m'', ok') \<Rightarrow> (m'', ok \<and> ok')))"

definition unmarshalAck :: "string \<Rightarrow> ackLine option" where
  "unmarshalAck line =
     (let zero = \<lparr>Ack = 0, Stream = ''''\<rparr>; txt = jtrim line in
      if \<not> json_Valid line then None
      else if isJsonNull txt then Some zero
      else if isJsonObject txt then
        (case setAckFields (map jmember (jpieces txt)) zero of
           (m, ok) \<Rightarrow> if ok then Some m else None)
      else None)"

text \<open>
  The calls \<open>consumeStdinAcks\<close> makes, as pairs of a stream and an event number. The scanner stops at
  a line that does not fit its buffer of 64 KiB.
\<close>

definition maxScanToken :: nat where "maxScanToken = 64 * 1024"

fun stdinAcks :: "string \<Rightarrow> string list \<Rightarrow> (string \<times> u64) list" where
  "stdinAcks selector [] = []"
| "stdinAcks selector (l # ls) =
     (if maxScanToken \<le> length l then []
      else (case unmarshalAck l of
          None \<Rightarrow> stdinAcks selector ls
        | Some m \<Rightarrow>
            let stream = (if Stream m = '''' then selector else Stream m) in
            (stream, Ack m) # stdinAcks selector ls))"

text \<open>The scanner hands on what came before a read error, the unfinished line included, and then stops.\<close>

definition consumeStdinAcks :: "string \<Rightarrow> stdin \<Rightarrow> (string \<times> u64) list" where
  "consumeStdinAcks selector input =
     stdinAcks selector (scanLines (case input of Inl (_, txt) \<Rightarrow> txt | Inr txt \<Rightarrow> txt))"

text \<open>Making the calls, whose errors are ignored.\<close>

fun ackAll ::
  "'w subs_Client \<Rightarrow> ctx \<Rightarrow> string \<Rightarrow> (string \<times> u64) list \<Rightarrow> ('w, unit) state" where
  "ackAll sc ctx name [] = State_Monad.return ()"
| "ackAll sc ctx name ((stream, n) # acks) = do {
     _ \<leftarrow> subs_Ack sc ctx stream name n;
     ackAll sc ctx name acks
   }"

section \<open>Consuming\<close>

text \<open>The frame of a delivery; in automatic mode it is acknowledged first.\<close>

definition deliveryFrame :: "'w subs_Client \<Rightarrow> ctx \<Rightarrow> string \<Rightarrow> string \<Rightarrow> Bytes \<Rightarrow> Delivery \<Rightarrow>
    ('w, jmap) state" where
  "deliveryFrame sc ctx name ackMode mode d =
     (if ackMode = ''auto'' then do {
        _ \<leftarrow> subs_Ack sc ctx (streams_RecordedEvent.StreamID (Delivery.Event d)) name
               (Delivery.Checkpoint d);
        State_Monad.return (encode_Delivery d mode)
      }
      else State_Monad.return (encode_Delivery d mode))"

text \<open>
  In \<open>stdin\<close> mode the acknowledgements run beside the pump: the next ones of \<open>counts\<close> come before the
  frame of each delivery, and what is left over is for after the last.
\<close>

fun dealAcks :: "nat list \<Rightarrow> 'a list \<Rightarrow> 'd list \<Rightarrow> ('a list \<times> 'd) list \<times> 'a list" where
  "dealAcks counts acks [] = ([], acks)"
| "dealAcks counts acks (d # ds) =
     (let n = (case counts of [] \<Rightarrow> 0 | m # _ \<Rightarrow> m);
          rest = dealAcks (tl counts) (drop n acks) ds in
      ((take n acks, d) # fst rest, snd rest))"

definition withAcks :: "'w subs_Client \<Rightarrow> ctx \<Rightarrow> string \<Rightarrow> (Delivery \<Rightarrow> ('w, jmap) state) \<Rightarrow>
    (string \<times> u64) list \<times> Delivery \<Rightarrow> ('w, jmap) state" where
  "withAcks sc ctx name frame ad = do {
     _ \<leftarrow> ackAll sc ctx name (fst ad);
     frame (snd ad)
   }"

lemma dealAcks_all:
  "map snd (fst (dealAcks counts acks ds)) = ds \<and>
     concat (map fst (fst (dealAcks counts acks ds))) @ snd (dealAcks counts acks ds) = acks"
  by (induction counts acks ds rule: dealAcks.induct) (auto simp: Let_def)

text \<open>
  Reading standard input starts before the subscription is opened; \<open>env_acks\<close> says how many
  acknowledgements come before that, before each delivery, and before the program ends.
\<close>

definition subsConsume :: "'w handler" where
  "subsConsume env ctx ov args input =
     withStore env ov (
     withFlags env ''subs consume: %v''
       [(''type'', FStr ''''), (''selector'', FStr ''''), (''from'', FUint64 0),
        (''pool'', FUint64 1), (''ack-mode'', FStr ''auto'')] args (\<lambda>fs rest.
       if length rest \<noteq> 1 then
         misuse env ''subs consume: expected exactly one <name> argument'' []
       else withValue env ''subs consume: %v'' (parseSubType (env_rt env) (getStr fs ''type''))
         (\<lambda>st. let ackMode = getStr fs ''ack-mode'' in
         if ackMode \<noteq> ''auto'' \<and> ackMode \<noteq> ''none'' \<and> ackMode \<noteq> ''stdin'' then
           misuse env ''subs consume: invalid --ack-mode %q (want auto|none|stdin)'' [ArgQ ackMode]
         else withClient env ov (\<lambda>c.
           let sc = Client_Subscriptions (env_net env) c (opts.store ov);
               name = rest ! 0;
               cctx = WithCancel ctx;
               selector = getStr fs ''selector'';
               acks = (if ackMode = ''stdin'' then consumeStdinAcks selector input else []);
               (before, counts, after) = env_acks env in
           do {
             _ \<leftarrow> ackAll sc cctx name (take before acks);
             g \<leftarrow> subs_Subscribe sc cctx
                   \<lparr>SubSpec.Type = st, Selector = selector, Name = name,
                    StartFrom = getUint64 fs ''from'', PoolSize = ucast (getUint64 fs ''pool'')\<rparr>;
             let seen = env_deliveries env g;
                 dealt = dealAcks counts (drop before acks) (fst seen) in
             and_also
               (pump (env_rt env)
                 (withAcks sc cctx name (deliveryFrame sc cctx name ackMode (opts.bytes ov)))
                 (fst dealt, snd seen))
               (ackAll sc cctx name (take after (snd dealt)))
           }))))"

lemmas subs_commands =
  subsList_def subsGet_def subsLag_def subsCreate_def subsRemove_def subsAck_def

text \<open>The two effects of consuming, behind a firewall.\<close>

lemma ackAll_firewall [firewall]:
  "ackAll (subs_New (subs_firewall s stub) s) ctx name acks = ackAll (subs_New stub s) ctx name acks"
  by (induction acks) (auto simp: firewall)

lemma deliveryFrame_firewall [firewall]:
  "deliveryFrame (subs_New (subs_firewall s stub) s) = deliveryFrame (subs_New stub s)"
  by (simp add: fun_eq_iff deliveryFrame_def firewall)

lemma withAcks_firewall [firewall]:
  "withAcks (subs_New (subs_firewall s stub) s) = withAcks (subs_New stub s)"
  by (simp add: fun_eq_iff withAcks_def firewall)

lemma subs_commands_bound [firewall]:
  "bound subsList" "bound subsGet" "bound subsLag" "bound subsCreate" "bound subsRemove"
  "bound subsAck" "bound subsConsume"
  by (simp_all add: bound_def subs_commands subsConsume_def firewall Client_Subscriptions_def Let_def
      cong: if_cong)

lemma subs_commands_kept [kept]:
  "disciplined (subsList env ctx ov args input)" "disciplined (subsGet env ctx ov args input)"
  "disciplined (subsLag env ctx ov args input)" "disciplined (subsCreate env ctx ov args input)"
  "disciplined (subsRemove env ctx ov args input)" "disciplined (subsAck env ctx ov args input)"
  unfolding subs_commands Let_def by (intro kept)+

lemma subs_commands_one_value [kept]:
  "one_value (pretty ov) (subsList env ctx ov args input)"
  "one_value (pretty ov) (subsGet env ctx ov args input)"
  "one_value (pretty ov) (subsLag env ctx ov args input)"
  "one_value (pretty ov) (subsCreate env ctx ov args input)"
  "one_value (pretty ov) (subsRemove env ctx ov args input)"
  "one_value (pretty ov) (subsAck env ctx ov args input)"
  unfolding subs_commands Let_def by (intro kept)+

lemma subsConsume_kept [kept]: "disciplined (subsConsume env ctx ov args input)"
  unfolding subsConsume_def Let_def case_prod_beta by (intro kept)

text \<open>The frames of a subscription keep the contract of the pump, in every mode.\<close>

lemma frames_deliveryFrame: "frames_of ''delivery'' (deliveryFrame sc ctx name ackMode mode)"
  by (auto simp: frames_of_def deliveryFrame_def encode_Delivery_def json_ok_Event
      split: prod.splits if_splits)

interpretation delivery_frames:
  framing "withAcks sc ctx name (deliveryFrame sc' ctx' name' ackMode mode)" "''delivery''"
  for sc ctx name sc' ctx' name' ackMode mode
  using frames_deliveryFrame [of sc' ctx' name' ackMode mode]
  by unfold_locales (auto simp: frames_of_def withAcks_def split: prod.splits)

lemma subsConsume_stream [kept]:
  "one_stream (env_rt env) ''delivery'' (subsConsume env ctx ov args input)"
  unfolding subsConsume_def Let_def case_prod_beta by (intro kept delivery_frames.pump_one_stream)

section \<open>Properties\<close>

lemma pumpEvents_acks:
  "pumpEvents (deliveryFrame sc ctx name ''auto'' mode) ds =
     do { _ \<leftarrow> ackAll sc ctx name
            (map (\<lambda>d. (streams_RecordedEvent.StreamID (Delivery.Event d), Delivery.Checkpoint d)) ds);
          pumpEvents (deliveryFrame sc ctx name ''none'' mode) ds }"
proof (induction ds)
  case (Cons d ds)
  have p: "deliveryFrame sc ctx name ''none'' mode = (\<lambda>d. State_Monad.return (encode_Delivery d mode))"
    by (simp add: deliveryFrame_def fun_eq_iff)
  show ?case
    using Cons.IH unfolding p pumpEvents_pure by (simp add: deliveryFrame_def)
qed simp

text \<open>
  C15: In automatic mode every delivery received is acknowledged, once, in order, on its own stream,
  under the name of the subscription and with its own checkpoint, and nothing else is; what is written
  does not depend on the acknowledgements.
\<close>

theorem consume_acks_each_delivery:
  "pump rt (deliveryFrame sc ctx name ''auto'' mode) (ds, err, canc) =
     do { _ \<leftarrow> ackAll sc ctx name
            (map (\<lambda>d. (streams_RecordedEvent.StreamID (Delivery.Event d), Delivery.Checkpoint d)) ds);
          pump rt (deliveryFrame sc ctx name ''none'' mode) (ds, err, canc) }"
  by (simp add: pump_def pumpEvents_acks)

text \<open>
  C32: A pool size loses its high bits. Whatever 64-bit number is given, the subscription that is
  created asks for that number modulo \<open>2 ^ 32\<close>, so that 4294967296 workers are none.
\<close>

theorem pool_size_truncated:
  assumes "n < 2 ^ 64" and "\<not> isFlag name"
  shows "subsCreate env ctx ov [''--type'', ''stream'', ''--pool'', dec n, name] input =
    withStore env ov (withClient env ov (\<lambda>c.
      reply (subs_Create (Client_Subscriptions (env_net env) c (opts.store ov)) (rpcCtx ov ctx)
          \<lparr>SubSpec.Type = TypeStream, Selector = '''', Name = name, StartFrom = 0,
           PoolSize = word_of_nat (n mod 2 ^ 32)\<rparr>)
        (\<lambda>id. writeField ''subscription_id'' (JStr id) (pretty ov))))"
proof -
  let ?fs = "[(''type'', FStr ''''), (''selector'', FStr ''''), (''from'', FUint64 0),
    (''pool'', FUint64 1)]"
  have "flagsThenArgs rt ?fs [''--type'', ''stream'', ''--pool'', dec n, name] [] =
      Inr ([(''type'', FStr ''stream''), (''selector'', FStr ''''), (''from'', FUint64 0),
        (''pool'', FUint64 (word_of_nat n))], [name])" for rt
    using flagsThenArgs_flag [of ?fs "''type''" "FStr ''''" rt "''stream''" "FStr ''stream''"
        "[''--pool'', dec n, name]" "[]"]
      flagsThenArgs_flag [of "AList.update ''type'' (FStr ''stream'') ?fs" "''pool''" "FUint64 1" rt
        "dec n" "FUint64 (word_of_nat n)" "[name]" "[]"] assms
    by (simp add: isBoolFlag_def flagSetValue_def ParseUint0_dec flagsThenArgs_positional
        flagsThenArgs_Nil)
  moreover have "ucast (word_of_nat n :: u64) = (word_of_nat (n mod 2 ^ 32) :: u32)"
    using assms(1) by (simp add: word_unat_eq_iff unsigned_ucast_eq unsigned_of_nat take_bit_eq_mod)
  moreover have "parseSubType rt ''stream'' = Inr TypeStream" for rt
    by (simp add: parseSubType_def TypeStream_def)
  ultimately show ?thesis
    by (simp add: subsCreate_def withFlags_def withValue_def Let_def getStr_def getUint64_def)
qed

theorem pool_size_truncated_witness:
  "subsCreate sample_env SignalCtx sample_opts [''--type'', ''stream'', ''--pool'', dec 4294967296, ''workers''] (Inr '''') =
    withStore sample_env sample_opts (withClient sample_env sample_opts (\<lambda>c.
      reply (subs_Create (Client_Subscriptions (env_net sample_env) c ''orders'')
          (WithTimeout SignalCtx 5000000000)
          \<lparr>SubSpec.Type = TypeStream, Selector = '''', Name = ''workers'', StartFrom = 0,
           PoolSize = 0\<rparr>)
        (\<lambda>id. writeField ''subscription_id'' (JStr id) False)))"
  using pool_size_truncated [of 4294967296 "''workers''" sample_env SignalCtx sample_opts "Inr ''''"]
  by (simp add: isFlag_def sample_opts_def rpcCtx_def)

end
