(* ===== verification/Acks.thy ===== *)
theory Acks
  imports CmdSubs Replay
begin

text \<open>
  Acknowledging over standard input, from its text to the calls that reach the gateway: what
  \<open>reckon subs consume --ack-mode stdin\<close> does with the lines it reads
  (\<^verbatim>\<open>consumeStdinAcks\<close> of \<^verbatim>\<open>cmd/reckon/cmd_subs.go\<close>).
\<close>

section \<open>Lines\<close>

text \<open>
  The line \<open>{"ack":n,"stream":str}\<close>, or one without a number, as the encoder prints it. No number in
  it is a \<open>float64\<close>, so any text stands for one.
\<close>

definition ackObject :: "u64 option \<Rightarrow> string \<Rightarrow> jmap" where
  "ackObject n str =
     (case n of None \<Rightarrow> [] | Some k \<Rightarrow> [(''ack'', JInt (uint k))]) @ [(''stream'', JStr str)]"

definition ackText :: "u64 option \<Rightarrow> string \<Rightarrow> string" where
  "ackText n str = render (\<lambda>_. ''0'') (JObj (ackObject n str))"

text \<open>Standard input as its lines: text that is not JSON, or an acknowledgement.\<close>

datatype inputLine = Noise string | AckOf "u64 option" string

fun lineText :: "inputLine \<Rightarrow> string" where
  "lineText (Noise l) = l"
| "lineText (AckOf n str) = ackText n str"

fun lineOk :: "inputLine \<Rightarrow> bool" where
  "lineOk (Noise l) \<longleftrightarrow> \<not> json_Valid l \<and> CHR 0x0A \<notin> set l \<and> length l < maxScanToken"
| "lineOk (AckOf n str) \<longleftrightarrow> utf8_Valid str \<and> length (ackText n str) < maxScanToken"

definition linesText :: "inputLine list \<Rightarrow> string" where
  "linesText ls = concat (map (\<lambda>l. lineText l @ [CHR 0x0A]) ls)"

text \<open>What the lines acknowledge.\<close>

fun acked :: "string \<Rightarrow> inputLine list \<Rightarrow> (string \<times> u64) list" where
  "acked selector [] = []"
| "acked selector (Noise l # ls) = acked selector ls"
| "acked selector (AckOf n str # ls) =
     (if str = '''' then selector else str, case n of None \<Rightarrow> 0 | Some k \<Rightarrow> k) # acked selector ls"

section \<open>Reading a line\<close>

lemma ack_keys: "plainKey ''ack''" "plainKey ''stream''"
  by (simp_all add: byte_in_def)

lemma ack_json:
  "json_ok (JObj (ackObject n str))" "nests (JObj (ackObject n str)) \<le> maxNestingDepth"
  by (auto simp: ackObject_def maxNestingDepth_def split: option.split)

lemma decInt_not_null: "\<not> isJsonNull (decInt i)"
  using decInt_chars [OF hd_in_set [of "decInt i"]] by (auto simp: isJsonNull_def isDigit_def)

lemma decodeUint64_decInt: "decodeUint64 old (decInt (uint n)) = (n, True)"
proof -
  have "decInt (uint n) = dec (unat n)" by (simp add: decInt_def)
  moreover have "unat n < 2 ^ 64" using unsigned_less [of n] by simp
  ultimately show ?thesis
    using ParseUint10_dec [of "unat n"] decInt_not_null [of "uint n"]
    by (simp add: decodeUint64_def)
qed

lemma ack_fields:
  "isField ''ack'' ''ack''" "\<not> isField ''stream'' ''ack''" "isField ''stream'' ''stream''"
  by (simp_all add: isField_plain byte_in_def)

lemma unmarshalAck_text:
  assumes "utf8_Valid str"
  shows "unmarshalAck (ackText n str) =
    Some \<lparr>Ack = (case n of None \<Rightarrow> 0 | Some k \<Rightarrow> k), Stream = str\<rparr>"
proof -
  let ?t = "ackText n str"
  have t: "json_text (nests (JObj (ackObject n str))) ?t"
    unfolding ackText_def by (rule json_text_render [OF float_text_zero ack_json(1)])
  have valid: "json_Valid ?t" and trim: "jtrim ?t = ?t"
    using json_text_Valid [OF t ack_json(2)] jtrim_tight [OF json_text_tight [OF t ack_json(2)]] .
  have kind: "\<not> isJsonNull ?t" "isJsonObject ?t"
    by (simp_all add: ackText_def isJsonNull_def isJsonObject_def)
  have "sort_key fst (ackObject n str) = ackObject n str"
    by (simp add: ackObject_def split: option.split)
  moreover have "map jmember (jpieces ?t) = members (\<lambda>_. ''0'') (ackObject n str)"
    unfolding ackText_def
    by (rule jmembers_render [OF float_text_zero ack_json(1) le_SucI [OF ack_json(2)]])
  ultimately have "map jmember (jpieces ?t) =
      (case n of None \<Rightarrow> [] | Some k \<Rightarrow> [(quoted (quoteBody ''ack''), decInt (uint k))]) @
      [(quoted (quoteBody ''stream''), render (\<lambda>_. ''0'') (JStr str))]"
    by (simp add: members_def ackObject_def split: option.split)
  moreover have "setAckFields \<dots> \<lparr>Ack = 0, Stream = ''''\<rparr> =
      (\<lparr>Ack = (case n of None \<Rightarrow> 0 | Some k \<Rightarrow> k), Stream = str\<rparr>, True)"
    using ack_keys [THEN plainKey_Valid, THEN unquote_quoted] decode_rendered_string [OF assms]
    by (simp add: setAckField_def ack_fields decodeUint64_decInt del: render.simps split: option.split)
  ultimately show ?thesis
    using valid trim kind by (simp add: unmarshalAck_def)
qed

lemma lineText_no_newline: "lineOk l \<Longrightarrow> CHR 0x0A \<notin> set (lineText l)"
  using render_line [OF float_text_zero ack_json(1)] by (cases l) (simp_all add: ackText_def)

lemma scanLines_linesText:
  assumes "list_all lineOk ls"
  shows "scanLines (linesText ls) = map lineText ls"
proof -
  have "Split (CHR 0x0A) (linesText ls) = map lineText ls @ [[]]"
    using assms
  proof (induction ls)
    case (Cons l ls)
    then show ?case
      using Split_append [OF lineText_no_newline [of l]] by (simp add: linesText_def)
  qed (simp add: linesText_def)
  then show ?thesis by (simp add: scanLines_def butlast_append)
qed

lemma stdinAcks_lines: "list_all lineOk ls \<Longrightarrow> stdinAcks selector (map lineText ls) = acked selector ls"
proof (induction ls)
  case (Cons l ls)
  then show ?case
  proof (cases l)
    case (Noise t)
    with Cons show ?thesis by (simp add: unmarshalAck_def)
  next
    case (AckOf n str)
    with Cons show ?thesis by (simp add: unmarshalAck_text Let_def)
  qed
qed simp

section \<open>The calls\<close>

lemma ackAll_calls:
  "ackAll (subs_New stub s) ctx name acks =
     do { _ \<leftarrow> traverse_list (\<lambda>(str, n). AckEvent stub ctx \<lparr>StoreScoped.StoreId = s,
            StreamScoped.StreamId = str, pb_AckEventRequest.SubscriptionName = name,
            EventNumber = n\<rparr>) acks;
          State_Monad.return () }"
proof (induction acks)
  case (Cons a acks)
  then show ?case
    by (cases a) (auto intro!: state_ext simp: subs_Ack_def run_unary_err subs_New_def split: prod.split)
qed simp

text \<open>
  C37: Acknowledging over standard input. Of the lines read, each that is an acknowledgement
  \<open>{"ack":n,"stream":str}\<close> becomes one call to the gateway, in the order of the lines, for the store of
  the client and the name of the subscription, on the stream it names, or on the selector when it names
  none, and with its number, or 0 when it has none; lines that are not JSON are skipped, errors of the
  calls are ignored, and what was read before a read error counts. (Lines are shorter than 64 KiB, and
  the streams are valid UTF-8.)
\<close>

theorem stdin_acks_each_line:
  assumes "list_all lineOk ls" and "input = Inr (linesText ls) \<or> (\<exists>err. input = Inl (err, linesText ls))"
  shows "ackAll (subs_New stub s) ctx name (consumeStdinAcks selector input) =
    do { _ \<leftarrow> traverse_list (\<lambda>(str, n). AckEvent stub ctx \<lparr>StoreScoped.StoreId = s,
           StreamScoped.StreamId = str, pb_AckEventRequest.SubscriptionName = name,
           EventNumber = n\<rparr>) (acked selector ls);
         State_Monad.return () }"
proof -
  have "consumeStdinAcks selector input = acked selector ls"
    using assms(2) scanLines_linesText [OF assms(1)] stdinAcks_lines [OF assms(1)]
    by (auto simp: consumeStdinAcks_def)
  then show ?thesis by (simp add: ackAll_calls)
qed

text \<open>A gateway that notes the acknowledgements it is sent.\<close>

definition noting :: "(string \<times> string \<times> string \<times> u64) list SubscriptionServiceClient" where
  "noting = undefined\<lparr>AckEvent := \<lambda>ctx q. State (\<lambda>w. ((None, None), w @ [(StoreScoped.StoreId q,
     StreamScoped.StreamId q, pb_AckEventRequest.SubscriptionName q, EventNumber q)]))\<rparr>"

theorem stdin_acks_each_line_witness:
  "run_state (ackAll (subs_New noting ''orders'') Background ''billing'' (consumeStdinAcks ''a-1''
      (Inr (linesText [AckOf (Some 7) '''', Noise ''{'', AckOf None ''b-2''])))) [] =
    ((), [(''orders'', ''a-1'', ''billing'', 7), (''orders'', ''b-2'', ''billing'', 0)])"
proof -
  let ?ls = "[AckOf (Some 7) '''', Noise ''{'', AckOf None ''b-2'']"
  have "\<not> json_Valid ''{''"
    by (simp add: json_Valid_def stepBeginValue_def jspace_def byte_in_def pushParse_def
        maxNestingDepth_def jeof_def)
  moreover have "quoteBody ''ack'' = ''ack''" "quoteBody ''stream'' = ''stream''"
      "quoteBody ''b-2'' = ''b-2''"
    by (simp_all add: quoteBody.simps quoteByte_def byte_in_def runeLen_def Let_def)
  moreover have "utf8_Valid ''b-2''" by (rule utf8_Valid_ascii) (simp add: byte_in_def)
  moreover have "decInt 7 = ''7''" by (simp add: decInt_def dec.simps digit_def char_of_eq_iff take_bit_eq_mod)
  ultimately have ok: "list_all lineOk ?ls"
    by (simp add: ackText_def ackObject_def maxScanToken_def member_def quoted_def)
  show ?thesis
    using stdin_acks_each_line [OF ok, of "Inr (linesText ?ls)" noting "''orders''" Background
        "''billing''" "''a-1''"]
    by (simp add: noting_def)
qed

end
