(* ===== verification/CmdSnapshots.thy ===== *)
theory CmdSnapshots
  imports Handler
begin

text \<open>The commands on snapshots: \<^verbatim>\<open>cmd/reckon/cmd_snapshots.go\<close>.\<close>

definition snapshotsList :: "'w handler" where
  "snapshotsList env ctx ov args input =
     withStore env ov (
       if length args \<noteq> 2 then misuse env ''snapshots list: expected <source-uuid> <stream-uuid>'' []
       else withClient env ov (\<lambda>c.
         let rctx = rpcCtx ov ctx in
         reply (snaps_List (Client_Snapshots (env_net env) c (opts.store ov)) rctx (args ! 0) (args ! 1))
           (\<lambda>recs. snapshotsResult recs (opts.bytes ov) (pretty ov))))"

definition snapshotsListAll :: "'w handler" where
  "snapshotsListAll env ctx ov args input =
     withStore env ov (withClient env ov (\<lambda>c.
       let rctx = rpcCtx ov ctx in
       reply (snaps_ListAll (Client_Snapshots (env_net env) c (opts.store ov)) rctx)
         (\<lambda>recs. snapshotsResult recs (opts.bytes ov) (pretty ov))))"

definition snapshotsAt :: "'w handler" where
  "snapshotsAt env ctx ov args input =
     withStore env ov (
       if length args \<noteq> 3 then misuse env ''snapshots at: expected <source-uuid> <stream-uuid> <version>'' []
       else withValue env ''snapshots at: invalid <version>: %v'' (parseU64 (env_rt env) (args ! 2))
         (\<lambda>v. withClient env ov (\<lambda>c.
         let rctx = rpcCtx ov ctx in
         reply (snaps_At (Client_Snapshots (env_net env) c (opts.store ov)) rctx (args ! 0) (args ! 1) v)
           (\<lambda>rec. writeJSON (encode_Snapshot rec (opts.bytes ov)) (pretty ov)))))"

definition snapshotsLatest :: "'w handler" where
  "snapshotsLatest env ctx ov args input =
     withStore env ov (
       if length args \<noteq> 2 then misuse env ''snapshots latest: expected <source-uuid> <stream-uuid>'' []
       else withClient env ov (\<lambda>c.
         let rctx = rpcCtx ov ctx in
         reply (snaps_Latest (Client_Snapshots (env_net env) c (opts.store ov)) rctx (args ! 0) (args ! 1))
           (\<lambda>rec. writeJSON (encode_Snapshot rec (opts.bytes ov)) (pretty ov))))"

definition snapshotsSave :: "'w handler" where
  "snapshotsSave env ctx ov args input =
     withStore env ov (
       if length args \<noteq> 3 then misuse env ''snapshots save: expected <source-uuid> <stream-uuid> <version>'' []
       else withValue env ''snapshots save: invalid <version>: %v'' (parseU64 (env_rt env) (args ! 2))
         (\<lambda>v. 
       withValue env ''snapshots save: reading data from stdin: %v'' (readAll input) (\<lambda>data.
         withClient env ov (\<lambda>c.
         let rctx = rpcCtx ov ctx in
         replyDone (snaps_Save (Client_Snapshots (env_net env) c (opts.store ov)) rctx
             \<lparr>SnapSpec.SourceUUID = args ! 0, StreamUUID = args ! 1, Version = v, Data = data,
              Metadata = []\<rparr>)
           (writeField ''saved'' (JBool True) (pretty ov))))))"

definition snapshotsDelete :: "'w handler" where
  "snapshotsDelete env ctx ov args input =
     withStore env ov (
       if length args \<noteq> 3 then misuse env ''snapshots delete: expected <source-uuid> <stream-uuid> <version>'' []
       else withValue env ''snapshots delete: invalid <version>: %v'' (parseU64 (env_rt env) (args ! 2))
         (\<lambda>v. withClient env ov (\<lambda>c.
         let rctx = rpcCtx ov ctx in
         replyDone (snaps_Delete (Client_Snapshots (env_net env) c (opts.store ov)) rctx (args ! 0) (args ! 1) v)
           (writeField ''deleted'' (JBool True) (pretty ov)))))"


lemmas snapshot_commands =
  snapshotsList_def snapshotsListAll_def snapshotsAt_def snapshotsLatest_def snapshotsSave_def
  snapshotsDelete_def

lemma snapshot_commands_bound [firewall]:
  "bound snapshotsList" "bound snapshotsListAll" "bound snapshotsAt" "bound snapshotsLatest"
  "bound snapshotsSave" "bound snapshotsDelete"
  by (simp_all add: bound_def snapshot_commands firewall Client_Snapshots_def Let_def
      cong: if_cong)

lemma snapshot_commands_kept [kept]:
  "disciplined (snapshotsList env ctx ov args input)"
  "disciplined (snapshotsListAll env ctx ov args input)"
  "disciplined (snapshotsAt env ctx ov args input)"
  "disciplined (snapshotsLatest env ctx ov args input)"
  "disciplined (snapshotsSave env ctx ov args input)"
  "disciplined (snapshotsDelete env ctx ov args input)"
  unfolding snapshot_commands Let_def by (intro kept)+

lemma snapshot_commands_one_value [kept]:
  "one_value (pretty ov) (snapshotsList env ctx ov args input)"
  "one_value (pretty ov) (snapshotsListAll env ctx ov args input)"
  "one_value (pretty ov) (snapshotsAt env ctx ov args input)"
  "one_value (pretty ov) (snapshotsLatest env ctx ov args input)"
  "one_value (pretty ov) (snapshotsSave env ctx ov args input)"
  "one_value (pretty ov) (snapshotsDelete env ctx ov args input)"
  unfolding snapshot_commands Let_def by (intro kept)+

end
