(* ===== verification/CmdSchema.thy ===== *)
theory CmdSchema
  imports Handler
begin

text \<open>The commands on schemas: \<^verbatim>\<open>cmd/reckon/cmd_schema.go\<close>.\<close>

definition schemaList :: "'w handler" where
  "schemaList env ctx ov args input =
     withStore env ov (withClient env ov (\<lambda>c.
       let rctx = rpcCtx ov ctx in
       reply (schema_List (Client_Schema (env_net env) c (opts.store ov)) rctx)
         (\<lambda>defs. writeList (\<lambda>d. encode_SchemaDef d (opts.bytes ov)) defs (pretty ov))))"

definition schemaGet :: "'w handler" where
  "schemaGet env ctx ov args input =
     withStore env ov (
       if length args \<noteq> 1 then misuse env ''schema get: expected exactly one <event-type> argument'' []
       else withClient env ov (\<lambda>c.
         let rctx = rpcCtx ov ctx in
         reply (schema_Get (Client_Schema (env_net env) c (opts.store ov)) rctx (args ! 0))
           (\<lambda>def. writeJSON (encode_SchemaDef def (opts.bytes ov)) (pretty ov))))"

definition schemaVersion :: "'w handler" where
  "schemaVersion env ctx ov args input =
     withStore env ov (
       if length args \<noteq> 1 then misuse env ''schema version: expected exactly one <event-type> argument'' []
       else withClient env ov (\<lambda>c.
         let rctx = rpcCtx ov ctx in
         reply (schema_Version (Client_Schema (env_net env) c (opts.store ov)) rctx (args ! 0))
           (\<lambda>v. writeField ''version'' (JInt (uint v)) (pretty ov))))"

definition schemaRegister :: "'w handler" where
  "schemaRegister env ctx ov args input =
     withStore env ov (
       if length args \<noteq> 1 then misuse env ''schema register: expected exactly one <event-type> argument'' []
       else withValue env ''schema register: reading schema from stdin: %v'' (readAll input) (\<lambda>blob.
       withClient env ov (\<lambda>c.
         let rctx = rpcCtx ov ctx in
         replyDone (schema_Register (Client_Schema (env_net env) c (opts.store ov)) rctx (args ! 0) blob)
           (writeField ''registered'' (JBool True) (pretty ov)))))"

definition schemaUnregister :: "'w handler" where
  "schemaUnregister env ctx ov args input =
     withStore env ov (
       if length args \<noteq> 1 then misuse env ''schema unregister: expected exactly one <event-type> argument'' []
       else withClient env ov (\<lambda>c.
         let rctx = rpcCtx ov ctx in
         replyDone (schema_Unregister (Client_Schema (env_net env) c (opts.store ov)) rctx (args ! 0))
           (writeField ''unregistered'' (JBool True) (pretty ov))))"

definition schemaUpcast :: "'w handler" where
  "schemaUpcast env ctx ov args input =
     withStore env ov (
     withValue env ''schema upcast: reading events from stdin: %v''
       (readProposedEvents (env_rt env) input) (\<lambda>events.
       let recs = proposedToRecorded events in
       withClient env ov (\<lambda>c.
         let rctx = rpcCtx ov ctx in
         reply (schema_Upcast (Client_Schema (env_net env) c (opts.store ov)) rctx recs)
           (\<lambda>upcasted. eventsResult upcasted (opts.bytes ov) (pretty ov)))))"


lemmas schema_commands =
  schemaList_def schemaGet_def schemaVersion_def schemaRegister_def schemaUnregister_def
  schemaUpcast_def

lemma schema_commands_bound [firewall]:
  "bound schemaList" "bound schemaGet" "bound schemaVersion" "bound schemaRegister"
  "bound schemaUnregister" "bound schemaUpcast"
  by (simp_all add: bound_def schema_commands firewall Client_Schema_def Let_def
      cong: if_cong)

lemma schema_commands_kept [kept]:
  "disciplined (schemaList env ctx ov args input)" "disciplined (schemaGet env ctx ov args input)"
  "disciplined (schemaVersion env ctx ov args input)"
  "disciplined (schemaRegister env ctx ov args input)"
  "disciplined (schemaUnregister env ctx ov args input)"
  "disciplined (schemaUpcast env ctx ov args input)"
  unfolding schema_commands Let_def by (intro kept)+

lemma schema_commands_one_value [kept]:
  "one_value (pretty ov) (schemaList env ctx ov args input)"
  "one_value (pretty ov) (schemaGet env ctx ov args input)"
  "one_value (pretty ov) (schemaVersion env ctx ov args input)"
  "one_value (pretty ov) (schemaRegister env ctx ov args input)"
  "one_value (pretty ov) (schemaUnregister env ctx ov args input)"
  "one_value (pretty ov) (schemaUpcast env ctx ov args input)"
  unfolding schema_commands Let_def by (intro kept)+

end
