(* ===== verification/CmdTemporal.thy ===== *)
theory CmdTemporal
  imports Handler
begin

text \<open>The commands on points in time: \<^verbatim>\<open>cmd/reckon/cmd_temporal.go\<close>.\<close>

definition temporalUntil :: "'w handler" where
  "temporalUntil env ctx ov args input =
     withStore env ov (
     withFlags env ''temporal until: %v'' [(''batch'', FUint64 100)] args (\<lambda>fs rest.
       if length rest \<noteq> 2 then misuse env ''temporal until: expected <stream> <timestamp>'' []
       else withValue env ''temporal until: %v'' (parseTime (env_rt env) (rest ! 1)) (\<lambda>cutoff.
         withClient env ov (\<lambda>c.
         let rctx = rpcCtx ov ctx in
         reply (temporal_Until (Client_Temporal (env_net env) c (opts.store ov)) rctx (rest ! 0) cutoff
             (getUint64 fs ''batch''))
           (\<lambda>evs. eventsResult evs (opts.bytes ov) (pretty ov))))))"

definition temporalRange :: "'w handler" where
  "temporalRange env ctx ov args input =
     withStore env ov (
     withFlags env ''temporal range: %v'' [(''batch'', FUint64 100)] args (\<lambda>fs rest.
       if length rest \<noteq> 3 then misuse env ''temporal range: expected <stream> <from-ts> <to-ts>'' []
       else withValue env ''temporal range: from: %v'' (parseTime (env_rt env) (rest ! 1)) (\<lambda>from.
         withValue env ''temporal range: to: %v'' (parseTime (env_rt env) (rest ! 2)) (\<lambda>to.
         withClient env ov (\<lambda>c.
         let rctx = rpcCtx ov ctx in
         reply (temporal_Range (Client_Temporal (env_net env) c (opts.store ov)) rctx (rest ! 0) from to
             (getUint64 fs ''batch''))
           (\<lambda>evs. eventsResult evs (opts.bytes ov) (pretty ov)))))))"

definition temporalVersionAt :: "'w handler" where
  "temporalVersionAt env ctx ov args input =
     withStore env ov (
       if length args \<noteq> 2 then misuse env ''temporal version-at: expected <stream> <timestamp>'' []
       else withValue env ''temporal version-at: %v'' (parseTime (env_rt env) (args ! 1)) (\<lambda>at.
         withClient env ov (\<lambda>c.
         let rctx = rpcCtx ov ctx in
         reply (temporal_VersionAt (Client_Temporal (env_net env) c (opts.store ov)) rctx (args ! 0) at)
           (\<lambda>v. writeField ''version'' (JInt (sint v)) (pretty ov)))))"


lemmas temporal_commands =
  temporalUntil_def temporalRange_def temporalVersionAt_def

lemma temporal_commands_bound [firewall]:
  "bound temporalUntil" "bound temporalRange" "bound temporalVersionAt"
  by (simp_all add: bound_def temporal_commands firewall Client_Temporal_def Let_def
      cong: if_cong)

lemma temporal_commands_kept [kept]:
  "disciplined (temporalUntil env ctx ov args input)"
  "disciplined (temporalRange env ctx ov args input)"
  "disciplined (temporalVersionAt env ctx ov args input)"
  unfolding temporal_commands Let_def by (intro kept)+

lemma temporal_commands_one_value [kept]:
  "one_value (pretty ov) (temporalUntil env ctx ov args input)"
  "one_value (pretty ov) (temporalRange env ctx ov args input)"
  "one_value (pretty ov) (temporalVersionAt env ctx ov args input)"
  unfolding temporal_commands Let_def by (intro kept)+

end
