(* ===== verification/CmdAdmin.thy ===== *)
theory CmdAdmin
  imports Handler
begin

text \<open>
  The commands of the administrator: \<^verbatim>\<open>cmd/reckon/cmd_admin.go\<close>. A dry run of a scavenge
  makes the dry-run call and no other.
\<close>

section \<open>Statistics and scavenging\<close>

definition adminStats :: "'w handler" where
  "adminStats env ctx ov args input =
     withStore env ov (withClient env ov (\<lambda>c.
       let rctx = rpcCtx ov ctx in
       reply (admin_StoreStats (Client_Admin (env_net env) c (opts.store ov)) rctx)
         (\<lambda>s. writeJSON (encode_StoreStats s) (pretty ov))))"

definition adminStreamInfo :: "'w handler" where
  "adminStreamInfo env ctx ov args input =
     withStore env ov (
       if length args \<noteq> 1 then
         misuse env ''admin stream-info: expected exactly one <stream> argument'' []
       else withClient env ov (\<lambda>c.
         let rctx = rpcCtx ov ctx in
         reply (admin_StreamInfo (Client_Admin (env_net env) c (opts.store ov)) rctx (args ! 0))
           (\<lambda>s. writeJSON (encode_StreamInfo s) (pretty ov))))"

definition adminEventTypes :: "'w handler" where
  "adminEventTypes env ctx ov args input =
     withStore env ov (withClient env ov (\<lambda>c.
       let rctx = rpcCtx ov ctx in
       reply (admin_EventTypeSummary (Client_Admin (env_net env) c (opts.store ov)) rctx)
         (\<lambda>counts. writeList encode_EventTypeCount counts (pretty ov))))"

definition adminScavenge :: "'w handler" where
  "adminScavenge env ctx ov args input =
     withStore env ov (
     withFlags env ''admin scavenge: %v'' [(''dry-run'', FBool False), (''opt'', FKv [])] args
       (\<lambda>fs rest.
       if length rest \<noteq> 1 then
         misuse env ''admin scavenge: expected exactly one <stream> argument'' []
       else withClient env ov (\<lambda>c.
         let rctx = rpcCtx ov ctx;
             ac = Client_Admin (env_net env) c (opts.store ov);
             run = (if getBool fs ''dry-run'' then admin_ScavengeDryRun ac
                    else admin_Scavenge ac) in
         reply (run rctx (rest ! 0) (getKv fs ''opt''))
           (\<lambda>res. writeJSON (encode_ScavengeResult res) (pretty ov)))))"

definition adminScavengeMatching :: "'w handler" where
  "adminScavengeMatching env ctx ov args input =
     withStore env ov (
     withFlags env ''admin scavenge-matching: %v'' [(''opt'', FKv [])] args (\<lambda>fs rest.
       if length rest \<noteq> 1 then
         misuse env ''admin scavenge-matching: expected exactly one <pattern> argument'' []
       else withClient env ov (\<lambda>c.
         let rctx = rpcCtx ov ctx in
         reply (admin_ScavengeMatching (Client_Admin (env_net env) c (opts.store ov)) rctx (rest ! 0)
             (getKv fs ''opt''))
           (\<lambda>results. writeList encode_ScavengeResult results (pretty ov)))))"

section \<open>Links\<close>

definition adminLinksList :: "'w admin_Client \<Rightarrow> ctx \<Rightarrow> opts \<Rightarrow> 'w action" where
  "adminLinksList ac rctx ov =
     reply (admin_ListLinks ac rctx) (\<lambda>links. writeList encode_LinkSpec links (pretty ov))"

definition adminLinksGet ::
  "'w env \<Rightarrow> 'w admin_Client \<Rightarrow> ctx \<Rightarrow> opts \<Rightarrow> string list \<Rightarrow> 'w action" where
  "adminLinksGet env ac rctx ov rest =
     (if length rest \<noteq> 1 then misuse env ''admin links get: expected <name>'' []
      else reply (admin_GetLink ac rctx (rest ! 0))
        (\<lambda>l. writeJSON (encode_LinkSpec l) (pretty ov)))"

definition adminLinksInfo ::
  "'w env \<Rightarrow> 'w admin_Client \<Rightarrow> ctx \<Rightarrow> opts \<Rightarrow> string list \<Rightarrow> 'w action" where
  "adminLinksInfo env ac rctx ov rest =
     (if length rest \<noteq> 1 then misuse env ''admin links info: expected <name>'' []
      else reply (admin_LinkInfo ac rctx (rest ! 0))
        (\<lambda>l. writeJSON (encode_LinkRuntime l) (pretty ov)))"

definition adminLinksAct :: "'w env \<Rightarrow> ctx \<Rightarrow> opts \<Rightarrow> string \<Rightarrow> string list \<Rightarrow>
    (ctx \<Rightarrow> string \<Rightarrow> ('w, gerror option) state) \<Rightarrow> string \<Rightarrow> 'w action" where
  "adminLinksAct env rctx ov sub rest call completed =
     (if length rest \<noteq> 1 then misuse env ''admin links %s: expected <name>'' [ArgS sub]
      else replyDone (call rctx (rest ! 0)) (writeField completed (JBool True) (pretty ov)))"

definition adminLinkCreate ::
  "'w env \<Rightarrow> 'w admin_Client \<Rightarrow> ctx \<Rightarrow> opts \<Rightarrow> string list \<Rightarrow> 'w action" where
  "adminLinkCreate env ac rctx ov args =
     withFlags env ''admin links create: %v''
       [(''source'', FStr ''''), (''target'', FStr ''''), (''opt'', FKv [])] args (\<lambda>fs rest.
       if length rest \<noteq> 1 then misuse env ''admin links create: expected <name>'' []
       else replyDone (admin_CreateLink ac rctx
           \<lparr>LinkSpec.Name = rest ! 0, Source = getStr fs ''source'',
            Target = getStr fs ''target'', Options = getKv fs ''opt''\<rparr>)
         (writeField ''created'' (JBool True) (pretty ov)))"

definition adminLinksSub :: "'w env \<Rightarrow> 'w admin_Client \<Rightarrow> ctx \<Rightarrow> opts \<Rightarrow> string \<Rightarrow> string list \<Rightarrow>
    'w action" where
  "adminLinksSub env ac rctx ov sub rest =
     (if sub = ''list'' then adminLinksList ac rctx ov
      else if sub = ''get'' then adminLinksGet env ac rctx ov rest
      else if sub = ''info'' then adminLinksInfo env ac rctx ov rest
      else if sub = ''create'' then adminLinkCreate env ac rctx ov rest
      else if sub = ''delete'' then
        adminLinksAct env rctx ov sub rest (admin_DeleteLink ac) ''deleted''
      else if sub = ''start'' then
        adminLinksAct env rctx ov sub rest (admin_StartLink ac) ''started''
      else if sub = ''stop'' then
        adminLinksAct env rctx ov sub rest (admin_StopLink ac) ''stopped''
      else misuse env ''admin links: unknown subcommand %q'' [ArgQ sub])"

text \<open>The message ends in an ellipsis, three bytes of UTF-8.\<close>

definition adminLinks :: "'w handler" where
  "adminLinks env ctx ov args input =
     withStore env ov (
       if length args < 1 then
         misuse env (''admin links: expected <list|get|create|delete|start|stop|info> '' @
           [CHR 0xE2, CHR 0x80, CHR 0xA6]) []
       else withClient env ov (\<lambda>c.
         let rctx = rpcCtx ov ctx in
         adminLinksSub env (Client_Admin (env_net env) c (opts.store ov)) rctx ov
           (args ! 0) (drop 1 args)))"

lemmas link_commands =
  adminLinksList_def adminLinksGet_def adminLinksInfo_def adminLinksAct_def adminLinkCreate_def
  adminLinksSub_def

lemmas admin_commands =
  adminStats_def adminStreamInfo_def adminEventTypes_def adminScavenge_def
  adminScavengeMatching_def adminLinks_def

lemma adminLinksSub_firewall [firewall]:
  "adminLinksSub (behind s env) (admin_New (admin_firewall s stub) s) =
     adminLinksSub env (admin_New stub s)"
  by (simp add: fun_eq_iff link_commands firewall cong: if_cong)

lemma admin_commands_bound [firewall]:
  "bound adminStats" "bound adminStreamInfo" "bound adminEventTypes" "bound adminScavenge"
  "bound adminScavengeMatching" "bound adminLinks"
  by (simp_all add: bound_def admin_commands firewall Client_Admin_def Let_def cong: if_cong)

lemma adminLinksSub_kept [kept]:
  "disciplined (adminLinksSub env ac rctx ov sub rest)"
  "one_value (pretty ov) (adminLinksSub env ac rctx ov sub rest)"
  unfolding link_commands by (intro kept)+

lemma admin_commands_kept [kept]:
  "disciplined (adminStats env ctx ov args input)"
  "disciplined (adminStreamInfo env ctx ov args input)"
  "disciplined (adminEventTypes env ctx ov args input)"
  "disciplined (adminScavenge env ctx ov args input)"
  "disciplined (adminScavengeMatching env ctx ov args input)"
  "disciplined (adminLinks env ctx ov args input)"
  unfolding admin_commands Let_def by (intro kept)+

lemma admin_commands_one_value [kept]:
  "one_value (pretty ov) (adminStats env ctx ov args input)"
  "one_value (pretty ov) (adminStreamInfo env ctx ov args input)"
  "one_value (pretty ov) (adminEventTypes env ctx ov args input)"
  "one_value (pretty ov) (adminScavenge env ctx ov args input)"
  "one_value (pretty ov) (adminScavengeMatching env ctx ov args input)"
  "one_value (pretty ov) (adminLinks env ctx ov args input)"
  unfolding admin_commands Let_def by (intro kept)+

section \<open>Dry runs\<close>

text \<open>The surroundings with another \<open>Scavenge\<close> behind the network.\<close>

definition with_scavenge ::
  "(ctx \<Rightarrow> pb_ScavengeRequest \<Rightarrow> ('w, pb_ScavengeResponse option ret) state) \<Rightarrow> 'w env \<Rightarrow> 'w env" where
  "with_scavenge f env = env\<lparr>env_net := (env_net env)\<lparr>net_stubs := \<lambda>c.
     (net_stubs (env_net env) c)\<lparr>st_admin := (st_admin (net_stubs (env_net env) c))
       \<lparr>Scavenge := f\<rparr>\<rparr>\<rparr>\<rparr>"

text \<open>
  C29: A dry run removes nothing. When the flags say so, the scavenge command makes no \<open>Scavenge\<close>
  call: whatever that call would do to the gateway, the command's effect and result are the same.
\<close>

theorem dry_run_never_scavenges:
  assumes "flagsThenArgs (env_rt env) [(''dry-run'', FBool False), (''opt'', FKv [])] args [] =
      Inr (fs, rest)"
    and "getBool fs ''dry-run''"
  shows "adminScavenge (with_scavenge f env) ctx ov args input = adminScavenge env ctx ov args input"
  using assms
  by (simp add: adminScavenge_def withStore_def withFlags_def withClient_def misuse_def
      with_scavenge_def dial_def Connect_def Let_def Client_Admin_def admin_New_def
      admin_ScavengeDryRun_def admin_scavenge_def fun_eq_iff
      split: option.split sum.split)

theorem dry_run_never_scavenges_witness:
  "adminScavenge (with_scavenge (\<lambda>_ _. State_Monad.return (None, None)) sample_env) SignalCtx sample_opts
     [''--dry-run'', ''orders''] (Inr '''') =
   adminScavenge sample_env SignalCtx sample_opts [''--dry-run'', ''orders''] (Inr '''')"
proof (rule dry_run_never_scavenges)
  show "flagsThenArgs (env_rt sample_env) [(''dry-run'', FBool False), (''opt'', FKv [])]
      [''--dry-run'', ''orders''] [] = Inr ([(''dry-run'', FBool True), (''opt'', FKv [])], [''orders''])"
    by (simp add: flagsThenArgs.simps flagParse.simps parseOne_def isFlag_def flagName_def setFlag_def
        storeFlag_def isBoolFlag_def flagSetValue_def ParseBool_def)
qed (simp add: getBool_def)

end
