(* ===== verification/CmdHealth.thy ===== *)
theory CmdHealth
  imports Handler
begin

text \<open>The commands on health: \<^verbatim>\<open>cmd/reckon/cmd_health.go\<close>.\<close>

definition healthCheck :: "'w handler" where
  "healthCheck env ctx ov args input =
     withStore env ov (withClient env ov (\<lambda>c.
       let rctx = rpcCtx ov ctx in
       reply (health_Check (Client_Health (env_net env) c (opts.store ov)) rctx)
         (\<lambda>r. writeJSON (encode_CheckResult r) (pretty ov))))"

text \<open>The status is that of the gateway: no store is named or needed.\<close>

lemma health_Health_firewall [firewall]:
  "health_Health (health_New (health_firewall s stub) s') = health_Health (health_New stub s')"
  by (simp add: fun_eq_iff health_Health_def health_New_def health_firewall_def)

definition healthStatus :: "'w handler" where
  "healthStatus env ctx ov args input =
     withClient env ov (\<lambda>c.
       let rctx = rpcCtx ov ctx in
       reply (health_Health (Client_Health (env_net env) c '''') rctx)
         (\<lambda>r. writeJSON (encode_HealthResult r) (pretty ov)))"

text \<open>The three cluster checks; the name the source passes along is not used.\<close>

definition clusterCheck :: "'w env \<Rightarrow> ctx \<Rightarrow> opts \<Rightarrow>
    ('w health_Client \<Rightarrow> ctx \<Rightarrow> ('w, ClusterResult ret) state) \<Rightarrow> 'w action" where
  "clusterCheck env ctx ov fn =
     withStore env ov (withClient env ov (\<lambda>c.
       let rctx = rpcCtx ov ctx in
       reply (fn (Client_Health (env_net env) c (opts.store ov)) rctx)
         (\<lambda>r. writeJSON (encode_ClusterResult r) (pretty ov))))"

definition healthClusterConsistency :: "'w handler" where
  "healthClusterConsistency env ctx ov args input =
     clusterCheck env ctx ov (\<lambda>hc rc. health_ClusterConsistency hc rc)"

definition healthMembershipConsensus :: "'w handler" where
  "healthMembershipConsensus env ctx ov args input =
     clusterCheck env ctx ov (\<lambda>hc rc. health_MembershipConsensus hc rc)"

definition healthRaftLog :: "'w handler" where
  "healthRaftLog env ctx ov args input =
     clusterCheck env ctx ov (\<lambda>hc rc. health_RaftLogConsistency hc rc)"

definition healthMemoryLevel :: "'w handler" where
  "healthMemoryLevel env ctx ov args input =
     withStore env ov (withClient env ov (\<lambda>c.
       let rctx = rpcCtx ov ctx in
       reply (health_MemoryLevel (Client_Health (env_net env) c (opts.store ov)) rctx)
         (\<lambda>lvl. writeField ''level'' (JStr lvl) (pretty ov))))"

definition healthMemoryStats :: "'w handler" where
  "healthMemoryStats env ctx ov args input =
     withStore env ov (withClient env ov (\<lambda>c.
       let rctx = rpcCtx ov ctx in
       reply (health_MemoryStats (Client_Health (env_net env) c (opts.store ov)) rctx)
         (\<lambda>m. writeJSON (encode_MemoryStats m) (pretty ov))))"

definition healthServerInfo :: "'w handler" where
  "healthServerInfo env ctx ov args input =
     withStore env ov (withClient env ov (\<lambda>c.
       let rctx = rpcCtx ov ctx in
       reply (health_ServerInfo (Client_Health (env_net env) c (opts.store ov)) rctx)
         (\<lambda>s. writeJSON (encode_ServerInfo s) (pretty ov))))"


lemmas health_commands =
  clusterCheck_def healthCheck_def healthStatus_def healthClusterConsistency_def healthMembershipConsensus_def
  healthRaftLog_def healthMemoryLevel_def healthMemoryStats_def healthServerInfo_def

lemma health_commands_bound [firewall]:
  "bound healthCheck" "bound healthStatus" "bound healthClusterConsistency"
  "bound healthMembershipConsensus" "bound healthRaftLog" "bound healthMemoryLevel"
  "bound healthMemoryStats" "bound healthServerInfo"
  by (simp_all add: bound_def health_commands firewall Client_Health_def Let_def
      cong: if_cong)

lemma health_commands_kept [kept]:
  "disciplined (healthCheck env ctx ov args input)"
  "disciplined (healthStatus env ctx ov args input)"
  "disciplined (healthClusterConsistency env ctx ov args input)"
  "disciplined (healthMembershipConsensus env ctx ov args input)"
  "disciplined (healthRaftLog env ctx ov args input)"
  "disciplined (healthMemoryLevel env ctx ov args input)"
  "disciplined (healthMemoryStats env ctx ov args input)"
  "disciplined (healthServerInfo env ctx ov args input)"
  unfolding health_commands Let_def by (intro kept)+

lemma health_commands_one_value [kept]:
  "one_value (pretty ov) (healthCheck env ctx ov args input)"
  "one_value (pretty ov) (healthStatus env ctx ov args input)"
  "one_value (pretty ov) (healthClusterConsistency env ctx ov args input)"
  "one_value (pretty ov) (healthMembershipConsensus env ctx ov args input)"
  "one_value (pretty ov) (healthRaftLog env ctx ov args input)"
  "one_value (pretty ov) (healthMemoryLevel env ctx ov args input)"
  "one_value (pretty ov) (healthMemoryStats env ctx ov args input)"
  "one_value (pretty ov) (healthServerInfo env ctx ov args input)"
  unfolding health_commands Let_def by (intro kept)+

end
