(* ===== verification/CmdGateway.thy ===== *)
theory CmdGateway
  imports Handler
begin

text \<open>
  The commands on the gateway as a whole, which need no store: \<^verbatim>\<open>cmd/reckon/cmd_stores.go\<close>
  and \<^verbatim>\<open>cmd/reckon/cmd_catalogue.go\<close>.
\<close>

definition storesList :: "'w handler" where
  "storesList env ctx ov args input =
     withClient env ov (\<lambda>c.
       let rctx = rpcCtx ov ctx in
       reply (stores_List (Client_Stores (env_net env) c) rctx)
         (\<lambda>insts. writeList encode_Instance insts (pretty ov)))"

definition storesWatch :: "'w handler" where
  "storesWatch env ctx ov args input =
     withClient env ov (\<lambda>c. do {
       g \<leftarrow> stores_Watch (Client_Stores (env_net env) c) ctx [];
       pump (env_rt env) (\<lambda>e. State_Monad.return (encode_StoreEvent e)) (env_stores env g)
     })"

definition catalogueStatus :: "'w handler" where
  "catalogueStatus env ctx ov args input =
     withClient env ov (\<lambda>c.
       let rctx = rpcCtx ov ctx in
       reply (admin_GetCatalogueStatus (Client_Admin (env_net env) c '''') rctx)
         (\<lambda>s. writeJSON (encode_CatalogueStatus s) (pretty ov)))"

definition catalogueReload :: "'w handler" where
  "catalogueReload env ctx ov args input =
     withClient env ov (\<lambda>c.
       let rctx = rpcCtx ov ctx in
       reply (admin_ReloadCatalogue (Client_Admin (env_net env) c '''') rctx)
         (\<lambda>r. writeJSON (encode_CatalogueReload r) (pretty ov)))"

lemmas gateway_commands = storesList_def catalogueStatus_def catalogueReload_def

lemma catalogue_firewall [firewall]:
  "admin_GetCatalogueStatus (admin_New (admin_firewall s stub) s') =
     admin_GetCatalogueStatus (admin_New stub s')"
  "admin_ReloadCatalogue (admin_New (admin_firewall s stub) s') =
     admin_ReloadCatalogue (admin_New stub s')"
  by (simp_all add: fun_eq_iff admin_GetCatalogueStatus_def admin_ReloadCatalogue_def
      admin_New_def admin_firewall_def)

lemma gateway_commands_bound [firewall]:
  "bound storesList" "bound storesWatch" "bound catalogueStatus" "bound catalogueReload"
  by (simp_all add: bound_def gateway_commands storesWatch_def firewall Client_Admin_def
      Client_Stores_def Let_def)

lemma gateway_commands_kept [kept]:
  "disciplined (storesList env ctx ov args input)"
  "disciplined (catalogueStatus env ctx ov args input)"
  "disciplined (catalogueReload env ctx ov args input)"
  unfolding gateway_commands Let_def by (intro kept)+

lemma gateway_commands_one_value [kept]:
  "one_value (pretty ov) (storesList env ctx ov args input)"
  "one_value (pretty ov) (catalogueStatus env ctx ov args input)"
  "one_value (pretty ov) (catalogueReload env ctx ov args input)"
  unfolding gateway_commands Let_def by (intro kept)+

lemma storesWatch_kept [kept]: "disciplined (storesWatch env ctx ov args input)"
  unfolding storesWatch_def Let_def by (intro kept)

text \<open>The frames of the stores keep the contract of the pump.\<close>

interpretation store_frames: framing "\<lambda>e. State_Monad.return (encode_StoreEvent e)" "''store_event''"
  by unfold_locales (auto simp: frames_of_def encode_StoreEvent_def encode_Instance_def)

lemma storesWatch_stream [kept]:
  "one_stream (env_rt env) ''store_event'' (storesWatch env ctx ov args input)"
  unfolding storesWatch_def by (intro kept store_frames.pump_one_stream)

end
