(* ===== verification/Run.thy ===== *)
theory Run
  imports CmdStreams CmdSubs CmdSnapshots CmdSchema CmdTemporal CmdAdmin CmdHealth CmdGateway
begin

text \<open>
  The whole program: the table of \<^verbatim>\<open>cmd/reckon/route.go\<close> and \<open>run\<close> of
  \<^verbatim>\<open>cmd/reckon/main.go\<close>. A run takes the command line and standard input and leaves an
  exit code and what was written to standard output and standard error.
\<close>

section \<open>Routes\<close>

definition routes :: "(string \<times> 'w handler) list" where
  "routes = [
     (''stores list'', storesList),
     (''stores watch'', storesWatch),
     (''streams list'', streamsList),
     (''streams read'', streamsRead),
     (''streams watch'', streamsWatch),
     (''streams version'', streamsVersion),
     (''streams delete'', streamsDelete),
     (''streams append'', streamsAppend),
     (''streams by-types'', streamsByTypes),
     (''streams by-tags'', streamsByTags),
     (''streams all'', streamsAll),
     (''subs list'', subsList),
     (''subs get'', subsGet),
     (''subs lag'', subsLag),
     (''subs create'', subsCreate),
     (''subs remove'', subsRemove),
     (''subs ack'', subsAck),
     (''subs consume'', subsConsume),
     (''snapshots list'', snapshotsList),
     (''snapshots list-all'', snapshotsListAll),
     (''snapshots at'', snapshotsAt),
     (''snapshots latest'', snapshotsLatest),
     (''snapshots save'', snapshotsSave),
     (''snapshots delete'', snapshotsDelete),
     (''schema list'', schemaList),
     (''schema get'', schemaGet),
     (''schema version'', schemaVersion),
     (''schema register'', schemaRegister),
     (''schema unregister'', schemaUnregister),
     (''schema upcast'', schemaUpcast),
     (''temporal until'', temporalUntil),
     (''temporal range'', temporalRange),
     (''temporal version-at'', temporalVersionAt),
     (''admin stats'', adminStats),
     (''admin stream-info'', adminStreamInfo),
     (''admin event-types'', adminEventTypes),
     (''admin scavenge'', adminScavenge),
     (''admin scavenge-matching'', adminScavengeMatching),
     (''admin links'', adminLinks),
     (''health check'', healthCheck),
     (''health status'', healthStatus),
     (''health cluster-consistency'', healthClusterConsistency),
     (''health membership-consensus'', healthMembershipConsensus),
     (''health raft-log'', healthRaftLog),
     (''health memory-level'', healthMemoryLevel),
     (''health memory-stats'', healthMemoryStats),
     (''health server-info'', healthServerInfo),
     (''catalogue status'', catalogueStatus),
     (''catalogue reload'', catalogueReload)]"

section \<open>A run\<close>

record result =
  exitCode :: int
  stdout :: written
  stderr :: written

text \<open>\<open>return emitErr(stderr, err)\<close>, after what the handler wrote.\<close>

definition exitWith :: "written \<Rightarrow> cmdError \<Rightarrow> result" where
  "exitWith out err = (case emitErr err of (se, code) \<Rightarrow>
     \<lparr>exitCode = code, stdout = out, stderr = se\<rparr>)"

definition run :: "'w env \<Rightarrow> string list \<Rightarrow> stdin \<Rightarrow> ('w, result) state" where
  "run env argv input =
     (case parseGlobal (env_rt env) argv of
        Inl ce \<Rightarrow> State_Monad.return (exitWith [] (Cli ce))
      | Inr (ov, rest) \<Rightarrow>
          if showVersion ov then
            State_Monad.return \<lparr>exitCode = 0,
              stdout = fst (writeJSON (JObj [
                (''client'', JStr (rt_version (env_rt env))),
                (''api_compat'', JStr ''reckon.gateway.v1'')]) (pretty ov)),
              stderr = []\<rparr>
          else if length rest < 2 then
            State_Monad.return (exitWith [] (Cli (usageErr (env_rt env)
              ''expected: reckon [flags] <group> <command> [args]'' [])))
          else let key = rest ! 0 @ '' '' @ rest ! 1 in
            (case map_of routes key of
               None \<Rightarrow> State_Monad.return (exitWith [] (Cli (usageErr (env_rt env)
                 ''unknown command %q'' [ArgQ key])))
             | Some h \<Rightarrow> do {
                 (out, err) \<leftarrow> h env SignalCtx ov (drop 2 rest) input;
                 State_Monad.return (case err of
                     Some e \<Rightarrow> exitWith out e
                   | None \<Rightarrow> \<lparr>exitCode = 0, stdout = out, stderr = []\<rparr>)
               }))"

section \<open>What all routes keep\<close>

text \<open>What holds of every entry of the table holds of the handler found in it.\<close>

lemma routes_all:
  "list_all (\<lambda>(k, h). P k h) routes \<Longrightarrow> map_of routes key = Some h \<Longrightarrow> P key h"
  by (auto simp: list_all_iff dest!: map_of_SomeD)

lemma routes_bound: "map_of routes key = Some h \<Longrightarrow> bound h"
  by (erule routes_all [rotated]) (simp add: routes_def firewall)

lemma routes_disciplined:
  "map_of routes key = Some h \<Longrightarrow> disciplined (h env ctx ov args input)"
  by (erule routes_all [rotated], unfold routes_def, simp, intro conjI kept)

text \<open>The commands that stream.\<close>

definition streaming :: "string list" where
  "streaming = [''stores watch'', ''streams watch'', ''subs consume'']"

text \<open>And the type of their frames.\<close>

definition frame_types :: "(string \<times> string) list" where
  "frame_types = [(''stores watch'', ''store_event''), (''streams watch'', ''event''),
     (''subs consume'', ''delivery'')]"

text \<open>
  The commands that do without a store. The design document counts \<open>health server-info\<close> among them,
  and comments call the cluster checks gateway-wide; the code asks all of these for a store.
\<close>

definition storeless :: "string list" where
  "storeless = [''stores list'', ''stores watch'', ''health status'', ''catalogue status'',
     ''catalogue reload'']"

lemma routes_one_value:
  assumes "map_of routes key = Some h" and "key \<notin> set streaming"
  shows "one_value (pretty ov) (h env ctx ov args input)"
proof -
  have "list_all (\<lambda>(k, h). k \<in> set streaming \<or> one_value (pretty ov) (h env ctx ov args input)) routes"
    by (simp add: routes_def streaming_def kept)
  from routes_all [OF this assms(1)] assms(2) show ?thesis by simp
qed

lemma routes_writes_ok:
  assumes "map_of routes key = Some h"
  shows "writes_ok (pretty ov) (h env ctx ov args input)"
proof -
  have "writes_ok (pretty ov) (storesWatch env ctx ov args input)"
    "writes_ok (pretty ov) (streamsWatch env ctx ov args input)"
    "writes_ok (pretty ov) (subsConsume env ctx ov args input)"
    unfolding storesWatch_def streamsWatch_def subsConsume_def Let_def case_prod_beta
    by (intro kept)+
  then have "list_all (\<lambda>(k, h). k \<notin> set streaming \<or> writes_ok (pretty ov) (h env ctx ov args input)) routes"
    by (simp add: routes_def streaming_def)
  from routes_all [OF this assms] show ?thesis
    using routes_one_value [OF assms] one_value_writes_ok by blast
qed

lemma stream_routes:
  "map_of routes ''stores watch'' = Some storesWatch"
  "map_of routes ''streams watch'' = Some streamsWatch"
  "map_of routes ''subs consume'' = Some subsConsume"
  by (simp_all add: routes_def)

lemma routes_stream:
  assumes "(key, ty) \<in> set frame_types"
  obtains h where "map_of routes key = Some h"
    and "\<And>env ctx ov args input. one_stream (env_rt env) ty (h env ctx ov args input)"
proof -
  from assms consider "key = ''stores watch'' \<and> ty = ''store_event''"
    | "key = ''streams watch'' \<and> ty = ''event''" | "key = ''subs consume'' \<and> ty = ''delivery''"
    by (auto simp: frame_types_def)
  then show thesis
    by cases (use that stream_routes storesWatch_stream streamsWatch_stream subsConsume_stream
      in blast)+
qed

lemma withStore_missing:
  "opts.store ov = '''' \<Longrightarrow> withStore env ov k =
     misuse env ''this command requires --store (or RECKON_STORE)'' []"
  by (simp add: withStore_def requireStore_def misuse_def)

lemmas all_commands =
  stream_commands subs_commands subsConsume_def snapshot_commands schema_commands
  temporal_commands admin_commands health_commands

lemma routes_need_store:
  assumes "map_of routes key = Some h" and "key \<notin> set storeless" and "opts.store ov = ''''"
  shows "h env ctx ov args input =
    misuse env ''this command requires --store (or RECKON_STORE)'' []"
proof -
  have "list_all (\<lambda>(k, h). k \<in> set storeless \<or> h env ctx ov args input =
      misuse env ''this command requires --store (or RECKON_STORE)'' []) routes"
    by (simp add: routes_def storeless_def all_commands withStore_missing [OF assms(3)])
  from routes_all [OF this assms(1)] assms(2) show ?thesis by simp
qed

section \<open>The ways a run ends\<close>

lemma exitWith_simps [simp]:
  "exitCode (exitWith out err) = exit_of err" "stdout (exitWith out err) = out"
  "stderr (exitWith out err) = [(errorObject (asCliError err), False)]"
  by (simp_all add: exitWith_def emitErr_writes)

lemma disciplined_documented:
  "disciplined m \<Longrightarrow> run_state m w = ((out, Some e), w') \<Longrightarrow> documented (asCliError e)"
  unfolding disciplined_def by blast

lemma disciplined_exit:
  "disciplined m \<Longrightarrow> run_state m w = ((out, Some e), w') \<Longrightarrow> exit_of e \<in> exit_codes"
  by (rule documented_exit, rule disciplined_documented)

text \<open>A run ends in its handler, or without one and without touching the gateway.\<close>

lemma run_cases:
  obtains (early) r where "run env argv input = State_Monad.return r"
      "exitCode r = 0 \<and> stderr r = [] \<or> (\<exists>ce. r = exitWith [] (Cli ce) \<and> documented ce \<and> Exit ce = 2)"
      "\<And>ov rest. parseGlobal (env_rt env) argv = Inr (ov, rest) \<Longrightarrow>
        stdout r = [] \<and> exitCode r = 2 \<or> exitCode r = 0 \<and> (\<exists>v. stdout r = [(v, pretty ov)] \<and> json_ok v)"
  | (handled) ov rest key h where "parseGlobal (env_rt env) argv = Inr (ov, rest)"
      "\<not> showVersion ov" "2 \<le> length rest" "key = rest ! 0 @ '' '' @ rest ! 1"
      "map_of routes key = Some h"
      "run env argv input = do {
         (out, err) \<leftarrow> h env SignalCtx ov (drop 2 rest) input;
         State_Monad.return (case err of
             Some e \<Rightarrow> exitWith out e
           | None \<Rightarrow> \<lparr>exitCode = 0, stdout = out, stderr = []\<rparr>)
       }"
proof (cases "parseGlobal (env_rt env) argv")
  case (Inl ce)
  then have "documented ce \<and> Exit ce = 2"
    using refusal_usageErr
    by (auto simp: parseGlobal_def refusal_def Let_def split: sum.splits prod.splits if_splits)
  with Inl show thesis by (intro early [of "exitWith [] (Cli ce)"]) (auto simp: run_def)
next
  case (Inr p)
  obtain ov rest where p: "p = (ov, rest)" by (cases p)
  show thesis
  proof (cases "showVersion ov \<or> length rest < 2 \<or> map_of routes (rest ! 0 @ '' '' @ rest ! 1)
      = (None :: 'a handler option)")
    case False
    with Inr p show thesis
      by (auto simp: run_def Let_def intro: handled [OF _ _ _ refl])
  next
    case True
    with Inr p show thesis
      by (cases "showVersion ov"; cases "length rest < 2")
        (auto simp: run_def Let_def writeJSON_fits maxNestingDepth_def
          refusal_usageErr [unfolded refusal_def] intro!: early)
  qed
qed

lemma run_handled_state:
  assumes "run env argv input = do {
      (out, err) \<leftarrow> m;
      State_Monad.return (case err of
          Some e \<Rightarrow> exitWith out e
        | None \<Rightarrow> \<lparr>exitCode = 0, stdout = out, stderr = []\<rparr>)
    }"
  shows "run_state (run env argv input) w =
    (case run_state m w of ((out, err), w') \<Rightarrow>
      (case err of Some e \<Rightarrow> exitWith out e
       | None \<Rightarrow> \<lparr>exitCode = 0, stdout = out, stderr = []\<rparr>, w'))"
  unfolding assms by (simp split: prod.splits)

section \<open>Properties\<close>

text \<open>
  C2: A run talks about its own store only. Whatever the command line, behind a firewall that
  refuses every request naming another store than the one the global flags and the environment give,
  the run does the same: same effects, same output, same exit code.
\<close>

theorem run_stays_in_store:
  assumes "parseGlobal (env_rt env) argv = Inr (ov, rest)"
  shows "run (behind (opts.store ov) env) argv input = run env argv input"
  using assms by (auto simp: run_def Let_def bound_def split: option.split dest!: routes_bound)

theorem run_stays_in_store_witness:
  "run (behind ''orders'' sample_env) [''-s'', ''orders'', ''streams'', ''list''] (Inr '''') =
   run sample_env [''-s'', ''orders'', ''streams'', ''list''] (Inr '''')"
proof -
  obtain ov where "parseGlobal sample_rt [''-s'', ''orders'', ''streams'', ''list''] =
      Inr (ov, [''streams'', ''list''])" "opts.store ov = ''orders''"
    using sample_parseGlobal by blast
  with run_stays_in_store [of sample_env] show ?thesis by (fastforce simp: sample_env_def)
qed

text \<open>
  C5: A usage error does nothing. A run that exits with 2 (usage) or 6 (unreachable) has left the
  gateway as it was and written nothing to standard output.
\<close>

theorem run_usage_calls_nothing:
  assumes "run_state (run env argv input) w = (r, w')" and "exitCode r \<in> {2, 6}"
  shows "w' = w \<and> stdout r = []"
proof (cases rule: run_cases [of env argv input])
  case (early r0)
  with assms show ?thesis by auto
next
  case (handled ov rest key h)
  obtain out err w1 where h: "run_state (h env SignalCtx ov (drop 2 rest) input) w = ((out, err), w1)"
    by (metis prod.exhaust)
  note r = run_handled_state [OF handled(6), of w, unfolded h, simplified]
  show ?thesis
  proof (cases err)
    case None
    with r assms show ?thesis by auto
  next
    case (Some e)
    with routes_disciplined [OF handled(5)] h
    have "exit_of e \<in> {2, 6} \<longrightarrow> w1 = w \<and> out = []" unfolding disciplined_def by blast
    with r assms Some show ?thesis by auto
  qed
qed

theorem run_usage_calls_nothing_witness:
  "\<exists>r. run_state (run sample_env [''streams''] (Inr '''')) 0 = (r, 0) \<and> exitCode r = 2"
proof -
  obtain r w' where r: "run_state (run sample_env [''streams''] (Inr '''')) 0 = (r, w')"
    by (metis prod.exhaust)
  then have "exitCode r = 2"
    by (auto simp: run_def sample_env_def sample_rt_def parseGlobal_def flagParse.simps parseOne_def
        isFlag_def globalFlags_def envDef_def getStr_def getBool_def ParseBytes_def pick_def
        getDuration_def parseDur_def)
  with run_usage_calls_nothing [OF r] r show ?thesis by auto
qed

text \<open>
  C22: The exit code tells the outcome. A run ends with 0 and an empty standard error, or it writes
  exactly one error object there, and its exit code and the name in that object are a row of the
  documented table for the gRPC status in it: the gateway's own row, or, with the status -1 of an error
  that is not the gateway's, misuse, an unreachable gateway or an internal error.
\<close>

theorem run_exit_code:
  "let r = fst (run_state (run env argv input) w) in
     exitCode r = 0 \<and> stderr r = [] \<or>
     (\<exists>name msg status.
        stderr r = [(JObj [(''error'', JObj [(''code'', JStr name), (''message'', JStr msg),
          (''grpc_status'', JInt status), (''details'', JObj [])])], False)] \<and>
        (name, exitCode r) \<in> set (documented_rows status))"
proof (cases rule: run_cases [of env argv input])
  case (early r0)
  then show ?thesis by (auto simp: errorObject_def documented_def)
next
  case (handled ov rest key h)
  obtain out err w1 where h: "run_state (h env SignalCtx ov (drop 2 rest) input) w = ((out, err), w1)"
    by (metis prod.exhaust)
  note r = run_handled_state [OF handled(6), of w, unfolded h, simplified]
  show ?thesis
  proof (cases err)
    case None
    with r show ?thesis by simp
  next
    case (Some e)
    with disciplined_documented [OF routes_disciplined [OF handled(5)]] h
    have "documented (asCliError e)" by blast
    with r Some show ?thesis by (auto simp: errorObject_def documented_def)
  qed
qed

text \<open>
  C7: The output of a command that does not stream is all or nothing: one JSON value, indented when
  asked for, when the run succeeds, and nothing at all on standard output when it fails.
\<close>

theorem run_output_all_or_nothing:
  assumes "parseGlobal (env_rt env) argv = Inr (ov, rest)" and "2 \<le> length rest"
    and "rest ! 0 @ '' '' @ rest ! 1 \<notin> set streaming"
    and "run_state (run env argv input) w = (r, w')"
  shows "if exitCode r = 0 then \<exists>v. stdout r = [(v, pretty ov)] \<and> json_ok v else stdout r = []"
proof (cases rule: run_cases [of env argv input])
  case (early r0)
  with early(3) [OF assms(1)] assms(4) show ?thesis by auto
next
  case (handled ov' rest' key h)
  with assms have same: "ov' = ov" "rest' = rest" by auto
  obtain out err w1 where h: "run_state (h env SignalCtx ov (drop 2 rest) input) w = ((out, err), w1)"
    by (metis prod.exhaust)
  have one: "case err of None \<Rightarrow> \<exists>v. out = [(v, pretty ov)] \<and> json_ok v | Some _ \<Rightarrow> out = []"
    using routes_one_value [OF handled(5)] handled(4) assms(3) h same
    unfolding one_value_def by blast
  have code: "exit_of e \<noteq> 0" if "err = Some e" for e
    using disciplined_exit [OF routes_disciplined [OF handled(5)]] h that
    unfolding exit_codes_def by fastforce
  note r = run_handled_state [OF handled(6), of w, unfolded same h, simplified]
  show ?thesis
    using r assms(4) one code by (cases err) auto
qed

text \<open>
  C8: The output of a command that streams is one framed stream or nothing. It fails as misused or
  unreachable with nothing written, or it writes \<open>ready\<close>, any number of frames of its own type and
  one last frame: \<open>end\<close> when the run succeeds, \<open>error\<close> when it fails.
\<close>

theorem run_streams_frames:
  assumes "parseGlobal (env_rt env) argv = Inr (ov, rest)" and "\<not> showVersion ov"
    and "2 \<le> length rest"
    and "(rest ! 0 @ '' '' @ rest ! 1, ty) \<in> set frame_types"
    and "run_state (run env argv input) w = (r, w')"
  shows "(stdout r = [] \<and> exitCode r \<in> {2, 6}) \<or>
    (\<exists>body fin. stdout r = (JObj (readyFrame (env_rt env)), False) # body @ [fin] \<and>
       (\<forall>l \<in> set body. frameType l = Some (JStr ty)) \<and>
       frameType fin = Some (JStr (if exitCode r = 0 then ''end'' else ''error'')))"
proof -
  obtain h where route: "map_of routes (rest ! 0 @ '' '' @ rest ! 1) = Some h"
    and one: "one_stream (env_rt env) ty (h env SignalCtx ov (drop 2 rest) input)"
    by (rule routes_stream [OF assms(4)]) blast
  obtain out err w1 where h: "run_state (h env SignalCtx ov (drop 2 rest) input) w = ((out, err), w1)"
    by (metis prod.exhaust)
  have r: "r = (case err of Some e \<Rightarrow> exitWith out e
      | None \<Rightarrow> \<lparr>exitCode = 0, stdout = out, stderr = []\<rparr>)"
    using assms(1-3,5) route h by (simp add: run_def Let_def)
  from one h consider (failed) e where "out = []" "err = Some e" "exit_of e \<in> {2, 6}"
    | (framed) n where "well_framed (env_rt env) ty n out err"
    unfolding one_stream_def by blast
  then show ?thesis
  proof cases
    case failed
    with r show ?thesis by simp
  next
    case framed
    then obtain body fin where out: "out = (JObj (readyFrame (env_rt env)), False) # body @ [fin]"
      "\<forall>l \<in> set body. frameType l = Some (JStr ty)" "terminal fin"
      "frameType fin = Some (JStr ''error'') \<longleftrightarrow> err \<noteq> None"
      unfolding well_framed_def by blast
    have "exit_of e \<noteq> 0" if "err = Some e" for e
      using disciplined_exit [OF routes_disciplined [OF route]] h that
      unfolding exit_codes_def by fastforce
    with r out show ?thesis
      by (cases err) (auto simp: terminal_def)
  qed
qed

lemma watcher_parseGlobal:
  "\<exists>ov. parseGlobal sample_rt [''-s'', ''orders'', ''streams'', ''watch'', ''users-42''] =
     Inr (ov, [''streams'', ''watch'', ''users-42'']) \<and> opts.store ov = ''orders'' \<and> \<not> showVersion ov \<and>
     \<not> plaintext ov \<and> caFile ov = '''' \<and> serverName ov = ''''"
  by (simp add: parseGlobal_def flagParse.simps parseOne_def isFlag_def flagName_def setFlag_def
      storeFlag_def isBoolFlag_def flagSetValue_def globalFlags_def getStr_def getBool_def
      ParseBytes_def envDef_def sample_rt_def pick_def Let_def)

theorem run_streams_frames_witness:
  "\<exists>r. run_state (run watcher_env [''-s'', ''orders'', ''streams'', ''watch'', ''users-42''] (Inr ''''))
      0 = (r, 0) \<and> exitCode r = 0 \<and> (\<exists>fin. last (stdout r) = fin \<and>
      frameType fin = Some (JStr ''end''))"
proof -
  let ?argv = "[''-s'', ''orders'', ''streams'', ''watch'', ''users-42'']"
  let ?g = "\<lparr>g_open = None, g_recv = [RMsg None, REOF], g_conv = recordedFromProto\<rparr>"
  obtain ov where ov: "parseGlobal sample_rt ?argv = Inr (ov, [''streams'', ''watch'', ''users-42''])"
    "opts.store ov = ''orders''" "\<not> showVersion ov" "\<not> plaintext ov" "caFile ov = ''''"
    "serverName ov = ''''"
    using watcher_parseGlobal by blast
  have rt: "env_rt watcher_env = sample_rt"
    by (simp add: watcher_env_def patient_env_def sample_env_def)
  obtain c where c: "dial (env_rt watcher_env) (env_net watcher_env) ov = Inr c"
    by (simp add: dial_def transport_def ov Connect_def watcher_env_def patient_env_def sample_env_def
        sample_net_def)
  have "run_state (streamsWatch watcher_env SignalCtx ov [''users-42''] (Inr '''')) 0 =
      (((JObj (readyFrame (env_rt watcher_env)), False) #
         map (\<lambda>e. (JObj (eventFrame ov e), False)) [recordedFromProto None] @
         [(JObj (fst (pumpEnd None False)), False)], snd (pumpEnd None False)), 0)"
    by (rule streamsWatch_run [OF _ c, where s = "[RMsg None, REOF]"])
      (simp_all add: ov isFlag_def watcher_env_def patient_env_def patient_view_def)
  then obtain r where r: "run_state (run watcher_env ?argv (Inr '''')) 0 = (r, 0)" "exitCode r = 0"
    "stdout r \<noteq> []"
    using ov by (simp add: run_def rt routes_def Let_def pumpEnd_def)
  have "(''streams watch'', ''event'') \<in> set frame_types" by (simp add: frame_types_def)
  then show ?thesis
    using run_streams_frames [OF ov(1) [folded rt] ov(3), of "''event''" "Inr ''''" 0 r 0] r
    by auto
qed

lemma reader_parseGlobal:
  "\<exists>ov. parseGlobal sample_rt [''-s'', ''orders'', ''streams'', ''read'', ''users-42''] =
     Inr (ov, [''streams'', ''read'', ''users-42'']) \<and> opts.store ov = ''orders'' \<and> \<not> showVersion ov \<and>
     \<not> plaintext ov \<and> caFile ov = '''' \<and> serverName ov = '''' \<and> \<not> pretty ov"
  by (simp add: parseGlobal_def flagParse.simps parseOne_def isFlag_def flagName_def setFlag_def
      storeFlag_def isBoolFlag_def flagSetValue_def globalFlags_def getStr_def getBool_def
      ParseBytes_def envDef_def sample_rt_def pick_def Let_def)

theorem run_output_all_or_nothing_witness:
  "\<exists>r v. run_state (run reader_env [''-s'', ''orders'', ''streams'', ''read'', ''users-42''] (Inr ''''))
      0 = (r, 0) \<and> exitCode r = 0 \<and> stdout r = [(v, False)]"
proof -
  let ?argv = "[''-s'', ''orders'', ''streams'', ''read'', ''users-42'']"
  obtain ov where ov: "parseGlobal sample_rt ?argv = Inr (ov, [''streams'', ''read'', ''users-42''])"
    "opts.store ov = ''orders''" "\<not> showVersion ov" "\<not> plaintext ov" "caFile ov = ''''"
    "serverName ov = ''''" "\<not> pretty ov"
    using reader_parseGlobal by blast
  obtain c where c: "dial (env_rt reader_env) (env_net reader_env) ov = Inr c"
    by (simp add: dial_def transport_def ov Connect_def reader_env_def sample_env_def sample_net_def
        Let_def)
  have "\<exists>js. run_state (streamsRead reader_env SignalCtx ov [''users-42''] (Inr '''')) 0 =
      (([(JArr js, pretty ov)], None), 0)"
    using streamsRead_run [OF _ c, of "''users-42''" SignalCtx 0 "[None]" 0]
    by (simp add: ov(2,7) isFlag_def reader_env_def printed_list_def)
  then obtain r where r: "run_state (run reader_env ?argv (Inr '''')) 0 = (r, 0)" "exitCode r = 0"
    using ov(1,3) by (auto simp: run_def reader_env_def sample_env_def routes_def Let_def)
  have p: "parseGlobal (env_rt reader_env) ?argv = Inr (ov, [''streams'', ''read'', ''users-42''])"
    using ov(1) by (simp add: reader_env_def sample_env_def)
  from run_output_all_or_nothing [OF p _ _ r(1)] r ov(7) show ?thesis
    by (auto simp: streaming_def)
qed

lemma run_encodable:
  assumes "parseGlobal (env_rt env) argv = Inr (ov, rest)" and "run_state (run env argv input) w = (r, w')"
  shows "encodable (pretty ov) (stdout r) \<and> encodable False (stderr r)"
proof (cases rule: run_cases [of env argv input])
  case (early r0)
  with early(3) [OF assms(1)] assms(2) show ?thesis by (auto simp: errorObject_def)
next
  case (handled ov' rest' key h)
  with assms have same: "ov' = ov" "rest' = rest" by auto
  obtain out err w1 where h: "run_state (h env SignalCtx ov (drop 2 rest) input) w = ((out, err), w1)"
    by (metis prod.exhaust)
  with routes_writes_ok [OF handled(5)] have "encodable (pretty ov) out"
    unfolding writes_ok_def by (metis fst_conv)
  with run_handled_state [OF handled(6), of w, unfolded same h, simplified] assms(2) show ?thesis
    by (cases err) (auto simp: errorObject_def)
qed

text \<open>
  C9: What a run writes is JSON, line by line. The lines of standard output, when it is not indented,
  and those of standard error are the texts of the values written, one each, in order; a value whose
  brackets nest no deeper than the JSON scanner goes has a valid text, and its indented text is valid
  too and differs from it by space alone.
\<close>

theorem run_writes_json:
  fixes env :: "'w env"
  defines "fmt \<equiv> rt_FormatFloat (env_rt env)"
  assumes "parseGlobal (env_rt env) argv = Inr (ov, rest)" and "float_text fmt"
    and "run_state (run env argv input) w = (r, w')"
  shows "(\<not> pretty ov \<longrightarrow>
      scanLines (writtenText (env_rt env) (stdout r)) = map (render fmt \<circ> fst) (stdout r)) \<and>
    scanLines (writtenText (env_rt env) (stderr r)) = map (render fmt \<circ> fst) (stderr r) \<and>
    (\<forall>(v, p) \<in> set (stdout r @ stderr r). nests v \<le> maxNestingDepth \<longrightarrow>
       json_Valid (render fmt v) \<and> json_Valid (indent (render fmt v)) \<and>
       compact (indent (render fmt v)) = render fmt v)"
proof -
  note e = run_encodable [OF assms(2,4)]
  have "json_Valid (render fmt v) \<and> json_Valid (indent (render fmt v)) \<and>
      compact (indent (render fmt v)) = render fmt v"
    if "(v, p) \<in> set (stdout r @ stderr r)" and n: "nests v \<le> maxNestingDepth" for v p
  proof -
    have "json_ok v" using e that(1) by (auto simp: encodable_def)
    from json_text_render [OF assms(3) this] n show ?thesis
      using json_text_Valid indent_text by blast
  qed
  then show ?thesis
    using e scanLines_written [of "env_rt env"] assms(3) unfolding fmt_def by auto
qed

text \<open>
  C23: A command that needs a store refuses to guess one. Every command but five (\<open>stores list\<close>,
  \<open>stores watch\<close>, \<open>health status\<close>, \<open>catalogue status\<close> and \<open>catalogue reload\<close>), run without a store in
  its flags or environment, exits with the usage code, calls nothing and writes only the error that
  says so. This holds of \<open>health server-info\<close> and of the cluster checks too.
\<close>

theorem run_needs_store:
  assumes "parseGlobal (env_rt env) argv = Inr (ov, rest)" and "\<not> showVersion ov"
    and "2 \<le> length rest" and "opts.store ov = ''''"
    and "map_of (routes :: (string \<times> 'w handler) list) (rest ! 0 @ '' '' @ rest ! 1) \<noteq> None"
    and "rest ! 0 @ '' '' @ rest ! 1 \<notin> set storeless"
  shows "run (env :: 'w env) argv input = State_Monad.return (exitWith [] (Cli (usageErr (env_rt env)
    ''this command requires --store (or RECKON_STORE)'' [])))"
proof -
  obtain h :: "'w handler" where h: "map_of routes (rest ! 0 @ '' '' @ rest ! 1) = Some h"
    using assms(5) by blast
  have "h env SignalCtx ov (drop 2 rest) input =
      misuse env ''this command requires --store (or RECKON_STORE)'' []"
    using routes_need_store [OF h assms(6,4)] .
  with h assms(1-3) show ?thesis
    by (simp add: run_def Let_def misuse_def fails_def)
qed

theorem run_needs_store_witness:
  "run sample_env [''streams'', ''list''] (Inr '''') = State_Monad.return (exitWith []
    (Cli (usageErr (env_rt sample_env) ''this command requires --store (or RECKON_STORE)'' [])))"
proof -
  have "\<exists>ov. parseGlobal (env_rt sample_env) [''streams'', ''list''] = Inr (ov, [''streams'', ''list'']) \<and>
      \<not> showVersion ov \<and> opts.store ov = ''''"
    by (simp add: parseGlobal_def flagParse.simps parseOne_def isFlag_def globalFlags_def getStr_def
        getBool_def ParseBytes_def envDef_def sample_env_def sample_rt_def pick_def Let_def)
  then obtain ov where "parseGlobal (env_rt sample_env) [''streams'', ''list''] =
      Inr (ov, [''streams'', ''list''])" "\<not> showVersion ov" "opts.store ov = ''''" by blast
  from run_needs_store [OF this(1,2) _ this(3)] show ?thesis
    by (simp add: routes_def storeless_def)
qed

theorem run_writes_json_witness:
  "\<exists>r t. run_state (run sample_env [''streams''] (Inr '''')) 0 = (r, 0) \<and>
     scanLines (writtenText sample_rt (stderr r)) = [t] \<and> json_Valid t"
proof -
  obtain ov where ov: "parseGlobal (env_rt sample_env) [''streams''] = Inr (ov, [''streams''])"
    "\<not> showVersion ov"
    by (simp add: parseGlobal_def flagParse.simps parseOne_def isFlag_def globalFlags_def getStr_def
        getBool_def ParseBytes_def envDef_def sample_env_def sample_rt_def pick_def Let_def)
  define r where "r = exitWith [] (Cli (usageErr sample_rt
      ''expected: reckon [flags] <group> <command> [args]'' []))"
  have rt: "env_rt sample_env = sample_rt" by (simp add: sample_env_def)
  have r: "run_state (run sample_env [''streams''] (Inr '''')) 0 = (r, 0)"
    using ov by (simp add: run_def r_def rt)
  have f: "float_text (rt_FormatFloat (env_rt sample_env))"
    by (simp add: rt sample_rt_def float_text_zero)
  have n: "nests (errorObject ce) \<le> maxNestingDepth" for ce
    by (simp add: errorObject_def maxNestingDepth_def)
  from run_writes_json [OF ov(1) f r] n show ?thesis
    unfolding r rt by (auto simp: r_def)
qed

end
