(* ===== verification/Copy.thy ===== *)
theory Copy
  imports Run
begin

text \<open>
  Two runs in a pipe: \<open>reckon streams read a | reckon streams append b\<close>. On a gateway that keeps the
  events appended to a stream, and answers a read with them, the pipe copies the stream: what the whole
  program promises, from one command line over the text between the two processes to the other.
\<close>

section \<open>What the gateway promises\<close>

type_synonym kept_streams = "string \<Rightarrow> pb_RecordedEvent list"

text \<open>
  The event recorded for one proposed: what the caller gave, with the server's own fields added. An
  identifier or a content type left empty is the server's to choose.
\<close>

definition stored_as :: "pb_ProposedEvent \<Rightarrow> pb_RecordedEvent \<Rightarrow> bool" where
  "stored_as p r \<longleftrightarrow>
     (pb_ProposedEvent.EventId p \<noteq> '''' \<longrightarrow>
        pb_RecordedEvent.EventId r = pb_ProposedEvent.EventId p) \<and>
     pb_RecordedEvent.EventType r = pb_ProposedEvent.EventType p \<and>
     pb_RecordedEvent.Data r = pb_ProposedEvent.Data p \<and>
     pb_RecordedEvent.Metadata r = pb_ProposedEvent.Metadata p \<and>
     tags (pb_RecordedEvent.Tags r) = tags (pb_ProposedEvent.Tags p) \<and>
     (pb_ProposedEvent.DataContentType p \<noteq> '''' \<longrightarrow>
        pb_RecordedEvent.DataContentType r = pb_ProposedEvent.DataContentType p) \<and>
     (pb_ProposedEvent.MetadataContentType p \<noteq> '''' \<longrightarrow>
        pb_RecordedEvent.MetadataContentType r = pb_ProposedEvent.MetadataContentType p)"

text \<open>
  An append that succeeds adds the events proposed, in order, to the end of its stream; a read from
  the start that succeeds answers with the first events of its stream, as many as were asked for, and
  changes nothing.
\<close>

definition append_keeps :: "('w \<Rightarrow> kept_streams) \<Rightarrow> string \<Rightarrow> 'w StreamServiceClient \<Rightarrow> bool" where
  "append_keeps kept s stub \<longleftrightarrow> (\<forall>ctx str v ps w resp w'.
     run_state (AppendEvents stub ctx \<lparr>StoreScoped.StoreId = s, StreamScoped.StreamId = str,
       ExpectedVersion = v, pb_AppendEventsRequest.Events = map Some ps\<rparr>) w = ((resp, None), w') \<longrightarrow>
     (\<exists>new. kept w' = (kept w)(str := kept w str @ new) \<and> list_all2 stored_as ps new))"

definition read_keeps :: "('w \<Rightarrow> kept_streams) \<Rightarrow> string \<Rightarrow> 'w StreamServiceClient \<Rightarrow> bool" where
  "read_keeps kept s stub \<longleftrightarrow> (\<forall>ctx str n w resp w'.
     run_state (ReadStreamForward stub ctx \<lparr>StoreScoped.StoreId = s, StreamScoped.StreamId = str,
       StartVersion = 0, Count = n\<rparr>) w = ((resp, None), w') \<longrightarrow>
     kept w' = kept w \<and> resp = Some \<lparr>pb_ReadStreamResponse.Events =
       map Some (take (unat n) (kept w str))\<rparr>)"

section \<open>One command\<close>

lemma run_route_state:
  assumes "parseGlobal (env_rt env) argv = Inr (ov, g # c # args)" and "\<not> showVersion ov"
    and "map_of routes (g @ '' '' @ c) = Some h"
  shows "run_state (run env argv input) w =
    (case run_state (h env SignalCtx ov args input) w of ((out, err), w') \<Rightarrow>
      (case err of Some e \<Rightarrow> exitWith out e
       | None \<Rightarrow> \<lparr>exitCode = 0, stdout = out, stderr = []\<rparr>, w'))"
  using assms by (simp add: run_def split: prod.split)

lemma run_route:
  assumes "parseGlobal (env_rt env) argv = Inr (ov, g # c # args)" and "\<not> showVersion ov"
    and "map_of routes (g @ '' '' @ c) = Some h"
    and "run_state (run env argv input) w = (r, w')" and "exitCode r = 0"
  shows "run_state (h env SignalCtx ov args input) w = ((stdout r, None), w')"
proof -
  obtain out err w1 where h: "run_state (h env SignalCtx ov args input) w = ((out, err), w1)"
    by (metis prod.exhaust)
  note run = run_route_state [OF assms(1-3), of input w, unfolded h, simplified]
  have "err = None"
  proof (rule ccontr)
    assume "err \<noteq> None"
    then obtain e where e: "err = Some e" by blast
    then have "exit_of e \<in> exit_codes"
      using disciplined_exit [OF routes_disciplined [OF assms(3)]] h by blast
    with run e assms(4,5) show False by (auto simp: exit_codes_def)
  qed
  with run h assms(4) show ?thesis by auto
qed

lemma stream_routes_read_append:
  "map_of routes ''streams read'' = Some streamsRead"
  "map_of routes ''streams append'' = Some streamsAppend"
  by (simp_all add: routes_def)

text \<open>What a read and an append that succeed have called.\<close>

lemma streamsRead_success:
  assumes "\<not> isFlag str"
    and "run_state (streamsRead env ctx ov [str] input) w = ((out, None), w')"
  obtains c resp where "opts.store ov \<noteq> ''''" and "dial (env_rt env) (env_net env) ov = Inr c"
    and "run_state (ReadStreamForward (st_streams (net_stubs (env_net env) c)) (rpcCtx ov ctx)
        \<lparr>StoreScoped.StoreId = opts.store ov, StreamScoped.StreamId = str, StartVersion = 0,
         Count = 100\<rparr>) w = ((resp, None), w')"
  using assms
  by (auto simp: streamsRead_def withStore_def requireStore_def withFlags_def flagsThenArgs_one
      withClient_def run_reply Client_Streams_def streams_New_def streams_Read_def run_unary
      getBool_def getUint64_def fails_def split: if_splits sum.splits prod.splits option.splits)

lemma streamsAppend_success:
  assumes "\<not> isFlag str" and "readProposedEvents (env_rt env) input = Inr evs"
    and "run_state (streamsAppend env ctx ov [str] input) w = ((out, None), w')"
  obtains c resp where
    "run_state (AppendEvents (st_streams (net_stubs (env_net env) c)) (rpcCtx ov ctx)
        \<lparr>StoreScoped.StoreId = opts.store ov, StreamScoped.StreamId = str,
         ExpectedVersion = AnyVersion,
         pb_AppendEventsRequest.Events = map Some (map streams_toProto evs)\<rparr>) w = ((resp, None), w')"
  using assms
  by (auto simp: streamsAppend_def withStore_def requireStore_def withFlags_def flagsThenArgs_one
      withValue_def withClient_def run_reply Client_Streams_def streams_New_def streams_Append_def
      run_unary getStr_def parseExpected_def range_append_map fails_def comp_def Let_def
      split: if_splits sum.splits prod.splits option.splits)

section \<open>The pipe\<close>

text \<open>
  One event is the copy of another: only what the server sets itself may differ, and a content type
  that was not given has become the default one.
\<close>

definition copied :: "pb_RecordedEvent \<Rightarrow> pb_RecordedEvent \<Rightarrow> bool" where
  "copied p r \<longleftrightarrow> pb_RecordedEvent.EventId r = pb_RecordedEvent.EventId p \<and>
     pb_RecordedEvent.EventType r = pb_RecordedEvent.EventType p \<and>
     pb_RecordedEvent.Data r = pb_RecordedEvent.Data p \<and>
     pb_RecordedEvent.Metadata r = pb_RecordedEvent.Metadata p \<and>
     tags (pb_RecordedEvent.Tags r) = tags (pb_RecordedEvent.Tags p) \<and>
     pb_RecordedEvent.DataContentType r =
       defaultStr (pb_RecordedEvent.DataContentType p) ''application/json'' \<and>
     pb_RecordedEvent.MetadataContentType r =
       defaultStr (pb_RecordedEvent.MetadataContentType p) ''application/json''"

text \<open>An event the copy can carry: valid text, an identifier, and JSON that is not too deep.\<close>

definition portable :: "pb_RecordedEvent \<Rightarrow> bool" where
  "portable p \<longleftrightarrow> utf8_fields (recordedFromProto (Some p)) \<and> shallow (recordedFromProto (Some p)) \<and>
     pb_RecordedEvent.EventId p \<noteq> ''''"

text \<open>The command line leaves nothing to choose: it fills in the content types itself.\<close>

lemma stored_as_copied:
  assumes "stored_as (streams_toProto (reproposed (recordedFromProto (Some p)))) r" and "portable p"
  shows "copied p r"
  using assms
  by (auto simp: stored_as_def copied_def portable_def streams_toProto_def reproposed_def
      recordedFromProto_def tags_def defaultStr_def split: option.splits if_splits)

lemma streamsRead_text:
  assumes "read_keeps kept (opts.store ov) (st_streams (net_stubs (env_net env) c))"
    and "opts.store ov \<noteq> ''''" and "dial (env_rt env) (env_net env) ov = Inr c"
    and "\<not> isFlag str" and "\<not> pretty ov" and "\<forall>p \<in> set (take 100 (kept w str)). portable p"
    and "float_text (rt_FormatFloat (env_rt env))"
    and call: "run_state (ReadStreamForward (st_streams (net_stubs (env_net env) c)) (rpcCtx ov ctx)
        \<lparr>StoreScoped.StoreId = opts.store ov, StreamScoped.StreamId = str, StartVersion = 0,
         Count = 100\<rparr>) w = ((resp, None), w')"
  obtains out where "run_state (streamsRead env ctx ov [str] input) w = ((out, None), w')"
    and "kept w' = kept w"
    and "readProposedEvents rt (Inr (writtenText (env_rt env) out)) =
      Inr (map (\<lambda>p. reproposed (recordedFromProto (Some p))) (take 100 (kept w str)))"
proof -
  let ?es = "map (\<lambda>p. recordedFromProto (Some p)) (take 100 (kept w str))"
  have resp: "resp = Some \<lparr>pb_ReadStreamResponse.Events = map Some (take 100 (kept w str))\<rparr>"
    and w': "kept w' = kept w"
    using assms(1) call unfolding read_keeps_def by fastforce+
  have "run_state (streamsRead env ctx ov [str] input) w =
      (([(printed_list (opts.bytes ov) ?es, pretty ov)], None), w')"
    using streamsRead_run [OF assms(2-4) call [unfolded resp]] assms(5) by (simp add: comp_def)
  moreover have "readProposedEvents rt (Inr (encodeLine (rt_FormatFloat (env_rt env))
      (printed_list (opts.bytes ov) ?es) False)) = Inr (map reproposed ?es)"
    using assms(6)
    by (intro read_printed_list [OF assms(7)] nests_printed_list)
      (auto simp: portable_def recordedFromProto_def)
  ultimately show thesis
    using assms(5) w' by (intro that [of "[(printed_list (opts.bytes ov) ?es, pretty ov)]"])
      (simp_all add: writtenText_def comp_def)
qed

text \<open>
  C3: Reading a stream into an append copies it. When both runs of
  \<open>reckon streams read a | reckon streams append b\<close> exit with 0, on a gateway that keeps its streams,
  the events of \<open>a\<close>, up to the 100 that a read asks for, have been added to \<open>b\<close>, all of them, in order,
  with their identifiers, types, tags, data and metadata; no other stream has changed.
\<close>

theorem pipe_copies_stream:
  assumes laws: "\<forall>c. append_keeps kept s (st_streams (net_stubs (env_net env) c)) \<and>
      read_keeps kept s (st_streams (net_stubs (env_net env) c))"
    and args: "parseGlobal (env_rt env) argv1 = Inr (ov1, [''streams'', ''read'', a])"
      "parseGlobal (env_rt env) argv2 = Inr (ov2, [''streams'', ''append'', b])"
      "opts.store ov1 = s" "opts.store ov2 = s" "\<not> isFlag a" "\<not> isFlag b"
    and flags: "\<not> showVersion ov1" "\<not> showVersion ov2" "\<not> pretty ov1"
    and portable: "\<forall>p \<in> set (take 100 (kept w a)). portable p"
    and float: "float_text (rt_FormatFloat (env_rt env))"
    and read: "run_state (run env argv1 input) w = (r1, w1)" "exitCode r1 = 0"
    and append: "run_state (run env argv2 (Inr (writtenText (env_rt env) (stdout r1)))) w1 = (r2, w2)"
      "exitCode r2 = 0"
  shows "\<exists>new. kept w2 = (kept w)(b := kept w b @ new) \<and>
    list_all2 copied (take 100 (kept w a)) new"
proof -
  let ?ps = "take 100 (kept w a)"
  have "map_of routes (''streams'' @ '' '' @ ''read'') = Some streamsRead"
    using stream_routes_read_append(1) by simp
  from run_route [OF args(1) flags(1) this read]
  have r: "run_state (streamsRead env SignalCtx ov1 [a] input) w = ((stdout r1, None), w1)" .
  from streamsRead_success [OF args(5) r] obtain c resp where store: "opts.store ov1 \<noteq> ''''"
    and dial: "dial (env_rt env) (env_net env) ov1 = Inr c"
    and call: "run_state (ReadStreamForward (st_streams (net_stubs (env_net env) c))
        (rpcCtx ov1 SignalCtx) \<lparr>StoreScoped.StoreId = opts.store ov1, StreamScoped.StreamId = a,
         StartVersion = 0, Count = 100\<rparr>) w = ((resp, None), w1)" .
  have law: "read_keeps kept (opts.store ov1) (st_streams (net_stubs (env_net env) c))"
    using laws args(3) by blast
  obtain out where out: "run_state (streamsRead env SignalCtx ov1 [a] input) w = ((out, None), w1)"
    and w1: "kept w1 = kept w"
    and given: "readProposedEvents (env_rt env) (Inr (writtenText (env_rt env) out)) =
      Inr (map (\<lambda>p. reproposed (recordedFromProto (Some p))) ?ps)"
    by (rule streamsRead_text [where input = input and rt = "env_rt env",
          OF law store dial args(5) flags(3) portable float call])
  from r out have "out = stdout r1" by simp
  with given have evs: "readProposedEvents (env_rt env) (Inr (writtenText (env_rt env) (stdout r1))) =
      Inr (map (\<lambda>p. reproposed (recordedFromProto (Some p))) ?ps)" by simp
  have "map_of routes (''streams'' @ '' '' @ ''append'') = Some streamsAppend"
    using stream_routes_read_append(2) by simp
  from streamsAppend_success [OF args(6) evs run_route [OF args(2) flags(2) this append]]
  obtain c2 resp2 where "run_state (AppendEvents (st_streams (net_stubs (env_net env) c2))
      (rpcCtx ov2 SignalCtx) \<lparr>StoreScoped.StoreId = opts.store ov2, StreamScoped.StreamId = b,
        ExpectedVersion = AnyVersion, pb_AppendEventsRequest.Events = map Some (map streams_toProto
          (map (\<lambda>p. reproposed (recordedFromProto (Some p))) ?ps))\<rparr>) w1 = ((resp2, None), w2)" .
  then obtain new where new: "kept w2 = (kept w1)(b := kept w1 b @ new)"
    and "list_all2 stored_as (map streams_toProto
      (map (\<lambda>p. reproposed (recordedFromProto (Some p))) ?ps)) new"
    using laws args(4) unfolding append_keeps_def by blast
  then have "list_all2 (\<lambda>p. stored_as (streams_toProto (reproposed (recordedFromProto (Some p)))))
      ?ps new" by (simp only: list_all2_map1)
  then have "list_all2 copied ?ps new"
    by (rule list.rel_mono_strong) (use portable stored_as_copied in blast)
  with new show ?thesis unfolding w1 by blast
qed

section \<open>A gateway in memory\<close>

text \<open>
  Its state is its streams; an event it records has the next version and no time, an identifier of its
  own when it came without one, and the default content types.
\<close>

definition memRecorded :: "string \<Rightarrow> nat \<Rightarrow> pb_ProposedEvent option \<Rightarrow> pb_RecordedEvent" where
  "memRecorded str n p = \<lparr>
     pb_RecordedEvent.EventId = defaultStr (Get pb_ProposedEvent.EventId '''' p) (str @ dec n),
     EventType = Get pb_ProposedEvent.EventType '''' p, StreamId = str, Version = of_nat n,
     Data = Get pb_ProposedEvent.Data [] p, Metadata = Get pb_ProposedEvent.Metadata [] p,
     Tags = Get pb_ProposedEvent.Tags None p, Timestamp = 0, EpochUs = 0,
     DataContentType =
       defaultStr (Get pb_ProposedEvent.DataContentType '''' p) ''application/json'',
     MetadataContentType =
       defaultStr (Get pb_ProposedEvent.MetadataContentType '''' p) ''application/json'',
     PrevEventHash = []\<rparr>"

definition mem_streams :: "kept_streams StreamServiceClient" where
  "mem_streams = undefined\<lparr>
     AppendEvents := \<lambda>ctx q. State (\<lambda>w. let str = StreamScoped.StreamId q; old = w str;
         new = map (\<lambda>(i, p). memRecorded str i p)
           (List.enumerate (length old) (pb_AppendEventsRequest.Events q)) in
       ((Some \<lparr>pb_AppendEventsResponse.Version = of_nat (length (old @ new)) - 1, Position = 0,
          Count = of_nat (length new)\<rparr>, None), w(str := old @ new))),
     ReadStreamForward := \<lambda>ctx q. State (\<lambda>w. ((Some \<lparr>pb_ReadStreamResponse.Events = map Some
       (take (unat (pb_ReadStreamRequest.Count q)) (w (StreamScoped.StreamId q)))\<rparr>, None), w))\<rparr>"

lemma mem_stored: "list_all2 stored_as ps
    (map (\<lambda>(i, p). memRecorded str i p) (List.enumerate n (map Some ps)))"
  by (induction ps arbitrary: n) (simp_all add: stored_as_def memRecorded_def defaultStr_def)

lemma mem_streams_keep: "append_keeps (\<lambda>w. w) s mem_streams \<and> read_keeps (\<lambda>w. w) s mem_streams"
  using mem_stored by (auto simp: append_keeps_def read_keeps_def mem_streams_def Let_def)

definition pipe_env :: "kept_streams env" where
  "pipe_env = \<lparr>env_rt = sample_rt, env_net = \<lparr>net_NewClient = \<lambda>_ _. None,
     net_stubs = \<lambda>_. undefined\<lparr>st_streams := mem_streams\<rparr>\<rparr>,
     env_events = \<lambda>_. ([], None, False), env_deliveries = \<lambda>_. ([], None, False),
     env_stores = \<lambda>_. ([], None, False), env_acks = (0, [], 0)\<rparr>"

lemma pipe_parse:
  "\<exists>ov. parseGlobal sample_rt (''-s'' # ''orders'' # ''streams'' # rest) = Inr (ov, ''streams'' # rest) \<and>
     opts.store ov = ''orders'' \<and> \<not> plaintext ov \<and> caFile ov = '''' \<and> serverName ov = '''' \<and>
     \<not> showVersion ov \<and> \<not> pretty ov"
  by (simp add: parseGlobal_def flagParse.simps parseOne_def isFlag_def flagName_def setFlag_def
      storeFlag_def isBoolFlag_def flagSetValue_def globalFlags_def getStr_def getBool_def
      ParseBytes_def envDef_def sample_rt_def pick_def Let_def)

lemma run_route_ok:
  assumes "parseGlobal (env_rt env) argv = Inr (ov, g # c # args)" and "\<not> showVersion ov"
    and "map_of routes (g @ '' '' @ c) = Some h"
    and "run_state (h env SignalCtx ov args input) w = ((out, None), w')"
  shows "run_state (run env argv input) w = (\<lparr>exitCode = 0, stdout = out, stderr = []\<rparr>, w')"
  using run_route_state [OF assms(1-3), of input w] assms(4) by simp

lemma pipe_dial:
  assumes "\<not> plaintext ov" "caFile ov = ''''" "serverName ov = ''''"
  shows "\<exists>c. dial sample_rt (env_net pipe_env) ov = Inr c"
  using assms by (simp add: dial_def transport_def Connect_def pipe_env_def Let_def)

lemma pipe_append:
  assumes "opts.store ov \<noteq> ''''" and "dial (env_rt pipe_env) (env_net pipe_env) ov = Inr c"
    and "\<not> isFlag str" and "readProposedEvents (env_rt pipe_env) input = Inr evs"
  shows "\<exists>out w'. run_state (streamsAppend pipe_env ctx ov [str] input) w = ((out, None), w')"
  using assms
  by (simp add: streamsAppend_def withStore_def requireStore_def withFlags_def flagsThenArgs_one
      withValue_def withClient_def run_reply Client_Streams_def streams_New_def streams_Append_def
      run_unary getStr_def parseExpected_def writeJSON_fits maxNestingDepth_def Let_def)
    (simp add: pipe_env_def mem_streams_def Let_def)

theorem pipe_copies_stream_witness:
  "\<exists>r1 w1 r2 w2. run_state (run pipe_env [''-s'', ''orders'', ''streams'', ''read'', ''a-1''] (Inr ''''))
      ((\<lambda>_. [])(''a-1'' := [stored_event])) = (r1, w1) \<and>
    run_state (run pipe_env [''-s'', ''orders'', ''streams'', ''append'', ''b-1'']
      (Inr (writtenText sample_rt (stdout r1)))) w1 = (r2, w2) \<and>
    length (w2 ''b-1'') = 1 \<and> w2 ''a-1'' = [stored_event]"
proof -
  let ?w = "(\<lambda>_. [])(''a-1'' := [stored_event])"
  let ?argv1 = "[''-s'', ''orders'', ''streams'', ''read'', ''a-1'']"
  let ?argv2 = "[''-s'', ''orders'', ''streams'', ''append'', ''b-1'']"
  have rt: "env_rt pipe_env = sample_rt" by (simp add: pipe_env_def)
  have stub: "st_streams (net_stubs (env_net pipe_env) c) = mem_streams" for c
    by (simp add: pipe_env_def)
  have laws: "\<forall>c. append_keeps (\<lambda>w. w) ''orders'' (st_streams (net_stubs (env_net pipe_env) c)) \<and>
      read_keeps (\<lambda>w. w) ''orders'' (st_streams (net_stubs (env_net pipe_env) c))"
    unfolding stub using mem_streams_keep by blast
  obtain ov1 where ov1: "parseGlobal (env_rt pipe_env) ?argv1 = Inr (ov1, [''streams'', ''read'', ''a-1''])"
    "opts.store ov1 = ''orders''" "\<not> showVersion ov1" "\<not> pretty ov1" "\<not> plaintext ov1"
    "caFile ov1 = ''''" "serverName ov1 = ''''"
    using pipe_parse [of "[''read'', ''a-1'']"] unfolding rt by blast
  obtain ov2 where ov2: "parseGlobal (env_rt pipe_env) ?argv2 = Inr (ov2, [''streams'', ''append'', ''b-1''])"
    "opts.store ov2 = ''orders''" "\<not> showVersion ov2" "\<not> plaintext ov2"
    "caFile ov2 = ''''" "serverName ov2 = ''''"
    using pipe_parse [of "[''append'', ''b-1'']"] unfolding rt by blast
  have nf: "\<not> isFlag ''a-1''" "\<not> isFlag ''b-1''" by (simp_all add: isFlag_def)
  have port: "\<forall>p \<in> set (take 100 (?w ''a-1'')). portable p"
    using stored_event_fields
    by (simp add: portable_def stored_event_def)
  have float: "float_text (rt_FormatFloat (env_rt pipe_env))"
    by (simp add: rt sample_rt_def float_text_zero)
  obtain c1 where c1: "dial (env_rt pipe_env) (env_net pipe_env) ov1 = Inr c1"
    using pipe_dial ov1(5-7) unfolding rt by blast
  obtain c2 where c2: "dial (env_rt pipe_env) (env_net pipe_env) ov2 = Inr c2"
    using pipe_dial ov2(4-6) unfolding rt by blast
  have call: "run_state (ReadStreamForward (st_streams (net_stubs (env_net pipe_env) c1))
      (rpcCtx ov1 SignalCtx) \<lparr>StoreScoped.StoreId = opts.store ov1, StreamScoped.StreamId = ''a-1'',
       StartVersion = 0, Count = 100\<rparr>) ?w =
      ((Some \<lparr>pb_ReadStreamResponse.Events = [Some stored_event]\<rparr>, None), ?w)"
    by (simp add: stub mem_streams_def)
  have law: "read_keeps (\<lambda>w. w) (opts.store ov1) (st_streams (net_stubs (env_net pipe_env) c1))"
    using laws ov1(2) by simp
  obtain out where out: "run_state (streamsRead pipe_env SignalCtx ov1 [''a-1''] (Inr '''')) ?w =
      ((out, None), ?w)"
    and evs: "readProposedEvents (env_rt pipe_env) (Inr (writtenText (env_rt pipe_env) out)) =
      Inr (map (\<lambda>p. reproposed (recordedFromProto (Some p))) (take 100 (?w ''a-1'')))"
    by (rule streamsRead_text [where input = "Inr ''''" and rt = "env_rt pipe_env",
         OF law _ c1 nf(1) ov1(4) port float call])
      (simp_all add: ov1(2))
  obtain out2 w2 where out2: "run_state (streamsAppend pipe_env SignalCtx ov2 [''b-1'']
      (Inr (writtenText (env_rt pipe_env) out))) ?w = ((out2, None), w2)"
    using pipe_append [OF _ c2 nf(2) evs] ov2(2) by fastforce
  have routes: "map_of routes (''streams'' @ '' '' @ ''read'') = Some streamsRead"
    "map_of routes (''streams'' @ '' '' @ ''append'') = Some streamsAppend"
    using stream_routes_read_append by simp_all
  note r1 = run_route_ok [OF ov1(1,3) routes(1) out]
  let ?r = "\<lambda>out. \<lparr>exitCode = 0, stdout = out, stderr = []\<rparr>"
  have r2: "run_state (run pipe_env ?argv2 (Inr (writtenText (env_rt pipe_env) (stdout (?r out))))) ?w =
      (?r out2, w2)"
    using run_route_ok [OF ov2(1,3) routes(2) out2] by (simp only: result.simps)
  have code: "exitCode (?r o') = 0" for o' by simp
  obtain new where new: "w2 = ?w(''b-1'' := ?w ''b-1'' @ new)"
    "list_all2 copied (take 100 (?w ''a-1'')) new"
    using pipe_copies_stream [where kept = "\<lambda>w. w" and w = ?w, OF laws ov1(1) ov2(1) ov1(2) ov2(2) nf
        ov1(3) ov2(3) ov1(4) port float r1 code r2 code]
    by (elim exE conjE)
  from new(2) have "length new = 1" by (auto dest: list_all2_lengthD)
  with new(1) have "length (w2 ''b-1'') = 1 \<and> w2 ''a-1'' = [stored_event]" by simp
  with r1 r2 show ?thesis unfolding rt by blast
qed

end
