(* ===== verification/Rivals.thy ===== *)
theory Rivals
  imports Copy
begin

text \<open>
  Optimistic concurrency: two runs of \<open>reckon streams append --expect N\<close> for the same stream and the
  same version. On a gateway that checks the version expected, the one that comes second cannot
  succeed, and a conflict has the exit code the design document sets aside for it.
\<close>

section \<open>What the gateway promises\<close>

text \<open>
  A version that is not negative asks for an exact match: an append that succeeds has found the last
  event of its stream at that version. Nothing is said of one that fails. Versions rise within a
  stream.
\<close>

definition expect_checked :: "('w \<Rightarrow> kept_streams) \<Rightarrow> string \<Rightarrow> 'w StreamServiceClient \<Rightarrow> bool" where
  "expect_checked kept s stub \<longleftrightarrow> (\<forall>ctx str v ps w resp w'. 0 \<le> sint v \<longrightarrow>
     run_state (AppendEvents stub ctx \<lparr>StoreScoped.StoreId = s, StreamScoped.StreamId = str,
       ExpectedVersion = v, pb_AppendEventsRequest.Events = map Some ps\<rparr>) w = ((resp, None), w') \<longrightarrow>
     kept w str \<noteq> [] \<and> uint (pb_RecordedEvent.Version (last (kept w str))) = sint v)"

definition versions_rise :: "pb_RecordedEvent list \<Rightarrow> bool" where
  "versions_rise es \<longleftrightarrow> sorted_wrt (<) (map pb_RecordedEvent.Version es)"

lemma versions_rise_last:
  assumes "versions_rise (xs @ ys @ zs)" and "xs \<noteq> []" and "ys \<noteq> []"
  shows "pb_RecordedEvent.Version (last xs) < pb_RecordedEvent.Version (last (xs @ ys @ zs))"
proof -
  have "last (xs @ ys @ zs) = last (ys @ zs)" and "last (ys @ zs) \<in> set (ys @ zs)"
    using assms(3) last_in_set [of "ys @ zs"] by simp_all
  moreover have "last xs \<in> set xs" using assms(2) by simp
  ultimately show ?thesis
    using assms(1) by (auto simp: versions_rise_def sorted_wrt_append)
qed

section \<open>The runs\<close>

lemma append_call:
  assumes "\<not> isFlag str" and "readProposedEvents (env_rt env) input = Inr evs"
    and "opts.store ov \<noteq> ''''" and "dial (env_rt env) (env_net env) ov = Inr c"
    and "run_state (AppendEvents (st_streams (net_stubs (env_net env) c)) (rpcCtx ov ctx)
        \<lparr>StoreScoped.StoreId = opts.store ov, StreamScoped.StreamId = str, ExpectedVersion = v,
         pb_AppendEventsRequest.Events = map Some (map streams_toProto evs)\<rparr>) w = ((resp, Some e), w')"
  shows "run_state (streamsAppend env ctx ov [''--expect'', decInt (sint v), str] input) w =
    (([], Some (Cli (fromGRPC e))), w')"
  using assms(3-5)
  by (simp add: streamsAppend_expect [OF assms(1,2)] withStore_def requireStore_def withClient_def
      run_reply Client_Streams_def streams_New_def streams_Append_def run_unary range_append_map
      comp_def Let_def)

text \<open>Exit code 8 is for \<open>FailedPrecondition\<close> alone.\<close>

lemma exit_precondition:
  "Exit (fromGRPC e) = 8 \<longleftrightarrow> (\<exists>msg. err_status e = Some (codes_FailedPrecondition, msg))"
  by (auto simp: fromGRPC_def codes_defs mkError_def Let_def split: option.split)

lemma append_success:
  assumes "\<not> isFlag str" and "readProposedEvents (env_rt env) input = Inr evs"
    and "run_state (streamsAppend env ctx ov [''--expect'', decInt (sint v), str] input) w =
      ((out, None), w')"
  obtains c resp where "opts.store ov \<noteq> ''''"
    and "run_state (AppendEvents (st_streams (net_stubs (env_net env) c)) (rpcCtx ov ctx)
        \<lparr>StoreScoped.StoreId = opts.store ov, StreamScoped.StreamId = str, ExpectedVersion = v,
         pb_AppendEventsRequest.Events = map Some (map streams_toProto evs)\<rparr>) w = ((resp, None), w')"
  using assms(3)
  by (auto simp: streamsAppend_expect [OF assms(1,2)] withStore_def requireStore_def withClient_def
      run_reply Client_Streams_def streams_New_def streams_Append_def run_unary range_append_map
      fails_def comp_def Let_def split: if_splits sum.splits prod.splits option.splits)

text \<open>
  C19: Nobody overwrites unseen events. When an append that expected version \<open>N\<close> and had events to
  write has exited with 0, and others have at most added to the stream since, another append to it that
  expects version \<open>N\<close> too does not succeed: it makes its one call, with that version and its events,
  which the gateway answers with an error; it prints nothing, and it exits with the code of that error,
  which is 8 exactly when the gateway reported a failed precondition.
\<close>

theorem rival_append_refused:
  fixes v :: i64
  assumes laws: "\<forall>c. append_keeps kept s (st_streams (net_stubs (env_net env) c)) \<and>
      expect_checked kept s (st_streams (net_stubs (env_net env) c))"
    and args: "parseGlobal (env_rt env) argv1 =
        Inr (ov1, [''streams'', ''append'', ''--expect'', decInt (sint v), str])"
      "parseGlobal (env_rt env) argv2 =
        Inr (ov2, [''streams'', ''append'', ''--expect'', decInt (sint v), str])"
      "opts.store ov1 = s" "opts.store ov2 = s" "\<not> isFlag str" "0 \<le> sint v"
    and flags: "\<not> showVersion ov1" "\<not> showVersion ov2"
    and evs: "readProposedEvents (env_rt env) input1 = Inr evs1" "evs1 \<noteq> []"
      "readProposedEvents (env_rt env) input2 = Inr evs2"
    and dial: "dial (env_rt env) (env_net env) ov2 = Inr c2"
    and first: "run_state (run env argv1 input1) w = (r1, w1)" "exitCode r1 = 0"
    and others: "prefix (kept w1 str) (kept w2 str)" "versions_rise (kept w2 str)"
    and second: "run_state (run env argv2 input2) w2 = (r2, w3)"
  shows "\<exists>resp e. run_state (AppendEvents (st_streams (net_stubs (env_net env) c2)) (rpcCtx ov2 SignalCtx)
      \<lparr>StoreScoped.StoreId = s, StreamScoped.StreamId = str, ExpectedVersion = v,
       pb_AppendEventsRequest.Events = map Some (map streams_toProto evs2)\<rparr>) w2 =
      ((resp, Some e), w3) \<and>
    stdout r2 = [] \<and> exitCode r2 = Exit (fromGRPC e) \<and> exitCode r2 \<noteq> 0 \<and>
    (exitCode r2 = 8 \<longleftrightarrow> (\<exists>msg. err_status e = Some (codes_FailedPrecondition, msg)))"
proof -
  have route: "map_of routes (''streams'' @ '' '' @ ''append'') = Some streamsAppend"
    using stream_routes_read_append(2) by simp
  from append_success [OF args(5) evs(1) run_route [OF args(1) flags(1) route first]]
  obtain c1 resp1 where s: "opts.store ov1 \<noteq> ''''" and call1:
    "run_state (AppendEvents (st_streams (net_stubs (env_net env) c1)) (rpcCtx ov1 SignalCtx)
      \<lparr>StoreScoped.StoreId = opts.store ov1, StreamScoped.StreamId = str, ExpectedVersion = v,
       pb_AppendEventsRequest.Events = map Some (map streams_toProto evs1)\<rparr>) w = ((resp1, None), w1)" .
  note keeps = laws [rule_format, THEN conjunct1, unfolded append_keeps_def, rule_format]
    and checks = laws [rule_format, THEN conjunct2, unfolded expect_checked_def, rule_format]
  have v: "kept w str \<noteq> []" "uint (pb_RecordedEvent.Version (last (kept w str))) = sint v"
    using checks [OF args(6) call1 [unfolded args(3)]] by blast+
  obtain new where new: "kept w1 str = kept w str @ new" and "length new = length evs1"
    using keeps [OF call1 [unfolded args(3)]] by (auto dest: list_all2_lengthD)
  with evs(2) have "new \<noteq> []" by auto
  moreover obtain more where more: "kept w2 str = kept w str @ new @ more"
    using others(1) new by (auto simp: prefix_def)
  ultimately have "uint (pb_RecordedEvent.Version (last (kept w2 str))) \<noteq> sint v"
    using versions_rise_last [of "kept w str" new more] others(2) v by (simp add: word_less_alt)
  then have stale: "err \<noteq> None" if "run_state (AppendEvents (st_streams (net_stubs (env_net env) c2))
      ctx \<lparr>StoreScoped.StoreId = s, StreamScoped.StreamId = str, ExpectedVersion = v,
       pb_AppendEventsRequest.Events = map Some ps\<rparr>) w2 = ((resp, err), w')" for ctx ps resp err w'
    using checks [OF args(6), of c2 ctx str ps w2 resp w'] that by (cases err) auto
  obtain resp err w4 where call2:
    "run_state (AppendEvents (st_streams (net_stubs (env_net env) c2)) (rpcCtx ov2 SignalCtx)
      \<lparr>StoreScoped.StoreId = s, StreamScoped.StreamId = str, ExpectedVersion = v,
       pb_AppendEventsRequest.Events = map Some (map streams_toProto evs2)\<rparr>) w2 =
      ((resp, err), w4)" by (metis prod.exhaust)
  with stale obtain e where e: "err = Some e" by fast
  have "opts.store ov2 \<noteq> ''''" using s args(3,4) by simp
  note refused = append_call [OF args(5) evs(3) this dial call2 [folded args(4), unfolded e]]
  have "run_state (run env argv2 input2) w2 = (exitWith [] (Cli (fromGRPC e)), w4)"
    using run_route_state [OF args(2) flags(2) route, of input2 w2] refused by simp
  with second have "r2 = exitWith [] (Cli (fromGRPC e))" "w3 = w4" by simp_all
  moreover have "Exit (fromGRPC e) \<noteq> 0"
    using documented_exit [OF documented_fromGRPC [of e]] by (auto simp: exit_codes_def)
  ultimately show ?thesis
    using call2 e exit_precondition [of e]
    by (intro exI [of _ resp] exI [of _ e]) simp
qed

section \<open>A gateway in memory that checks\<close>

definition checked_streams :: "kept_streams StreamServiceClient" where
  "checked_streams = mem_streams\<lparr>AppendEvents := \<lambda>ctx q. State (\<lambda>w.
     let old = w (StreamScoped.StreamId q) in
     if 0 \<le> sint (ExpectedVersion q) \<and>
        (old = [] \<or> uint (pb_RecordedEvent.Version (last old)) \<noteq> sint (ExpectedVersion q))
     then ((None, Some staleError), w)
     else run_state (AppendEvents mem_streams ctx q) w)\<rparr>"

lemma checked_streams_laws:
  "append_keeps (\<lambda>w. w) s checked_streams \<and> expect_checked (\<lambda>w. w) s checked_streams"
  using mem_streams_keep [of s]
  by (auto simp: expect_checked_def checked_streams_def append_keeps_def Let_def split: if_splits)

definition rival_env :: "kept_streams env" where
  "rival_env = pipe_env\<lparr>env_net := (env_net pipe_env)\<lparr>net_stubs :=
     \<lambda>_. undefined\<lparr>st_streams := checked_streams\<rparr>\<rparr>\<rparr>"

lemma rival_stub: "st_streams (net_stubs (env_net rival_env) c) = checked_streams"
  by (simp add: rival_env_def)

text \<open>Its first append finds the stream of one event at version 0 and adds the next one.\<close>

abbreviation one_stored :: kept_streams where
  "one_stored \<equiv> (\<lambda>_. [])(''a-1'' := [stored_event])"

lemma rival_append:
  fixes v :: i64
  assumes "opts.store ov \<noteq> ''''" and "dial (env_rt rival_env) (env_net rival_env) ov = Inr c"
    and "sint v = 0"
  shows "\<exists>out w'. run_state (streamsAppend rival_env ctx ov [''--expect'', decInt (sint v), ''a-1'']
      one_event_input) one_stored = ((out, None), w') \<and>
    map pb_RecordedEvent.Version (w' ''a-1'') = [0, 1]"
proof -
  have nf: "\<not> isFlag ''a-1''" by (simp add: isFlag_def)
  show ?thesis
    unfolding streamsAppend_expect [OF nf one_event_input_read]
    using assms
    by (simp add: withStore_def requireStore_def withClient_def run_reply Client_Streams_def
        streams_New_def streams_Append_def run_unary rival_stub writeJSON_fits maxNestingDepth_def Let_def)
      (simp add: checked_streams_def mem_streams_def stored_event_def memRecorded_def Let_def)
qed

theorem rival_append_refused_witness:
  "\<exists>r1 w1 r2. let argv = [''-s'', ''orders'', ''streams'', ''append'', ''--expect'',
        decInt (sint (0 :: i64)), ''a-1''] in
    run_state (run rival_env argv one_event_input) one_stored = (r1, w1) \<and> exitCode r1 = 0 \<and>
    run_state (run rival_env argv one_event_input) w1 = (r2, w1) \<and> exitCode r2 = 8"
proof -
  let ?argv = "[''-s'', ''orders'', ''streams'', ''append'', ''--expect'', decInt (sint (0 :: i64)), ''a-1'']"
  have rt: "env_rt rival_env = sample_rt" by (simp add: rival_env_def pipe_env_def)
  have laws: "\<forall>c. append_keeps (\<lambda>w. w) ''orders'' (st_streams (net_stubs (env_net rival_env) c)) \<and>
      expect_checked (\<lambda>w. w) ''orders'' (st_streams (net_stubs (env_net rival_env) c))"
    unfolding rival_stub using checked_streams_laws by blast
  obtain ov where ov: "parseGlobal (env_rt rival_env) ?argv =
      Inr (ov, [''streams'', ''append'', ''--expect'', decInt (sint (0 :: i64)), ''a-1''])"
    "opts.store ov = ''orders''" "\<not> showVersion ov" "\<not> plaintext ov" "caFile ov = ''''" "serverName ov = ''''"
    using pipe_parse [of "[''append'', ''--expect'', decInt (sint (0 :: i64)), ''a-1'']"]
    unfolding rt by blast
  obtain c where c: "dial (env_rt rival_env) (env_net rival_env) ov = Inr c"
    using ov(4-6) by (simp add: dial_def transport_def Connect_def rival_env_def pipe_env_def Let_def)
  have nf: "\<not> isFlag ''a-1''" and zero: "0 \<le> sint (0 :: i64)" by (simp_all add: isFlag_def)
  have store: "opts.store ov \<noteq> ''''" by (simp add: ov(2))
  obtain out w1 where app: "run_state (streamsAppend rival_env SignalCtx ov
      [''--expect'', decInt (sint (0 :: i64)), ''a-1''] one_event_input) one_stored = ((out, None), w1)"
    and versions: "map pb_RecordedEvent.Version (w1 ''a-1'') = [0, 1]"
    using rival_append [OF store c sint_0, of SignalCtx] by (elim exE conjE)
  have route: "map_of routes (''streams'' @ '' '' @ ''append'') = Some streamsAppend"
    using stream_routes_read_append(2) by simp
  let ?r = "\<lparr>exitCode = 0, stdout = out, stderr = []\<rparr>"
  note r1 = run_route_ok [OF ov(1,3) route app]
  obtain r2 w3 where r2: "run_state (run rival_env ?argv one_event_input) w1 = (r2, w3)"
    by (metis prod.exhaust)
  have code: "exitCode ?r = 0" by simp
  have rise: "prefix (w1 ''a-1'') (w1 ''a-1'')" "versions_rise (w1 ''a-1'')"
    using versions by (simp_all add: versions_rise_def)
  have some: "[reproposed (recordedFromProto (Some stored_event))] \<noteq> []" by simp
  obtain resp e where call: "run_state (AppendEvents (st_streams (net_stubs (env_net rival_env) c))
      (rpcCtx ov SignalCtx) \<lparr>StoreScoped.StoreId = ''orders'', StreamScoped.StreamId = ''a-1'',
       ExpectedVersion = 0, pb_AppendEventsRequest.Events =
         map Some (map streams_toProto [reproposed (recordedFromProto (Some stored_event))])\<rparr>) w1 =
      ((resp, Some e), w3)"
    and e: "exitCode r2 = 8 \<longleftrightarrow> (\<exists>msg. err_status e = Some (codes_FailedPrecondition, msg))"
    using rival_append_refused [where kept = "\<lambda>w. w" and w = one_stored, OF laws ov(1) ov(1) ov(2) ov(2)
        nf zero ov(3) ov(3) one_event_input_read some one_event_input_read c r1 code rise r2]
    by (elim exE conjE)
  have "w3 = w1 \<and> e = staleError"
    using call by (simp add: rival_stub checked_streams_def mem_streams_def Let_def split: if_splits)
  hence same: "w3 = w1" and e8: "exitCode r2 = 8" using e by (simp_all add: staleError_def)
  show ?thesis
    unfolding Let_def by (intro exI conjI) (rule r1, rule code, rule r2 [unfolded same], rule e8)
qed

end
