(* ===== verification/Script.thy ===== *)
theory Script
  imports Globals Pump
begin

text \<open>
  What the small programs of the repository share, the probes under \<^verbatim>\<open>cmd/\<close> and the
  demos under \<^verbatim>\<open>examples/\<close>: a \<open>main\<close> that parses its flags, connects, makes calls in a
  fixed order and prints as it goes. A script is a step of the state monad over the gateway's state;
  its result is the text printed and the message of the error that ended it, if one did. Operations
  take what comes after them as an argument, so that a script reads as its source does and stops at
  the first failure.
\<close>

section \<open>Surroundings\<close>

text \<open>What \<^verbatim>\<open>cmd/probe\<close> prints with \<open>%v\<close> is one of these messages.\<close>

datatype answer =
    CheckAnswer "pb_HealthCheckResponse option"
  | HealthAnswer "pb_HealthResponse option"
  | InfoAnswer "pb_ServerInfoResponse option"
  | ClusterAnswer "pb_ClusterCheckResponse option"
  | StoresAnswer "pb_ListStoresResponse option"

text \<open>
  The run-time parameters, the network and the closing of a connection; the readings of the clock in
  nanoseconds since the epoch, in the order they are taken; the texts of the durations printed, of a
  percentage and of a message; and the scheduler's choices: the view of a store watch, and the
  deliveries that the receiving loop is handed together with what it sees after them, the closed
  channel or the deadline.
\<close>

record 'w host =
  host_rt :: runtime
  host_net :: "'w network"
  host_Close :: "conn \<Rightarrow> ('w, gerror option) state"
  host_UnixNano :: "nat \<Rightarrow> int"
  host_took :: "nat \<Rightarrow> string"
  host_percent :: "float64 \<Rightarrow> string"
  host_message :: "answer \<Rightarrow> string"
  host_stores :: "(pb_StoreEvent option, StoreEvent) goroutine \<Rightarrow> StoreEvent view"
  host_deliveries :: "(pb_SubscriptionEvent option, Delivery) goroutine \<Rightarrow> Delivery list \<times> bool"

text \<open>
  The deliveries a loop over a goroutine's channel may have been handed, and whether it may find the
  channel closed after them.
\<close>

definition arrives :: "('m, 'e) goroutine \<Rightarrow> 'e list \<times> bool \<Rightarrow> bool" where
  "arrives g v \<longleftrightarrow> (\<exists>status_err ctx_err s. reach status_err ctx_err g s \<and> ranged s = fst v \<and>
     (snd v \<longrightarrow> events_closed s))"

lemma arrives_prefix: "arrives g (ds, closed) \<Longrightarrow> prefix ds (events_of (g_conv g) (g_recv g))"
  by (auto simp: arrives_def dest: reach_ranged_prefix)

lemma sees_arrives: "sees g (es, err, canc) \<Longrightarrow> arrives g (es, True)"
proof -
  assume "sees g (es, err, canc)"
  then obtain a b s where s: "reach a b g s" "cons_at s = Done" "es = ranged s"
    by (auto simp: sees_def)
  from reach_inv [OF s(1)] s(2) have "events_closed s"
    by (auto simp: watch_inv_defs split: producer.splits)
  with s show ?thesis by (auto simp: arrives_def)
qed

section \<open>Printing\<close>

definition line :: "string \<Rightarrow> string" where
  "line s = s @ [CHR 0x0A]"

text \<open>\<open>utf8.RuneCountInString\<close>, by which \<open>fmt\<close> measures the width of a field; an invalid byte counts one.\<close>

function runeCount :: "string \<Rightarrow> nat" where
  "runeCount s =
     (if s = [] then 0
      else case runeLen s of
          None \<Rightarrow> Suc (runeCount (tl s))
        | Some n \<Rightarrow> Suc (runeCount (drop n s)))"
  by pat_completeness auto
termination
  by (relation "measure length") (auto dest!: runeLen_bounds)

declare runeCount.simps [simp del]

text \<open>\<open>%-ns\<close>: at least \<open>n\<close> wide, filled up with blanks on the right, never cut.\<close>

definition padRight :: "nat \<Rightarrow> string \<Rightarrow> string" where
  "padRight n s = s @ replicate (n - runeCount s) (CHR '' '')"

text \<open>\<open>%d\<close> of an unsigned integer of any width, and \<open>%x\<close> of an \<open>int64\<close>.\<close>

definition decWord :: "'a::len word \<Rightarrow> string" where
  "decWord w = dec (unat w)"

fun hexNat :: "nat \<Rightarrow> string" where
  "hexNat n = (if n < 16 then [hexDigit n] else hexNat (n div 16) @ [hexDigit (n mod 16)])"

declare hexNat.simps [simp del]

definition hexInt :: "int \<Rightarrow> string" where
  "hexInt i = (if i < 0 then CHR ''-'' # hexNat (nat (- i)) else hexNat (nat i))"

text \<open>\<open>%v\<close> of a \<open>bool\<close> and of a \<open>map[string]uint32\<close>, whose keys are printed in order.\<close>

definition boolText :: "bool \<Rightarrow> string" where
  "boolText b = (if b then ''true'' else ''false'')"

fun spaced :: "string list \<Rightarrow> string" where
  "spaced [] = []"
| "spaced [s] = s"
| "spaced (s # ss) = s @ '' '' @ spaced ss"

definition mapText :: "(string, u32) gomap \<Rightarrow> string" where
  "mapText m = ''map['' @ spaced (map (\<lambda>(k, v). k @ '':'' @ decWord v)
     (sort_key fst (case m of Some kvs \<Rightarrow> kvs | None \<Rightarrow> []))) @ '']''"

definition maplen :: "('k, 'v) gomap \<Rightarrow> nat" where
  "maplen m = (case m of Some kvs \<Rightarrow> length kvs | None \<Rightarrow> 0)"

definition elems :: "'a list option \<Rightarrow> 'a list" where
  "elems xs = (case xs of Some ys \<Rightarrow> ys | None \<Rightarrow> [])"

section \<open>Scripts\<close>

type_synonym 'w script = "('w, string \<times> string option) state"

definition stop :: "'w script" where
  "stop = State_Monad.return ([], None)"

definition gives_up :: "string \<Rightarrow> 'w script" where
  "gives_up msg = State_Monad.return ([], Some msg)"

text \<open>Print a text, or a line, and go on.\<close>

definition print :: "string \<Rightarrow> 'w script \<Rightarrow> 'w script" where
  "print s k = do { (out, failed) \<leftarrow> k; State_Monad.return (s @ out, failed) }"

definition say :: "string \<Rightarrow> 'w script \<Rightarrow> 'w script" where
  "say s k = print (line s) k"

text \<open>
  \<open>v, err := call; if err != nil { fail with label and err }\<close>, and go on with \<open>v\<close>; the second is for
  a call that returns only an error.
\<close>

definition attempt :: "string \<Rightarrow> ('w, 'a ret) state \<Rightarrow> ('a \<Rightarrow> 'w script) \<Rightarrow> 'w script" where
  "attempt label call k = do {
     (v, err) \<leftarrow> call;
     (case err of Some e \<Rightarrow> gives_up (label @ err_Error e) | None \<Rightarrow> k v)
   }"

definition attemptDone :: "string \<Rightarrow> ('w, gerror option) state \<Rightarrow> 'w script \<Rightarrow> 'w script" where
  "attemptDone label call k = do {
     err \<leftarrow> call;
     (case err of Some e \<Rightarrow> gives_up (label @ err_Error e) | None \<Rightarrow> k)
   }"

text \<open>\<open>if err := first; err != nil { return err }\<close>, and then the second.\<close>

definition and_then :: "'w script \<Rightarrow> 'w script \<Rightarrow> 'w script" where
  "and_then first second = do {
     (out, failed) \<leftarrow> first;
     (case failed of
        Some msg \<Rightarrow> State_Monad.return (out, Some msg)
      | None \<Rightarrow> print out second)
   }"

section \<open>Programs\<close>

text \<open>
  How a program ends: it returns from \<open>main\<close>; or in \<open>log.Fatalf\<close>, which prints the message on
  standard error and exits with 1 without running the deferred calls; or \<open>flag.Parse\<close> ends it, with
  2, or with 0 when help was asked for.
\<close>

datatype ending = Finished | Fatal string | BadFlags string

text \<open>
  The \<open>main\<close> of a demo. All of them dial with \<open>reckon.Insecure()\<close> and close the connection on
  return.
\<close>

definition program :: "'w host \<Rightarrow> flagSet \<Rightarrow> (flagSet \<Rightarrow> conn \<Rightarrow> 'w script) \<Rightarrow> string list \<Rightarrow>
    ('w, string \<times> ending) state" where
  "program host flags body argv =
     (case flagParse (host_rt host) flags argv of
        Inl msg \<Rightarrow> State_Monad.return ([], BadFlags msg)
      | Inr (fs, rest) \<Rightarrow>
          (case Connect (host_net host) (getStr fs ''endpoint'') [Insecure] of
             Inl err \<Rightarrow> State_Monad.return ([], Fatal (''connect: '' @ err))
           | Inr c \<Rightarrow> do {
               (out, failed) \<leftarrow> body fs c;
               (case failed of
                  Some msg \<Rightarrow> State_Monad.return (out, Fatal msg)
                | None \<Rightarrow> do {
                    _ \<leftarrow> host_Close host c;
                    State_Monad.return (out, Finished)
                  })
             }))"

section \<open>Running scripts\<close>

lemma run_stop [simp]: "run_state stop w = (([], None), w)"
  by (simp add: stop_def)

lemma run_gives_up [simp]: "run_state (gives_up msg) w = (([], Some msg), w)"
  by (simp add: gives_up_def)

lemma run_print [simp]:
  "run_state (print s k) w = (case run_state k w of ((out, failed), w') \<Rightarrow> ((s @ out, failed), w'))"
  by (simp add: print_def split: prod.split)

lemma run_say [simp]:
  "run_state (say s k) w =
     (case run_state k w of ((out, failed), w') \<Rightarrow> ((line s @ out, failed), w'))"
  by (simp add: say_def)

lemma run_attempt:
  "run_state (attempt label call k) w =
     (case run_state call w of
        ((v, Some e), w') \<Rightarrow> (([], Some (label @ err_Error e)), w')
      | ((v, None), w') \<Rightarrow> run_state (k v) w')"
  by (simp add: attempt_def split: prod.split option.split)

lemma run_attemptDone:
  "run_state (attemptDone label call k) w =
     (case run_state call w of
        (Some e, w') \<Rightarrow> (([], Some (label @ err_Error e)), w')
      | (None, w') \<Rightarrow> run_state k w')"
  by (simp add: attemptDone_def split: prod.split option.split)

lemma run_and_then:
  "run_state (and_then a b) w =
     (case run_state a w of
        ((out, Some msg), w') \<Rightarrow> ((out, Some msg), w')
      | ((out, None), w') \<Rightarrow>
          (case run_state b w' of ((out', failed), w'') \<Rightarrow> ((out @ out', failed), w'')))"
  by (simp add: and_then_def split: prod.split option.split)

lemmas run_script = run_attempt run_attemptDone run_and_then

section \<open>What scripts ensure\<close>

text \<open>
  A postcondition \<open>Q\<close> of the text and the state of a script that comes to its end, and one, \<open>F\<close>, of the
  text of a script that gives up; with one rule for each way to go on, from the front.
\<close>

definition ensures :: "'w script \<Rightarrow> 'w \<Rightarrow> (string \<Rightarrow> 'w \<Rightarrow> bool) \<Rightarrow> (string \<Rightarrow> bool) \<Rightarrow> bool" where
  "ensures k w Q F \<longleftrightarrow> (\<forall>out failed w'. run_state k w = ((out, failed), w') \<longrightarrow>
     (if failed = None then Q out w' else F out))"

named_theorems ensuring \<open>rules for what a script ensures\<close>

lemma ensures_stop [ensuring]: "Q [] w \<Longrightarrow> ensures stop w Q F"
  by (simp add: ensures_def)

lemma ensures_print [ensuring]:
  "ensures k w (\<lambda>out. Q (s @ out)) (\<lambda>out. F (s @ out)) \<Longrightarrow> ensures (print s k) w Q F"
  by (fastforce simp: ensures_def split: prod.splits)

lemma ensures_say [ensuring]:
  "ensures k w (\<lambda>out. Q (line s @ out)) (\<lambda>out. F (line s @ out)) \<Longrightarrow> ensures (say s k) w Q F"
  by (simp add: say_def ensures_print)

lemma ensures_attempt [ensuring]:
  assumes "F []" and "\<And>v w'. run_state call w = ((v, None), w') \<Longrightarrow> ensures (k v) w' Q F"
  shows "ensures (attempt label call k) w Q F"
  using assms by (fastforce simp: ensures_def run_attempt split: prod.splits option.splits)

lemma ensures_attemptDone [ensuring]:
  assumes "F []" and "\<And>w'. run_state call w = (None, w') \<Longrightarrow> ensures k w' Q F"
  shows "ensures (attemptDone label call k) w Q F"
  using assms by (fastforce simp: ensures_def run_attemptDone split: prod.splits option.splits)

lemma ensures_and_then:
  assumes a: "ensures a w P F"
    and b: "\<And>out w'. P out w' \<Longrightarrow> ensures b w' (\<lambda>out'. Q (out @ out')) (\<lambda>out'. F (out @ out'))"
  shows "ensures (and_then a b) w Q F"
proof -
  obtain out1 failed1 w1 where 1: "run_state a w = ((out1, failed1), w1)" by (metis prod.exhaust)
  show ?thesis
  proof (cases failed1)
    case None
    with 1 a b [of out1 w1] show ?thesis
      by (fastforce simp: ensures_def run_and_then split: prod.splits)
  next
    case Some
    with 1 a show ?thesis by (auto simp: ensures_def run_and_then)
  qed
qed

lemma ensures_mono:
  assumes "ensures k w P G" and "\<And>out w'. P out w' \<Longrightarrow> Q out w'" and "\<And>out. G out \<Longrightarrow> F out"
  shows "ensures k w Q F"
  using assms unfolding ensures_def by metis

text \<open>A script whose calls do not fail comes to its end.\<close>

definition succeeds :: "'w script \<Rightarrow> bool" where
  "succeeds k \<longleftrightarrow> (\<forall>w. \<exists>out w'. run_state k w = ((out, None), w'))"

lemma succeeds_stop [ensuring]: "succeeds stop"
  by (simp add: succeeds_def)

lemma succeeds_print [ensuring]: "succeeds k \<Longrightarrow> succeeds (print s k)"
  unfolding succeeds_def run_print
proof
  fix w
  assume "\<forall>w. \<exists>out w'. run_state k w = ((out, None), w')"
  then obtain out w' where "run_state k w = ((out, None), w')" by blast
  then show "\<exists>out w'. (case run_state k w of
      ((out, failed), w') \<Rightarrow> ((s @ out, failed), w')) = ((out, None), w')" by simp
qed

lemma succeeds_say [ensuring]: "succeeds k \<Longrightarrow> succeeds (say s k)"
  by (simp add: say_def succeeds_print)

lemma succeeds_attempt [ensuring]:
  assumes "\<And>w. snd (fst (run_state call w)) = None" and "\<And>v. succeeds (k v)"
  shows "succeeds (attempt label call k)"
  unfolding succeeds_def run_attempt
proof
  fix w
  obtain v err w1 where "run_state call w = ((v, err), w1)" by (metis prod.exhaust)
  with assms(1) [of w] assms(2) [of v, unfolded succeeds_def]
  show "\<exists>out w'. (case run_state call w of
      ((v, Some e), w') \<Rightarrow> (([], Some (label @ err_Error e)), w')
    | ((v, None), w') \<Rightarrow> run_state (k v) w') = ((out, None), w')" by simp
qed

lemma succeeds_attemptDone [ensuring]:
  assumes "\<And>w. fst (run_state call w) = None" and "succeeds k"
  shows "succeeds (attemptDone label call k)"
  unfolding succeeds_def run_attemptDone
proof
  fix w
  obtain err w1 where "run_state call w = (err, w1)" by (metis prod.exhaust)
  with assms(1) [of w] assms(2) [unfolded succeeds_def]
  show "\<exists>out w'. (case run_state call w of
      (Some e, w') \<Rightarrow> (([], Some (label @ err_Error e)), w')
    | (None, w') \<Rightarrow> run_state k w') = ((out, None), w')" by simp
qed

lemma succeeds_and_then [ensuring]:
  assumes "succeeds a" and "succeeds b"
  shows "succeeds (and_then a b)"
  unfolding succeeds_def run_and_then
proof
  fix w
  obtain out w1 where 1: "run_state a w = ((out, None), w1)" using assms(1) unfolding succeeds_def by blast
  obtain out2 w2 where "run_state b w1 = ((out2, None), w2)" using assms(2) unfolding succeeds_def by blast
  with 1 show "\<exists>out w'. (case run_state a w of
      ((out, Some msg), w') \<Rightarrow> ((out, Some msg), w')
    | ((out, None), w') \<Rightarrow>
        (case run_state b w' of ((out', failed), w'') \<Rightarrow> ((out @ out', failed), w''))) = ((out, None), w')"
    by simp
qed

section \<open>Failing and firewalls\<close>

text \<open>A script that gives up leaves out all that comes after it.\<close>

lemma and_then_gives_up [simp]: "and_then (gives_up msg) k = gives_up msg"
  by (simp add: and_then_def gives_up_def)

lemma and_then_assoc: "and_then (and_then a b) c = and_then a (and_then b c)"
  by (rule state.expand) (auto simp: fun_eq_iff run_and_then split: prod.split option.split)

text \<open>A program behind a firewall is the same if its body is.\<close>

lemma program_firewall:
  assumes "\<And>fs c. flagParse (host_rt host) flags argv = Inr (fs, rest) \<Longrightarrow>
    body' fs c = body fs c" and "flagParse (host_rt host) flags argv = Inr (fs0, rest)"
  shows "program (host\<lparr>host_net := net_firewall s (host_net host)\<rparr>) flags body' argv =
    program host flags body argv"
  using assms by (simp add: program_def Connect_firewall split: sum.split)

end
