(* ===== verification/Probes.thy ===== *)
theory Probes
  imports Script
begin

text \<open>
  The probes: \<^verbatim>\<open>cmd/validator-probe/main.go\<close>, which appends to well-formed and to malformed
  stream identifiers, \<^verbatim>\<open>cmd/filter-probe/main.go\<close>, which creates subscriptions with
  well-formed and with malformed selectors, and \<^verbatim>\<open>cmd/probe/main.go\<close>, which calls the
  health and the stores service. The first two mark each case whose answer was the expected one. The
  lemmas show that every case is tried whatever the others answered, and when a mark is given.
\<close>

section \<open>Verdicts\<close>

definition mark_ok :: string where "mark_ok = [CHR 0xE2, CHR 0x9C, CHR 0x93]"
definition mark_bad :: string where "mark_bad = [CHR 0xE2, CHR 0x9C, CHR 0x97]"
definition ellipsis :: string where "ellipsis = [CHR 0xE2, CHR 0x80, CHR 0xA6]"

text \<open>\<open>got\<close>: the answer in words, cut behind \<open>limit\<close> bytes.\<close>

definition probe_got :: "nat \<Rightarrow> gerror option \<Rightarrow> string" where
  "probe_got limit err =
     (case err of
        None \<Rightarrow> ''ok''
      | Some e \<Rightarrow>
          let got = ''reject: '' @ err_Error e in
          if limit < length got then take limit got @ ellipsis else got)"

definition probe_flag :: "string \<Rightarrow> gerror option \<Rightarrow> string" where
  "probe_flag want err = (if (want = ''ok'') \<noteq> (err = None) then mark_bad else mark_ok)"

text \<open>
  A probe: the lines it prints when it is not connected, or the body's, with the connection closed
  at the end either way. Nothing ends it early, so it has no exit code but that of \<open>flag.Parse\<close>.
\<close>

definition probeFlags :: flagSet where
  "probeFlags = [(''endpoint'', FStr ''localhost:50051'')]"

definition probe_main :: "'w host \<Rightarrow> string \<Rightarrow> (string \<Rightarrow> string + conn) \<Rightarrow>
    (conn \<Rightarrow> ('w, string) state) \<Rightarrow> string list \<Rightarrow> ('w, string \<times> ending) state" where
  "probe_main host label connect body argv =
     (case flagParse (host_rt host) probeFlags argv of
        Inl msg \<Rightarrow> State_Monad.return ([], BadFlags msg)
      | Inr (fs, rest) \<Rightarrow>
          (case connect (getStr fs ''endpoint'') of
             Inl err \<Rightarrow> State_Monad.return (line (label @ '': '' @ err), Finished)
           | Inr c \<Rightarrow> do {
               out \<leftarrow> body c;
               _ \<leftarrow> host_Close host c;
               State_Monad.return (out, Finished)
             }))"

section \<open>The validator probe\<close>

record validatorCase =
  vc_label :: string
  vc_streamID :: string
  vc_want :: string

definition validatorCases :: "'w host \<Rightarrow> validatorCase list" where
  "validatorCases host = [
     \<lparr>vc_label = ''valid user id'', vc_streamID = ''probe-'' @ hexInt (host_UnixNano host 0),
       vc_want = ''ok''\<rparr>,
     \<lparr>vc_label = ''valid system id'', vc_streamID = ''$link:probe-test'', vc_want = ''ok''\<rparr>,
     \<lparr>vc_label = ''mid-string $ (old pollution)'', vc_streamID = ''partition$abc'',
       vc_want = ''reject''\<rparr>,
     \<lparr>vc_label = ''empty'', vc_streamID = '''', vc_want = ''reject''\<rparr>,
     \<lparr>vc_label = ''no separator'', vc_streamID = ''myStream'', vc_want = ''reject''\<rparr>,
     \<lparr>vc_label = ''non-hex tail'', vc_streamID = ''account-xyz'', vc_want = ''reject''\<rparr>]"

definition probeEvent :: streams_ProposedEvent where
  "probeEvent = \<lparr>streams_ProposedEvent.EventID = '''', EventType = ''probe_v1'',
     Data = ''{\"n\":1}'', Metadata = [], Tags = None, DataContentType = '''',
     MetadataContentType = ''''\<rparr>"

definition validatorLine :: "validatorCase \<Rightarrow> gerror option \<Rightarrow> string" where
  "validatorLine tc err =
     line (probe_flag (vc_want tc) err @ '' '' @ padRight 32 (vc_label tc) @ '' '' @ probe_got 80 err)"

fun validatorLoop :: "'w streams_Client \<Rightarrow> ctx \<Rightarrow> validatorCase list \<Rightarrow> ('w, string) state" where
  "validatorLoop s ctx [] = State_Monad.return []"
| "validatorLoop s ctx (tc # cases) = do {
     (res, err) \<leftarrow> streams_Append s ctx (vc_streamID tc) AnyVersion [probeEvent];
     out \<leftarrow> validatorLoop s ctx cases;
     State_Monad.return (validatorLine tc err @ out)
   }"

definition validatorProbe :: "'w host \<Rightarrow> string list \<Rightarrow> ('w, string \<times> ending) state" where
  "validatorProbe host = probe_main host ''connect''
     (\<lambda>ep. Connect (host_net host) ep [Insecure])
     (\<lambda>c. validatorLoop (Client_Streams (host_net host) c ''default_store'')
        (WithTimeout Background (10 * Second)) (validatorCases host))"

section \<open>The filter probe\<close>

record filterCase =
  fc_label :: string
  fc_spec :: SubSpec
  fc_want :: string

definition probeSpec :: "string \<Rightarrow> string \<Rightarrow> SubSpec" where
  "probeSpec selector name = \<lparr>SubSpec.Type = TypeStream, Selector = selector, Name = name,
     StartFrom = 0, PoolSize = 1\<rparr>"

definition probeCases :: "'w host \<Rightarrow> filterCase list" where
  "probeCases host = [
     \<lparr>fc_label = ''valid stream selector'',
       fc_spec = probeSpec (''filterprobe-'' @ hexInt (host_UnixNano host 0))
         (''filterprobe-'' @ decInt (host_UnixNano host 1)),
       fc_want = ''ok''\<rparr>,
     \<lparr>fc_label = ''empty stream selector'',
       fc_spec = probeSpec '''' (''filterprobe-empty-'' @ decInt (host_UnixNano host 2)),
       fc_want = ''reject''\<rparr>,
     \<lparr>fc_label = ''$all wildcard (valid)'',
       fc_spec = probeSpec ''$all'' (''filterprobe-all-'' @ decInt (host_UnixNano host 3)),
       fc_want = ''ok''\<rparr>]"

definition filterLine :: "filterCase \<Rightarrow> string \<Rightarrow> gerror option \<Rightarrow> string" where
  "filterLine tc dur err =
     line (probe_flag (fc_want tc) err @ '' '' @ padRight 32 (fc_label tc) @ '' '' @
       padRight 12 dur @ '' '' @ probe_got 70 err)"

text \<open>The loop of \<open>runProbes\<close>; \<open>n\<close> calls have been timed before.\<close>

fun filterLoop :: "'w host \<Rightarrow> 'w subs_Client \<Rightarrow> ctx \<Rightarrow> nat \<Rightarrow> filterCase list \<Rightarrow>
    ('w, string) state" where
  "filterLoop host subs ctx n [] = State_Monad.return []"
| "filterLoop host subs ctx n (tc # cases) = do {
     (res, err) \<leftarrow> subs_Create subs ctx (fc_spec tc);
     out \<leftarrow> filterLoop host subs ctx (Suc n) cases;
     State_Monad.return (filterLine tc (host_took host n) err @ out)
   }"

definition runProbes :: "'w host \<Rightarrow> ctx \<Rightarrow> 'w subs_Client \<Rightarrow> ('w, string) state" where
  "runProbes host ctx subs = filterLoop host subs ctx 0 (probeCases host)"

definition filterProbe :: "'w host \<Rightarrow> string list \<Rightarrow> ('w, string \<times> ending) state" where
  "filterProbe host = probe_main host ''connect''
     (\<lambda>ep. Connect (host_net host) ep [Insecure])
     (\<lambda>c. runProbes host (WithTimeout Background (10 * Second))
        (Client_Subscriptions (host_net host) c ''default_store''))"

section \<open>The call probe\<close>

text \<open>
  \<open>call\<close>: the name, the function that is called under a context of its own, and what it answers. This
  probe does not use \<open>Connect\<close> but \<open>grpc.NewClient\<close> and the generated clients, and it dials the
  target as it is given.
\<close>

definition probe_call :: "('w, 'r option ret) state \<Rightarrow> ('r option \<Rightarrow> answer) \<Rightarrow>
    ('w, answer ret) state" where
  "probe_call call wrap = do { (r, err) \<leftarrow> call; State_Monad.return (wrap r, err) }"

definition callCtx :: ctx where
  "callCtx = WithTimeout Background (5 * Second)"

definition storeReq :: "string \<Rightarrow> StoreScoped" where
  "storeReq s = \<lparr>StoreScoped.StoreId = s\<rparr>"

definition probeCalls :: "'w stubs \<Rightarrow> (string \<times> ('w, answer ret) state) list" where
  "probeCalls st = (let hc = st_health st; sc = st_stores st; storeID = ''default_store'' in [
     (''HealthService/Check (default_store)'',
       probe_call (Check hc callCtx (storeReq storeID)) CheckAnswer),
     (''HealthService/Check (empty store_id)'',
       probe_call (Check hc callCtx (storeReq '''')) CheckAnswer),
     (''HealthService/Health'', probe_call (Health hc callCtx ()) HealthAnswer),
     (''HealthService/GetServerInfo (default_store)'',
       probe_call (GetServerInfo hc callCtx (storeReq storeID)) InfoAnswer),
     (''HealthService/GetServerInfo (empty)'',
       probe_call (GetServerInfo hc callCtx (storeReq '''')) InfoAnswer),
     (''HealthService/VerifyClusterConsistency'',
       probe_call (VerifyClusterConsistency hc callCtx (storeReq storeID)) ClusterAnswer),
     (''HealthService/VerifyMembershipConsensus'',
       probe_call (VerifyMembershipConsensus hc callCtx (storeReq storeID)) ClusterAnswer),
     (''HealthService/CheckRaftLogConsistency'',
       probe_call (CheckRaftLogConsistency hc callCtx (storeReq storeID)) ClusterAnswer),
     (''StoresService/ListStores'', probe_call (ListStores sc callCtx ()) StoresAnswer)])"

definition callLine :: "'w host \<Rightarrow> string \<Rightarrow> string \<Rightarrow> answer ret \<Rightarrow> string" where
  "callLine host name d answer =
     (case answer of
        (r, Some e) \<Rightarrow> line (padRight 30 name @ '' ERR  ('' @ d @ '') '' @ err_Error e)
      | (r, None) \<Rightarrow> line (padRight 30 name @ '' OK   ('' @ d @ '') '' @ host_message host r))"

fun callLoop :: "'w host \<Rightarrow> nat \<Rightarrow> (string \<times> ('w, answer ret) state) list \<Rightarrow> ('w, string) state" where
  "callLoop host n [] = State_Monad.return []"
| "callLoop host n ((name, fn) # calls) = do {
     answer \<leftarrow> fn;
     out \<leftarrow> callLoop host (Suc n) calls;
     State_Monad.return (callLine host name (host_took host n) answer @ out)
   }"

definition dialPlain :: "'w network \<Rightarrow> string \<Rightarrow> string + conn" where
  "dialPlain net ep =
     (case net_NewClient net ep [PlaintextCreds] of
        Some err \<Rightarrow> Inl err
      | None \<Rightarrow> Inr \<lparr>conn_target = ep, conn_opts = [PlaintextCreds]\<rparr>)"

definition callProbe :: "'w host \<Rightarrow> string list \<Rightarrow> ('w, string \<times> ending) state" where
  "callProbe host = probe_main host ''dial'' (dialPlain (host_net host))
     (\<lambda>c. callLoop host 0 (probeCalls (net_stubs (host_net host) c)))"

section \<open>Every case is tried\<close>

text \<open>The answers of a list of calls made one after the other.\<close>

fun answers :: "('w, 'a) state list \<Rightarrow> ('w, 'a list) state" where
  "answers [] = State_Monad.return []"
| "answers (m # ms) = do { a \<leftarrow> m; as \<leftarrow> answers ms; State_Monad.return (a # as) }"

lemma answers_length: "run_state (answers ms) w = (as, w') \<Longrightarrow> length as = length ms"
  by (induction ms arbitrary: w as w') (auto split: prod.splits)

text \<open>The three loops are their calls, in order, and a line for each answer.\<close>

definition validatorLines :: "validatorCase list \<Rightarrow> 'a ret list \<Rightarrow> string list" where
  "validatorLines cases rs = map2 (\<lambda>tc r. validatorLine tc (snd r)) cases rs"

definition filterLines :: "'w host \<Rightarrow> nat \<Rightarrow> filterCase list \<Rightarrow> 'a ret list \<Rightarrow> string list" where
  "filterLines host n cases rs =
     map2 (\<lambda>(i, tc) r. filterLine tc (host_took host i) (snd r)) (List.enumerate n cases) rs"

definition validatorCalls :: "'w streams_Client \<Rightarrow> ctx \<Rightarrow> validatorCase list \<Rightarrow>
    ('w, AppendResult ret) state list" where
  "validatorCalls s ctx cases =
     map (\<lambda>tc. streams_Append s ctx (vc_streamID tc) AnyVersion [probeEvent]) cases"

definition filterCalls :: "'w subs_Client \<Rightarrow> ctx \<Rightarrow> filterCase list \<Rightarrow> ('w, string ret) state list" where
  "filterCalls subs ctx cases = map (\<lambda>tc. subs_Create subs ctx (fc_spec tc)) cases"

lemma validatorLoop_answers:
  "validatorLoop s ctx cases = do {
     rs \<leftarrow> answers (validatorCalls s ctx cases);
     State_Monad.return (concat (validatorLines cases rs))
   }"
  by (induction cases)
    (auto simp: state.expand fun_eq_iff validatorCalls_def validatorLines_def split: prod.split)

lemma filterLoop_answers:
  "filterLoop host subs ctx n cases = do {
     rs \<leftarrow> answers (filterCalls subs ctx cases);
     State_Monad.return (concat (filterLines host n cases rs))
   }"
  by (induction cases arbitrary: n)
    (auto simp: state.expand fun_eq_iff filterCalls_def filterLines_def split: prod.split)

lemma callLoop_answers:
  "callLoop host n calls = do {
     rs \<leftarrow> answers (map snd calls);
     State_Monad.return (concat (map2 (\<lambda>(i, name, fn) r. callLine host name (host_took host i) r)
       (List.enumerate n calls) rs))
   }"
proof (induction calls arbitrary: n)
  case (Cons c calls)
  then show ?case by (cases c) (auto simp: state.expand fun_eq_iff split: prod.split)
qed simp

text \<open>The mark at the head of a line.\<close>

lemma marks_differ [simp]: "\<not> prefix mark_ok (mark_bad @ s)" "prefix mark_ok (mark_ok @ s)"
  by (simp_all add: mark_ok_def mark_bad_def)

lemma probe_flag_prefix:
  "prefix mark_ok (probe_flag want err @ s) \<longleftrightarrow> (want = ''ok'' \<longleftrightarrow> err = None)"
  by (simp add: probe_flag_def)

lemma validatorLine_ok: "prefix mark_ok (validatorLine tc err) \<longleftrightarrow> (vc_want tc = ''ok'' \<longleftrightarrow> err = None)"
  by (simp add: validatorLine_def line_def probe_flag_prefix)

lemma filterLine_ok: "prefix mark_ok (filterLine tc dur err) \<longleftrightarrow> (fc_want tc = ''ok'' \<longleftrightarrow> err = None)"
  by (simp add: filterLine_def line_def probe_flag_prefix)

lemma validatorLines_ok:
  assumes "length rs = length cases"
  shows "list_all (prefix mark_ok) (validatorLines cases rs) \<longleftrightarrow>
    list_all2 (\<lambda>tc r. vc_want tc = ''ok'' \<longleftrightarrow> snd r = None) cases rs"
  using assms [symmetric] unfolding validatorLines_def
  by (induction cases rs rule: list_induct2) (simp_all add: validatorLine_ok)

lemma filterLines_ok:
  assumes "length rs = length cases"
  shows "list_all (prefix mark_ok) (filterLines host n cases rs) \<longleftrightarrow>
    list_all2 (\<lambda>tc r. fc_want tc = ''ok'' \<longleftrightarrow> snd r = None) cases rs"
  using assms [symmetric] unfolding filterLines_def
  by (induction cases rs arbitrary: n rule: list_induct2) (simp_all add: filterLine_ok)

lemma run_answers:
  obtains rs w' where "run_state (answers ms) w = (rs, w')" and "length rs = length ms"
  by (cases "run_state (answers ms) w") (auto dest: answers_length)

text \<open>
  C36: The validator and the filter probe ask the gateway every case of their table once, in order,
  whatever it answered before, and print one line for each. All lines have the good mark exactly when
  the cases that expect success had no error and all the others had one. Any error passes for a
  rejection, that of a gateway nobody can reach too.
\<close>

theorem probe_verdicts:
  "(\<exists>rs w'. run_state (answers (validatorCalls s ctx cases)) w = (rs, w') \<and>
     length rs = length cases \<and>
     run_state (validatorLoop s ctx cases) w = (concat (validatorLines cases rs), w') \<and>
     (list_all (prefix mark_ok) (validatorLines cases rs) \<longleftrightarrow>
       list_all2 (\<lambda>tc r. vc_want tc = ''ok'' \<longleftrightarrow> snd r = None) cases rs)) \<and>
   (\<exists>rs w'. run_state (answers (filterCalls subs ctx fcases)) w = (rs, w') \<and>
     length rs = length fcases \<and>
     run_state (filterLoop host subs ctx 0 fcases) w = (concat (filterLines host 0 fcases rs), w') \<and>
     (list_all (prefix mark_ok) (filterLines host 0 fcases rs) \<longleftrightarrow>
       list_all2 (\<lambda>tc r. fc_want tc = ''ok'' \<longleftrightarrow> snd r = None) fcases rs))"
proof
  obtain rs w' where rs: "run_state (answers (validatorCalls s ctx cases)) w = (rs, w')"
      "length rs = length cases"
    by (rule run_answers [of "validatorCalls s ctx cases" w]) (simp add: validatorCalls_def)
  show "\<exists>rs w'. run_state (answers (validatorCalls s ctx cases)) w = (rs, w') \<and>
     length rs = length cases \<and>
     run_state (validatorLoop s ctx cases) w = (concat (validatorLines cases rs), w') \<and>
     (list_all (prefix mark_ok) (validatorLines cases rs) \<longleftrightarrow>
       list_all2 (\<lambda>tc r. vc_want tc = ''ok'' \<longleftrightarrow> snd r = None) cases rs)"
    using rs by (auto simp: validatorLoop_answers validatorLines_ok)
next
  obtain rs w' where rs: "run_state (answers (filterCalls subs ctx fcases)) w = (rs, w')"
      "length rs = length fcases"
    by (rule run_answers [of "filterCalls subs ctx fcases" w]) (simp add: filterCalls_def)
  show "\<exists>rs w'. run_state (answers (filterCalls subs ctx fcases)) w = (rs, w') \<and>
     length rs = length fcases \<and>
     run_state (filterLoop host subs ctx 0 fcases) w = (concat (filterLines host 0 fcases rs), w') \<and>
     (list_all (prefix mark_ok) (filterLines host 0 fcases rs) \<longleftrightarrow>
       list_all2 (\<lambda>tc r. fc_want tc = ''ok'' \<longleftrightarrow> snd r = None) fcases rs)"
    using rs by (auto simp: filterLoop_answers filterLines_ok)
qed

end
