(* ===== verification/Demos.thy ===== *)
theory Demos
  imports Script
begin

text \<open>
  The demos of \<^verbatim>\<open>examples/\<close>, in the order of their directories' use: quickstart, streams,
  subscriptions, snapshots, health and admin. Each is a script over the clients of the library. The
  lemmas show what the receiving loop of the subscriptions demo acknowledges, that no demo sends a
  request for another store than the one its flags name, and what the snapshots demo leaves behind.
\<close>

section \<open>Flags\<close>

definition endpointFlag :: "string \<times> flagVal" where
  "endpointFlag = (''endpoint'', FStr ''localhost:50051'')"

definition storeFlags :: flagSet where
  "storeFlags = [endpointFlag, (''store'', FStr ''default_store'')]"

section \<open>Quickstart\<close>

definition quickstartFlags :: flagSet where
  "quickstartFlags = [endpointFlag, (''watch'', FBool False)]"

definition instanceLine :: "StoreInst \<Rightarrow> string" where
  "instanceLine i = line (''  '' @ padRight 24 (StoreInst.StoreID i) @ '' '' @
     padRight 32 (StoreInst.Node i) @ '' '' @ padRight 8 (StoreInst.Mode i) @ '' '' @
     StoreInst.DataDir i)"

definition storeEventLine :: "StoreEvent \<Rightarrow> string" where
  "storeEventLine ev = line (''  '' @ padRight 9 (StoreEvent.Type ev) @ '' '' @
     StoreInst.StoreID (Instance ev) @ '' @ '' @ StoreInst.Node (Instance ev))"

definition quickstart_watch :: "'w host \<Rightarrow> 'w stores_Client \<Rightarrow> ctx \<Rightarrow> 'w script" where
  "quickstart_watch host c ctx =
     say ''=== watching topology (Ctrl-C to stop) ===''
     (do {
        g \<leftarrow> stores_Watch c ctx [WithSnapshot False];
        (case host_stores host g of
           (evs, err, canc) \<Rightarrow>
             print (concat (map storeEventLine evs))
               (case err of
                  Some e \<Rightarrow> if canc then stop else gives_up (''watch: '' @ err_Error e)
                | None \<Rightarrow> stop))
      })"

definition quickstart_body :: "'w host \<Rightarrow> flagSet \<Rightarrow> conn \<Rightarrow> 'w script" where
  "quickstart_body host fs conn =
     (let ctx = WithCancel Background; c = Client_Stores (host_net host) conn in
      attempt ''list stores: '' (stores_List c (WithTimeout ctx (5 * Second))) (\<lambda>insts.
      say (''=== stores @ '' @ getStr fs ''endpoint'' @ '' ('' @ dec (length (elems insts)) @
        '' instance(s)) ==='')
      (print (concat (map instanceLine (elems insts)))
      (if \<not> getBool fs ''watch'' then stop else quickstart_watch host c ctx))))"

definition quickstart :: "'w host \<Rightarrow> string list \<Rightarrow> ('w, string \<times> ending) state" where
  "quickstart host = program host quickstartFlags (quickstart_body host)"

section \<open>Streams\<close>

definition streamsFlags :: "'w host \<Rightarrow> flagSet" where
  "streamsFlags host =
     storeFlags @ [(''stream'', FStr (''demo-'' @ decInt (host_UnixNano host 0)))]"

definition demoEvent :: "string \<Rightarrow> bytes \<Rightarrow> streams_ProposedEvent" where
  "demoEvent eventType data = \<lparr>streams_ProposedEvent.EventID = '''', EventType = eventType,
     Data = data, Metadata = [], Tags = None, DataContentType = '''', MetadataContentType = ''''\<rparr>"

definition eventLine :: "streams_RecordedEvent \<Rightarrow> string" where
  "eventLine e = line (''  v='' @ padRight 3 (decWord (streams_RecordedEvent.Version e)) @ '' '' @
     padRight 24 (streams_RecordedEvent.EventType e) @ '' '' @ streams_RecordedEvent.Data e)"

text \<open>The loop over the identifiers, at index \<open>i\<close> of \<open>count\<close>.\<close>

fun firstTen :: "nat \<Rightarrow> nat \<Rightarrow> string list \<Rightarrow> string" where
  "firstTen count i [] = []"
| "firstTen count i (d # ds) =
     (if 10 \<le> i then line (''  ... and '' @ dec (count - 10) @ '' more'')
      else line (''  '' @ d) @ firstTen count (Suc i) ds)"

definition streamsDemo_body :: "'w host \<Rightarrow> flagSet \<Rightarrow> conn \<Rightarrow> 'w script" where
  "streamsDemo_body host fs conn =
     (let ctx = WithTimeout Background (15 * Second); store = getStr fs ''store'';
          stream = getStr fs ''stream''; quote = rt_Quote (host_rt host);
          s = Client_Streams (host_net host) conn store in
      say (''=== append 3 events to '' @ quote stream @ '' ==='')
      (attempt ''append: '' (streams_Append s ctx stream AnyVersion [
          demoEvent ''demo_started_v1'' ''{\"n\":1}'',
          demoEvent ''demo_progressed_v1'' ''{\"n\":2}'',
          demoEvent ''demo_completed_v1'' ''{\"n\":3}'']) (\<lambda>res.
      say (''  version='' @ decWord (AppendResult.Version res) @ '' position='' @
        decWord (Position res) @ '' count='' @ decWord (AppendResult.Count res))
      (say ''=== read forward from 0 ===''
      (attempt ''read: '' (streams_Read s ctx stream 0 100) (\<lambda>events.
      print (concat (map eventLine (elems events)))
      (say ''=== version ===''
      (attempt ''version: '' (streams_Version s ctx stream) (\<lambda>v.
      say (''  current version = '' @ decInt (sint v))
      (say (''=== list streams in '' @ quote store @ '' (first 10) ==='')
      (attempt ''list: '' (streams_List s ctx) (\<lambda>ids.
      print (firstTen (length (elems ids)) 0 (elems ids)) stop))))))))))))"

definition streamsDemo :: "'w host \<Rightarrow> string list \<Rightarrow> ('w, string \<times> ending) state" where
  "streamsDemo host = program host (streamsFlags host) (streamsDemo_body host)"

section \<open>Subscriptions\<close>

definition subsFlags :: "'w host \<Rightarrow> flagSet" where
  "subsFlags host = (let now = decInt (host_UnixNano host 0) in
     storeFlags @ [(''stream'', FStr (''subdemo-'' @ now)), (''name'', FStr (''sub-demo-'' @ now))])"

definition appendThree :: "ctx \<Rightarrow> 'w streams_Client \<Rightarrow> string \<Rightarrow> 'w script" where
  "appendThree ctx s stream =
     say ''=== append 3 events ===''
     (attempt ''append: '' (streams_Append s ctx stream AnyVersion [
         demoEvent ''sub_demo_v1'' ''{\"n\":1}'',
         demoEvent ''sub_demo_v1'' ''{\"n\":2}'',
         demoEvent ''sub_demo_v1'' ''{\"n\":3}'']) (\<lambda>_. stop))"

definition deliveryLine :: "Delivery \<Rightarrow> string" where
  "deliveryLine d = (let e = Delivery.Event d in
     line (''  v='' @ padRight 3 (decWord (streams_RecordedEvent.Version e)) @ '' '' @
       padRight 16 (streams_RecordedEvent.EventType e) @ '' '' @
       padRight 12 (streams_RecordedEvent.Data e) @ '' ckpt='' @ decWord (Delivery.Checkpoint d)))"

text \<open>
  The \<open>for\<close> loop of \<open>receiveAll\<close>: the deliveries its \<open>select\<close> is handed, and whether it finds the
  channel closed after them, or the deadline passed.
\<close>

fun receiveLoop :: "'w subs_Client \<Rightarrow> ctx \<Rightarrow> string \<Rightarrow> int \<Rightarrow> int \<Rightarrow> Delivery list \<Rightarrow> bool \<Rightarrow>
    'w script" where
  "receiveLoop subs ctx name want received [] closed =
     (if closed then stop
      else gives_up (''timed out after '' @ decInt received @ '' deliveries''))"
| "receiveLoop subs ctx name want received (d # ds) closed =
     print (deliveryLine d)
     (attemptDone ''ack: '' (subs_Ack subs ctx (streams_RecordedEvent.StreamID (Delivery.Event d)) name
         (streams_RecordedEvent.Version (Delivery.Event d)))
     (if want \<le> received + 1 then stop
      else receiveLoop subs ctx name want (received + 1) ds closed))"

definition receiveAll :: "ctx \<Rightarrow> 'w subs_Client \<Rightarrow> Delivery list \<times> bool \<Rightarrow> string \<Rightarrow> int \<Rightarrow>
    'w script" where
  "receiveAll ctx subs deliveries name want =
     say (''=== receive '' @ decInt want @ '' deliveries ==='')
     (receiveLoop subs ctx name want 0 (fst deliveries) (snd deliveries))"

definition reportLag :: "ctx \<Rightarrow> 'w subs_Client \<Rightarrow> string \<Rightarrow> 'w script" where
  "reportLag ctx subs name =
     say ''=== lag after acks ===''
     (attempt ''lag: '' (subs_Lag subs ctx name) (\<lambda>lag.
     say (''  lag='' @ decWord (SubLag.Lag lag) @ '' checkpoint='' @
       decWord (SubLag.CurrentCheckpoint lag) @ '' latest='' @ decWord (SubLag.LatestVersion lag))
     stop))"

definition listSubscriptions :: "ctx \<Rightarrow> 'w subs_Client \<Rightarrow> 'w script" where
  "listSubscriptions ctx subs =
     say ''=== list subscriptions (count only) ===''
     (attempt ''list: '' (subs_List subs ctx) (\<lambda>all.
     say (''  '' @ dec (length (elems all)) @ '' subscription(s) total'') stop))"

definition removeSubscription :: "ctx \<Rightarrow> 'w subs_Client \<Rightarrow> SubSpec \<Rightarrow> 'w script" where
  "removeSubscription ctx subs spec =
     say ''=== remove subscription ===''
     (attemptDone ''remove: '' (subs_Remove subs ctx spec) (say ''  removed'' stop))"

definition demoSpec :: "string \<Rightarrow> string \<Rightarrow> SubSpec" where
  "demoSpec stream name = \<lparr>SubSpec.Type = TypeStream, Selector = stream, Name = name,
     StartFrom = 0, PoolSize = 1\<rparr>"

text \<open>
  \<open>runDemo\<close>. The program sleeps half a second for the goroutine to open the stream before it appends;
  here the stream is opened first. The error of the goroutine is read and thrown away.
\<close>

definition subs_runDemo :: "'w host \<Rightarrow> ctx \<Rightarrow> 'w streams_Client \<Rightarrow> 'w subs_Client \<Rightarrow> string \<Rightarrow>
    string \<Rightarrow> 'w script" where
  "subs_runDemo host ctx s subs stream name =
     (let spec = demoSpec stream name; quote = rt_Quote (host_rt host) in
      say (''=== subscribe (stream='' @ quote stream @ '', name='' @ quote name @ '') ==='')
      (do {
         g \<leftarrow> subs_Subscribe subs (WithCancel ctx) spec;
         and_then (appendThree ctx s stream)
         (and_then (receiveAll ctx subs (host_deliveries host g) name 3)
         (and_then (reportLag ctx subs name)
         (and_then (listSubscriptions ctx subs)
         (removeSubscription ctx subs spec))))
       }))"

definition subsDemo_body :: "'w host \<Rightarrow> flagSet \<Rightarrow> conn \<Rightarrow> 'w script" where
  "subsDemo_body host fs conn =
     subs_runDemo host (WithTimeout Background (30 * Second))
       (Client_Streams (host_net host) conn (getStr fs ''store''))
       (Client_Subscriptions (host_net host) conn (getStr fs ''store''))
       (getStr fs ''stream'') (getStr fs ''name'')"

definition subsDemo :: "'w host \<Rightarrow> string list \<Rightarrow> ('w, string \<times> ending) state" where
  "subsDemo host = program host (subsFlags host) (subsDemo_body host)"

section \<open>Snapshots\<close>

definition snapsFlags :: "'w host \<Rightarrow> flagSet" where
  "snapsFlags host = (let now = decInt (host_UnixNano host 0) in
     storeFlags @ [(''source'', FStr (''snapdemo-source-'' @ now)),
       (''stream'', FStr (''snapdemo-stream-'' @ now))])"

definition demoSnapshot :: "string \<Rightarrow> string \<Rightarrow> u64 \<Rightarrow> SnapSpec" where
  "demoSnapshot source stream v = \<lparr>SnapSpec.SourceUUID = source, StreamUUID = stream, Version = v,
     Data = ''{\"version\":'' @ decWord v @ '',\"state\":\"ok\"}'',
     Metadata = ''{\"app\":\"snapdemo\"}''\<rparr>"

fun saveLoop :: "'w snaps_Client \<Rightarrow> ctx \<Rightarrow> string \<Rightarrow> string \<Rightarrow> u64 list \<Rightarrow> 'w script" where
  "saveLoop snaps ctx source stream [] = stop"
| "saveLoop snaps ctx source stream (v # vs) =
     attemptDone (''save v='' @ decWord v @ '': '') (snaps_Save snaps ctx (demoSnapshot source stream v))
     (say (''  saved v='' @ decWord v) (saveLoop snaps ctx source stream vs))"

definition saveSnapshotSet :: "ctx \<Rightarrow> 'w snaps_Client \<Rightarrow> string \<Rightarrow> string \<Rightarrow> 'w script" where
  "saveSnapshotSet ctx snaps source stream =
     say ''=== save 3 snapshots (versions 10, 20, 30) ===''
     (saveLoop snaps ctx source stream [10, 20, 30])"

definition recordLine :: "SnapRecord \<Rightarrow> string" where
  "recordLine r = line (''  v='' @ decWord (SnapRecord.Version r) @ '' data='' @ SnapRecord.Data r)"

definition listedLine :: "SnapRecord \<Rightarrow> string" where
  "listedLine r = line (''  v='' @ padRight 4 (decWord (SnapRecord.Version r)) @ '' stream='' @
     SnapRecord.StreamID r)"

definition readSnapshotSet :: "ctx \<Rightarrow> 'w snaps_Client \<Rightarrow> string \<Rightarrow> string \<Rightarrow> 'w script" where
  "readSnapshotSet ctx snaps source stream =
     say ''=== read latest (via List+At wrapper) ===''
     (attempt ''latest: '' (snaps_Latest snaps ctx source stream) (\<lambda>latest.
     print (recordLine latest)
     (say ''=== read at v=0 (single-RPC latest, gateway 0.4.6+) ===''
     (attempt ''at v=0: '' (snaps_At snaps ctx source stream 0) (\<lambda>v0.
     print (recordLine v0)
     (say ''=== read at v=20 ===''
     (attempt ''at: '' (snaps_At snaps ctx source stream 20) (\<lambda>at.
     print (recordLine at)
     (attempt ''list: '' (snaps_List snaps ctx source stream) (\<lambda>list.
     say ''=== list for (source, stream) ===''
     (print (concat (map listedLine (elems list))) stop)))))))))))"

definition removeOneSnapshot :: "ctx \<Rightarrow> 'w snaps_Client \<Rightarrow> string \<Rightarrow> string \<Rightarrow> 'w script" where
  "removeOneSnapshot ctx snaps source stream =
     say ''=== delete v=20 ===''
     (attemptDone ''delete: '' (snaps_Delete snaps ctx source stream 20)
     (attempt ''list-after-delete: '' (snaps_List snaps ctx source stream) (\<lambda>list.
     say (''  remaining: '' @ dec (length (elems list)) @ '' snapshot(s)'')
     (print (concat (map (\<lambda>r. line (''    v='' @ padRight 4 (decWord (SnapRecord.Version r))))
       (elems list))) stop))))"

definition snaps_runDemo :: "ctx \<Rightarrow> 'w snaps_Client \<Rightarrow> string \<Rightarrow> string \<Rightarrow> 'w script" where
  "snaps_runDemo ctx snaps source stream =
     and_then (saveSnapshotSet ctx snaps source stream)
     (and_then (readSnapshotSet ctx snaps source stream)
     (removeOneSnapshot ctx snaps source stream))"

definition snapsDemo_body :: "'w host \<Rightarrow> flagSet \<Rightarrow> conn \<Rightarrow> 'w script" where
  "snapsDemo_body host fs conn =
     snaps_runDemo (WithTimeout Background (15 * Second))
       (Client_Snapshots (host_net host) conn (getStr fs ''store''))
       (getStr fs ''source'') (getStr fs ''stream'')"

definition snapsDemo :: "'w host \<Rightarrow> string list \<Rightarrow> ('w, string \<times> ending) state" where
  "snapsDemo host = program host (snapsFlags host) (snapsDemo_body host)"

section \<open>Health\<close>

text \<open>\<open>must\<close>: log the error and end the program.\<close>

definition must :: "string \<Rightarrow> ('w, 'a ret) state \<Rightarrow> ('a \<Rightarrow> 'w script) \<Rightarrow> 'w script" where
  "must label = attempt (label @ '' failed: '')"

definition healthDemo_body :: "'w host \<Rightarrow> flagSet \<Rightarrow> conn \<Rightarrow> 'w script" where
  "healthDemo_body host fs conn =
     (let ctx = WithTimeout Background (10 * Second);
          h = Client_Health (host_net host) conn (getStr fs ''store'') in
      must ''Check'' (health_Check h ctx) (\<lambda>chk.
      say (''Check       status='' @ CheckResult.Status chk @ '' details='' @
        dec (maplen (CheckResult.Details chk)) @ '' entries'')
      (must ''Health'' (health_Health h ctx) (\<lambda>hr.
      say (''Health      status='' @ HealthResult.Status hr @ '' stores='' @
        mapText (HealthResult.Stores hr) @ '' workers='' @ decWord (HealthResult.TotalWorkers hr) @
        '' node='' @ HealthResult.Node hr)
      (must ''ClusterConsistency'' (health_ClusterConsistency h ctx) (\<lambda>cc.
      say (''ClusterCons status='' @ ClusterResult.Status cc)
      (must ''MembershipConsensus'' (health_MembershipConsensus h ctx) (\<lambda>mc.
      say (''Membership  status='' @ ClusterResult.Status mc)
      (must ''RaftLogConsistency'' (health_RaftLogConsistency h ctx) (\<lambda>rl.
      say (''RaftLog     status='' @ ClusterResult.Status rl)
      (must ''MemoryLevel'' (health_MemoryLevel h ctx) (\<lambda>ml.
      say (''MemoryLevel '' @ ml)
      (must ''MemoryStats'' (health_MemoryStats h ctx) (\<lambda>ms.
      say (''MemoryStats used='' @ decWord (MemoryStats.UsedBytes ms) @ '' total='' @
        decWord (MemoryStats.TotalBytes ms) @ '' pct='' @
        host_percent host (MemoryStats.UsagePercent ms))
      (must ''ServerInfo'' (health_ServerInfo h ctx) (\<lambda>si.
      say (''ServerInfo  db='' @ ServerInfo.ReckonDbVersion si @ '' gw='' @
        ServerInfo.ReckonGatewayVersion si @ '' api='' @ APICompatibilityVersion si @
        '' integrity='' @ boolText (ServerInfo.IntegrityEnabled si)) stop))))))))))))))))"

definition healthDemo :: "'w host \<Rightarrow> string list \<Rightarrow> ('w, string \<times> ending) state" where
  "healthDemo host = program host storeFlags (healthDemo_body host)"

section \<open>Admin\<close>

text \<open>The last call of the demo is one that should fail: an answer is what is unexpected.\<close>

definition dryRunScript :: "'w admin_Client \<Rightarrow> ctx \<Rightarrow> 'w script" where
  "dryRunScript a ctx = do {
     (dry, err) \<leftarrow> admin_ScavengeDryRun a ctx ''nonexistent-deadbeef'' None;
     (case err of
        None \<Rightarrow> say (''ScavengeDryRun    removed='' @ decWord (ScavengeResult.EventsRemoved dry) @
          '' remaining='' @ decWord (ScavengeResult.EventsRemaining dry) @ '' reclaimed='' @
          decWord (ScavengeResult.SpaceReclaimedBytes dry) @ '' (unexpected ok)'') stop
      | Some e \<Rightarrow> say (''ScavengeDryRun    reject (fast): '' @ err_Error e) stop)
   }"

definition adminDemo_body :: "'w host \<Rightarrow> flagSet \<Rightarrow> conn \<Rightarrow> 'w script" where
  "adminDemo_body host fs conn =
     (let ctx = WithTimeout Background (10 * Second);
          a = Client_Admin (host_net host) conn (getStr fs ''store'') in
      must ''StoreStats'' (admin_StoreStats a ctx) (\<lambda>stats.
      say (''StoreStats        streams='' @ decWord (StoreStats.TotalStreams stats) @ '' events='' @
        decWord (StoreStats.TotalEvents stats) @ '' subs='' @
        decWord (StoreStats.TotalSubscriptions stats) @ '' snaps='' @
        decWord (StoreStats.TotalSnapshots stats))
      (must ''EventTypeSummary'' (admin_EventTypeSummary a ctx) (\<lambda>types.
      say (''EventTypeSummary  '' @ dec (length (elems types)) @ '' types'')
      (must ''ListLinks'' (admin_ListLinks a ctx) (\<lambda>links.
      say (''ListLinks         '' @ dec (length (elems links)) @ '' link(s)'')
      (dryRunScript a ctx)))))))"

definition adminDemo :: "'w host \<Rightarrow> string list \<Rightarrow> ('w, string \<times> ending) state" where
  "adminDemo host = program host storeFlags (adminDemo_body host)"

section \<open>What is received is acknowledged\<close>

text \<open>
  Acknowledging one delivery after the other, as the reference: how many were acknowledged, and the
  error that stopped it.
\<close>

fun ackEach :: "'w subs_Client \<Rightarrow> ctx \<Rightarrow> string \<Rightarrow> Delivery list \<Rightarrow>
    ('w, nat \<times> gerror option) state" where
  "ackEach subs ctx name [] = State_Monad.return (0, None)"
| "ackEach subs ctx name (d # ds) = do {
     err \<leftarrow> subs_Ack subs ctx (streams_RecordedEvent.StreamID (Delivery.Event d)) name
       (streams_RecordedEvent.Version (Delivery.Event d));
     (case err of
        Some e \<Rightarrow> State_Monad.return (0, Some e)
      | None \<Rightarrow> do { (n, err) \<leftarrow> ackEach subs ctx name ds; State_Monad.return (Suc n, err) })
   }"

text \<open>How the loop ends when \<open>n\<close> deliveries were acknowledged.\<close>

definition receive_end :: "int \<Rightarrow> bool \<Rightarrow> int \<Rightarrow> gerror option \<Rightarrow> string option" where
  "receive_end want closed n err =
     (case err of
        Some e \<Rightarrow> Some (''ack: '' @ err_Error e)
      | None \<Rightarrow> if want \<le> n \<or> closed then None
          else Some (''timed out after '' @ decInt n @ '' deliveries''))"

lemma ackEach_bound: "run_state (ackEach subs ctx name ds) w = ((n, err), w') \<Longrightarrow>
    n \<le> length ds \<and> (err = None \<longrightarrow> n = length ds) \<and> (err \<noteq> None \<longrightarrow> n < length ds)"
  by (induction ds arbitrary: w n) (auto split: prod.splits option.splits)

lemma receiveLoop_acks:
  assumes "received < want"
  shows "run_state (receiveLoop subs ctx name want received ds closed) w =
    (case run_state (ackEach subs ctx name (take (nat (want - received)) ds)) w of
       ((n, err), w') \<Rightarrow>
         ((concat (map deliveryLine (take (if err = None then n else Suc n) ds)),
           receive_end want closed (received + int n) err), w'))"
  using assms
proof (induction ds arbitrary: received w)
  case Nil
  then show ?case by (simp add: receive_end_def)
next
  case (Cons d ds)
  let ?ack = "subs_Ack subs ctx (streams_RecordedEvent.StreamID (Delivery.Event d)) name
       (streams_RecordedEvent.Version (Delivery.Event d))"
  have n: "nat (want - received) = Suc (nat (want - (received + 1)))" using Cons.prems by linarith
  obtain err w1 where ack: "run_state ?ack w = (err, w1)" by (cases "run_state ?ack w")
  show ?case
  proof (cases err)
    case (Some e)
    with ack show ?thesis by (simp add: n run_script receive_end_def)
  next
    case None
    show ?thesis
    proof (cases "want \<le> received + 1")
      case True
      with ack None Cons.prems show ?thesis by (simp add: n run_script receive_end_def)
    next
      case False
      then have "received + 1 < want" by simp
      from Cons.IH [OF this, of w1] False ack None show ?thesis
        by (auto simp: n run_script add.assoc split: prod.split)
    qed
  qed
qed

lemma run_receiveAll:
  assumes "0 < want"
  shows "run_state (receiveAll ctx subs (ds, closed) name want) w =
    (case run_state (ackEach subs ctx name (take (nat want) ds)) w of
       ((n, err), w') \<Rightarrow>
         ((line (''=== receive '' @ decInt want @ '' deliveries ==='') @
             concat (map deliveryLine (take (if err = None then n else Suc n) ds)),
           receive_end want closed (int n) err), w'))"
proof -
  note loop = receiveLoop_acks [OF assms, of subs ctx name ds closed w]
  show ?thesis by (simp add: receiveAll_def loop split: prod.split)
qed

text \<open>
  C24: The receiving loop of the subscriptions demo acknowledges what arrives, each delivery once, in
  the order of the server's stream and by its own version, and prints each before its
  acknowledgement. It ends well when as many as wanted are acknowledged or the channel closes, and
  with a message at the first acknowledgement that fails or when the deadline passes too early, and
  acknowledges nothing more in each case.
\<close>

theorem demo_receives_and_acks:
  assumes "arrives g (ds, closed)" and "0 < want"
  shows "\<exists>n err w'. run_state (ackEach subs ctx name (take (nat want) ds)) w = ((n, err), w') \<and>
    run_state (receiveAll ctx subs (ds, closed) name want) w =
      ((line (''=== receive '' @ decInt want @ '' deliveries ==='') @
          concat (map deliveryLine (take (if err = None then n else Suc n) ds)),
        receive_end want closed (int n) err), w') \<and>
    (if err = None then n = min (nat want) (length ds) else n < min (nat want) (length ds)) \<and>
    prefix ds (events_of (g_conv g) (g_recv g))"
proof -
  obtain n err w' where ack: "run_state (ackEach subs ctx name (take (nat want) ds)) w = ((n, err), w')"
    by (metis prod.exhaust)
  with ackEach_bound [OF ack] run_receiveAll [OF assms(2), of ctx subs ds closed name w]
    arrives_prefix [OF assms(1)]
  show ?thesis by (intro exI conjI) (auto simp: min.commute)
qed

text \<open>A gateway whose state is the event numbers acknowledged.\<close>

definition sample_acks :: "u64 list subs_Client" where
  "sample_acks = subs_New \<lparr>
     Subscribe = \<lambda>ctx q. State_Monad.return (None, None),
     AckEvent = \<lambda>ctx q. State (\<lambda>w. ((None, None), w @ [EventNumber q])),
     CreateSubscription = \<lambda>ctx q. State_Monad.return (None, None),
     RemoveSubscription = \<lambda>ctx q. State_Monad.return (None, None),
     ListSubscriptions = \<lambda>ctx q. State_Monad.return (None, None),
     GetSubscription = \<lambda>ctx q. State_Monad.return (None, None),
     GetSubscriptionLag = \<lambda>ctx q. State_Monad.return (None, None)\<rparr> ''orders''"

definition sample_delivery :: "u64 \<Rightarrow> pb_SubscriptionEvent option" where
  "sample_delivery v = Some \<lparr>pb_SubscriptionEvent.Event = Some \<lparr>
     pb_RecordedEvent.EventId = ''e'', EventType = ''t'', StreamId = ''s-1'', Version = v,
     Data = ''{}'', Metadata = [], Tags = None, Timestamp = 0, EpochUs = 0, DataContentType = '''',
     MetadataContentType = '''', PrevEventHash = []\<rparr>, Checkpoint = v\<rparr>"

theorem demo_receives_and_acks_witness:
  "\<exists>out. run_state (receiveAll Background sample_acks
      (map (deliveryFromProto \<circ> sample_delivery) [7, 8], False) ''sub'' 3) [] =
    ((out, Some (''timed out after '' @ decInt 2 @ '' deliveries'')), [7, 8])"
proof -
  let ?ds = "map (deliveryFromProto \<circ> sample_delivery) [7, 8]"
  let ?g = "\<lparr>g_open = None, g_recv = [RMsg (sample_delivery 7), RMsg (sample_delivery 8), REOF],
    g_conv = deliveryFromProto\<rparr>"
  have "sees ?g (?ds, None, False)"
    using sees_patient_view [of ?g] by (simp add: patient_view_def)
  then have "arrives ?g (?ds, False)"
    using sees_arrives by (fastforce simp: arrives_def)
  from demo_receives_and_acks [OF this, of 3 sample_acks Background "''sub''" "[]"] obtain n err w'
    where ack: "run_state (ackEach sample_acks Background ''sub'' (take 3 ?ds)) [] = ((n, err), w')"
    and rcv: "\<exists>out. run_state (receiveAll Background sample_acks (?ds, False) ''sub'' 3) [] =
      ((out, receive_end 3 False (int n) err), w')"
    by auto
  from ack have "n = 2 \<and> err = None \<and> w' = [7, 8]"
    by (simp add: subs_Ack_def run_unary_err sample_acks_def subs_New_def deliveryFromProto_def
        sample_delivery_def subs_recordedFromProto_def split: prod.splits)
  with rcv show ?thesis by (simp add: receive_end_def)
qed

section \<open>Demos keep to their store\<close>

definition fenced :: "'w host \<Rightarrow> string \<Rightarrow> 'w host" where
  "fenced host s = host\<lparr>host_net := net_firewall s (host_net host)\<rparr>"

text \<open>The store that the flags name.\<close>

definition storeNamed :: "runtime \<Rightarrow> flagSet \<Rightarrow> string list \<Rightarrow> string" where
  "storeNamed rt flags argv =
     (case flagParse rt flags argv of Inr (fs, rest) \<Rightarrow> getStr fs ''store'' | Inl msg \<Rightarrow> '''')"

lemma fenced_simps [simp]:
  "host_net (fenced host s) = net_firewall s (host_net host)"
  "host_rt (fenced host s) = host_rt host"
  "host_Close (fenced host s) = host_Close host"
  "host_UnixNano (fenced host s) = host_UnixNano host"
  "host_percent (fenced host s) = host_percent host"
  "host_stores (fenced host s) = host_stores host"
  "host_deliveries (fenced host s) = host_deliveries host"
  by (simp_all add: fenced_def)

lemma program_behind:
  assumes "\<And>fs c. getStr fs ''store'' = s \<Longrightarrow> body' fs c = body fs c"
    and "s = storeNamed (host_rt host) flags argv"
  shows "program (fenced host s) flags body' argv = program host flags body argv"
  using assms by (simp add: program_def Connect_firewall storeNamed_def split: sum.split)

lemma clients_behind:
  fixes net :: "'w network"
  shows "streams_Append (Client_Streams (net_firewall s net) c s) =
      streams_Append (Client_Streams net c s)"
    and "streams_Read (Client_Streams (net_firewall s net) c s) = streams_Read (Client_Streams net c s)"
    and "streams_Version (Client_Streams (net_firewall s net) c s) =
      streams_Version (Client_Streams net c s)"
    and "streams_List (Client_Streams (net_firewall s net) c s) = streams_List (Client_Streams net c s)"
    and "subs_Create (Client_Subscriptions (net_firewall s net) c s) =
      subs_Create (Client_Subscriptions net c s)"
    and "subs_Subscribe (Client_Subscriptions (net_firewall s net) c s) =
      subs_Subscribe (Client_Subscriptions net c s)"
    and "subs_Ack (Client_Subscriptions (net_firewall s net) c s) =
      subs_Ack (Client_Subscriptions net c s)"
    and "subs_Lag (Client_Subscriptions (net_firewall s net) c s) =
      subs_Lag (Client_Subscriptions net c s)"
    and "subs_List (Client_Subscriptions (net_firewall s net) c s) =
      subs_List (Client_Subscriptions net c s)"
    and "subs_Remove (Client_Subscriptions (net_firewall s net) c s) =
      subs_Remove (Client_Subscriptions net c s)"
    and "snaps_Save (Client_Snapshots (net_firewall s net) c s) =
      snaps_Save (Client_Snapshots net c s)"
    and "snaps_Latest (Client_Snapshots (net_firewall s net) c s) =
      snaps_Latest (Client_Snapshots net c s)"
    and "snaps_At (Client_Snapshots (net_firewall s net) c s) = snaps_At (Client_Snapshots net c s)"
    and "snaps_List (Client_Snapshots (net_firewall s net) c s) =
      snaps_List (Client_Snapshots net c s)"
    and "snaps_Delete (Client_Snapshots (net_firewall s net) c s) =
      snaps_Delete (Client_Snapshots net c s)"
  unfolding client_firewall by (simp_all add: firewall client_defs)

lemma overseers_behind:
  fixes net :: "'w network"
  shows "health_Check (Client_Health (net_firewall s net) c s) = health_Check (Client_Health net c s)"
    and "health_Health (Client_Health (net_firewall s net) c s) =
      health_Health (Client_Health net c s)"
    and "health_ClusterConsistency (Client_Health (net_firewall s net) c s) =
      health_ClusterConsistency (Client_Health net c s)"
    and "health_MembershipConsensus (Client_Health (net_firewall s net) c s) =
      health_MembershipConsensus (Client_Health net c s)"
    and "health_RaftLogConsistency (Client_Health (net_firewall s net) c s) =
      health_RaftLogConsistency (Client_Health net c s)"
    and "health_MemoryLevel (Client_Health (net_firewall s net) c s) =
      health_MemoryLevel (Client_Health net c s)"
    and "health_MemoryStats (Client_Health (net_firewall s net) c s) =
      health_MemoryStats (Client_Health net c s)"
    and "health_ServerInfo (Client_Health (net_firewall s net) c s) =
      health_ServerInfo (Client_Health net c s)"
    and "admin_StoreStats (Client_Admin (net_firewall s net) c s) =
      admin_StoreStats (Client_Admin net c s)"
    and "admin_EventTypeSummary (Client_Admin (net_firewall s net) c s) =
      admin_EventTypeSummary (Client_Admin net c s)"
    and "admin_ListLinks (Client_Admin (net_firewall s net) c s) =
      admin_ListLinks (Client_Admin net c s)"
    and "admin_ScavengeDryRun (Client_Admin (net_firewall s net) c s) =
      admin_ScavengeDryRun (Client_Admin net c s)"
  unfolding client_firewall by (simp_all add: firewall client_defs)

lemma receiveLoop_cong:
  "subs_Ack subs' = subs_Ack subs \<Longrightarrow>
     receiveLoop subs' ctx name want n ds closed = receiveLoop subs ctx name want n ds closed"
  by (induction ds arbitrary: n) simp_all

lemma saveLoop_cong:
  "snaps_Save snaps' = snaps_Save snaps \<Longrightarrow>
     saveLoop snaps' ctx source stream vs = saveLoop snaps ctx source stream vs"
  by (induction vs) simp_all

lemmas subs_parts = subs_runDemo_def appendThree_def receiveAll_def reportLag_def
  listSubscriptions_def removeSubscription_def
lemmas snaps_parts = snaps_runDemo_def saveSnapshotSet_def readSnapshotSet_def removeOneSnapshot_def

lemma bodies_behind:
  assumes "getStr fs ''store'' = s"
  shows "streamsDemo_body (fenced host s) fs c = streamsDemo_body host fs c"
    and "subsDemo_body (fenced host s) fs c = subsDemo_body host fs c"
    and "snapsDemo_body (fenced host s) fs c = snapsDemo_body host fs c"
    and "healthDemo_body (fenced host s) fs c = healthDemo_body host fs c"
    and "adminDemo_body (fenced host s) fs c = adminDemo_body host fs c"
  unfolding streamsDemo_body_def subsDemo_body_def snapsDemo_body_def healthDemo_body_def
    adminDemo_body_def dryRunScript_def subs_parts snaps_parts assms fenced_simps Let_def
    clients_behind overseers_behind receiveLoop_cong [OF clients_behind(7)]
    saveLoop_cong [OF clients_behind(11)]
  by (rule refl)+

lemma quickstart_behind: "quickstart_body (fenced host s) fs c = quickstart_body host fs c"
  unfolding quickstart_body_def quickstart_watch_def fenced_simps client_firewall by (rule refl)

text \<open>
  A demo never names another store than its flags do, and the quickstart names none: behind a firewall
  for that store each program prints, does and ends the same.
\<close>

lemma demos_stay_in_store:
  "streamsDemo (fenced host (storeNamed (host_rt host) (streamsFlags host) argv)) argv =
     streamsDemo host argv"
  "subsDemo (fenced host (storeNamed (host_rt host) (subsFlags host) argv)) argv = subsDemo host argv"
  "snapsDemo (fenced host (storeNamed (host_rt host) (snapsFlags host) argv)) argv =
     snapsDemo host argv"
  "healthDemo (fenced host (storeNamed (host_rt host) storeFlags argv)) argv = healthDemo host argv"
  "adminDemo (fenced host (storeNamed (host_rt host) storeFlags argv)) argv = adminDemo host argv"
  "quickstart (fenced host s) argv = quickstart host argv"
proof -
  have flags: "streamsFlags (fenced host s) = streamsFlags host"
    "subsFlags (fenced host s) = subsFlags host" "snapsFlags (fenced host s) = snapsFlags host" for s
    by (simp_all add: streamsFlags_def subsFlags_def snapsFlags_def)
  show "quickstart (fenced host s) argv = quickstart host argv"
    unfolding quickstart_def program_def fenced_simps Connect_firewall quickstart_behind by (rule refl)
qed (simp_all add: streamsDemo_def subsDemo_def snapsDemo_def healthDemo_def adminDemo_def
    streamsFlags_def subsFlags_def snapsFlags_def bodies_behind program_behind)

end
