(* ===== verification/Keeper.thy ===== *)
theory Keeper
  imports Demos
begin

text \<open>
  The snapshots demo on a gateway that keeps snapshots. What such a gateway promises of one store is
  stated over the snapshots it keeps, a map from versions to data for each pair of a source and a
  stream, and only of the calls that succeed: any call may fail. The lemmas carry the promises over to
  the operations of the client and then to the demo.
\<close>

section \<open>What a gateway that keeps snapshots promises\<close>

type_synonym kept = "string \<times> string \<Rightarrow> u64 \<rightharpoonup> bytes"

definition keyed :: "kept \<Rightarrow> string \<Rightarrow> string \<Rightarrow> (u64 \<rightharpoonup> bytes) \<Rightarrow> kept" where
  "keyed k src str m = k((src, str) := m)"

text \<open>
  A snapshot recorded with success is kept, in the place of an older one of its version; one deleted
  with success is not; a successful read at an exact version answers with the snapshot of that version
  if there is one; a successful list has each one once. Version 0 is left out of the read law.
\<close>

definition snap_record_law :: "('w \<Rightarrow> kept) \<Rightarrow> string \<Rightarrow> 'w SnapshotServiceClient \<Rightarrow> bool" where
  "snap_record_law kept s stub \<longleftrightarrow> (\<forall>ctx src str v d meta w resp w'.
     run_state (RecordSnapshot stub ctx \<lparr>StoreScoped.StoreId = s, SourceUuid = src,
       StreamUuid = str, pb_RecordSnapshotRequest.Version = v, Data = d, Metadata = meta\<rparr>) w =
       ((resp, None), w') \<longrightarrow>
     kept w' = keyed (kept w) src str ((kept w (src, str))(v \<mapsto> d)))"

definition snap_delete_law :: "('w \<Rightarrow> kept) \<Rightarrow> string \<Rightarrow> 'w SnapshotServiceClient \<Rightarrow> bool" where
  "snap_delete_law kept s stub \<longleftrightarrow> (\<forall>ctx src str v w resp w'.
     run_state (DeleteSnapshot stub ctx \<lparr>StoreScoped.StoreId = s, SourceUuid = src,
       StreamUuid = str, pb_DeleteSnapshotRequest.Version = v\<rparr>) w = ((resp, None), w') \<longrightarrow>
     kept w' = keyed (kept w) src str ((kept w (src, str))(v := None)))"

definition snap_read_law :: "('w \<Rightarrow> kept) \<Rightarrow> string \<Rightarrow> 'w SnapshotServiceClient \<Rightarrow> bool" where
  "snap_read_law kept s stub \<longleftrightarrow> (\<forall>ctx src str x w resp w'.
     run_state (ReadSnapshot stub ctx \<lparr>StoreScoped.StoreId = s, SourceUuid = src,
       StreamUuid = str, pb_ReadSnapshotRequest.Version = x\<rparr>) w = ((resp, None), w') \<longrightarrow>
     kept w' = kept w \<and>
     (\<forall>d. x \<noteq> 0 \<longrightarrow> kept w (src, str) x = Some d \<longrightarrow>
        Get pb_SnapshotRecord.Version 0 resp = x \<and> Get pb_SnapshotRecord.Data [] resp = d))"

text \<open>
  The demo and a comment in the protocol read at version 0 for the latest snapshot, against the comment
  of \<open>At\<close>; it is a law of its own.
\<close>

definition zero_is_latest :: "('w \<Rightarrow> kept) \<Rightarrow> string \<Rightarrow> 'w SnapshotServiceClient \<Rightarrow> bool" where
  "zero_is_latest kept s stub \<longleftrightarrow> (\<forall>ctx src str v d w resp w'.
     run_state (ReadSnapshot stub ctx \<lparr>StoreScoped.StoreId = s, SourceUuid = src,
       StreamUuid = str, pb_ReadSnapshotRequest.Version = 0\<rparr>) w = ((resp, None), w') \<longrightarrow>
     kept w (src, str) v = Some d \<longrightarrow> (\<forall>u \<in> dom (kept w (src, str)). u \<le> v) \<longrightarrow>
     Get pb_SnapshotRecord.Version 0 resp = v \<and> Get pb_SnapshotRecord.Data [] resp = d)"

text \<open>What a list of snapshots says of the versions and their data.\<close>

definition listing :: "SnapRecord list \<Rightarrow> (u64 \<rightharpoonup> bytes) \<Rightarrow> bool" where
  "listing rs m \<longleftrightarrow> distinct (map SnapRecord.Version rs) \<and>
     map_of (map (\<lambda>r. (SnapRecord.Version r, SnapRecord.Data r)) rs) = m"

definition snap_list_law :: "('w \<Rightarrow> kept) \<Rightarrow> string \<Rightarrow> 'w SnapshotServiceClient \<Rightarrow> bool" where
  "snap_list_law kept s stub \<longleftrightarrow> (\<forall>ctx src str w resp w'.
     run_state (ListSnapshots stub ctx \<lparr>StoreScoped.StoreId = s, SourceUuid = src,
       StreamUuid = str\<rparr>) w = ((resp, None), w') \<longrightarrow>
     kept w' = kept w \<and>
     listing (map recordFromProto (Get pb_ListSnapshotsResponse.Snapshots [] resp)) (kept w (src, str)))"

definition keeps :: "('w \<Rightarrow> kept) \<Rightarrow> string \<Rightarrow> 'w SnapshotServiceClient \<Rightarrow> bool" where
  "keeps kept s stub \<longleftrightarrow>
     snap_record_law kept s stub \<and> snap_delete_law kept s stub \<and> snap_read_law kept s stub \<and> snap_list_law kept s stub"

section \<open>The client on such a gateway\<close>

lemma keeps_Save:
  assumes "keeps kept s stub" and "run_state (snaps_Save (snaps_New stub s) ctx spec) w = (None, w')"
  shows "kept w' = keyed (kept w) (SourceUUID spec) (StreamUUID spec)
      ((kept w (SourceUUID spec, StreamUUID spec))(SnapSpec.Version spec \<mapsto> SnapSpec.Data spec))"
  using assms
  by (auto simp: keeps_def snap_record_law_def snaps_Save_def run_unary_err snaps_New_def
      split: prod.splits)

lemma keeps_Delete:
  assumes "keeps kept s stub"
    and "run_state (snaps_Delete (snaps_New stub s) ctx src str v) w = (None, w')"
  shows "kept w' = keyed (kept w) src str ((kept w (src, str))(v := None))"
  using assms
  by (auto simp: keeps_def snap_delete_law_def snaps_Delete_def run_unary_err snaps_New_def
      split: prod.splits)

lemma keeps_At:
  assumes "keeps kept s stub"
    and "run_state (snaps_At (snaps_New stub s) ctx src str x) w = ((r, None), w')"
  shows "kept w' = kept w"
    and "x \<noteq> 0 \<Longrightarrow> kept w (src, str) x = Some d \<Longrightarrow> SnapRecord.Version r = x \<and> SnapRecord.Data r = d"
  using assms
  by (auto simp: keeps_def snap_read_law_def snaps_At_def run_unary snaps_New_def recordFromProto_def
      split: prod.splits option.splits)

lemma zero_At:
  assumes "zero_is_latest kept s stub"
    and "run_state (snaps_At (snaps_New stub s) ctx src str 0) w = ((r, None), w')"
    and "kept w (src, str) v = Some d" and "\<forall>u \<in> dom (kept w (src, str)). u \<le> v"
  shows "SnapRecord.Version r = v \<and> SnapRecord.Data r = d"
  using assms(1) [unfolded zero_is_latest_def, rule_format, OF _ assms(3)] assms(2,4)
  by (auto simp: snaps_At_def run_unary snaps_New_def recordFromProto_def
      split: prod.splits option.splits)

lemma keeps_List:
  assumes "keeps kept s stub"
    and "run_state (snaps_List (snaps_New stub s) ctx src str) w = ((rs, None), w')"
  shows "kept w' = kept w" and "listing (elems rs) (kept w (src, str))"
  using assms
  by (auto simp: keeps_def snap_list_law_def snaps_List_def run_unary snaps_New_def wire elems_def
      split: prod.splits option.splits)

lemma listing_mem: "listing rs m \<Longrightarrow> r \<in> set rs \<Longrightarrow> m (SnapRecord.Version r) = Some (SnapRecord.Data r)"
  by (auto simp: listing_def comp_def intro!: map_of_is_SomeI)

lemma listing_versions: "listing rs m \<Longrightarrow> SnapRecord.Version ` set rs = dom m"
proof -
  assume "listing rs m"
  then have "m = map_of (map (\<lambda>r. (SnapRecord.Version r, SnapRecord.Data r)) rs)"
    by (simp add: listing_def)
  then have "dom m = fst ` set (map (\<lambda>r. (SnapRecord.Version r, SnapRecord.Data r)) rs)"
    by (simp only: dom_map_of_conv_image_fst)
  then show ?thesis by (simp add: image_image)
qed

text \<open>Of a list that has each version once, \<open>Latest\<close> is the highest one there is.\<close>

lemma keeps_Latest:
  assumes "keeps kept s stub"
    and "run_state (snaps_Latest (snaps_New stub s) ctx src str) w = ((r, None), w')"
    and "kept w (src, str) v = Some d" and top: "\<forall>u \<in> dom (kept w (src, str)). u \<le> v"
  shows "kept w' = kept w" and "SnapRecord.Version r = v" and "SnapRecord.Data r = d"
proof -
  obtain rs err where list: "run_state (snaps_List (snaps_New stub s) ctx src str) w = ((rs, err), w')"
    and err: "err = None" and r: "r = (case elems rs of q # qs \<Rightarrow> latest_loop q qs | [] \<Rightarrow> zero_SnapRecord)"
    using assms(2) by (auto simp: snaps_Latest_def elems_def split: prod.splits option.splits list.splits)
  show "kept w' = kept w" using keeps_List(1) [OF assms(1) list [unfolded err]] .
  note rs = keeps_List(2) [OF assms(1) list [unfolded err]]
  from listing_versions [OF rs] assms(3) have "v \<in> SnapRecord.Version ` set (elems rs)" by auto
  then obtain q qs where cons: "elems rs = q # qs" and v: "v \<in> SnapRecord.Version ` set (elems rs)"
    by (cases "elems rs") auto
  have "first_highest r (elems rs)"
    using first_highest_loop [OF first_highest_single [of q], of qs] cons r by simp
  then have mem: "r \<in> set (elems rs)"
    and high: "\<forall>x \<in> set (elems rs). SnapRecord.Version x \<le> SnapRecord.Version r"
    by (auto simp: first_highest_def less_imp_le)
  from mem listing_versions [OF rs] top have "SnapRecord.Version r \<le> v" by blast
  with high v show version: "SnapRecord.Version r = v" by fastforce
  from listing_mem [OF rs mem] version assms(3) show "SnapRecord.Data r = d" by simp
qed

section \<open>The demo\<close>

definition snapData :: "string \<Rightarrow> string \<Rightarrow> u64 \<Rightarrow> bytes" where
  "snapData source stream v = SnapSpec.Data (demoSnapshot source stream v)"

text \<open>What it prints of a snapshot read, and of the two lists.\<close>

definition shown :: "string \<Rightarrow> string \<Rightarrow> u64 \<Rightarrow> string" where
  "shown source stream v = line (''  v='' @ decWord v @ '' data='' @ snapData source stream v)"

definition savedLines :: "u64 list \<Rightarrow> string" where
  "savedLines vs = concat (map (\<lambda>v. line (''  saved v='' @ decWord v)) vs)"

definition saveText :: string where
  "saveText = line ''=== save 3 snapshots (versions 10, 20, 30) ==='' @ savedLines [10, 20, 30]"

text \<open>(\<open>zero\<close> is what the read at version 0 answers.)\<close>

definition readText :: "string \<Rightarrow> string \<Rightarrow> SnapRecord \<Rightarrow> SnapRecord list \<Rightarrow> string" where
  "readText source stream zero all =
     line ''=== read latest (via List+At wrapper) ==='' @ shown source stream 30 @
     line ''=== read at v=0 (single-RPC latest, gateway 0.4.6+) ==='' @ recordLine zero @
     line ''=== read at v=20 ==='' @ shown source stream 20 @
     line ''=== list for (source, stream) ==='' @ concat (map listedLine all)"

definition removeText :: "SnapRecord list \<Rightarrow> string" where
  "removeText left = line ''=== delete v=20 ==='' @
     line (''  remaining: '' @ dec (length left) @ '' snapshot(s)'') @
     concat (map (\<lambda>r. line (''    v='' @ padRight 4 (decWord (SnapRecord.Version r)))) left)"

lemma keyed_simps [simp]:
  "keyed k src str m (src, str) = m"
  "keyed (keyed k src str m) src str m' = keyed k src str m'"
  "keyed k src str (k (src, str)) = k"
  by (simp_all add: keyed_def)

text \<open>The data of the snapshots saved, with and without the one deleted.\<close>

definition demoKept :: "string \<Rightarrow> string \<Rightarrow> u64 list \<Rightarrow> u64 \<rightharpoonup> bytes" where
  "demoKept source stream vs = map_of (map (\<lambda>v. (v, snapData source stream v)) vs)"

lemma dom_demoKept: "dom (demoKept source stream vs) = set vs"
  by (auto simp: demoKept_def dom_map_of_conv_image_fst image_image)

lemma demoKept_eq: "v \<in> set vs \<Longrightarrow> demoKept source stream vs v = Some (snapData source stream v)"
  unfolding demoKept_def by (simp add: map_of_map_restrict)

lemma recordLine_shown:
  "SnapRecord.Version r = v \<Longrightarrow> SnapRecord.Data r = snapData source stream v \<Longrightarrow>
     recordLine r = shown source stream v"
  by (simp add: recordLine_def shown_def)

text \<open>A part that fails has printed a beginning of what it prints otherwise, and never all of it.\<close>

lemma strict_prefix_alt: "strict_prefix out text \<longleftrightarrow> (\<exists>rest. rest \<noteq> [] \<and> text = out @ rest)"
  by (auto simp: strict_prefix_def prefix_def)

lemma line_ne [simp]: "line s \<noteq> []"
  by (simp add: line_def)

lemma strict_prefix_append: "strict_prefix out text \<Longrightarrow> strict_prefix out (text @ rest)"
  "strict_prefix out text \<Longrightarrow> strict_prefix (pre @ out) (pre @ text)"
  unfolding strict_prefix_alt by (metis append.assoc append_is_Nil_conv)+

lemma keeps_saveLoop:
  assumes "keeps kept s stub"
  shows "ensures (saveLoop (snaps_New stub s) ctx source stream vs) w
    (\<lambda>out w'. out = savedLines vs \<and> kept w' = keyed (kept w) source stream
       (kept w (source, stream) ++ demoKept source stream (rev vs)))
    (\<lambda>out. strict_prefix out (savedLines vs))"
proof (induction vs arbitrary: w)
  case Nil
  then show ?case by (auto intro!: ensuring simp: savedLines_def demoKept_def)
next
  case (Cons v vs)
  let ?save = "snaps_Save (snaps_New stub s) ctx (demoSnapshot source stream v)"
  show ?case
    unfolding saveLoop.simps
  proof (intro ensuring)
    show "strict_prefix [] (savedLines (v # vs))" by (simp add: strict_prefix_alt savedLines_def)
  next
    fix w1
    assume "run_state ?save w = (None, w1)"
    from keeps_Save [OF assms this] have w1: "kept w1 = keyed (kept w) source stream
        ((kept w (source, stream))(v \<mapsto> snapData source stream v))"
      by (simp add: demoSnapshot_def snapData_def)
    have kept: "(kept w (source, stream))(v \<mapsto> snapData source stream v) ++
        demoKept source stream (rev vs) = kept w (source, stream) ++ demoKept source stream (rev (v # vs))"
      by (auto simp: demoKept_def map_add_def fun_eq_iff split: option.splits)
    show "ensures (saveLoop (snaps_New stub s) ctx source stream vs) w1
        (\<lambda>out w'. line (''  saved v='' @ decWord v) @ out = savedLines (v # vs) \<and>
           kept w' = keyed (kept w) source stream
             (kept w (source, stream) ++ demoKept source stream (rev (v # vs))))
        (\<lambda>out. strict_prefix (line (''  saved v='' @ decWord v) @ out) (savedLines (v # vs)))"
      by (rule ensures_mono [OF Cons.IH])
        (simp_all only: w1 kept keyed_simps, simp_all add: savedLines_def strict_prefix_append)
  qed
qed

lemma keeps_saveSnapshotSet:
  assumes "keeps kept s stub" and "kept w (source, stream) = Map.empty"
  shows "ensures (saveSnapshotSet ctx (snaps_New stub s) source stream) w
    (\<lambda>out w'. out = saveText \<and>
       kept w' = keyed (kept w) source stream (demoKept source stream [30, 20, 10]))
    (\<lambda>out. strict_prefix out saveText)"
  unfolding saveSnapshotSet_def
  by (intro ensuring, rule ensures_mono [OF keeps_saveLoop [OF assms(1)]])
    (simp_all add: saveText_def assms(2) strict_prefix_append)

lemma keeps_readSnapshotSet:
  assumes k: "keeps kept s stub"
    and w: "kept w (source, stream) = demoKept source stream [30, 20, 10]"
  shows "ensures (readSnapshotSet ctx (snaps_New stub s) source stream) w
    (\<lambda>out w'. \<exists>zero all. out = readText source stream zero all \<and> kept w' = kept w \<and>
       listing all (demoKept source stream [30, 20, 10]) \<and>
       (zero_is_latest kept s stub \<longrightarrow> recordLine zero = shown source stream 30))
    (\<lambda>out. \<exists>zero all. strict_prefix out (readText source stream zero all))"
proof -
  let ?c = "snaps_New stub s" and ?saved = "demoKept source stream [30, 20, 10]"
  have d: "?saved 30 = Some (snapData source stream 30)" "?saved 20 = Some (snapData source stream 20)"
    by (simp_all add: demoKept_eq)
  have top: "\<forall>u \<in> dom ?saved. u \<le> 30" by (simp add: dom_demoKept)
  have latest: "kept w' = kept w \<and> recordLine r = shown source stream 30"
    if "run_state (snaps_Latest ?c ctx source stream) w = ((r, None), w')" for r w'
    using keeps_Latest [OF k that, of 30] d(1) top by (simp add: w recordLine_shown)
  have zero: "kept w2 = kept w"
    "zero_is_latest kept s stub \<longrightarrow> recordLine r = shown source stream 30"
    if "run_state (snaps_At ?c ctx source stream 0) w1 = ((r, None), w2)" "kept w1 = kept w" for r w1 w2
    using keeps_At(1) [OF k that(1)] zero_At [OF _ that(1), of kept 30] d(1) top that(2)
    by (auto simp: w recordLine_shown)
  have at: "kept w2 = kept w \<and> recordLine r = shown source stream 20"
    if "run_state (snaps_At ?c ctx source stream 20) w1 = ((r, None), w2)" "kept w1 = kept w" for r w1 w2
    using keeps_At(1) [OF k that(1)] keeps_At(2) [OF k that(1), of "snapData source stream 20"]
      d(2) that(2) by (simp add: w recordLine_shown)
  have list: "kept w2 = kept w \<and> listing (elems rs) ?saved"
    if "run_state (snaps_List ?c ctx source stream) w1 = ((rs, None), w2)" "kept w1 = kept w" for rs w1 w2
    using keeps_List [OF k that(1)] that(2) by (simp add: w)
  show ?thesis
    unfolding readSnapshotSet_def
  proof (intro ensuring, goal_cases)
    case 1
    then show ?case by (auto simp: strict_prefix_alt readText_def)
  next
    case (2 r1 w1)
    with latest show ?case by (auto simp: strict_prefix_alt readText_def)
  next
    case (3 r1 w1 r2 w2)
    with latest show ?case by (intro exI [of _ r2]) (auto simp: strict_prefix_alt readText_def)
  next
    case (4 r1 w1 r2 w2 r3 w3)
    with latest [OF 4(1)] zero(1) [OF 4(2)] at [OF 4(3)] show ?case
      by (intro exI [of _ r2]) (auto simp: strict_prefix_alt readText_def)
  next
    case (5 r1 w1 r2 w2 r3 w3 rs w4)
    with latest [OF 5(1)] zero [OF 5(2)] at [OF 5(3)] list [OF 5(4)] show ?case
      by (intro exI [of _ r2] exI [of _ "elems rs"]) (simp add: readText_def)
  qed
qed

lemma keeps_removeOneSnapshot:
  assumes k: "keeps kept s stub"
    and w: "kept w (source, stream) = demoKept source stream [30, 20, 10]"
  shows "ensures (removeOneSnapshot ctx (snaps_New stub s) source stream) w
    (\<lambda>out w'. \<exists>left. out = removeText left \<and>
       kept w' = keyed (kept w) source stream (demoKept source stream [30, 10]) \<and>
       listing left (demoKept source stream [30, 10]))
    (\<lambda>out. \<exists>left. strict_prefix out (removeText left))"
proof -
  let ?c = "snaps_New stub s"
  have del: "(demoKept source stream [30, 20, 10])(20 := None) = demoKept source stream [30, 10]"
    by (auto simp: demoKept_def fun_eq_iff)
  have delete: "kept w' = keyed (kept w) source stream (demoKept source stream [30, 10])"
    if "run_state (snaps_Delete ?c ctx source stream 20) w = (None, w')" for w'
    using keeps_Delete [OF k that] by (simp add: w del)
  have list: "kept w2 = kept w1 \<and> listing (elems rs) (kept w1 (source, stream))"
    if "run_state (snaps_List ?c ctx source stream) w1 = ((rs, None), w2)" for rs w1 w2
    using keeps_List [OF k that] by blast
  show ?thesis
    unfolding removeOneSnapshot_def
    by (intro ensuring)
      (auto dest!: delete list simp: strict_prefix_alt removeText_def)
qed

text \<open>The whole demo, part after part.\<close>

definition demoText :: "string \<Rightarrow> string \<Rightarrow> SnapRecord \<Rightarrow> SnapRecord list \<Rightarrow> SnapRecord list \<Rightarrow> string" where
  "demoText source stream zero all left = saveText @ readText source stream zero all @ removeText left"

lemma keeps_runDemo:
  assumes "keeps kept s stub" and "kept w (source, stream) = Map.empty"
  shows "ensures (snaps_runDemo ctx (snaps_New stub s) source stream) w
    (\<lambda>out w'. \<exists>zero all left. out = demoText source stream zero all left \<and>
       listing all (demoKept source stream [30, 20, 10]) \<and>
       listing left (demoKept source stream [30, 10]) \<and>
       (zero_is_latest kept s stub \<longrightarrow> recordLine zero = shown source stream 30) \<and>
       kept w' = keyed (kept w) source stream (demoKept source stream [30, 10]))
    (\<lambda>out. \<exists>zero all left. strict_prefix out (demoText source stream zero all left))"
    (is "ensures _ _ ?done ?cut")
  unfolding snaps_runDemo_def
proof (intro ensures_and_then)
  show "ensures (saveSnapshotSet ctx (snaps_New stub s) source stream) w
      (\<lambda>out w'. out = saveText \<and>
         kept w' = keyed (kept w) source stream (demoKept source stream [30, 20, 10])) ?cut"
    by (rule ensures_mono [OF keeps_saveSnapshotSet [OF assms(1,2)]]) (auto simp: demoText_def intro: strict_prefix_append)
next
  fix out1 w1
  assume 1: "out1 = saveText \<and>
    kept w1 = keyed (kept w) source stream (demoKept source stream [30, 20, 10])"
  have fail: "\<exists>zero all. strict_prefix out (readText source stream zero all) \<Longrightarrow> ?cut (out1 @ out)" for out
    using 1 unfolding demoText_def by (blast intro: strict_prefix_append)
  show "ensures (readSnapshotSet ctx (snaps_New stub s) source stream) w1
      (\<lambda>out w'. \<exists>zero all. out = readText source stream zero all \<and> kept w' = kept w1 \<and>
         listing all (demoKept source stream [30, 20, 10]) \<and>
         (zero_is_latest kept s stub \<longrightarrow> recordLine zero = shown source stream 30))
      (\<lambda>out. ?cut (out1 @ out))"
    by (rule ensures_mono [OF keeps_readSnapshotSet [OF assms(1)] _ fail]) (simp_all add: 1)
next
  fix out1 w1 out2 w2
  assume 1: "out1 = saveText \<and>
      kept w1 = keyed (kept w) source stream (demoKept source stream [30, 20, 10])"
    and "\<exists>zero all. out2 = readText source stream zero all \<and> kept w2 = kept w1 \<and>
      listing all (demoKept source stream [30, 20, 10]) \<and>
      (zero_is_latest kept s stub \<longrightarrow> recordLine zero = shown source stream 30)"
  then obtain zero all where 2: "out2 = readText source stream zero all" "kept w2 = kept w1"
    "listing all (demoKept source stream [30, 20, 10])"
    "zero_is_latest kept s stub \<longrightarrow> recordLine zero = shown source stream 30" by blast
  have fail: "\<exists>left. strict_prefix out (removeText left) \<Longrightarrow> ?cut (out1 @ out2 @ out)" for out
    unfolding 1 [THEN conjunct1] 2(1) demoText_def by (blast intro: strict_prefix_append)
  have keyed2: "keyed (kept w2) source stream m = keyed (kept w) source stream m" for m
    by (simp add: 1 2(2))
  have whole: "\<exists>left. out = removeText left \<and>
      kept w' = keyed (kept w2) source stream (demoKept source stream [30, 10]) \<and>
      listing left (demoKept source stream [30, 10]) \<Longrightarrow> ?done (out1 @ out2 @ out) w'" for out w'
    unfolding 1 [THEN conjunct1] 2(1) keyed2 demoText_def using 2(3,4) by blast
  show "ensures (removeOneSnapshot ctx (snaps_New stub s) source stream) w2
      (\<lambda>out. ?done (out1 @ out2 @ out)) (\<lambda>out. ?cut (out1 @ out2 @ out))"
    by (rule ensures_mono [OF keeps_removeOneSnapshot [OF assms(1)] whole fail]) (simp_all add: 1 2)
qed

text \<open>On a gateway none of whose calls fail the demo comes to its end.\<close>

definition never_fails :: "'w SnapshotServiceClient \<Rightarrow> bool" where
  "never_fails stub \<longleftrightarrow> (\<forall>ctx w.
     (\<forall>q. snd (fst (run_state (RecordSnapshot stub ctx q) w)) = None) \<and>
     (\<forall>q. snd (fst (run_state (ReadSnapshot stub ctx q) w)) = None) \<and>
     (\<forall>q. snd (fst (run_state (DeleteSnapshot stub ctx q) w)) = None) \<and>
     (\<forall>q. snd (fst (run_state (ListSnapshots stub ctx q) w)) = None))"

lemma unfailing_calls:
  assumes "never_fails stub"
  shows "fst (run_state (snaps_Save (snaps_New stub s) ctx spec) w) = None"
    and "fst (run_state (snaps_Delete (snaps_New stub s) ctx src str v) w) = None"
    and "snd (fst (run_state (snaps_At (snaps_New stub s) ctx src str v) w)) = None"
    and "snd (fst (run_state (snaps_List (snaps_New stub s) ctx src str) w)) = None"
  using assms
  by (simp_all add: never_fails_def snaps_Save_def snaps_Delete_def snaps_At_def snaps_List_def
      run_unary run_unary_err snaps_New_def split_beta)

lemma unfailing_latest:
  assumes "never_fails stub"
  shows "snd (fst (run_state (snaps_Latest (snaps_New stub s) ctx src str) w)) = None"
  using unfailing_calls(4) [OF assms, of s ctx src str w]
  by (auto simp: snaps_Latest_def split: prod.splits option.splits list.splits)

lemma unfailing_demo:
  "never_fails stub \<Longrightarrow> succeeds (snaps_runDemo ctx (snaps_New stub s) source stream)"
  unfolding snaps_runDemo_def saveSnapshotSet_def saveLoop.simps readSnapshotSet_def
    removeOneSnapshot_def
  by (intro ensuring unfailing_calls unfailing_latest)

text \<open>
  C40: The snapshots demo on a gateway that keeps snapshots, started on a pair of its own. When no call
  fails it prints version 30 as the latest and version 20, with the data it saved, and whatever the
  read at version 0 answered, which is version 30 again on a gateway where 0 stands for the latest; its
  first list has the three versions saved, each once, its second list the two that are not deleted; and
  these two are what it leaves behind, with nothing else touched. When it gives up it has printed a
  proper beginning of such a text, and on a gateway none of whose calls fail it does not.
\<close>

theorem snapshots_demo_outcome:
  assumes "keeps kept s stub" and "kept w (source, stream) = Map.empty"
    and "run_state (snaps_runDemo ctx (snaps_New stub s) source stream) w = ((out, failed), w')"
  shows "(never_fails stub \<longrightarrow> failed = None) \<and> (\<exists>zero all left. case failed of
       None \<Rightarrow> out = demoText source stream zero all left \<and>
         distinct (map SnapRecord.Version all) \<and> SnapRecord.Version ` set all = {10, 20, 30} \<and>
         distinct (map SnapRecord.Version left) \<and> SnapRecord.Version ` set left = {10, 30} \<and>
         (zero_is_latest kept s stub \<longrightarrow> recordLine zero = shown source stream 30) \<and>
         kept w' = keyed (kept w) source stream (demoKept source stream [30, 10])
     | Some _ \<Rightarrow> strict_prefix out (demoText source stream zero all left))"
proof (rule conjI)
  show "never_fails stub \<longrightarrow> failed = None"
  proof
    assume "never_fails stub"
    from unfailing_demo [OF this] obtain out2 w2 where
      "run_state (snaps_runDemo ctx (snaps_New stub s) source stream) w = ((out2, None), w2)"
      unfolding succeeds_def by blast
    with assms(3) show "failed = None" by simp
  qed
next
  note demo = keeps_runDemo [OF assms(1,2), unfolded ensures_def, rule_format, OF assms(3)]
  show "\<exists>zero all left. case failed of
       None \<Rightarrow> out = demoText source stream zero all left \<and>
         distinct (map SnapRecord.Version all) \<and> SnapRecord.Version ` set all = {10, 20, 30} \<and>
         distinct (map SnapRecord.Version left) \<and> SnapRecord.Version ` set left = {10, 30} \<and>
         (zero_is_latest kept s stub \<longrightarrow> recordLine zero = shown source stream 30) \<and>
         kept w' = keyed (kept w) source stream (demoKept source stream [30, 10])
     | Some _ \<Rightarrow> strict_prefix out (demoText source stream zero all left)" (is ?outcome)
  proof (cases failed)
    case None
    obtain zero all left where out: "out = demoText source stream zero all left"
      and all: "listing all (demoKept source stream [30, 20, 10])"
      and left: "listing left (demoKept source stream [30, 10])"
      and zero: "zero_is_latest kept s stub \<longrightarrow> recordLine zero = shown source stream 30"
      and kept: "kept w' = keyed (kept w) source stream (demoKept source stream [30, 10])"
      using demo [unfolded None simp_thms if_True] by blast
    have "distinct (map SnapRecord.Version all)" "distinct (map SnapRecord.Version left)"
      using all left by (simp_all add: listing_def)
    moreover have "SnapRecord.Version ` set all = {10, 20, 30}" "SnapRecord.Version ` set left = {10, 30}"
      using listing_versions [OF all] listing_versions [OF left] unfolding dom_demoKept by auto
    ultimately show ?outcome
      using out zero kept None
      by (intro exI [of _ zero] exI [of _ all] exI [of _ left]) (simp only: option.case simp_thms)
  next
    case Some
    with demo show ?outcome by simp
  qed
qed

section \<open>A gateway in memory\<close>

text \<open>Its state is the snapshots it keeps, as association lists.\<close>

type_synonym shelf = "string \<times> string \<Rightarrow> (u64 \<times> bytes) list"

definition shelved :: "shelf \<Rightarrow> kept" where
  "shelved w = (\<lambda>key. map_of (w key))"

definition memRecord :: "u64 \<times> bytes \<Rightarrow> pb_SnapshotRecord option" where
  "memRecord vd = Some \<lparr>pb_SnapshotRecord.StreamId = ''s'', Version = fst vd, Data = snd vd,
     Metadata = [], Timestamp = 0, AnchorHash = []\<rparr>"

definition memRead :: "u64 \<Rightarrow> (u64 \<times> bytes) list \<Rightarrow> pb_SnapshotRecord option" where
  "memRead x vds =
     (let v = (if x = 0 then fold max (map fst vds) 0 else x) in
      case map_of vds v of Some d \<Rightarrow> memRecord (v, d) | None \<Rightarrow> None)"

definition mem_snaps :: "shelf SnapshotServiceClient" where
  "mem_snaps = \<lparr>
     RecordSnapshot = \<lambda>ctx q. State (\<lambda>w. let key = (SourceUuid q, StreamUuid q) in
       ((None, None), w(key := AList.update (pb_RecordSnapshotRequest.Version q)
         (pb_RecordSnapshotRequest.Data q) (w key)))),
     ReadSnapshot = \<lambda>ctx q. State (\<lambda>w.
       ((memRead (pb_ReadSnapshotRequest.Version q) (w (SourceUuid q, StreamUuid q)), None), w)),
     DeleteSnapshot = \<lambda>ctx q. State (\<lambda>w. let key = (SourceUuid q, StreamUuid q) in
       ((None, None), w(key := AList.delete (pb_DeleteSnapshotRequest.Version q) (w key)))),
     ListSnapshots = \<lambda>ctx q. State (\<lambda>w. ((Some \<lparr>Snapshots =
       map memRecord (AList.clearjunk (w (SourceUuid q, StreamUuid q)))\<rparr>, None), w)),
     ListAllSnapshots = \<lambda>ctx q. State (\<lambda>w. ((None, None), w))\<rparr>"

lemma latest_max:
  fixes v :: u64
  assumes "map_of vds v = Some d" and "\<forall>u \<in> dom (map_of vds). u \<le> v"
  shows "fold max (map fst vds) 0 = v"
proof -
  have v: "v \<in> fst ` set vds" and top: "\<forall>u \<in> fst ` set vds. u \<le> v"
    using assms by (force dest: map_of_SomeD simp: dom_map_of_conv_image_fst)+
  have "fold max (map fst vds) 0 = Max (set (0 # map fst vds))"
    by (simp only: Max.set_eq_fold)
  also have "\<dots> = v"
    by (rule Max_eqI) (use v top in auto)
  finally show ?thesis .
qed

lemma shelved_upd: "shelved (w(key := vds)) = (shelved w)(key := map_of vds)"
  by (simp add: shelved_def fun_eq_iff)

lemma mem_record: "snap_record_law shelved s mem_snaps"
  unfolding snap_record_law_def
  by (simp add: mem_snaps_def Let_def shelved_upd keyed_def update_conv') (simp add: shelved_def)

lemma mem_delete: "snap_delete_law shelved s mem_snaps"
  unfolding snap_delete_law_def
  by (simp add: mem_snaps_def Let_def shelved_upd keyed_def delete_conv') (simp add: shelved_def)

lemma mem_read: "snap_read_law shelved s mem_snaps"
  unfolding snap_read_law_def
  by (auto simp: mem_snaps_def shelved_def memRead_def memRecord_def split: option.split)

lemma mem_zero: "zero_is_latest shelved s mem_snaps"
  unfolding zero_is_latest_def
  by (auto simp: mem_snaps_def shelved_def memRead_def memRecord_def latest_max split: option.split)

lemma listing_memRecord:
  assumes "distinct (map fst vds)"
  shows "listing (map (recordFromProto \<circ> memRecord) vds) (map_of vds)"
  using assms by (simp add: listing_def memRecord_def recordFromProto_def comp_def)

lemma mem_list: "snap_list_law shelved s mem_snaps"
  unfolding snap_list_law_def
  using listing_memRecord [OF distinct_clearjunk]
  by (simp add: mem_snaps_def shelved_def map_of_clearjunk)

lemma mem_keeps: "keeps shelved s mem_snaps"
  by (simp add: keeps_def mem_record mem_delete mem_read mem_list)

lemma mem_never_fails: "never_fails mem_snaps"
  by (simp add: never_fails_def mem_snaps_def Let_def)

theorem snapshots_demo_outcome_witness:
  "\<exists>zero all left w'. run_state (snaps_runDemo Background (snaps_New mem_snaps ''orders'') ''users''
      ''users-42'') (\<lambda>_. []) =
      ((demoText ''users'' ''users-42'' zero all left, None), w') \<and>
    recordLine zero = shown ''users'' ''users-42'' 30 \<and> SnapRecord.Version ` set left = {10, 30}"
proof -
  have fresh: "shelved (\<lambda>_. []) (''users'', ''users-42'') = Map.empty" by (simp add: shelved_def)
  obtain out failed w' where run: "run_state (snaps_runDemo Background (snaps_New mem_snaps ''orders'')
      ''users'' ''users-42'') (\<lambda>_. []) = ((out, failed), w')" by (metis prod.exhaust)
  note outcome = snapshots_demo_outcome [OF mem_keeps fresh run]
  have finished: "failed = None" using outcome [THEN conjunct1] mem_never_fails by (rule mp)
  obtain zero all left where "out = demoText ''users'' ''users-42'' zero all left"
    and "SnapRecord.Version ` set left = {10, 30}"
    and "zero_is_latest shelved ''orders'' mem_snaps \<longrightarrow> recordLine zero = shown ''users'' ''users-42'' 30"
    using outcome [THEN conjunct2] unfolding finished option.case by (elim exE conjE)
  with run [unfolded finished] mem_zero show ?thesis by blast
qed

end
