(* ===== verification/Spec2Isabelle.thy ===== *)
theory Spec2Isabelle
  imports Watch Streams Dcb Decision Subscriptions Snapshots Schema Temporal Stores Health Admin
    JsonScan Render Encode Output Flags Client Globals Input Replay Pump Handler
    CmdStreams CmdSubs Acks CmdSnapshots CmdSchema CmdTemporal CmdAdmin CmdHealth CmdGateway Run
    Copy Rivals Script Probes Demos Keeper
begin

text \<open>
  A verification of \<^verbatim>\<open>reckon-go\<close>, the Go client of the reckon event store, and of its
  command line \<^verbatim>\<open>cmd/reckon\<close>.

  \<^bold>\<open>The program.\<close> A \<open>Client\<close> (\<^verbatim>\<open>client.go\<close>) holds a gRPC connection; its facade methods
  (\<^verbatim>\<open>*_facade.go\<close>) make typed clients for the services of the gateway, one Go package each,
  bound to a store. Most operations are one unary call: build a request, call the generated stub,
  convert the answer. \<open>streams.Watch\<close>, \<open>subscriptions.Subscribe\<close> and \<open>stores.Watch\<close> start a
  goroutine that feeds a channel. The command line parses global flags, dials, picks a handler by two
  words and writes JSON: one value for a unary command, a stream of frames for the three that follow a
  channel; errors go to standard error with an exit code.

  \<^bold>\<open>Conventions\<close> (\<open>GoPrelude\<close>). Integers keep their width (\<open>u64\<close>, \<open>i64\<close>, \<open>u32\<close> are words), strings and
  byte slices are byte lists, \<open>nil\<close> is \<open>None\<close> wherever the code can tell it from empty, a Go
  \<open>(T, error)\<close> is a pair. The gateway is a parameter: a stub is a record of operations in the state
  monad over an arbitrary state \<open>'w\<close>, so an operation's effects and their order are part of its value.
  Named laws (\<open>append_law\<close>, \<open>read_law\<close>, \<open>range_law\<close>, \<open>append_keeps\<close>, \<open>read_keeps\<close>, \<open>keeps\<close>,
  \<open>expect_checked\<close>, \<open>zero_is_latest\<close>) state what the comments promise of the server where a property
  needs it; they say nothing of calls that fail, and each is shown to hold of a concrete gateway. What the program takes
  from its surroundings (clock, randomness, environment variables, files, the texts of library errors,
  \<open>time.ParseDuration\<close>, \<open>strconv.Quote\<close>) is the record \<open>runtime\<close>.

  \<^bold>\<open>The theories\<close> and the code they model:
  \<^item> \<open>GoPrelude\<close>, \<open>GoTime\<close>, \<open>Strconv\<close>, \<open>Rfc3339\<close>, \<open>Base64\<close>, \<open>Json\<close>: the parts of Go and of its standard
    library the program uses: words, \<open>time.Time\<close> as nanoseconds, number parsing, \<open>strings\<close>,
    RFC 3339, base64, UTF-8, the JSON scanner (a state machine that follows \<open>encoding/json\<close>) and values.
    The locale \<open>codec\<close> is the contract of a pair of conversions; it is interpreted for decimals, time
    stamps, base64, tag filters, subscription types, recorded events and printed events. The locales
    \<open>invariant_system\<close> and \<open>ranked_system\<close> are the contracts of an invariant and of a rank; instants are
    an instance of \<open>linorder\<close>.
  \<^item> \<open>JsonScan\<close>, \<open>Render\<close>: the text that \<open>json.Encoder\<close> writes (quoting, sorted keys, compacted raw
    messages, indentation), that it is the text of one value in which no line ends, and that taking it
    apart again gives the texts it was composed of.
  \<^item> \<open>Shared\<close>: the protobuf messages several services use (\<^verbatim>\<open>genproto/gatewayv1/reckon_shared.pb.go\<close>).
  \<^item> \<open>Watch\<close>: the goroutine of the three streaming operations, its two channels, the consumer and the
    cancellation, as a step relation with reachable states, an invariant, a refinement to the outcomes a
    consumer can see, and a rank that every move lowers (an interpretation of \<open>ranked_system\<close>).
  \<^item> \<open>Streams\<close>, \<open>Dcb\<close>, \<open>Subscriptions\<close>, \<open>Snapshots\<close>, \<open>Schema\<close>, \<open>Temporal\<close>, \<open>Stores\<close>, \<open>Health\<close>, \<open>Admin\<close>:
    the packages of those names, operation by operation (\<open>streams.Append\<close> is \<open>streams_Append\<close>), with the
    requests and answers of their service. Each has a store firewall: the stub that refuses what names
    another store, which no operation can tell from the stub it guards. \<open>Decision\<close>: the read, decide,
    append loop of package \<open>dcb\<close> against the contract of the server.
  \<^item> \<open>Client\<close>: \<open>Connect\<close>, transport options and the facade.
  \<^item> \<open>Encode\<close>, \<open>Output\<close>, \<open>Flags\<close>, \<open>Globals\<close>, \<open>Input\<close>, \<open>Pump\<close>: the command line's JSON shapes
    (\<^verbatim>\<open>encode/*.go\<close>), errors and exit codes (\<^verbatim>\<open>output.go\<close>), the flag package and
    interspersed arguments, global options and dialing (\<^verbatim>\<open>main.go\<close>), arguments and standard
    input (\<^verbatim>\<open>input.go\<close>), frames (\<^verbatim>\<open>stream.go\<close>). The locale \<open>framing\<close> is the contract between the
    pump and a command that streams, interpreted for the frames of all three. \<open>Replay\<close>: printed events
    are input for the same events.
  \<^item> \<open>Handler\<close>: what the handlers share, and what they all keep: the locale \<open>handler_property\<close> has the
    rules of the shared steps, interpreted for the discipline of errors, for one value, for one stream and
    for values that can be encoded.
    \<open>CmdStreams\<close>, \<open>CmdSubs\<close>, \<open>CmdSnapshots\<close>, \<open>CmdSchema\<close>, \<open>CmdTemporal\<close>, \<open>CmdAdmin\<close>, \<open>CmdHealth\<close>,
    \<open>CmdGateway\<close>: the handlers (\<^verbatim>\<open>cmd_*.go\<close>). \<open>Acks\<close>: acknowledging over standard input, from its
    text to the calls. \<open>Run\<close>: the routes (\<^verbatim>\<open>route.go\<close>) and \<open>run\<close>.
    \<open>Copy\<close>: two runs in a pipe, a read into an append, against the contract of a gateway that keeps its
    streams. \<open>Rivals\<close>: two appends that expect the same version, against that of a gateway that checks it.
  \<^item> \<open>Script\<close>, \<open>Probes\<close>, \<open>Demos\<close>: the small programs. A script is a sequence of calls and printed lines
    that stops at the first failure, with rules for what it ensures; \<open>program\<close> is the \<open>main\<close> the demos have in common. \<open>Probes\<close> has
    \<^verbatim>\<open>cmd/probe\<close>, \<^verbatim>\<open>cmd/filter-probe\<close> and \<^verbatim>\<open>cmd/validator-probe\<close>; \<open>Demos\<close> the six programs
    of \<^verbatim>\<open>examples/\<close>. \<open>Keeper\<close>: what a gateway that keeps snapshots promises of calls that succeed, what the client's
    operations then do, and what the snapshots demo comes to.

  \<^bold>\<open>What is shown.\<close> Of a stream: what a consumer can see, that no channel operation panics or blocks
  for ever, that every run ends, that the frames tell the truth about it, and that a watch prints the
  events the server sent. Of the gateway: a client and a whole run name their own store only; a usage
  error calls nothing; a dry run does not scavenge; the decision loop commits exactly when its context is
  current. Of data: events, tag filters, time stamps, bytes and numbers survive their encodings, or are
  refused; the one place where a number is cut (\<open>--pool\<close>) is stated; what \<open>streams read\<close> prints can be
  given to \<open>streams append\<close>, and the pipe of the two copies a stream; of two appends that expect the
  same version the second does not succeed, and a conflict exits with 8. Of the output: exit codes that
  the documented table gives for the error object written, all-or-nothing output or one framed stream, one valid JSON text on each line, the byte-field policy.
  Of the parsers: flags and arguments may be mixed, event input is all or nothing. Of the small programs: the probes try every case and mark
  it by its answer, the subscriptions demo acknowledges what arrives, the snapshots demo shows and
  leaves what it should unless a call fails, no demo names another store than its flags do.

  \<^bold>\<open>Bounds and fuel.\<close> No definition uses fuel: loops are structural recursions or functions with a
  proved measure (flag parsing consumes an argument, trimming a rune). The bounds are the source's: 16 MiB
  for a line of events, 64 KiB for a line of acknowledgements, 10000 levels of JSON nesting.

  \<^bold>\<open>Not modelled.\<close> Protobuf marshalling and the gRPC transport behind the stubs (generated and
  third-party code); the digits that the JSON encoder prints for a \<open>float64\<close> (a parameter, of which a
  property may assume that they are a JSON number); the contents of a stream are fixed when it is opened, so acknowledgements do not
  change what is delivered afterwards in the same run; the time of signals, deadlines and scheduling
  (the choice of a run is a parameter, constrained by the step relation); a command whose stream never
  ends and is never cancelled has no result; call options, which every operation passes on; the texts that
  \<open>fmt\<close> gives durations, percentages and whole messages, and in the subscriptions demo the half second
  in which the stream is opened (here it always is). Error texts of the JSON decoder, of base64 and of the scanner are parameters.
\<close>

end
